(* ===== verification/Prelude.thy ===== *)
theory Prelude
  imports Main "HOL-Library.Word"
begin

text \<open>
  Shared vocabulary of the development: the machine integer types of the C code, the
  collections that component proofs rewrite with, and the generic facts on masks,
  shifts and conversions of machine words.

  C types are kept at their width. \<open>uint8_t\<close>, \<open>uint16_t\<close> and \<open>uint32_t\<close> (and
  \<open>unsigned int\<close>, 32 bits wide on the platforms the makefiles target) are
  \<open>u8\<close>, \<open>u16\<close> and \<open>u32\<close>. An arithmetic C expression over registers is computed
  at \<open>u32\<close>, the type of the \<open>unsigned int\<close> temporaries, and truncated by
  \<open>ucast\<close> where the C code assigns it to a narrower object.
\<close>

unbundle bit_operations_syntax

type_synonym u8 = "8 word"
type_synonym u16 = "16 word"
type_synonym u32 = "32 word"

named_theorems cpu_frame \<open>projections of registers out of updated processor states\<close>
named_theorems mode_spec \<open>closed forms of the addressing mode routines\<close>
named_theorems op_defs \<open>definitions of the instruction routines\<close>
named_theorems dispatch_defs \<open>definitions of the opcode switch\<close>

section \<open>Masks and truncation\<close>

lemma mask_numerals:
  fixes x :: "'a::len word"
  shows and_1: "x AND 1 = take_bit 1 x"
    and and_ff: "x AND 0xFF = take_bit 8 x"
    and and_ffff: "x AND 0xFFFF = take_bit 16 x"
    and and_fffff: "x AND 0xFFFFF = take_bit 20 x"
    and and_ffffff: "x AND 0xFFFFFF = take_bit 24 x"
  by (simp_all add: take_bit_eq_mask mask_eq_exp_minus_1)

lemma unat_masks:
  fixes x :: u32
  shows unat_and_ff: "unat (x AND 0xFF) = unat x mod 256"
    and unat_and_ffff: "unat (x AND 0xFFFF) = unat x mod 65536"
    and unat_and_ffffff: "unat (x AND 0xFFFFFF) = unat x mod 16777216"
  by (simp_all add: mask_numerals unsigned_take_bit_eq take_bit_eq_mod [where ?'a = nat])

lemma unat_and_ff16: "unat ((d :: u16) AND 0xFF) = unat d mod 256"
  by (simp add: mask_numerals unsigned_take_bit_eq take_bit_eq_mod [where ?'a = nat])

lemma and_mask_le [simp]:
  fixes x :: u32
  shows "x AND 0xFF \<le> 0xFF" "x AND 0xFFFF \<le> 0xFFFF" "x AND 0xFFFFF \<le> 0xFFFFF"
    "x AND 0xFFFFFF \<le> 0xFFFFFF"
  by (rule word_and_le1)+

lemma and_mask_id:
  fixes x :: u32
  shows "x \<le> 0xFFFF \<Longrightarrow> x AND 0xFFFF = x" "x \<le> 0xFFFFFF \<Longrightarrow> x AND 0xFFFFFF = x"
    "x \<le> 0xFF \<Longrightarrow> x AND 0xFF = x"
  by (simp_all add: word_unat_eq_iff unat_masks word_le_nat_alt)

lemma mod_4294967296_mod [simp]:
  fixes n :: nat
  shows "n mod 4294967296 mod 65536 = n mod 65536" "n mod 4294967296 mod 16777216 = n mod 16777216"
    "n mod 4294967296 mod 256 = n mod 256"
  by (rule mod_mod_cancel; simp)+

lemma and_mask_add [simp]:
  fixes x y :: u32
  shows and_ffff_add_left: "((x AND 0xFFFF) + y) AND 0xFFFF = (x + y) AND 0xFFFF"
    and and_ffff_add_right: "(x + (y AND 0xFFFF)) AND 0xFFFF = (x + y) AND 0xFFFF"
    and and_ffffff_add_left: "((x AND 0xFFFFFF) + y) AND 0xFFFFFF = (x + y) AND 0xFFFFFF"
  by (simp_all add: word_unat_eq_iff unat_masks unat_word_ariths mod_simps)

section \<open>Conversions between the register widths\<close>

lemma u8_bound: "unat (x :: u8) < 256"
  using unsigned_less [of x, where ?'a = nat] by simp

lemma u16_bound: "unat (x :: u16) < 65536"
  using unsigned_less [of x, where ?'a = nat] by simp

lemma unat_ucast_up [simp]:
  "unat (ucast (x :: u8) :: u32) = unat x"
  "unat (ucast (y :: u16) :: u32) = unat y"
  "unat (ucast (x :: u8) :: u16) = unat x"
  using u8_bound [of x] u16_bound [of y]
  by (simp_all add: unsigned_ucast_eq take_bit_eq_mod)

lemma ucast_u8_le [simp]: "(ucast (x :: u8) :: u32) \<le> 0xFF"
  using u8_bound [of x] by (simp add: word_le_nat_alt)

lemma ucast_u16_le [simp]: "(ucast (x :: u16) :: u32) \<le> 0xFFFF"
  using u16_bound [of x] by (simp add: word_le_nat_alt)

lemma unat_ucast_down:
  "unat (ucast (x :: u32) :: u8) = unat x mod 256"
  "unat (ucast (x :: u32) :: u16) = unat x mod 65536"
  "unat (ucast (y :: u16) :: u8) = unat y mod 256"
  by (simp_all add: unsigned_ucast_eq take_bit_eq_mod)

lemma ucast_down_up [simp]:
  "(ucast (ucast (x :: u8) :: u32) :: u8) = x"
  "(ucast (ucast (y :: u16) :: u32) :: u16) = y"
  "(ucast (ucast (x :: u8) :: u16) :: u8) = x"
  "(ucast (ucast (x :: u8) :: u16) :: u32) = ucast x"
  using u8_bound [of x] u16_bound [of y]
  by (simp_all add: word_unat_eq_iff unat_ucast_down)

lemma ucast_up_down:
  "(ucast (ucast (x :: u32) :: u8) :: u32) = x AND 0xFF"
  "(ucast (ucast (x :: u32) :: u16) :: u32) = x AND 0xFFFF"
  by (simp_all add: word_unat_eq_iff unat_ucast_down unat_masks)

section \<open>Words as pairs of bytes\<close>

lemma unat_shifts:
  fixes x :: u32
  shows unat_drop8: "unat (drop_bit 8 x) = unat x div 256"
    and unat_push8: "unat x < 16777216 \<Longrightarrow> unat (push_bit 8 x) = unat x * 256"
    and unat_push16: "unat x < 65536 \<Longrightarrow> unat (push_bit 16 x) = unat x * 65536"
  using unsigned_less [of x, where ?'a = nat]
  by (simp_all add: unsigned_drop_bit_eq drop_bit_eq_div [where ?'a = nat] unsigned_push_bit_eq
      push_bit_eq_mult [where ?'a = nat] take_bit_eq_mod [where ?'a = nat])

end
