(* ===== verification/Cpu_State.thy ===== *)
theory Cpu_State
  imports Prelude
begin

text \<open>
  The processor state and the primitive macros of \<open>emulator/65816core.c\<close>.

  The registers are the file-scope variables of \<open>emulator/65816.c\<close>; the union
  \<open>regs65802\<close> makes \<open>reg_a\<close> and \<open>reg_b\<close> the low and the high byte of \<open>reg_c\<close>. The
  memory is the array \<open>ramMemory\<close> of \<open>emulator/sys_processor.cpp\<close>, whose macros
  \<open>LOAD_LONG\<close>, \<open>STORE_LONG\<close> and \<open>FETCH_PARAM\<close> the core is compiled against. It is
  a function on all of \<open>u32\<close>, so that "no access leaves the array" is a property to
  prove (theory \<open>Invariants\<close>) and not a consequence of the type.

  Reading \<open>ramMemory\<close> changes nothing, so the macros that only read and discard
  (\<open>FETCH_PARAM_DUMMY\<close>, \<open>LOAD_LONG_DUMMY\<close>, \<open>DPR_DELAY\<close>) and the macros with an empty or
  constant body in this build (\<open>CHECK_INTERRUPT\<close>, \<open>JUMP\<close>, \<open>DO_INTERRUPT\<close>, \<open>CLK_INC\<close>,
  \<open>EMULATION_MODE_CHANGED\<close>, \<open>TRACE_BRK\<close>, \<open>TRACE_COP\<close>, \<open>SET_LAST_OPCODE\<close>) have no
  counterpart in the model. \<open>p1\<close>, \<open>p2\<close> and \<open>p3\<close>, which the code reads again only in
  its \<open>DEBUG\<close> section, are let-bound. \<open>clock\<close> is never used by the code.
\<close>

section \<open>Registers\<close>

text \<open>\<open>65816.h\<close>: the status bits.\<close>

abbreviation P_SIGN :: u8 where "P_SIGN \<equiv> 0x80"
abbreviation P_OVERFLOW :: u8 where "P_OVERFLOW \<equiv> 0x40"
abbreviation P_UNUSED :: u8 where "P_UNUSED \<equiv> 0x20"
abbreviation P_65816_M :: u8 where "P_65816_M \<equiv> 0x20"
abbreviation P_65816_X :: u8 where "P_65816_X \<equiv> 0x10"
abbreviation P_BREAK :: u8 where "P_BREAK \<equiv> 0x10"
abbreviation P_DECIMAL :: u8 where "P_DECIMAL \<equiv> 0x08"
abbreviation P_INTERRUPT :: u8 where "P_INTERRUPT \<equiv> 0x04"
abbreviation P_ZERO :: u8 where "P_ZERO \<equiv> 0x02"
abbreviation P_CARRY :: u8 where "P_CARRY \<equiv> 0x01"

record REGISTERSET =
  gr_pc :: u16
  gr_a :: u16
  gr_b :: u16
  gr_x :: u16
  gr_y :: u16
  gr_emul :: u16
  gr_dpr :: u16
  gr_pbr :: u16
  gr_dbr :: u16
  gr_sp :: u16
  gr_p :: u16
  gr_n :: u16
  gr_z :: u16

record cpu =
  reg_c :: u16
  reg_x :: u16
  reg_y :: u16
  reg_dpr :: u16
  reg_sp :: u16
  reg_pbr :: u8
  reg_dbr :: u8
  reg_p :: u8
  flag_n :: u8
  flag_z :: u8
  reg_emul :: u8
  reg_pc :: u32
  last_opcode_addr :: u32
  interrupt65816 :: u32
  exported :: REGISTERSET
  ramMemory :: "u32 \<Rightarrow> u8"

definition reg_a :: "cpu \<Rightarrow> u8" where
  "reg_a s = ucast (reg_c s)"

definition reg_b :: "cpu \<Rightarrow> u8" where
  "reg_b s = ucast (drop_bit 8 (reg_c s))"

definition set_reg_a :: "u8 \<Rightarrow> cpu \<Rightarrow> cpu" where
  "set_reg_a v s = s\<lparr>reg_c := (reg_c s AND 0xFF00) OR ucast v\<rparr>"

definition set_reg_b :: "u8 \<Rightarrow> cpu \<Rightarrow> cpu" where
  "set_reg_b v s = s\<lparr>reg_c := push_bit 8 (ucast v) OR (reg_c s AND 0xFF)\<rparr>"

text \<open>The bank registers as they enter an address, \<open>reg_dbr << 16\<close> and \<open>reg_pbr << 16\<close>.\<close>

abbreviation dbr16 :: "cpu \<Rightarrow> u32" where
  "dbr16 s \<equiv> push_bit 16 (ucast (reg_dbr s))"

abbreviation pbr16 :: "cpu \<Rightarrow> u32" where
  "pbr16 s \<equiv> push_bit 16 (ucast (reg_pbr s))"

section \<open>The memory macros of the host\<close>

abbreviation RAMMASK :: u32 where "RAMMASK \<equiv> 0xFFFFF"

definition CPU65816GetBank :: "cpu \<Rightarrow> u32" where
  "CPU65816GetBank s = push_bit 16 (ucast (reg_pbr s))"

definition LOAD_LONG :: "u32 \<Rightarrow> cpu \<Rightarrow> u32" where
  "LOAD_LONG addr s = ucast (ramMemory s (addr AND RAMMASK))"

definition STORE_LONG :: "u32 \<Rightarrow> u32 \<Rightarrow> cpu \<Rightarrow> cpu" where
  "STORE_LONG addr data s = s\<lparr>ramMemory := (ramMemory s)(addr AND RAMMASK := ucast data)\<rparr>"

definition FETCH_PARAM :: "u32 \<Rightarrow> cpu \<Rightarrow> u32" where
  "FETCH_PARAM src s = ucast (ramMemory s ((src OR CPU65816GetBank s) AND RAMMASK))"

definition LOAD_BANK0 :: "u32 \<Rightarrow> cpu \<Rightarrow> u32" where
  "LOAD_BANK0 addr s = LOAD_LONG (addr AND 0xFFFF) s"

definition STORE_BANK0 :: "u32 \<Rightarrow> u32 \<Rightarrow> cpu \<Rightarrow> cpu" where
  "STORE_BANK0 addr value s = STORE_LONG (addr AND 0xFFFF) value s"

definition INC_PC :: "u32 \<Rightarrow> cpu \<Rightarrow> cpu" where
  "INC_PC value s = s\<lparr>reg_pc := (reg_pc s + value) AND 0xFFFF\<rparr>"

definition LOAD_INT_ADDR :: "u32 \<Rightarrow> cpu \<Rightarrow> cpu" where
  "LOAD_INT_ADDR addr s =
     (let s = s\<lparr>reg_pc := LOAD_LONG addr s\<rparr>
      in s\<lparr>reg_pc := reg_pc s OR push_bit 8 (LOAD_LONG (addr + 1) s)\<rparr>)"

section \<open>Status flags\<close>

definition LOCAL_SET_NZ :: "u32 \<Rightarrow> bool \<Rightarrow> cpu \<Rightarrow> cpu" where
  "LOCAL_SET_NZ val bits8 s =
     (if \<not> bits8 then
        let s = s\<lparr>flag_n := ucast (drop_bit 8 val)\<rparr>
        in s\<lparr>flag_z := ucast (val OR ucast (flag_n s))\<rparr>
      else s\<lparr>flag_n := ucast val, flag_z := ucast val\<rparr>)"

definition LOCAL_SET_OVERFLOW :: "bool \<Rightarrow> cpu \<Rightarrow> cpu" where
  "LOCAL_SET_OVERFLOW val s =
     (if val then s\<lparr>reg_p := reg_p s OR P_OVERFLOW\<rparr> else s\<lparr>reg_p := reg_p s AND NOT P_OVERFLOW\<rparr>)"

definition LOCAL_SET_BREAK :: "bool \<Rightarrow> cpu \<Rightarrow> cpu" where
  "LOCAL_SET_BREAK val s =
     (if val then s\<lparr>reg_p := reg_p s OR P_BREAK\<rparr> else s\<lparr>reg_p := reg_p s AND NOT P_BREAK\<rparr>)"

definition LOCAL_SET_DECIMAL :: "bool \<Rightarrow> cpu \<Rightarrow> cpu" where
  "LOCAL_SET_DECIMAL val s =
     (if val then s\<lparr>reg_p := reg_p s OR P_DECIMAL\<rparr> else s\<lparr>reg_p := reg_p s AND NOT P_DECIMAL\<rparr>)"

definition LOCAL_SET_INTERRUPT :: "bool \<Rightarrow> cpu \<Rightarrow> cpu" where
  "LOCAL_SET_INTERRUPT val s =
     (if val then s\<lparr>reg_p := reg_p s OR P_INTERRUPT\<rparr> else s\<lparr>reg_p := reg_p s AND NOT P_INTERRUPT\<rparr>)"

definition LOCAL_SET_CARRY :: "bool \<Rightarrow> cpu \<Rightarrow> cpu" where
  "LOCAL_SET_CARRY val s =
     (if val then s\<lparr>reg_p := reg_p s OR P_CARRY\<rparr> else s\<lparr>reg_p := reg_p s AND NOT P_CARRY\<rparr>)"

definition LOCAL_SET_65816_M :: "bool \<Rightarrow> cpu \<Rightarrow> cpu" where
  "LOCAL_SET_65816_M val s =
     (if val then s\<lparr>reg_p := reg_p s OR P_65816_M\<rparr> else s\<lparr>reg_p := reg_p s AND NOT P_65816_M\<rparr>)"

definition LOCAL_SET_65816_X :: "bool \<Rightarrow> cpu \<Rightarrow> cpu" where
  "LOCAL_SET_65816_X val s =
     (if val then s\<lparr>reg_p := reg_p s OR P_65816_X\<rparr> else s\<lparr>reg_p := reg_p s AND NOT P_65816_X\<rparr>)"

definition LOCAL_SET_SIGN :: "bool \<Rightarrow> cpu \<Rightarrow> cpu" where
  "LOCAL_SET_SIGN val s = s\<lparr>flag_n := if val then 0x80 else 0\<rparr>"

definition LOCAL_SET_ZERO :: "bool \<Rightarrow> cpu \<Rightarrow> cpu" where
  "LOCAL_SET_ZERO val s = s\<lparr>flag_z := of_bool (\<not> val)\<rparr>"

definition LOCAL_SET_STATUS :: "u32 \<Rightarrow> cpu \<Rightarrow> cpu" where
  "LOCAL_SET_STATUS val s =
     (let s = s\<lparr>reg_p := ucast (val AND NOT (ucast (P_ZERO OR P_SIGN)))\<rparr>;
          s = LOCAL_SET_ZERO (val AND ucast P_ZERO \<noteq> 0) s
      in s\<lparr>flag_n := ucast val\<rparr>)"

definition LOCAL_OVERFLOW :: "cpu \<Rightarrow> u8" where
  "LOCAL_OVERFLOW s = reg_p s AND P_OVERFLOW"

definition LOCAL_DECIMAL :: "cpu \<Rightarrow> u8" where
  "LOCAL_DECIMAL s = reg_p s AND P_DECIMAL"

definition LOCAL_CARRY :: "cpu \<Rightarrow> u8" where
  "LOCAL_CARRY s = reg_p s AND P_CARRY"

definition LOCAL_SIGN :: "cpu \<Rightarrow> u8" where
  "LOCAL_SIGN s = flag_n s AND 0x80"

definition LOCAL_ZERO :: "cpu \<Rightarrow> bool" where
  "LOCAL_ZERO s \<longleftrightarrow> flag_z s = 0"

definition LOCAL_STATUS :: "cpu \<Rightarrow> u8" where
  "LOCAL_STATUS s =
     reg_p s OR (flag_n s AND 0x80) OR P_UNUSED OR (if LOCAL_ZERO s then P_ZERO else 0)"

definition LOCAL_65816_M :: "cpu \<Rightarrow> bool" where
  "LOCAL_65816_M s \<longleftrightarrow> reg_emul s \<noteq> 0 \<or> reg_p s AND P_65816_M \<noteq> 0"

definition LOCAL_65816_X :: "cpu \<Rightarrow> bool" where
  "LOCAL_65816_X s \<longleftrightarrow> reg_emul s \<noteq> 0 \<or> reg_p s AND P_65816_X \<noteq> 0"

definition LOCAL_65816_STATUS :: "cpu \<Rightarrow> u8" where
  "LOCAL_65816_STATUS s =
     reg_p s OR (flag_n s AND 0x80) OR (if LOCAL_ZERO s then P_ZERO else 0)"

section \<open>Snapshot and stack\<close>

definition EXPORT_REGISTERS :: "cpu \<Rightarrow> cpu" where
  "EXPORT_REGISTERS s = s\<lparr>exported :=
     \<lparr>gr_pc = ucast (reg_pc s), gr_a = ucast (reg_a s), gr_b = ucast (reg_b s),
      gr_x = reg_x s, gr_y = reg_y s, gr_emul = ucast (reg_emul s), gr_dpr = reg_dpr s,
      gr_pbr = ucast (reg_pbr s), gr_dbr = ucast (reg_dbr s), gr_sp = reg_sp s,
      gr_p = ucast (reg_p s), gr_n = ucast (flag_n s), gr_z = ucast (flag_z s)\<rparr>\<rparr>"

definition PUSH :: "u32 \<Rightarrow> cpu \<Rightarrow> cpu" where
  "PUSH val s =
     (let s = STORE_LONG (ucast (reg_sp s)) val s
      in if reg_emul s \<noteq> 0 then s\<lparr>reg_sp := 0x100 OR ((reg_sp s - 1) AND 0xFF)\<rparr>
         else s\<lparr>reg_sp := reg_sp s - 1\<rparr>)"

definition PULL :: "cpu \<Rightarrow> u32 \<times> cpu" where
  "PULL s =
     (let s = s\<lparr>reg_sp := (if reg_emul s \<noteq> 0 then 0x100 OR ((reg_sp s + 1) AND 0xFF)
                          else reg_sp s + 1)\<rparr>
      in (LOAD_LONG (ucast (reg_sp s)) s, s))"

end
