(* ===== verification/Frames.thy ===== *)
theory Frames
  imports Cpu_State
begin

text \<open>
  What the primitive macros leave alone: each one changes only the registers it names.
  These equations, with the reads across updates and the facts on the two bytes of the
  accumulator at the end, are what every component proof rewrites with.
\<close>

section \<open>Registers across primitive updates\<close>

lemma INC_PC_frame [simp]:
  "reg_c (INC_PC n s) = reg_c s"
  "reg_x (INC_PC n s) = reg_x s"
  "reg_y (INC_PC n s) = reg_y s"
  "reg_dpr (INC_PC n s) = reg_dpr s"
  "reg_sp (INC_PC n s) = reg_sp s"
  "reg_pbr (INC_PC n s) = reg_pbr s"
  "reg_dbr (INC_PC n s) = reg_dbr s"
  "reg_p (INC_PC n s) = reg_p s"
  "flag_n (INC_PC n s) = flag_n s"
  "flag_z (INC_PC n s) = flag_z s"
  "reg_emul (INC_PC n s) = reg_emul s"
  "last_opcode_addr (INC_PC n s) = last_opcode_addr s"
  "interrupt65816 (INC_PC n s) = interrupt65816 s"
  "exported (INC_PC n s) = exported s"
  "ramMemory (INC_PC n s) = ramMemory s"
  by (simp_all add: INC_PC_def)

lemma STORE_LONG_frame [simp]:
  "reg_c (STORE_LONG a v s) = reg_c s"
  "reg_x (STORE_LONG a v s) = reg_x s"
  "reg_y (STORE_LONG a v s) = reg_y s"
  "reg_dpr (STORE_LONG a v s) = reg_dpr s"
  "reg_sp (STORE_LONG a v s) = reg_sp s"
  "reg_pbr (STORE_LONG a v s) = reg_pbr s"
  "reg_dbr (STORE_LONG a v s) = reg_dbr s"
  "reg_p (STORE_LONG a v s) = reg_p s"
  "flag_n (STORE_LONG a v s) = flag_n s"
  "flag_z (STORE_LONG a v s) = flag_z s"
  "reg_emul (STORE_LONG a v s) = reg_emul s"
  "reg_pc (STORE_LONG a v s) = reg_pc s"
  "last_opcode_addr (STORE_LONG a v s) = last_opcode_addr s"
  "interrupt65816 (STORE_LONG a v s) = interrupt65816 s"
  "exported (STORE_LONG a v s) = exported s"
  by (simp_all add: STORE_LONG_def)

lemma set_reg_a_frame [simp]:
  "reg_x (set_reg_a v s) = reg_x s"
  "reg_y (set_reg_a v s) = reg_y s"
  "reg_dpr (set_reg_a v s) = reg_dpr s"
  "reg_sp (set_reg_a v s) = reg_sp s"
  "reg_pbr (set_reg_a v s) = reg_pbr s"
  "reg_dbr (set_reg_a v s) = reg_dbr s"
  "reg_p (set_reg_a v s) = reg_p s"
  "flag_n (set_reg_a v s) = flag_n s"
  "flag_z (set_reg_a v s) = flag_z s"
  "reg_emul (set_reg_a v s) = reg_emul s"
  "reg_pc (set_reg_a v s) = reg_pc s"
  "last_opcode_addr (set_reg_a v s) = last_opcode_addr s"
  "interrupt65816 (set_reg_a v s) = interrupt65816 s"
  "exported (set_reg_a v s) = exported s"
  "ramMemory (set_reg_a v s) = ramMemory s"
  by (simp_all add: set_reg_a_def)

lemma set_reg_b_frame [simp]:
  "reg_x (set_reg_b v s) = reg_x s"
  "reg_y (set_reg_b v s) = reg_y s"
  "reg_dpr (set_reg_b v s) = reg_dpr s"
  "reg_sp (set_reg_b v s) = reg_sp s"
  "reg_pbr (set_reg_b v s) = reg_pbr s"
  "reg_dbr (set_reg_b v s) = reg_dbr s"
  "reg_p (set_reg_b v s) = reg_p s"
  "flag_n (set_reg_b v s) = flag_n s"
  "flag_z (set_reg_b v s) = flag_z s"
  "reg_emul (set_reg_b v s) = reg_emul s"
  "reg_pc (set_reg_b v s) = reg_pc s"
  "last_opcode_addr (set_reg_b v s) = last_opcode_addr s"
  "interrupt65816 (set_reg_b v s) = interrupt65816 s"
  "exported (set_reg_b v s) = exported s"
  "ramMemory (set_reg_b v s) = ramMemory s"
  by (simp_all add: set_reg_b_def)

lemma LOCAL_SET_NZ_frame [simp]:
  "reg_c (LOCAL_SET_NZ v b s) = reg_c s"
  "reg_x (LOCAL_SET_NZ v b s) = reg_x s"
  "reg_y (LOCAL_SET_NZ v b s) = reg_y s"
  "reg_dpr (LOCAL_SET_NZ v b s) = reg_dpr s"
  "reg_sp (LOCAL_SET_NZ v b s) = reg_sp s"
  "reg_pbr (LOCAL_SET_NZ v b s) = reg_pbr s"
  "reg_dbr (LOCAL_SET_NZ v b s) = reg_dbr s"
  "reg_p (LOCAL_SET_NZ v b s) = reg_p s"
  "reg_emul (LOCAL_SET_NZ v b s) = reg_emul s"
  "reg_pc (LOCAL_SET_NZ v b s) = reg_pc s"
  "last_opcode_addr (LOCAL_SET_NZ v b s) = last_opcode_addr s"
  "interrupt65816 (LOCAL_SET_NZ v b s) = interrupt65816 s"
  "exported (LOCAL_SET_NZ v b s) = exported s"
  "ramMemory (LOCAL_SET_NZ v b s) = ramMemory s"
  by (simp_all add: LOCAL_SET_NZ_def Let_def)

lemma LOCAL_SET_OVERFLOW_frame [simp]:
  "reg_c (LOCAL_SET_OVERFLOW b s) = reg_c s"
  "reg_x (LOCAL_SET_OVERFLOW b s) = reg_x s"
  "reg_y (LOCAL_SET_OVERFLOW b s) = reg_y s"
  "reg_dpr (LOCAL_SET_OVERFLOW b s) = reg_dpr s"
  "reg_sp (LOCAL_SET_OVERFLOW b s) = reg_sp s"
  "reg_pbr (LOCAL_SET_OVERFLOW b s) = reg_pbr s"
  "reg_dbr (LOCAL_SET_OVERFLOW b s) = reg_dbr s"
  "flag_n (LOCAL_SET_OVERFLOW b s) = flag_n s"
  "flag_z (LOCAL_SET_OVERFLOW b s) = flag_z s"
  "reg_emul (LOCAL_SET_OVERFLOW b s) = reg_emul s"
  "reg_pc (LOCAL_SET_OVERFLOW b s) = reg_pc s"
  "last_opcode_addr (LOCAL_SET_OVERFLOW b s) = last_opcode_addr s"
  "interrupt65816 (LOCAL_SET_OVERFLOW b s) = interrupt65816 s"
  "exported (LOCAL_SET_OVERFLOW b s) = exported s"
  "ramMemory (LOCAL_SET_OVERFLOW b s) = ramMemory s"
  by (simp_all add: LOCAL_SET_OVERFLOW_def)

lemma LOCAL_SET_BREAK_frame [simp]:
  "reg_c (LOCAL_SET_BREAK b s) = reg_c s"
  "reg_x (LOCAL_SET_BREAK b s) = reg_x s"
  "reg_y (LOCAL_SET_BREAK b s) = reg_y s"
  "reg_dpr (LOCAL_SET_BREAK b s) = reg_dpr s"
  "reg_sp (LOCAL_SET_BREAK b s) = reg_sp s"
  "reg_pbr (LOCAL_SET_BREAK b s) = reg_pbr s"
  "reg_dbr (LOCAL_SET_BREAK b s) = reg_dbr s"
  "flag_n (LOCAL_SET_BREAK b s) = flag_n s"
  "flag_z (LOCAL_SET_BREAK b s) = flag_z s"
  "reg_emul (LOCAL_SET_BREAK b s) = reg_emul s"
  "reg_pc (LOCAL_SET_BREAK b s) = reg_pc s"
  "last_opcode_addr (LOCAL_SET_BREAK b s) = last_opcode_addr s"
  "interrupt65816 (LOCAL_SET_BREAK b s) = interrupt65816 s"
  "exported (LOCAL_SET_BREAK b s) = exported s"
  "ramMemory (LOCAL_SET_BREAK b s) = ramMemory s"
  by (simp_all add: LOCAL_SET_BREAK_def)

lemma LOCAL_SET_DECIMAL_frame [simp]:
  "reg_c (LOCAL_SET_DECIMAL b s) = reg_c s"
  "reg_x (LOCAL_SET_DECIMAL b s) = reg_x s"
  "reg_y (LOCAL_SET_DECIMAL b s) = reg_y s"
  "reg_dpr (LOCAL_SET_DECIMAL b s) = reg_dpr s"
  "reg_sp (LOCAL_SET_DECIMAL b s) = reg_sp s"
  "reg_pbr (LOCAL_SET_DECIMAL b s) = reg_pbr s"
  "reg_dbr (LOCAL_SET_DECIMAL b s) = reg_dbr s"
  "flag_n (LOCAL_SET_DECIMAL b s) = flag_n s"
  "flag_z (LOCAL_SET_DECIMAL b s) = flag_z s"
  "reg_emul (LOCAL_SET_DECIMAL b s) = reg_emul s"
  "reg_pc (LOCAL_SET_DECIMAL b s) = reg_pc s"
  "last_opcode_addr (LOCAL_SET_DECIMAL b s) = last_opcode_addr s"
  "interrupt65816 (LOCAL_SET_DECIMAL b s) = interrupt65816 s"
  "exported (LOCAL_SET_DECIMAL b s) = exported s"
  "ramMemory (LOCAL_SET_DECIMAL b s) = ramMemory s"
  by (simp_all add: LOCAL_SET_DECIMAL_def)

lemma LOCAL_SET_INTERRUPT_frame [simp]:
  "reg_c (LOCAL_SET_INTERRUPT b s) = reg_c s"
  "reg_x (LOCAL_SET_INTERRUPT b s) = reg_x s"
  "reg_y (LOCAL_SET_INTERRUPT b s) = reg_y s"
  "reg_dpr (LOCAL_SET_INTERRUPT b s) = reg_dpr s"
  "reg_sp (LOCAL_SET_INTERRUPT b s) = reg_sp s"
  "reg_pbr (LOCAL_SET_INTERRUPT b s) = reg_pbr s"
  "reg_dbr (LOCAL_SET_INTERRUPT b s) = reg_dbr s"
  "flag_n (LOCAL_SET_INTERRUPT b s) = flag_n s"
  "flag_z (LOCAL_SET_INTERRUPT b s) = flag_z s"
  "reg_emul (LOCAL_SET_INTERRUPT b s) = reg_emul s"
  "reg_pc (LOCAL_SET_INTERRUPT b s) = reg_pc s"
  "last_opcode_addr (LOCAL_SET_INTERRUPT b s) = last_opcode_addr s"
  "interrupt65816 (LOCAL_SET_INTERRUPT b s) = interrupt65816 s"
  "exported (LOCAL_SET_INTERRUPT b s) = exported s"
  "ramMemory (LOCAL_SET_INTERRUPT b s) = ramMemory s"
  by (simp_all add: LOCAL_SET_INTERRUPT_def)

lemma LOCAL_SET_CARRY_frame [simp]:
  "reg_c (LOCAL_SET_CARRY b s) = reg_c s"
  "reg_x (LOCAL_SET_CARRY b s) = reg_x s"
  "reg_y (LOCAL_SET_CARRY b s) = reg_y s"
  "reg_dpr (LOCAL_SET_CARRY b s) = reg_dpr s"
  "reg_sp (LOCAL_SET_CARRY b s) = reg_sp s"
  "reg_pbr (LOCAL_SET_CARRY b s) = reg_pbr s"
  "reg_dbr (LOCAL_SET_CARRY b s) = reg_dbr s"
  "flag_n (LOCAL_SET_CARRY b s) = flag_n s"
  "flag_z (LOCAL_SET_CARRY b s) = flag_z s"
  "reg_emul (LOCAL_SET_CARRY b s) = reg_emul s"
  "reg_pc (LOCAL_SET_CARRY b s) = reg_pc s"
  "last_opcode_addr (LOCAL_SET_CARRY b s) = last_opcode_addr s"
  "interrupt65816 (LOCAL_SET_CARRY b s) = interrupt65816 s"
  "exported (LOCAL_SET_CARRY b s) = exported s"
  "ramMemory (LOCAL_SET_CARRY b s) = ramMemory s"
  by (simp_all add: LOCAL_SET_CARRY_def)

lemma LOCAL_SET_65816_M_frame [simp]:
  "reg_c (LOCAL_SET_65816_M b s) = reg_c s"
  "reg_x (LOCAL_SET_65816_M b s) = reg_x s"
  "reg_y (LOCAL_SET_65816_M b s) = reg_y s"
  "reg_dpr (LOCAL_SET_65816_M b s) = reg_dpr s"
  "reg_sp (LOCAL_SET_65816_M b s) = reg_sp s"
  "reg_pbr (LOCAL_SET_65816_M b s) = reg_pbr s"
  "reg_dbr (LOCAL_SET_65816_M b s) = reg_dbr s"
  "flag_n (LOCAL_SET_65816_M b s) = flag_n s"
  "flag_z (LOCAL_SET_65816_M b s) = flag_z s"
  "reg_emul (LOCAL_SET_65816_M b s) = reg_emul s"
  "reg_pc (LOCAL_SET_65816_M b s) = reg_pc s"
  "last_opcode_addr (LOCAL_SET_65816_M b s) = last_opcode_addr s"
  "interrupt65816 (LOCAL_SET_65816_M b s) = interrupt65816 s"
  "exported (LOCAL_SET_65816_M b s) = exported s"
  "ramMemory (LOCAL_SET_65816_M b s) = ramMemory s"
  by (simp_all add: LOCAL_SET_65816_M_def)

lemma LOCAL_SET_65816_X_frame [simp]:
  "reg_c (LOCAL_SET_65816_X b s) = reg_c s"
  "reg_x (LOCAL_SET_65816_X b s) = reg_x s"
  "reg_y (LOCAL_SET_65816_X b s) = reg_y s"
  "reg_dpr (LOCAL_SET_65816_X b s) = reg_dpr s"
  "reg_sp (LOCAL_SET_65816_X b s) = reg_sp s"
  "reg_pbr (LOCAL_SET_65816_X b s) = reg_pbr s"
  "reg_dbr (LOCAL_SET_65816_X b s) = reg_dbr s"
  "flag_n (LOCAL_SET_65816_X b s) = flag_n s"
  "flag_z (LOCAL_SET_65816_X b s) = flag_z s"
  "reg_emul (LOCAL_SET_65816_X b s) = reg_emul s"
  "reg_pc (LOCAL_SET_65816_X b s) = reg_pc s"
  "last_opcode_addr (LOCAL_SET_65816_X b s) = last_opcode_addr s"
  "interrupt65816 (LOCAL_SET_65816_X b s) = interrupt65816 s"
  "exported (LOCAL_SET_65816_X b s) = exported s"
  "ramMemory (LOCAL_SET_65816_X b s) = ramMemory s"
  by (simp_all add: LOCAL_SET_65816_X_def)

lemma LOCAL_SET_SIGN_frame [simp]:
  "reg_c (LOCAL_SET_SIGN b s) = reg_c s"
  "reg_x (LOCAL_SET_SIGN b s) = reg_x s"
  "reg_y (LOCAL_SET_SIGN b s) = reg_y s"
  "reg_dpr (LOCAL_SET_SIGN b s) = reg_dpr s"
  "reg_sp (LOCAL_SET_SIGN b s) = reg_sp s"
  "reg_pbr (LOCAL_SET_SIGN b s) = reg_pbr s"
  "reg_dbr (LOCAL_SET_SIGN b s) = reg_dbr s"
  "reg_p (LOCAL_SET_SIGN b s) = reg_p s"
  "flag_z (LOCAL_SET_SIGN b s) = flag_z s"
  "reg_emul (LOCAL_SET_SIGN b s) = reg_emul s"
  "reg_pc (LOCAL_SET_SIGN b s) = reg_pc s"
  "last_opcode_addr (LOCAL_SET_SIGN b s) = last_opcode_addr s"
  "interrupt65816 (LOCAL_SET_SIGN b s) = interrupt65816 s"
  "exported (LOCAL_SET_SIGN b s) = exported s"
  "ramMemory (LOCAL_SET_SIGN b s) = ramMemory s"
  by (simp_all add: LOCAL_SET_SIGN_def)

lemma LOCAL_SET_ZERO_frame [simp]:
  "reg_c (LOCAL_SET_ZERO b s) = reg_c s"
  "reg_x (LOCAL_SET_ZERO b s) = reg_x s"
  "reg_y (LOCAL_SET_ZERO b s) = reg_y s"
  "reg_dpr (LOCAL_SET_ZERO b s) = reg_dpr s"
  "reg_sp (LOCAL_SET_ZERO b s) = reg_sp s"
  "reg_pbr (LOCAL_SET_ZERO b s) = reg_pbr s"
  "reg_dbr (LOCAL_SET_ZERO b s) = reg_dbr s"
  "reg_p (LOCAL_SET_ZERO b s) = reg_p s"
  "flag_n (LOCAL_SET_ZERO b s) = flag_n s"
  "reg_emul (LOCAL_SET_ZERO b s) = reg_emul s"
  "reg_pc (LOCAL_SET_ZERO b s) = reg_pc s"
  "last_opcode_addr (LOCAL_SET_ZERO b s) = last_opcode_addr s"
  "interrupt65816 (LOCAL_SET_ZERO b s) = interrupt65816 s"
  "exported (LOCAL_SET_ZERO b s) = exported s"
  "ramMemory (LOCAL_SET_ZERO b s) = ramMemory s"
  by (simp_all add: LOCAL_SET_ZERO_def)

lemma LOCAL_SET_STATUS_frame [simp]:
  "reg_c (LOCAL_SET_STATUS v s) = reg_c s"
  "reg_x (LOCAL_SET_STATUS v s) = reg_x s"
  "reg_y (LOCAL_SET_STATUS v s) = reg_y s"
  "reg_dpr (LOCAL_SET_STATUS v s) = reg_dpr s"
  "reg_sp (LOCAL_SET_STATUS v s) = reg_sp s"
  "reg_pbr (LOCAL_SET_STATUS v s) = reg_pbr s"
  "reg_dbr (LOCAL_SET_STATUS v s) = reg_dbr s"
  "reg_emul (LOCAL_SET_STATUS v s) = reg_emul s"
  "reg_pc (LOCAL_SET_STATUS v s) = reg_pc s"
  "last_opcode_addr (LOCAL_SET_STATUS v s) = last_opcode_addr s"
  "interrupt65816 (LOCAL_SET_STATUS v s) = interrupt65816 s"
  "exported (LOCAL_SET_STATUS v s) = exported s"
  "ramMemory (LOCAL_SET_STATUS v s) = ramMemory s"
  by (simp_all add: LOCAL_SET_STATUS_def Let_def)

lemma EXPORT_REGISTERS_frame [simp]:
  "reg_c (EXPORT_REGISTERS s) = reg_c s"
  "reg_x (EXPORT_REGISTERS s) = reg_x s"
  "reg_y (EXPORT_REGISTERS s) = reg_y s"
  "reg_dpr (EXPORT_REGISTERS s) = reg_dpr s"
  "reg_sp (EXPORT_REGISTERS s) = reg_sp s"
  "reg_pbr (EXPORT_REGISTERS s) = reg_pbr s"
  "reg_dbr (EXPORT_REGISTERS s) = reg_dbr s"
  "reg_p (EXPORT_REGISTERS s) = reg_p s"
  "flag_n (EXPORT_REGISTERS s) = flag_n s"
  "flag_z (EXPORT_REGISTERS s) = flag_z s"
  "reg_emul (EXPORT_REGISTERS s) = reg_emul s"
  "reg_pc (EXPORT_REGISTERS s) = reg_pc s"
  "last_opcode_addr (EXPORT_REGISTERS s) = last_opcode_addr s"
  "interrupt65816 (EXPORT_REGISTERS s) = interrupt65816 s"
  "ramMemory (EXPORT_REGISTERS s) = ramMemory s"
  by (simp_all add: EXPORT_REGISTERS_def)

lemma LOAD_INT_ADDR_frame [simp]:
  "reg_c (LOAD_INT_ADDR a s) = reg_c s"
  "reg_x (LOAD_INT_ADDR a s) = reg_x s"
  "reg_y (LOAD_INT_ADDR a s) = reg_y s"
  "reg_dpr (LOAD_INT_ADDR a s) = reg_dpr s"
  "reg_sp (LOAD_INT_ADDR a s) = reg_sp s"
  "reg_pbr (LOAD_INT_ADDR a s) = reg_pbr s"
  "reg_dbr (LOAD_INT_ADDR a s) = reg_dbr s"
  "reg_p (LOAD_INT_ADDR a s) = reg_p s"
  "flag_n (LOAD_INT_ADDR a s) = flag_n s"
  "flag_z (LOAD_INT_ADDR a s) = flag_z s"
  "reg_emul (LOAD_INT_ADDR a s) = reg_emul s"
  "last_opcode_addr (LOAD_INT_ADDR a s) = last_opcode_addr s"
  "interrupt65816 (LOAD_INT_ADDR a s) = interrupt65816 s"
  "exported (LOAD_INT_ADDR a s) = exported s"
  "ramMemory (LOAD_INT_ADDR a s) = ramMemory s"
  by (simp_all add: LOAD_INT_ADDR_def Let_def)

lemma PUSH_frame [simp]:
  "reg_c (PUSH v s) = reg_c s"
  "reg_x (PUSH v s) = reg_x s"
  "reg_y (PUSH v s) = reg_y s"
  "reg_dpr (PUSH v s) = reg_dpr s"
  "reg_pbr (PUSH v s) = reg_pbr s"
  "reg_dbr (PUSH v s) = reg_dbr s"
  "reg_p (PUSH v s) = reg_p s"
  "flag_n (PUSH v s) = flag_n s"
  "flag_z (PUSH v s) = flag_z s"
  "reg_emul (PUSH v s) = reg_emul s"
  "reg_pc (PUSH v s) = reg_pc s"
  "last_opcode_addr (PUSH v s) = last_opcode_addr s"
  "interrupt65816 (PUSH v s) = interrupt65816 s"
  "exported (PUSH v s) = exported s"
  by (simp_all add: PUSH_def Let_def)

lemma PULL_frame [simp]:
  "reg_c (snd (PULL s)) = reg_c s"
  "reg_x (snd (PULL s)) = reg_x s"
  "reg_y (snd (PULL s)) = reg_y s"
  "reg_dpr (snd (PULL s)) = reg_dpr s"
  "reg_pbr (snd (PULL s)) = reg_pbr s"
  "reg_dbr (snd (PULL s)) = reg_dbr s"
  "reg_p (snd (PULL s)) = reg_p s"
  "flag_n (snd (PULL s)) = flag_n s"
  "flag_z (snd (PULL s)) = flag_z s"
  "reg_emul (snd (PULL s)) = reg_emul s"
  "reg_pc (snd (PULL s)) = reg_pc s"
  "last_opcode_addr (snd (PULL s)) = last_opcode_addr s"
  "interrupt65816 (snd (PULL s)) = interrupt65816 s"
  "exported (snd (PULL s)) = exported s"
  "ramMemory (snd (PULL s)) = ramMemory s"
  by (simp_all add: PULL_def Let_def)

section \<open>Reads across updates\<close>

lemma LOAD_LONG_cong: "ramMemory s = ramMemory s' \<Longrightarrow> LOAD_LONG a s = LOAD_LONG a s'"
  by (simp add: LOAD_LONG_def)

lemma FETCH_PARAM_cong:
  "ramMemory s = ramMemory s' \<Longrightarrow> reg_pbr s = reg_pbr s' \<Longrightarrow> FETCH_PARAM a s = FETCH_PARAM a s'"
  by (simp add: FETCH_PARAM_def CPU65816GetBank_def)

lemma reads_INC_PC [simp]:
  "LOAD_LONG a (INC_PC n s) = LOAD_LONG a s"
  "LOAD_BANK0 a (INC_PC n s) = LOAD_BANK0 a s"
  "FETCH_PARAM a (INC_PC n s) = FETCH_PARAM a s"
  "reg_a (INC_PC n s) = reg_a s"
  "reg_b (INC_PC n s) = reg_b s"
  "LOCAL_65816_X (INC_PC n s) = LOCAL_65816_X s"
  "LOCAL_65816_M (INC_PC n s) = LOCAL_65816_M s"
  "LOCAL_CARRY (INC_PC n s) = LOCAL_CARRY s"
  "LOCAL_DECIMAL (INC_PC n s) = LOCAL_DECIMAL s"
  by (simp_all add: LOAD_LONG_def LOAD_BANK0_def FETCH_PARAM_def CPU65816GetBank_def reg_a_def
      reg_b_def LOCAL_65816_X_def LOCAL_65816_M_def LOCAL_CARRY_def LOCAL_DECIMAL_def)

lemma LOAD_LONG_le [simp]: "LOAD_LONG a s \<le> 0xFF"
  by (simp add: LOAD_LONG_def)

lemma FETCH_PARAM_le [simp]: "FETCH_PARAM a s \<le> 0xFF"
  by (simp add: FETCH_PARAM_def)

lemma unat_LOAD_LONG: "unat (LOAD_LONG a s) < 256"
  using LOAD_LONG_le [of a s] unfolding word_le_nat_alt by simp

lemma unat_FETCH_PARAM: "unat (FETCH_PARAM a s) < 256"
  using FETCH_PARAM_le [of a s] unfolding word_le_nat_alt by simp

lemma INC_PC_INC_PC [simp]: "INC_PC m (INC_PC n s) = INC_PC (n + m) s"
  by (simp add: INC_PC_def add.assoc)

lemma reg_pc_INC_PC [simp]: "reg_pc (INC_PC n s) = (reg_pc s + n) AND 0xFFFF"
  by (simp add: INC_PC_def)

lemma INC_PC_STORE_LONG [simp]: "STORE_LONG a v (INC_PC n s) = INC_PC n (STORE_LONG a v s)"
  by (simp add: INC_PC_def STORE_LONG_def)

lemma LOAD_STORE:
  "LOAD_LONG a (STORE_LONG b v s) =
     (if a AND RAMMASK = b AND RAMMASK then v AND 0xFF else LOAD_LONG a s)"
  by (simp add: LOAD_LONG_def STORE_LONG_def ucast_up_down)

section \<open>The two bytes of the accumulator\<close>

lemma byte_parts:
  fixes c :: u16 and v :: u8
  shows "(ucast ((c AND 0xFF00) OR ucast v) :: u8) = v"
    "(ucast (drop_bit 8 ((c AND 0xFF00) OR ucast v)) :: u8) = ucast (drop_bit 8 c)"
    "(ucast (drop_bit 8 (push_bit 8 (ucast v) OR (c AND 0xFF))) :: u8) = v"
    "(ucast (push_bit 8 (ucast v) OR (c AND 0xFF)) :: u8) = ucast c"
proof -
  have m: "(0xFF00 :: u16) = NOT (mask 8)" "(0xFF :: u16) = mask 8"
    by (simp_all add: mask_eq_exp_minus_1)
  show "(ucast ((c AND 0xFF00) OR ucast v) :: u8) = v"
    "(ucast (drop_bit 8 ((c AND 0xFF00) OR ucast v)) :: u8) = ucast (drop_bit 8 c)"
    "(ucast (drop_bit 8 (push_bit 8 (ucast v) OR (c AND 0xFF))) :: u8) = v"
    "(ucast (push_bit 8 (ucast v) OR (c AND 0xFF)) :: u8) = ucast c"
    unfolding m by (rule bit_eqI, auto simp: bit_simps dest: bit_imp_le_length)+
qed

lemma accumulator_bytes [simp]:
  "reg_a (set_reg_a v s) = v" "reg_b (set_reg_a v s) = reg_b s"
  "reg_b (set_reg_b v s) = v" "reg_a (set_reg_b v s) = reg_a s"
  using byte_parts [where c = "reg_c s" and v = v] by (simp_all add: reg_a_def reg_b_def set_reg_a_def set_reg_b_def)

lemma accumulator_eqI: "reg_a s = reg_a t \<Longrightarrow> reg_b s = reg_b t \<Longrightarrow> reg_c s = reg_c t"
proof -
  have split: "(c :: u16) = push_bit 8 (ucast (ucast (drop_bit 8 c) :: u8)) OR ucast (ucast c :: u8)" for c
    by (rule bit_eqI) (auto simp: bit_simps)
  assume "reg_a s = reg_a t" "reg_b s = reg_b t"
  then show "reg_c s = reg_c t"
    using split [of "reg_c s"] split [of "reg_c t"] by (simp add: reg_a_def reg_b_def)
qed

lemma accumulator_frame [simp]:
  "reg_a (s\<lparr>reg_sp := v\<rparr>) = reg_a s" "reg_b (s\<lparr>reg_sp := v\<rparr>) = reg_b s"
  "reg_a (LOCAL_SET_NZ w b s) = reg_a s" "reg_b (LOCAL_SET_NZ w b s) = reg_b s"
  by (simp_all add: reg_a_def reg_b_def)

end
