(* ===== verification/Addressing.thy ===== *)
theory Addressing
  imports Frames
begin

text \<open>
  The addressing mode macros of \<open>emulator/65816core.c\<close>.

  A macro \<open>X_FUNC(var, value, bits8, write)\<close> is a function of \<open>value\<close>, \<open>bits8\<close> and
  \<open>write\<close> that returns the new content of \<open>var\<close> and the new state; where it writes,
  \<open>var\<close> is not assigned and the result is 0, which no caller uses. Macros whose one
  argument is both the source and the destination (\<open>INDIRECT_FUNC(var, bits8, write)\<close>
  and its like) take it as \<open>value\<close> as well. The read-modify-write loaders
  (\<open>..._RRW\<close>) leave their local \<open>ea\<close> to the matching store macro: they return the
  pair of \<open>var\<close> and \<open>ea\<close>.

  The second half of the theory gives each macro a closed form: the operand length, the
  effective address and the rule for the address of the second byte.
\<close>

type_synonym load_func = "bool \<Rightarrow> cpu \<Rightarrow> u32 \<times> cpu"
type_synonym store_func = "u32 \<Rightarrow> bool \<Rightarrow> cpu \<Rightarrow> cpu"
type_synonym load_rrw = "bool \<Rightarrow> cpu \<Rightarrow> (u32 \<times> u32) \<times> cpu"
type_synonym store_rrw = "u32 \<Rightarrow> u32 \<Rightarrow> bool \<Rightarrow> cpu \<Rightarrow> cpu"

text \<open>The two memory accesses at the end of most macros: \<open>STORE_LONG(ea, v)\<close> and
  \<open>STORE_LONG(ea2, v >> 8)\<close>, or the two loads, with \<open>ea2\<close> the address of the second
  byte; on eight bits only the first.\<close>

definition access :: "u32 \<Rightarrow> u32 \<Rightarrow> u32 \<Rightarrow> bool \<Rightarrow> bool \<Rightarrow> cpu \<Rightarrow> u32 \<times> cpu" where
  "access ea ea2 value bits8 write s =
     (if bits8 then
        (if write then (0, STORE_LONG ea value s) else (LOAD_LONG ea s, s))
      else if write then (0, STORE_LONG ea2 (drop_bit 8 value) (STORE_LONG ea value s))
      else (LOAD_LONG ea s OR push_bit 8 (LOAD_LONG ea2 s), s))"

section \<open>Stack, accumulator and immediate operands\<close>

definition LOAD_STACK :: load_func where
  "LOAD_STACK bits8 s =
     (let s = INC_PC 1 s
      in if bits8 then PULL s
         else let (var, s) = PULL s; (h, s) = PULL s in (var OR push_bit 8 h, s))"

definition LOAD_ACCU_RRW :: load_rrw where
  "LOAD_ACCU_RRW bits8 s =
     (let s = INC_PC 1 s
      in ((if bits8 then ucast (reg_a s) else ucast (reg_c s), 0), s))"

definition LOAD_IMMEDIATE_FUNC :: load_func where
  "LOAD_IMMEDIATE_FUNC bits8 s =
     (let s = INC_PC 1 s;
          (var, s) =
            (if bits8 then (FETCH_PARAM (reg_pc s) s, s)
             else let p1 = FETCH_PARAM (reg_pc s) s;
                      s = INC_PC 1 s;
                      p2 = push_bit 8 (FETCH_PARAM (reg_pc s) s)
                  in (p1 + p2, s))
      in (var, INC_PC 1 s))"

section \<open>Direct page\<close>

definition DIRECT_PAGE_FUNC :: "u32 \<Rightarrow> bool \<Rightarrow> bool \<Rightarrow> cpu \<Rightarrow> u32 \<times> cpu" where
  "DIRECT_PAGE_FUNC value bits8 write s =
     (let s = INC_PC 1 s;
          p1 = FETCH_PARAM (reg_pc s) s;
          ea = p1 + ucast (reg_dpr s);
          (var, s) = access (ea AND 0xFFFF) ((ea + 1) AND 0xFFFF) value bits8 write s
      in (var, INC_PC 1 s))"

definition LOAD_DIRECT_PAGE_FUNC :: load_func where
  "LOAD_DIRECT_PAGE_FUNC bits8 = DIRECT_PAGE_FUNC 0 bits8 False"

definition LOAD_DIRECT_PAGE_FUNC_RRW :: load_rrw where
  "LOAD_DIRECT_PAGE_FUNC_RRW bits8 s =
     (let s = INC_PC 1 s;
          p1 = FETCH_PARAM (reg_pc s) s;
          s = INC_PC 1 s;
          ea = (p1 + ucast (reg_dpr s)) AND 0xFFFF;
          var = LOAD_LONG ea s
      in if reg_emul s \<noteq> 0 then ((var, ea), STORE_LONG ea var s)
         else if bits8 then ((var, ea), s)
         else let ea = (ea + 1) AND 0xFFFF;
                  var = var OR push_bit 8 (LOAD_LONG ea s)
              in ((var, ea), s))"

definition DIRECT_PAGE_R_FUNC ::
    "u32 \<Rightarrow> bool \<Rightarrow> (cpu \<Rightarrow> u16) \<Rightarrow> bool \<Rightarrow> cpu \<Rightarrow> u32 \<times> cpu" where
  "DIRECT_PAGE_R_FUNC value bits8 reg_r write s =
     (let s = INC_PC 1 s;
          p1 = FETCH_PARAM (reg_pc s) s;
          (var, s) =
            (if reg_emul s \<noteq> 0 then
               let ea = (if reg_dpr s AND 0xFF \<noteq> 0
                         then p1 + ucast (reg_r s) + ucast (reg_dpr s)
                         else ((p1 + ucast (reg_r s)) AND 0xFF) + ucast (reg_dpr s))
               in if write then (0, STORE_BANK0 ea value s) else (LOAD_BANK0 ea s, s)
             else
               let ea = p1 + ucast (reg_dpr s) + ucast (reg_r s)
               in access (ea AND 0xFFFF) ((ea + 1) AND 0xFFFF) value bits8 write s)
      in (var, INC_PC 1 s))"

definition LOAD_DIRECT_PAGE_X_FUNC :: load_func where
  "LOAD_DIRECT_PAGE_X_FUNC bits8 = DIRECT_PAGE_R_FUNC 0 bits8 reg_x False"

definition LOAD_DIRECT_PAGE_Y_FUNC :: load_func where
  "LOAD_DIRECT_PAGE_Y_FUNC bits8 = DIRECT_PAGE_R_FUNC 0 bits8 reg_y False"

definition LOAD_DIRECT_PAGE_X_FUNC_RRW :: load_rrw where
  "LOAD_DIRECT_PAGE_X_FUNC_RRW bits8 s =
     (let s = INC_PC 1 s;
          p1 = FETCH_PARAM (reg_pc s) s;
          s = INC_PC 1 s
      in if reg_emul s \<noteq> 0 then
           let ea = (if reg_dpr s AND 0xFF \<noteq> 0
                     then (p1 + ucast (reg_x s) + ucast (reg_dpr s)) AND 0xFFFF
                     else ((p1 + ucast (reg_x s)) AND 0xFF) + ucast (reg_dpr s));
               var = LOAD_LONG ea s
           in ((var, ea), STORE_LONG ea var s)
         else
           let ea = (p1 + ucast (reg_dpr s) + ucast (reg_x s)) AND 0xFFFF;
               var = LOAD_LONG ea s
           in if \<not> bits8 then
                let ea = (ea + 1) AND 0xFFFF;
                    var = var OR push_bit 8 (LOAD_LONG ea s)
                in ((var, ea), s)
              else ((var, ea), s))"

section \<open>Indirect through the direct page\<close>

definition INDIRECT_FUNC :: "u32 \<Rightarrow> bool \<Rightarrow> bool \<Rightarrow> cpu \<Rightarrow> u32 \<times> cpu" where
  "INDIRECT_FUNC value bits8 write s =
     (let s = INC_PC 1 s;
          p1 = FETCH_PARAM (reg_pc s) s;
          s = INC_PC 1 s;
          ea2 = p1 + ucast (reg_dpr s);
          ea = LOAD_BANK0 ea2 s OR dbr16 s
      in if reg_emul s = 0 \<or> reg_dpr s AND 0xFF \<noteq> 0 \<or> p1 \<noteq> 0xFF then
           let ea = ea OR push_bit 8 (LOAD_BANK0 (ea2 + 1) s)
           in access ea ((ea + 1) AND 0xFFFFFF) value bits8 write s
         else
           let ea = ea OR push_bit 8 (LOAD_LONG (ucast (reg_dpr s)) s)
           in if write then (0, STORE_LONG ea value s) else (LOAD_LONG ea s, s))"

definition LOAD_INDIRECT_FUNC :: load_func where
  "LOAD_INDIRECT_FUNC bits8 = INDIRECT_FUNC 0 bits8 False"

definition INDIRECT_X_FUNC :: "u32 \<Rightarrow> bool \<Rightarrow> bool \<Rightarrow> cpu \<Rightarrow> u32 \<times> cpu" where
  "INDIRECT_X_FUNC value bits8 write s =
     (let s = INC_PC 1 s;
          p1 = FETCH_PARAM (reg_pc s) s;
          s = INC_PC 1 s
      in if reg_emul s = 0 \<or> reg_dpr s AND 0xFF \<noteq> 0 then
           let ea2 = p1 + ucast (reg_x s) + ucast (reg_dpr s);
               ea = LOAD_BANK0 ea2 s OR dbr16 s;
               ea = ea OR push_bit 8 (LOAD_BANK0 (ea2 + 1) s)
           in access ea ((ea + 1) AND 0xFFFFFF) value bits8 write s
         else
           let ea2 = ((p1 + ucast (reg_x s)) AND 0xFF) + ucast (reg_dpr s);
               ea = LOAD_LONG ea2 s OR dbr16 s;
               ea2 = ((p1 + ucast (reg_x s) + 1) AND 0xFF) + ucast (reg_dpr s);
               ea = ea OR push_bit 8 (LOAD_LONG ea2 s)
           in if write then (0, STORE_LONG ea value s) else (LOAD_LONG ea s, s))"

definition LOAD_INDIRECT_X_FUNC :: load_func where
  "LOAD_INDIRECT_X_FUNC bits8 = INDIRECT_X_FUNC 0 bits8 False"

text \<open>\<open>INDIRECT_Y_FUNC\<close> computes the address on six branches that differ in the order
  of the bus accesses: writing, or reading with or without a page crossing, with the
  high byte of the pointer at \<open>ea2 + 1\<close> or wrapped to \<open>reg_dpr\<close>.\<close>

definition INDIRECT_Y_FUNC :: "u32 \<Rightarrow> bool \<Rightarrow> bool \<Rightarrow> cpu \<Rightarrow> u32 \<times> cpu" where
  "INDIRECT_Y_FUNC value bits8 write s =
     (let s = INC_PC 1 s;
          p1 = FETCH_PARAM (reg_pc s) s;
          s = INC_PC 1 s;
          ea2 = p1 + ucast (reg_dpr s);
          ea = LOAD_BANK0 ea2 s
      in if reg_emul s = 0 \<or> reg_dpr s AND 0xFF \<noteq> 0 \<or> p1 \<noteq> 0xFF then
           let ea =
             (if write then
                let ea2 = push_bit 8 (LOAD_BANK0 (ea2 + 1) s) + dbr16 s
                in (ea + ea2 + ucast (reg_y s)) AND 0xFFFFFF
              else if ucast (reg_y s) + ea > 0xFF then
                let ea = ea OR push_bit 8 (LOAD_BANK0 (ea2 + 1) s)
                in (ea + ucast (reg_y s) + dbr16 s) AND 0xFFFFFF
              else
                let ea = ea OR push_bit 8 (LOAD_BANK0 (ea2 + 1) s)
                in (ea + ucast (reg_y s) + dbr16 s) AND 0xFFFFFF)
           in access ea ((ea + 1) AND 0xFFFFFF) value bits8 write s
         else if write then
           let ea2 = push_bit 8 (LOAD_LONG (ucast (reg_dpr s)) s) + dbr16 s;
               ea = (ea + ea2 + ucast (reg_y s)) AND 0xFFFFFF
           in (0, STORE_LONG ea value s)
         else if ucast (reg_y s) + ea > 0xFF then
           let ea = ea OR push_bit 8 (LOAD_LONG (ucast (reg_dpr s)) s);
               ea = (ea + ucast (reg_y s) + dbr16 s) AND 0xFFFFFF
           in (LOAD_LONG ea s, s)
         else
           let ea = ea OR push_bit 8 (LOAD_LONG (ucast (reg_dpr s)) s);
               ea = (ea + ucast (reg_y s) + dbr16 s) AND 0xFFFFFF
           in (LOAD_LONG ea s, s))"

definition LOAD_INDIRECT_Y_FUNC :: load_func where
  "LOAD_INDIRECT_Y_FUNC bits8 = INDIRECT_Y_FUNC 0 bits8 False"

definition INDIRECT_LONG_FUNC :: "u32 \<Rightarrow> bool \<Rightarrow> bool \<Rightarrow> cpu \<Rightarrow> u32 \<times> cpu" where
  "INDIRECT_LONG_FUNC value bits8 write s =
     (let s = INC_PC 1 s;
          p1 = FETCH_PARAM (reg_pc s) s;
          ea2 = p1 + ucast (reg_dpr s);
          s = INC_PC 1 s;
          ea = LOAD_BANK0 ea2 s;
          ea = ea OR push_bit 8 (LOAD_BANK0 (ea2 + 1) s);
          ea = ea OR push_bit 16 (LOAD_BANK0 (ea2 + 2) s)
      in access ea ((ea + 1) AND 0xFFFFFF) value bits8 write s)"

definition LOAD_INDIRECT_LONG_FUNC :: load_func where
  "LOAD_INDIRECT_LONG_FUNC bits8 = INDIRECT_LONG_FUNC 0 bits8 False"

definition INDIRECT_LONG_Y_FUNC :: "u32 \<Rightarrow> bool \<Rightarrow> bool \<Rightarrow> cpu \<Rightarrow> u32 \<times> cpu" where
  "INDIRECT_LONG_Y_FUNC value bits8 write s =
     (let s = INC_PC 1 s;
          p1 = FETCH_PARAM (reg_pc s) s;
          ea2 = p1 + ucast (reg_dpr s);
          s = INC_PC 1 s;
          ea = LOAD_BANK0 ea2 s;
          ea = ea OR push_bit 8 (LOAD_BANK0 (ea2 + 1) s);
          ea = ea OR push_bit 16 (LOAD_BANK0 (ea2 + 2) s);
          ea = (ea + ucast (reg_y s)) AND 0xFFFFFF
      in access ea ((ea + 1) AND 0xFFFFFF) value bits8 write s)"

definition LOAD_INDIRECT_LONG_Y_FUNC :: load_func where
  "LOAD_INDIRECT_LONG_Y_FUNC bits8 = INDIRECT_LONG_Y_FUNC 0 bits8 False"

section \<open>Absolute operands\<close>

definition ABS_FUNC :: "u32 \<Rightarrow> bool \<Rightarrow> bool \<Rightarrow> cpu \<Rightarrow> u32 \<times> cpu" where
  "ABS_FUNC value bits8 write s =
     (let s = INC_PC 1 s;
          p1 = FETCH_PARAM (reg_pc s) s;
          s = INC_PC 1 s;
          p2 = push_bit 8 (FETCH_PARAM (reg_pc s) s);
          ea = p1 + p2 + dbr16 s;
          (var, s) = access ea ((ea + 1) AND 0xFFFFFF) value bits8 write s
      in (var, INC_PC 1 s))"

definition LOAD_ABS_FUNC :: load_func where
  "LOAD_ABS_FUNC bits8 = ABS_FUNC 0 bits8 False"

definition LOAD_ABS_FUNC_RRW :: load_rrw where
  "LOAD_ABS_FUNC_RRW bits8 s =
     (let s = INC_PC 1 s;
          p1 = FETCH_PARAM (reg_pc s) s;
          s = INC_PC 1 s;
          p2 = push_bit 8 (FETCH_PARAM (reg_pc s) s);
          s = INC_PC 1 s;
          ea = p1 + p2 + dbr16 s;
          var = LOAD_LONG ea s
      in if reg_emul s \<noteq> 0 then ((var, ea), STORE_LONG ea var s)
         else if \<not> bits8 then
           let ea = (ea + 1) AND 0xFFFFFF;
               var = var OR push_bit 8 (LOAD_LONG ea s)
           in ((var, ea), s)
         else ((var, ea), s))"

text \<open>The \<open>ABS2\<close> macros wrap the second byte within the data bank. No opcode uses them.\<close>

definition ABS2_FUNC :: "u32 \<Rightarrow> bool \<Rightarrow> bool \<Rightarrow> cpu \<Rightarrow> u32 \<times> cpu" where
  "ABS2_FUNC value bits8 write s =
     (let s = INC_PC 1 s;
          p1 = FETCH_PARAM (reg_pc s) s;
          s = INC_PC 1 s;
          p2 = push_bit 8 (FETCH_PARAM (reg_pc s) s);
          ea = p1 + p2 + dbr16 s;
          (var, s) = access ea (((ea + 1) AND 0xFFFF) + dbr16 s) value bits8 write s
      in (var, INC_PC 1 s))"

definition LOAD_ABS2_FUNC :: load_func where
  "LOAD_ABS2_FUNC bits8 = ABS2_FUNC 0 bits8 False"

definition LOAD_ABS2_FUNC_RRW :: load_rrw where
  "LOAD_ABS2_FUNC_RRW bits8 s =
     (let s = INC_PC 1 s;
          p1 = FETCH_PARAM (reg_pc s) s;
          s = INC_PC 1 s;
          p2 = push_bit 8 (FETCH_PARAM (reg_pc s) s);
          s = INC_PC 1 s;
          ea = p1 + p2 + dbr16 s;
          var = LOAD_LONG ea s
      in if reg_emul s \<noteq> 0 then ((var, ea), STORE_LONG ea var s)
         else if \<not> bits8 then
           let ea = ((ea + 1) AND 0xFFFF) + dbr16 s;
               var = var OR push_bit 8 (LOAD_LONG ea s)
           in ((var, ea), s)
         else ((var, ea), s))"

definition ABS_R_FUNC ::
    "u32 \<Rightarrow> bool \<Rightarrow> (cpu \<Rightarrow> u16) \<Rightarrow> bool \<Rightarrow> cpu \<Rightarrow> u32 \<times> cpu" where
  "ABS_R_FUNC value bits8 reg_r write s =
     (let s = INC_PC 1 s;
          p1 = FETCH_PARAM (reg_pc s) s;
          s = INC_PC 1 s;
          (var, s) =
            (if bits8 then
               if write then
                 let p2 = push_bit 8 (FETCH_PARAM (reg_pc s) s);
                     ea = p2 + dbr16 s;
                     ea = (p1 + ucast (reg_r s) + ea) AND 0xFFFFFF
                 in (0, STORE_LONG ea value s)
               else if \<not> LOCAL_65816_X s \<or> p1 + ucast (reg_r s) > 0xFF then
                 let p2 = push_bit 8 (FETCH_PARAM (reg_pc s) s);
                     ea = p2 + dbr16 s;
                     ea = (p1 + ucast (reg_r s) + ea) AND 0xFFFFFF
                 in (LOAD_LONG ea s, s)
               else
                 let p2 = push_bit 8 (FETCH_PARAM (reg_pc s) s);
                     ea = (p1 + p2 + ucast (reg_r s) + dbr16 s) AND 0xFFFFFF
                 in (LOAD_LONG ea s, s)
             else
               let p2 = push_bit 8 (FETCH_PARAM (reg_pc s) s);
                   ea = p2 + dbr16 s;
                   ea = (p1 + ucast (reg_r s) + ea) AND 0xFFFFFF
               in access ea ((ea + 1) AND 0xFFFFFF) value False write s)
      in (var, INC_PC 1 s))"

definition LOAD_ABS_R_FUNC :: "bool \<Rightarrow> (cpu \<Rightarrow> u16) \<Rightarrow> cpu \<Rightarrow> u32 \<times> cpu" where
  "LOAD_ABS_R_FUNC bits8 reg_r = ABS_R_FUNC 0 bits8 reg_r False"

definition LOAD_ABS_X_FUNC :: load_func where
  "LOAD_ABS_X_FUNC bits8 = LOAD_ABS_R_FUNC bits8 reg_x"

definition LOAD_ABS_Y_FUNC :: load_func where
  "LOAD_ABS_Y_FUNC bits8 = LOAD_ABS_R_FUNC bits8 reg_y"

definition LOAD_ABS_X_FUNC_RRW :: load_rrw where
  "LOAD_ABS_X_FUNC_RRW bits8 s =
     (let s = INC_PC 1 s;
          p1 = FETCH_PARAM (reg_pc s) s;
          s = INC_PC 1 s;
          p2 = push_bit 8 (FETCH_PARAM (reg_pc s) s);
          s = INC_PC 1 s;
          ea = (p1 + p2 + ucast (reg_x s) + dbr16 s) AND 0xFFFFFF;
          var = LOAD_LONG ea s
      in if reg_emul s \<noteq> 0 then ((var, ea), STORE_LONG ea var s)
         else if bits8 then ((var, ea), s)
         else let ea = (ea + 1) AND 0xFFFFFF;
                  var = var OR push_bit 8 (LOAD_LONG ea s)
              in ((var, ea), s))"

definition LOAD_ABS2_R_FUNC :: "bool \<Rightarrow> (cpu \<Rightarrow> u16) \<Rightarrow> cpu \<Rightarrow> u32 \<times> cpu" where
  "LOAD_ABS2_R_FUNC bits8 reg_r s =
     (let s = INC_PC 1 s;
          p1 = FETCH_PARAM (reg_pc s) s;
          s = INC_PC 1 s;
          p2 = push_bit 8 (FETCH_PARAM (reg_pc s) s);
          ea = ((p1 + p2 + ucast (reg_r s)) AND 0xFFFF) + dbr16 s;
          var = (if bits8 then LOAD_LONG ea s
                 else LOAD_LONG ea s OR push_bit 8 (LOAD_LONG (((ea + 1) AND 0xFFFF) + dbr16 s) s))
      in (var, INC_PC 1 s))"

definition LOAD_ABS2_X_FUNC :: load_func where
  "LOAD_ABS2_X_FUNC bits8 = LOAD_ABS2_R_FUNC bits8 reg_x"

definition LOAD_ABS2_Y_FUNC :: load_func where
  "LOAD_ABS2_Y_FUNC bits8 = LOAD_ABS2_R_FUNC bits8 reg_y"

definition ABS_LONG_FUNC :: "u32 \<Rightarrow> bool \<Rightarrow> bool \<Rightarrow> cpu \<Rightarrow> u32 \<times> cpu" where
  "ABS_LONG_FUNC value bits8 write s =
     (let s = INC_PC 1 s;
          p1 = FETCH_PARAM (reg_pc s) s;
          s = INC_PC 1 s;
          p2 = push_bit 8 (FETCH_PARAM (reg_pc s) s);
          s = INC_PC 1 s;
          p3 = push_bit 16 (FETCH_PARAM (reg_pc s) s);
          ea = p1 + p2 + p3;
          (var, s) = access ea ((ea + 1) AND 0xFFFFFF) value bits8 write s
      in (var, INC_PC 1 s))"

definition LOAD_ABS_LONG_FUNC :: load_func where
  "LOAD_ABS_LONG_FUNC bits8 = ABS_LONG_FUNC 0 bits8 False"

definition ABS_LONG_X_FUNC :: "u32 \<Rightarrow> bool \<Rightarrow> bool \<Rightarrow> cpu \<Rightarrow> u32 \<times> cpu" where
  "ABS_LONG_X_FUNC value bits8 write s =
     (let s = INC_PC 1 s;
          p1 = FETCH_PARAM (reg_pc s) s;
          s = INC_PC 1 s;
          p2 = push_bit 8 (FETCH_PARAM (reg_pc s) s);
          s = INC_PC 1 s;
          p3 = push_bit 16 (FETCH_PARAM (reg_pc s) s);
          ea = (p1 + p2 + p3 + ucast (reg_x s)) AND 0xFFFFFF;
          (var, s) = access ea ((ea + 1) AND 0xFFFFFF) value bits8 write s
      in (var, INC_PC 1 s))"

definition LOAD_ABS_LONG_X_FUNC :: load_func where
  "LOAD_ABS_LONG_X_FUNC bits8 = ABS_LONG_X_FUNC 0 bits8 False"

section \<open>Stack relative operands\<close>

definition STACK_REL_FUNC :: "u32 \<Rightarrow> bool \<Rightarrow> bool \<Rightarrow> cpu \<Rightarrow> u32 \<times> cpu" where
  "STACK_REL_FUNC value bits8 write s =
     (let s = INC_PC 1 s;
          p1 = FETCH_PARAM (reg_pc s) s;
          ea = p1 + ucast (reg_sp s);
          (var, s) = access (ea AND 0xFFFF) ((ea + 1) AND 0xFFFF) value bits8 write s
      in (var, INC_PC 1 s))"

definition LOAD_STACK_REL_FUNC :: load_func where
  "LOAD_STACK_REL_FUNC bits8 = STACK_REL_FUNC 0 bits8 False"

definition STACK_REL_Y_FUNC :: "u32 \<Rightarrow> bool \<Rightarrow> bool \<Rightarrow> cpu \<Rightarrow> u32 \<times> cpu" where
  "STACK_REL_Y_FUNC value bits8 write s =
     (let s = INC_PC 1 s;
          p1 = FETCH_PARAM (reg_pc s) s;
          s = INC_PC 1 s;
          ea2 = p1 + ucast (reg_sp s);
          ea = LOAD_BANK0 ea2 s;
          ea = ea OR push_bit 8 (LOAD_BANK0 (ea2 + 1) s);
          ea = (ea + ucast (reg_y s) + dbr16 s) AND 0xFFFFFF
      in access ea ((ea + 1) AND 0xFFFFFF) value bits8 write s)"

definition LOAD_STACK_REL_Y_FUNC :: load_func where
  "LOAD_STACK_REL_Y_FUNC bits8 = STACK_REL_Y_FUNC 0 bits8 False"

section \<open>Stores\<close>

definition STORE_STACK :: store_func where
  "STORE_STACK value bits8 s =
     (let s = INC_PC 1 s
      in if bits8 then PUSH value s else PUSH value (PUSH (drop_bit 8 value) s))"

definition STORE_ACCU_RRW :: store_rrw where
  "STORE_ACCU_RRW ea value bits8 s =
     (if bits8 then set_reg_a (ucast value) s else s\<lparr>reg_c := ucast value\<rparr>)"

definition STORE_DIRECT_PAGE :: store_func where
  "STORE_DIRECT_PAGE value bits8 s = snd (DIRECT_PAGE_FUNC value bits8 True s)"

definition STORE_DIRECT_PAGE_RRW :: store_rrw where
  "STORE_DIRECT_PAGE_RRW ea value bits8 s =
     (if bits8 then STORE_LONG ea value s
      else STORE_BANK0 (ea - 1) value (STORE_LONG ea (drop_bit 8 value) s))"

definition STORE_DIRECT_PAGE_X :: store_func where
  "STORE_DIRECT_PAGE_X value bits8 s = snd (DIRECT_PAGE_R_FUNC value bits8 reg_x True s)"

definition STORE_DIRECT_PAGE_Y :: store_func where
  "STORE_DIRECT_PAGE_Y value bits8 s = snd (DIRECT_PAGE_R_FUNC value bits8 reg_y True s)"

definition STORE_DIRECT_PAGE_X_RRW :: store_rrw where
  "STORE_DIRECT_PAGE_X_RRW = STORE_DIRECT_PAGE_RRW"

definition STORE_INDIRECT :: store_func where
  "STORE_INDIRECT value bits8 s = snd (INDIRECT_FUNC value bits8 True s)"

definition STORE_INDIRECT_X :: store_func where
  "STORE_INDIRECT_X value bits8 s = snd (INDIRECT_X_FUNC value bits8 True s)"

definition STORE_INDIRECT_Y :: store_func where
  "STORE_INDIRECT_Y value bits8 s = snd (INDIRECT_Y_FUNC value bits8 True s)"

definition STORE_INDIRECT_LONG :: store_func where
  "STORE_INDIRECT_LONG value bits8 s = snd (INDIRECT_LONG_FUNC value bits8 True s)"

definition STORE_INDIRECT_LONG_Y :: store_func where
  "STORE_INDIRECT_LONG_Y value bits8 s = snd (INDIRECT_LONG_Y_FUNC value bits8 True s)"

definition STORE_ABS :: store_func where
  "STORE_ABS value bits8 s = snd (ABS_FUNC value bits8 True s)"

definition STORE_ABS2 :: store_func where
  "STORE_ABS2 value bits8 s = snd (ABS2_FUNC value bits8 True s)"

definition STORE_ABS_RRW :: store_rrw where
  "STORE_ABS_RRW ea value bits8 s =
     (if bits8 then STORE_LONG ea value s
      else STORE_LONG ((ea - 1) AND 0xFFFFFF) value (STORE_LONG ea (drop_bit 8 value) s))"

definition STORE_ABS2_RRW :: store_rrw where
  "STORE_ABS2_RRW ea value bits8 s =
     (if bits8 then STORE_LONG ea value s
      else STORE_LONG (((ea - 1) AND 0xFFFF) + dbr16 s) value (STORE_LONG ea (drop_bit 8 value) s))"

definition STORE_ABS_X_RRW :: store_rrw where
  "STORE_ABS_X_RRW = STORE_ABS_RRW"

definition STORE_ABS_X :: store_func where
  "STORE_ABS_X value bits8 s = snd (ABS_R_FUNC value bits8 reg_x True s)"

definition STORE_ABS_Y :: store_func where
  "STORE_ABS_Y value bits8 s = snd (ABS_R_FUNC value bits8 reg_y True s)"

definition STORE_ABS_LONG :: store_func where
  "STORE_ABS_LONG value bits8 s = snd (ABS_LONG_FUNC value bits8 True s)"

definition STORE_ABS_LONG_X :: store_func where
  "STORE_ABS_LONG_X value bits8 s = snd (ABS_LONG_X_FUNC value bits8 True s)"

definition STORE_STACK_REL :: store_func where
  "STORE_STACK_REL value bits8 s = snd (STACK_REL_FUNC value bits8 True s)"

definition STORE_STACK_REL_Y :: store_func where
  "STORE_STACK_REL_Y value bits8 s = snd (STACK_REL_Y_FUNC value bits8 True s)"

end
