(* ===== verification/Modes.thy ===== *)
theory Modes
  imports Addressing
begin

text \<open>
  Closed forms of the addressing modes. Whatever its branches, each macro accesses the
  memory at one effective address (and, on 16 bits, at a second address that the mode
  derives from it) and advances the program counter by the length of the instruction.
  The branches of \<open>INDIRECT_Y_FUNC\<close>, \<open>ABS_R_FUNC\<close> and the emulation mode wrap-arounds
  only affect the order of bus accesses and the pointer bytes.

  The hypothesis \<open>reg_emul s \<noteq> 0 \<longrightarrow> b\<close> of some lemmas says that the emulation
  mode works on eight bits: \<open>LOCAL_65816_M\<close> and \<open>LOCAL_65816_X\<close>, which the instructions
  pass as \<open>bits8\<close>, are true in emulation mode.
\<close>

section \<open>Operand bytes and disjoint sums\<close>

definition opb :: "u32 \<Rightarrow> cpu \<Rightarrow> u32" where
  "opb n s = FETCH_PARAM ((reg_pc s + n) AND 0xFFFF) s"

lemma opb_le [simp]: "opb n s \<le> 0xFF"
  by (simp add: opb_def)

lemma bit_byte:
  fixes x :: u32
  assumes "x \<le> 0xFF" and "bit x n"
  shows "n < 8"
proof -
  have "x = take_bit 8 x" using and_mask_id(3) [OF assms(1)] by (simp add: mask_numerals)
  then show ?thesis using assms(2) by (metis bit_take_bit_iff)
qed

lemma or_push8:
  fixes lo hi :: u32
  assumes "lo \<le> 0xFF"
  shows "lo OR push_bit 8 hi = lo + push_bit 8 hi"
proof -
  have "lo AND push_bit 8 hi = 0"
    by (rule bit_eqI) (auto simp: bit_simps dest: bit_byte [OF assms])
  then show ?thesis by (simp add: disjunctive_add_eq_or)
qed

lemma pointer_le:
  fixes lo hi :: u32
  assumes "lo \<le> 0xFF" and "hi \<le> 0xFF"
  shows "lo + push_bit 8 hi \<le> 0xFFFF"
    and "unat (lo + push_bit 8 hi) = unat lo + unat hi * 256"
proof -
  have "unat lo < 256" "unat hi < 256" using assms by (simp_all add: word_le_nat_alt)
  then have *: "unat (lo + push_bit 8 hi) = unat lo + unat hi * 256"
    by (simp add: unat_word_ariths unat_push8)
  then show "unat (lo + push_bit 8 hi) = unat lo + unat hi * 256" .
  show "lo + push_bit 8 hi \<le> 0xFFFF"
    using * \<open>unat lo < 256\<close> \<open>unat hi < 256\<close> by (simp add: word_le_nat_alt)
qed

lemma or_push16:
  fixes lo hi :: u32
  assumes "lo \<le> 0xFFFF"
  shows "lo OR push_bit 16 hi = lo + push_bit 16 hi"
proof -
  have eq: "lo = take_bit 16 lo" using and_mask_id(1) [OF assms] by (simp add: mask_numerals)
  have "lo AND push_bit 16 hi = 0"
    by (rule bit_eqI, subst eq) (auto simp: bit_simps)
  then show ?thesis by (simp add: disjunctive_add_eq_or)
qed

lemma or_pointer:
  fixes lo hi b :: u32
  assumes "lo \<le> 0xFF" and "hi \<le> 0xFF"
  shows "(lo OR push_bit 16 b) OR push_bit 8 hi = lo + push_bit 8 hi + push_bit 16 b"
    and "(lo OR push_bit 8 hi) OR push_bit 16 b = lo + push_bit 8 hi + push_bit 16 b"
proof -
  show 2: "(lo OR push_bit 8 hi) OR push_bit 16 b = lo + push_bit 8 hi + push_bit 16 b"
    using assms by (simp add: or_push8 or_push16 pointer_le)
  show "(lo OR push_bit 16 b) OR push_bit 8 hi = lo + push_bit 8 hi + push_bit 16 b"
    unfolding 2 [symmetric] by (simp add: or.assoc or.commute or.left_commute)
qed

section \<open>Effective addresses\<close>

definition mode_access :: "u32 \<Rightarrow> u32 \<Rightarrow> u32 \<Rightarrow> u32 \<Rightarrow> bool \<Rightarrow> bool \<Rightarrow> cpu \<Rightarrow> u32 \<times> cpu" where
  "mode_access len ea ea2 v b w s =
     (fst (access ea ea2 v b w s), INC_PC len (snd (access ea ea2 v b w s)))"

lemma access_INC_PC:
  "access ea ea2 v b w (INC_PC n s) =
     (fst (access ea ea2 v b w s), INC_PC n (snd (access ea ea2 v b w s)))"
  by (simp add: access_def)

lemma access_byte:
  "(if w then (0, STORE_LONG ea v s) else (LOAD_LONG ea s, s)) = access ea ea2 v True w s"
  by (simp add: access_def)

text \<open>The address of the high byte of a direct page pointer: in emulation mode with a
  page-aligned direct page, the last byte of the page is followed by the first.\<close>

definition ptr_hi :: "cpu \<Rightarrow> u32" where
  "ptr_hi s =
     (if reg_emul s = 0 \<or> reg_dpr s AND 0xFF \<noteq> 0 \<or> opb 1 s \<noteq> 0xFF
      then (opb 1 s + ucast (reg_dpr s) + 1) AND 0xFFFF else ucast (reg_dpr s))"

definition ea_direct :: "cpu \<Rightarrow> u32" where
  "ea_direct s = (opb 1 s + ucast (reg_dpr s)) AND 0xFFFF"

definition ea_direct_r :: "(cpu \<Rightarrow> u16) \<Rightarrow> cpu \<Rightarrow> u32" where
  "ea_direct_r r s =
     (if reg_emul s = 0 \<or> reg_dpr s AND 0xFF \<noteq> 0
      then (opb 1 s + ucast (r s) + ucast (reg_dpr s)) AND 0xFFFF
      else (((opb 1 s + ucast (r s)) AND 0xFF) + ucast (reg_dpr s)) AND 0xFFFF)"

definition ea_ind :: "cpu \<Rightarrow> u32" where
  "ea_ind s = LOAD_LONG (ea_direct s) s + push_bit 8 (LOAD_LONG (ptr_hi s) s) + dbr16 s"

definition ea_ind_y :: "cpu \<Rightarrow> u32" where
  "ea_ind_y s = (ea_ind s + ucast (reg_y s)) AND 0xFFFFFF"

definition ea_ind_x :: "cpu \<Rightarrow> u32" where
  "ea_ind_x s =
     (let wrap = (\<lambda>n. if reg_emul s = 0 \<or> reg_dpr s AND 0xFF \<noteq> 0
              then (opb 1 s + ucast (reg_x s) + ucast (reg_dpr s) + n) AND 0xFFFF
              else ((opb 1 s + ucast (reg_x s) + n) AND 0xFF) + ucast (reg_dpr s))
      in LOAD_LONG (wrap 0) s + push_bit 8 (LOAD_LONG (wrap 1) s) + dbr16 s)"

definition ea_long :: "cpu \<Rightarrow> u32" where
  "ea_long s =
     LOAD_LONG (ea_direct s) s
     + push_bit 8 (LOAD_LONG ((opb 1 s + ucast (reg_dpr s) + 1) AND 0xFFFF) s)
     + push_bit 16 (LOAD_LONG ((opb 1 s + ucast (reg_dpr s) + 2) AND 0xFFFF) s)"

definition ea_long_y :: "cpu \<Rightarrow> u32" where
  "ea_long_y s = (ea_long s + ucast (reg_y s)) AND 0xFFFFFF"

definition ea_abs :: "cpu \<Rightarrow> u32" where
  "ea_abs s = opb 1 s + push_bit 8 (opb 2 s) + dbr16 s"

definition ea_abs_r :: "(cpu \<Rightarrow> u16) \<Rightarrow> cpu \<Rightarrow> u32" where
  "ea_abs_r r s = (ea_abs s + ucast (r s)) AND 0xFFFFFF"

definition ea_abs_long :: "cpu \<Rightarrow> u32" where
  "ea_abs_long s = opb 1 s + push_bit 8 (opb 2 s) + push_bit 16 (opb 3 s)"

definition ea_abs_long_x :: "cpu \<Rightarrow> u32" where
  "ea_abs_long_x s = (ea_abs_long s + ucast (reg_x s)) AND 0xFFFFFF"

definition ea_sr :: "cpu \<Rightarrow> u32" where
  "ea_sr s = (opb 1 s + ucast (reg_sp s)) AND 0xFFFF"

definition ea_sr_y :: "cpu \<Rightarrow> u32" where
  "ea_sr_y s =
     (LOAD_LONG (ea_sr s) s
      + push_bit 8 (LOAD_LONG ((opb 1 s + ucast (reg_sp s) + 1) AND 0xFFFF) s)
      + ucast (reg_y s) + dbr16 s) AND 0xFFFFFF"

definition bank0_next :: "u32 \<Rightarrow> u32" where
  "bank0_next ea = (ea + 1) AND 0xFFFF"

definition linear_next :: "u32 \<Rightarrow> u32" where
  "linear_next ea = (ea + 1) AND 0xFFFFFF"

section \<open>Closed forms\<close>

lemma pc_offset:
  "2 + reg_pc s = reg_pc s + 2" "3 + reg_pc s = reg_pc s + 3"
  by (simp_all add: add.commute)

lemmas mode_simps = Let_def split_def mode_access_def access_INC_PC LOAD_BANK0_def STORE_BANK0_def
  bank0_next_def linear_next_def opb_def

lemma LOAD_IMMEDIATE_spec [mode_spec]:
  "LOAD_IMMEDIATE_FUNC b s =
     (if b then (opb 1 s, INC_PC 2 s) else (opb 1 s + push_bit 8 (opb 2 s), INC_PC 3 s))"
  by (simp add: LOAD_IMMEDIATE_FUNC_def mode_simps pc_offset)

lemma DIRECT_PAGE_spec [mode_spec]:
  "DIRECT_PAGE_FUNC v b w s = mode_access 2 (ea_direct s) (bank0_next (ea_direct s)) v b w s"
  by (simp add: DIRECT_PAGE_FUNC_def mode_simps pc_offset ea_direct_def)

lemma DIRECT_PAGE_R_spec:
  assumes "reg_emul s \<noteq> 0 \<longrightarrow> b" and "\<And>n. r (INC_PC n s) = r s"
  shows "DIRECT_PAGE_R_FUNC v b r w s =
    mode_access 2 (ea_direct_r r s) (bank0_next (ea_direct_r r s)) v b w s"
  using assms
  by (auto simp: DIRECT_PAGE_R_FUNC_def mode_simps ea_direct_r_def access_def add.assoc add.commute
      add.left_commute)

lemma INDIRECT_spec [mode_spec]:
  assumes "reg_emul s \<noteq> 0 \<longrightarrow> b"
  shows "INDIRECT_FUNC v b w s = mode_access 2 (ea_ind s) (linear_next (ea_ind s)) v b w s"
  using assms
  by (auto simp: INDIRECT_FUNC_def mode_simps pc_offset ea_ind_def ea_direct_def ptr_hi_def access_def or_pointer)

lemma INDIRECT_X_spec [mode_spec]:
  assumes "reg_emul s \<noteq> 0 \<longrightarrow> b"
  shows "INDIRECT_X_FUNC v b w s = mode_access 2 (ea_ind_x s) (linear_next (ea_ind_x s)) v b w s"
  using assms
  by (auto simp: INDIRECT_X_FUNC_def mode_simps pc_offset ea_ind_x_def access_def or_pointer)

lemma INDIRECT_Y_spec [mode_spec]:
  assumes "reg_emul s \<noteq> 0 \<longrightarrow> b"
  shows "INDIRECT_Y_FUNC v b w s = mode_access 2 (ea_ind_y s) (linear_next (ea_ind_y s)) v b w s"
  using assms
  by (auto simp: INDIRECT_Y_FUNC_def mode_simps ea_ind_y_def ea_ind_def ea_direct_def ptr_hi_def
      access_def or_push8 add.commute add.left_commute add.assoc)

lemma INDIRECT_LONG_spec [mode_spec]:
  "INDIRECT_LONG_FUNC v b w s = mode_access 2 (ea_long s) (linear_next (ea_long s)) v b w s"
  by (simp add: INDIRECT_LONG_FUNC_def mode_simps pc_offset ea_long_def ea_direct_def or_pointer)

lemma INDIRECT_LONG_Y_spec [mode_spec]:
  "INDIRECT_LONG_Y_FUNC v b w s = mode_access 2 (ea_long_y s) (linear_next (ea_long_y s)) v b w s"
  by (simp add: INDIRECT_LONG_Y_FUNC_def mode_simps pc_offset ea_long_y_def ea_long_def ea_direct_def or_pointer)

lemma ABS_spec [mode_spec]:
  "ABS_FUNC v b w s = mode_access 3 (ea_abs s) (linear_next (ea_abs s)) v b w s"
  by (simp add: ABS_FUNC_def mode_simps pc_offset ea_abs_def)

lemma ABS2_spec [mode_spec]:
  "ABS2_FUNC v b w s =
     mode_access 3 (ea_abs s) (bank0_next (ea_abs s) + dbr16 s) v b w s"
  by (simp add: ABS2_FUNC_def mode_simps pc_offset ea_abs_def)

lemma ABS_R_spec:
  assumes "\<And>n. r (INC_PC n s) = r s"
  shows "ABS_R_FUNC v b r w s = mode_access 3 (ea_abs_r r s) (linear_next (ea_abs_r r s)) v b w s"
  using assms
  by (simp add: ABS_R_FUNC_def mode_simps ea_abs_r_def ea_abs_def access_def add.commute add.left_commute add.assoc)

lemma ABS_LONG_spec [mode_spec]:
  "ABS_LONG_FUNC v b w s = mode_access 4 (ea_abs_long s) (linear_next (ea_abs_long s)) v b w s"
  by (simp add: ABS_LONG_FUNC_def mode_simps pc_offset ea_abs_long_def)

lemma ABS_LONG_X_spec [mode_spec]:
  "ABS_LONG_X_FUNC v b w s =
     mode_access 4 (ea_abs_long_x s) (linear_next (ea_abs_long_x s)) v b w s"
  by (simp add: ABS_LONG_X_FUNC_def mode_simps pc_offset ea_abs_long_x_def ea_abs_long_def)

lemma STACK_REL_spec [mode_spec]:
  "STACK_REL_FUNC v b w s = mode_access 2 (ea_sr s) (bank0_next (ea_sr s)) v b w s"
  by (simp add: STACK_REL_FUNC_def mode_simps pc_offset ea_sr_def)

lemma STACK_REL_Y_spec [mode_spec]:
  "STACK_REL_Y_FUNC v b w s = mode_access 2 (ea_sr_y s) (linear_next (ea_sr_y s)) v b w s"
  by (simp add: STACK_REL_Y_FUNC_def mode_simps pc_offset ea_sr_y_def ea_sr_def or_push8)

lemmas DIRECT_PAGE_X_spec [mode_spec] = DIRECT_PAGE_R_spec [where r = reg_x, OF _ INC_PC_frame(2)]
lemmas DIRECT_PAGE_Y_spec [mode_spec] = DIRECT_PAGE_R_spec [where r = reg_y, OF _ INC_PC_frame(3)]
lemmas ABS_X_spec [mode_spec] = ABS_R_spec [where r = reg_x, OF INC_PC_frame(2)]
lemmas ABS_Y_spec [mode_spec] = ABS_R_spec [where r = reg_y, OF INC_PC_frame(3)]

text \<open>The loaders and storers the opcodes name, as memory accesses.\<close>

lemmas load_defs = LOAD_DIRECT_PAGE_FUNC_def LOAD_DIRECT_PAGE_X_FUNC_def
  LOAD_DIRECT_PAGE_Y_FUNC_def LOAD_INDIRECT_FUNC_def LOAD_INDIRECT_X_FUNC_def
  LOAD_INDIRECT_Y_FUNC_def LOAD_INDIRECT_LONG_FUNC_def LOAD_INDIRECT_LONG_Y_FUNC_def
  LOAD_ABS_FUNC_def LOAD_ABS2_FUNC_def LOAD_ABS_R_FUNC_def LOAD_ABS_X_FUNC_def LOAD_ABS_Y_FUNC_def
  LOAD_ABS_LONG_FUNC_def LOAD_ABS_LONG_X_FUNC_def LOAD_STACK_REL_FUNC_def LOAD_STACK_REL_Y_FUNC_def

lemmas store_defs = STORE_DIRECT_PAGE_def STORE_DIRECT_PAGE_X_def STORE_DIRECT_PAGE_Y_def
  STORE_INDIRECT_def STORE_INDIRECT_X_def STORE_INDIRECT_Y_def STORE_INDIRECT_LONG_def
  STORE_INDIRECT_LONG_Y_def STORE_ABS_def STORE_ABS2_def STORE_ABS_X_def STORE_ABS_Y_def
  STORE_ABS_LONG_def STORE_ABS_LONG_X_def STORE_STACK_REL_def STORE_STACK_REL_Y_def

section \<open>Read-modify-write operands\<close>

text \<open>The loader leaves \<open>ea\<close> at the last byte it read; on emulation mode it writes the
  byte back first. \<open>rmw_load\<close> is the common form.\<close>

definition rmw_load :: "u32 \<Rightarrow> u32 \<Rightarrow> u32 \<Rightarrow> bool \<Rightarrow> cpu \<Rightarrow> (u32 \<times> u32) \<times> cpu" where
  "rmw_load len ea ea2 b s =
     (if reg_emul s \<noteq> 0 then ((LOAD_LONG ea s, ea), INC_PC len (STORE_LONG ea (LOAD_LONG ea s) s))
      else if b then ((LOAD_LONG ea s, ea), INC_PC len s)
      else ((LOAD_LONG ea s OR push_bit 8 (LOAD_LONG ea2 s), ea2), INC_PC len s))"

lemma LOAD_DIRECT_PAGE_RRW_spec [mode_spec]:
  "LOAD_DIRECT_PAGE_FUNC_RRW b s = rmw_load 2 (ea_direct s) (bank0_next (ea_direct s)) b s"
  by (simp add: LOAD_DIRECT_PAGE_FUNC_RRW_def rmw_load_def mode_simps pc_offset ea_direct_def)

lemma LOAD_ABS_RRW_spec [mode_spec]:
  "LOAD_ABS_FUNC_RRW b s = rmw_load 3 (ea_abs s) (linear_next (ea_abs s)) b s"
  by (simp add: LOAD_ABS_FUNC_RRW_def rmw_load_def mode_simps pc_offset ea_abs_def)

lemma LOAD_ABS2_RRW_spec [mode_spec]:
  "LOAD_ABS2_FUNC_RRW b s = rmw_load 3 (ea_abs s) (bank0_next (ea_abs s) + dbr16 s) b s"
  by (simp add: LOAD_ABS2_FUNC_RRW_def rmw_load_def mode_simps pc_offset ea_abs_def)

lemma LOAD_ABS_X_RRW_spec [mode_spec]:
  "LOAD_ABS_X_FUNC_RRW b s = rmw_load 3 (ea_abs_r reg_x s) (linear_next (ea_abs_r reg_x s)) b s"
  by (simp add: LOAD_ABS_X_FUNC_RRW_def rmw_load_def mode_simps ea_abs_r_def ea_abs_def add.commute add.left_commute add.assoc)

lemma page_offset_le:
  fixes v :: u32
  assumes "d AND 0xFF = 0" and "v \<le> 0xFF"
  shows "(v + ucast (d :: u16)) AND 0xFFFF = v + ucast d"
    and "(ucast d + v) AND 0xFFFF = ucast d + v"
proof -
  have "unat d mod 256 = 0" using assms(1) unat_and_ff16 [of d] by simp
  then have "unat d \<le> 65280" using u16_bound [of d] by presburger
  moreover have "unat v < 256" using assms(2) by (simp add: word_le_nat_alt)
  ultimately have "v + ucast d \<le> 0xFFFF" by (simp add: word_le_nat_alt unat_word_ariths)
  then show "(v + ucast d) AND 0xFFFF = v + ucast d" by (rule and_mask_id(1))
  then show "(ucast d + v) AND 0xFFFF = ucast d + v" by (simp add: add.commute)
qed

lemma LOAD_DIRECT_PAGE_X_RRW_spec [mode_spec]:
  "LOAD_DIRECT_PAGE_X_FUNC_RRW b s =
     rmw_load 2 (ea_direct_r reg_x s) (bank0_next (ea_direct_r reg_x s)) b s"
  by (simp add: LOAD_DIRECT_PAGE_X_FUNC_RRW_def rmw_load_def mode_simps ea_direct_r_def
      page_offset_le add.commute add.left_commute add.assoc)

end
