(* ===== verification/Alu.thy ===== *)
theory Alu
  imports Addressing
begin

text \<open>
  The arithmetic, logic, compare, load, store, transfer and flag instructions of
  \<open>emulator/65816core.c\<close>.

  A macro that takes the names of an addressing mode macro is a function of the mode
  routine. A macro that takes a register takes its selector and, where it assigns it,
  its update function. The operator arguments \<open>logic\<close> (\<open>&=\<close>, \<open>|=\<close>, \<open>^=\<close>, \<open>=\<close>, \<open>++\<close>,
  \<open>--\<close>, \<open>&=~\<close>) are functions on the promoted operands. The arithmetic of \<open>ADC\<close> and
  \<open>SBC\<close> is split off as functions of the accumulator, the operand and the carry: they
  return \<open>tmp\<close> as it is assigned to the accumulator, with the flag values.
\<close>

section \<open>Addition\<close>

text \<open>Binary: \<open>tmp += tmp_value + reg_a\<close>, and the value given to
  \<open>LOCAL_SET_OVERFLOW\<close>; \<open>msb\<close> is 0x80 or 0x8000.\<close>

definition adc_binary :: "u32 \<Rightarrow> u32 \<Rightarrow> u32 \<Rightarrow> u32 \<Rightarrow> u32 \<times> bool" where
  "adc_binary msb a tmp_value carry =
     (let tmp = carry + (tmp_value + a)
      in (tmp, NOT (a XOR tmp_value) AND (a XOR tmp) AND msb \<noteq> 0))"

definition adc8_decimal :: "u32 \<Rightarrow> u32 \<Rightarrow> u32 \<Rightarrow> u32 \<times> bool" where
  "adc8_decimal a tmp_value carry =
     (let tmp2 = (a AND 0x0F) + (tmp_value AND 0x0F) + carry;
          tmp = (a AND 0xF0) + (tmp_value AND 0xF0);
          (tmp2, tmp) = (if tmp2 > 0x9 then (tmp2 + 0x6, tmp + 0x10) else (tmp2, tmp));
          tmp = tmp OR (tmp2 AND 0xF);
          v = (NOT (a XOR tmp_value) AND (a XOR tmp) AND 0x80 \<noteq> 0);
          tmp = (if tmp > 0x9F then tmp + 0x60 else tmp)
      in (tmp, v))"

text \<open>The 16 bit decimal branch computes on \<open>reg_c\<close>, but its overflow on \<open>reg_a\<close>.\<close>

definition adc16_decimal :: "u32 \<Rightarrow> u32 \<Rightarrow> u32 \<Rightarrow> u32 \<Rightarrow> u32 \<times> bool" where
  "adc16_decimal c a tmp_value carry =
     (let tmp2 = (c AND 0x000F) + (tmp_value AND 0x000F) + carry;
          tmp = (c AND 0x00F0) + (tmp_value AND 0x00F0);
          (tmp2, tmp) = (if tmp2 > 0x9 then (tmp2 + 0x6, tmp + 0x10) else (tmp2, tmp));
          tmp = tmp OR (tmp2 AND 0xF);
          tmp2 = (c AND 0x0F00) + (tmp_value AND 0x0F00);
          (tmp, tmp2) = (if tmp > 0x9F then (tmp + 0x60, tmp2 + 0x100) else (tmp, tmp2));
          tmp2 = tmp2 OR (tmp AND 0xFF);
          tmp = (c AND 0xF000) + (tmp_value AND 0xF000);
          (tmp2, tmp) = (if tmp2 > 0x9FF then (tmp2 + 0x600, tmp + 0x1000) else (tmp2, tmp));
          tmp = tmp OR (tmp2 AND 0xFFF);
          v = (NOT (a XOR tmp_value) AND (a XOR tmp) AND 0x8000 \<noteq> 0);
          tmp = (if tmp > 0x9FFF then tmp + 0x6000 else tmp)
      in (tmp, v))"

definition ADC :: "load_func \<Rightarrow> cpu \<Rightarrow> cpu" where
  "ADC load_func s =
     (let carry = ucast (LOCAL_CARRY s)
      in if LOCAL_65816_M s then
           let (tmp_value, s) = load_func True s;
               (tmp, v) = (if LOCAL_DECIMAL s \<noteq> 0
                           then adc8_decimal (ucast (reg_a s)) tmp_value carry
                           else adc_binary 0x80 (ucast (reg_a s)) tmp_value carry);
               s = LOCAL_SET_OVERFLOW v s;
               s = LOCAL_SET_CARRY (tmp > 0xFF) s;
               s = LOCAL_SET_NZ tmp True s
           in set_reg_a (ucast tmp) s
         else
           let (tmp_value, s) = load_func False s;
               (tmp, v) = (if LOCAL_DECIMAL s \<noteq> 0
                           then adc16_decimal (ucast (reg_c s)) (ucast (reg_a s)) tmp_value carry
                           else adc_binary 0x8000 (ucast (reg_c s)) tmp_value carry);
               s = LOCAL_SET_OVERFLOW v s;
               s = LOCAL_SET_CARRY (tmp > 0xFFFF) s;
               s = LOCAL_SET_NZ tmp False s
           in s\<lparr>reg_c := ucast tmp\<rparr>)"

section \<open>Subtraction\<close>

text \<open>\<open>tmp += (tmp_value ^ ones) + reg\<close> and its overflow; \<open>ones\<close> is 0xff or 0xffff.\<close>

definition sbc_binary :: "u32 \<Rightarrow> u32 \<Rightarrow> u32 \<Rightarrow> u32 \<Rightarrow> u32 \<Rightarrow> u32 \<times> bool" where
  "sbc_binary ones msb a tmp_value carry =
     (let tmp = carry + ((tmp_value XOR ones) + a)
      in (tmp, (a XOR tmp_value) AND (a XOR tmp) AND msb \<noteq> 0))"

definition sbc8_decimal :: "u32 \<Rightarrow> u32 \<Rightarrow> u32 \<Rightarrow> u32 \<times> bool" where
  "sbc8_decimal a tmp_value carry =
     (let tmp2 = (a AND 0x0F) + (0x0F AND NOT tmp_value) + carry;
          tmp = (if tmp2 < 0x10 then tmp2 - 0x6 else tmp2) AND 0xF;
          tmp2 = (a AND 0xFF) + (0xFF AND NOT tmp_value) + carry;
          tmp = tmp OR ((if tmp2 < 0x100 then tmp2 - 0x60 else tmp2) AND 0xF0)
      in (tmp, tmp2 > 0xFF))"

text \<open>The 16 bit decimal branch, which the code applies to \<open>reg_a\<close>, not to \<open>reg_c\<close>.\<close>

definition sbc16_decimal :: "u32 \<Rightarrow> u32 \<Rightarrow> u32 \<Rightarrow> u32 \<times> bool" where
  "sbc16_decimal a tmp_value carry =
     (let tmp2 = (a AND 0x0F) + (0x0F AND NOT tmp_value) + carry;
          tmp = (if tmp2 < 0x10 then tmp2 - 0x6 else tmp2) AND 0xF;
          tmp2 = (a AND 0xFF) + (0xFF AND NOT tmp_value) + carry;
          tmp = tmp OR ((if tmp2 < 0x100 then tmp2 - 0x60 else tmp2) AND 0xF0);
          tmp2 = (a AND 0xFFF) + (0xFFF AND NOT tmp_value) + carry;
          tmp = tmp OR ((if tmp2 < 0x1000 then tmp2 - 0x600 else tmp2) AND 0xF00);
          tmp2 = (a AND 0xFFFF) + (0xFFFF AND NOT tmp_value) + carry;
          tmp = tmp OR ((if tmp2 < 0x10000 then tmp2 - 0x6000 else tmp2) AND 0xF000)
      in (tmp, tmp2 > 0xFFFF))"

definition SBC :: "load_func \<Rightarrow> cpu \<Rightarrow> cpu" where
  "SBC load_func s =
     (let carry = ucast (LOCAL_CARRY s)
      in if LOCAL_65816_M s then
           let (tmp_value, s) = load_func True s;
               (tmp, v) = sbc_binary 0xFF 0x80 (ucast (reg_a s)) tmp_value carry;
               s = LOCAL_SET_OVERFLOW v s;
               (tmp, c) = (if LOCAL_DECIMAL s \<noteq> 0
                           then sbc8_decimal (ucast (reg_a s)) tmp_value (ucast (LOCAL_CARRY s))
                           else (tmp, tmp > 0xFF));
               s = LOCAL_SET_CARRY c s;
               s = LOCAL_SET_NZ tmp True s
           in set_reg_a (ucast tmp) s
         else
           let (tmp_value, s) = load_func False s;
               (tmp, v) = sbc_binary 0xFFFF 0x8000 (ucast (reg_c s)) tmp_value carry;
               s = LOCAL_SET_OVERFLOW v s;
               (tmp, c) = (if LOCAL_DECIMAL s \<noteq> 0
                           then sbc16_decimal (ucast (reg_a s)) tmp_value (ucast (LOCAL_CARRY s))
                           else (tmp, tmp > 0xFFFF));
               s = LOCAL_SET_CARRY c s;
               s = LOCAL_SET_NZ tmp False s
           in s\<lparr>reg_c := ucast tmp\<rparr>)"

section \<open>Logic, shifts, tests\<close>

definition LOGICAL :: "load_func \<Rightarrow> (u32 \<Rightarrow> u32 \<Rightarrow> u32) \<Rightarrow> cpu \<Rightarrow> cpu" where
  "LOGICAL load_func logic s =
     (if LOCAL_65816_M s then
        let (tmp, s) = load_func True s;
            s = set_reg_a (ucast (logic (ucast (reg_a s)) (ucast (ucast tmp :: u8)))) s
        in LOCAL_SET_NZ (ucast (reg_a s)) True s
      else
        let (tmp, s) = load_func False s;
            s = s\<lparr>reg_c := ucast (logic (ucast (reg_c s)) (ucast (ucast tmp :: u16)))\<rparr>
        in LOCAL_SET_NZ (ucast (reg_c s)) False s)"

definition AND_op :: "load_func \<Rightarrow> cpu \<Rightarrow> cpu" where
  "AND_op load_func = LOGICAL load_func (\<lambda>r v. r AND v)"

definition EOR :: "load_func \<Rightarrow> cpu \<Rightarrow> cpu" where
  "EOR load_func = LOGICAL load_func (\<lambda>r v. r XOR v)"

definition ORA :: "load_func \<Rightarrow> cpu \<Rightarrow> cpu" where
  "ORA load_func = LOGICAL load_func (\<lambda>r v. r OR v)"

definition LDA :: "load_func \<Rightarrow> cpu \<Rightarrow> cpu" where
  "LDA load_func = LOGICAL load_func (\<lambda>r v. v)"

definition ASLROL :: "load_rrw \<Rightarrow> store_rrw \<Rightarrow> (cpu \<Rightarrow> u32) \<Rightarrow> cpu \<Rightarrow> cpu" where
  "ASLROL load_func store_func carry s =
     (if LOCAL_65816_M s then
        let ((tmp, ea), s) = load_func True s;
            tmp = push_bit 1 tmp OR carry s;
            s = LOCAL_SET_CARRY (tmp AND 0x100 \<noteq> 0) s;
            s = LOCAL_SET_NZ tmp True s
        in store_func ea tmp True s
      else
        let ((tmp, ea), s) = load_func False s;
            tmp = push_bit 1 tmp OR carry s;
            s = LOCAL_SET_CARRY (tmp AND 0x10000 \<noteq> 0) s;
            s = LOCAL_SET_NZ tmp False s
        in store_func ea tmp False s)"

definition ASL :: "load_rrw \<Rightarrow> store_rrw \<Rightarrow> cpu \<Rightarrow> cpu" where
  "ASL load_func store_func = ASLROL load_func store_func (\<lambda>s. 0)"

definition ROL :: "load_rrw \<Rightarrow> store_rrw \<Rightarrow> cpu \<Rightarrow> cpu" where
  "ROL load_func store_func = ASLROL load_func store_func (\<lambda>s. ucast (LOCAL_CARRY s))"

definition LSRROR :: "load_rrw \<Rightarrow> store_rrw \<Rightarrow> (cpu \<Rightarrow> u32) \<Rightarrow> cpu \<Rightarrow> cpu" where
  "LSRROR load_func store_func carry s =
     (if LOCAL_65816_M s then
        let ((tmp, ea), s) = load_func True s;
            tmp = tmp OR (if carry s \<noteq> 0 then 0x100 else 0);
            s = LOCAL_SET_CARRY (tmp AND 1 \<noteq> 0) s;
            tmp = drop_bit 1 tmp;
            s = LOCAL_SET_NZ tmp True s
        in store_func ea tmp True s
      else
        let ((tmp, ea), s) = load_func False s;
            tmp = tmp OR (if carry s \<noteq> 0 then 0x10000 else 0);
            s = LOCAL_SET_CARRY (tmp AND 1 \<noteq> 0) s;
            tmp = drop_bit 1 tmp;
            s = LOCAL_SET_NZ tmp False s
        in store_func ea tmp False s)"

definition LSR :: "load_rrw \<Rightarrow> store_rrw \<Rightarrow> cpu \<Rightarrow> cpu" where
  "LSR load_func store_func = LSRROR load_func store_func (\<lambda>s. 0)"

definition ROR :: "load_rrw \<Rightarrow> store_rrw \<Rightarrow> cpu \<Rightarrow> cpu" where
  "ROR load_func store_func = LSRROR load_func store_func (\<lambda>s. ucast (LOCAL_CARRY s))"

definition BIT_IMM :: "load_func \<Rightarrow> cpu \<Rightarrow> cpu" where
  "BIT_IMM load_func s =
     (if LOCAL_65816_M s then
        let (tmp_value, s) = load_func True s
        in LOCAL_SET_ZERO (tmp_value AND ucast (reg_a s) = 0) s
      else
        let (tmp_value, s) = load_func False s
        in LOCAL_SET_ZERO (tmp_value AND ucast (reg_c s) = 0) s)"

definition BIT :: "load_func \<Rightarrow> cpu \<Rightarrow> cpu" where
  "BIT load_func s =
     (if LOCAL_65816_M s then
        let (tmp, s) = load_func True s;
            s = LOCAL_SET_SIGN (tmp AND 0x80 \<noteq> 0) s;
            s = LOCAL_SET_OVERFLOW (tmp AND 0x40 \<noteq> 0) s
        in LOCAL_SET_ZERO (tmp AND ucast (reg_a s) = 0) s
      else
        let (tmp, s) = load_func False s;
            s = LOCAL_SET_SIGN (tmp AND 0x8000 \<noteq> 0) s;
            s = LOCAL_SET_OVERFLOW (tmp AND 0x4000 \<noteq> 0) s
        in LOCAL_SET_ZERO (tmp AND ucast (reg_c s) = 0) s)"

definition TRBTSB :: "load_rrw \<Rightarrow> store_rrw \<Rightarrow> (u32 \<Rightarrow> u32 \<Rightarrow> u32) \<Rightarrow> cpu \<Rightarrow> cpu" where
  "TRBTSB load_func store_func logic s =
     (if LOCAL_65816_M s then
        let ((tmp_value, ea), s) = load_func True s;
            s = LOCAL_SET_ZERO (tmp_value AND ucast (reg_a s) = 0) s;
            tmp_value = logic tmp_value (ucast (reg_a s))
        in store_func ea tmp_value True s
      else
        let ((tmp_value, ea), s) = load_func False s;
            s = LOCAL_SET_ZERO (tmp_value AND ucast (reg_c s) = 0) s;
            tmp_value = logic tmp_value (ucast (reg_c s))
        in store_func ea tmp_value False s)"

definition TRB :: "load_rrw \<Rightarrow> store_rrw \<Rightarrow> cpu \<Rightarrow> cpu" where
  "TRB load_func store_func = TRBTSB load_func store_func (\<lambda>t r. t AND NOT r)"

definition TSB :: "load_rrw \<Rightarrow> store_rrw \<Rightarrow> cpu \<Rightarrow> cpu" where
  "TSB load_func store_func = TRBTSB load_func store_func (\<lambda>t r. t OR r)"

section \<open>Compare\<close>

definition CMP :: "load_func \<Rightarrow> cpu \<Rightarrow> cpu" where
  "CMP load_func s =
     (if LOCAL_65816_M s then
        let (value, s) = load_func True s;
            tmp = ucast (reg_a s) - value;
            s = LOCAL_SET_CARRY (tmp < 0x100) s
        in LOCAL_SET_NZ tmp True s
      else
        let (value, s) = load_func False s;
            tmp = ucast (reg_c s) - value;
            s = LOCAL_SET_CARRY (tmp < 0x10000) s
        in LOCAL_SET_NZ tmp False s)"

definition CMPI :: "load_func \<Rightarrow> (cpu \<Rightarrow> u16) \<Rightarrow> cpu \<Rightarrow> cpu" where
  "CMPI load_func reg_r s =
     (if LOCAL_65816_X s then
        let (value, s) = load_func True s;
            tmp = ucast (reg_r s) - value;
            s = LOCAL_SET_CARRY (tmp < 0x100) s
        in LOCAL_SET_NZ tmp True s
      else
        let (value, s) = load_func False s;
            tmp = ucast (reg_r s) - value;
            s = LOCAL_SET_CARRY (tmp < 0x10000) s
        in LOCAL_SET_NZ tmp False s)"

definition CPX :: "load_func \<Rightarrow> cpu \<Rightarrow> cpu" where
  "CPX load_func = CMPI load_func reg_x"

definition CPY :: "load_func \<Rightarrow> cpu \<Rightarrow> cpu" where
  "CPY load_func = CMPI load_func reg_y"

section \<open>Increment and decrement\<close>

definition INCDEC :: "load_rrw \<Rightarrow> store_rrw \<Rightarrow> (u32 \<Rightarrow> u32) \<Rightarrow> cpu \<Rightarrow> cpu" where
  "INCDEC load_func store_func logic s =
     (if LOCAL_65816_M s then
        let ((tmp, ea), s) = load_func True s;
            tmp = logic tmp;
            s = LOCAL_SET_NZ tmp True s
        in store_func ea tmp True s
      else
        let ((tmp, ea), s) = load_func False s;
            tmp = logic tmp;
            s = LOCAL_SET_NZ tmp False s
        in store_func ea tmp False s)"

definition DEC :: "load_rrw \<Rightarrow> store_rrw \<Rightarrow> cpu \<Rightarrow> cpu" where
  "DEC load_func store_func = INCDEC load_func store_func (\<lambda>t. t - 1)"

definition INC :: "load_rrw \<Rightarrow> store_rrw \<Rightarrow> cpu \<Rightarrow> cpu" where
  "INC load_func store_func = INCDEC load_func store_func (\<lambda>t. t + 1)"

type_synonym reg_get = "cpu \<Rightarrow> u16"
type_synonym reg_upd = "(u16 \<Rightarrow> u16) \<Rightarrow> cpu \<Rightarrow> cpu"

definition INCDECI :: "reg_get \<Rightarrow> reg_upd \<Rightarrow> (u16 \<Rightarrow> u16) \<Rightarrow> cpu \<Rightarrow> cpu" where
  "INCDECI reg_r reg_r_update logic s =
     (let s = INC_PC 1 s;
          s = reg_r_update logic s
      in if LOCAL_65816_X s then
           let s = reg_r_update (\<lambda>r. r AND 0xFF) s
           in LOCAL_SET_NZ (ucast (reg_r s)) True s
         else LOCAL_SET_NZ (ucast (reg_r s)) False s)"

definition DEX :: "cpu \<Rightarrow> cpu" where
  "DEX = INCDECI reg_x reg_x_update (\<lambda>r. r - 1)"

definition DEY :: "cpu \<Rightarrow> cpu" where
  "DEY = INCDECI reg_y reg_y_update (\<lambda>r. r - 1)"

definition INX :: "cpu \<Rightarrow> cpu" where
  "INX = INCDECI reg_x reg_x_update (\<lambda>r. r + 1)"

definition INY :: "cpu \<Rightarrow> cpu" where
  "INY = INCDECI reg_y reg_y_update (\<lambda>r. r + 1)"

section \<open>Index loads and stores\<close>

definition LDI :: "load_func \<Rightarrow> reg_get \<Rightarrow> reg_upd \<Rightarrow> cpu \<Rightarrow> cpu" where
  "LDI load_func reg_r reg_r_update s =
     (if LOCAL_65816_X s then
        let (value, s) = load_func True s;
            s = reg_r_update (\<lambda>_. ucast value) s
        in LOCAL_SET_NZ (ucast (reg_r s)) True s
      else
        let (value, s) = load_func False s;
            s = reg_r_update (\<lambda>_. ucast value) s
        in LOCAL_SET_NZ (ucast (reg_r s)) False s)"

definition LDX :: "load_func \<Rightarrow> cpu \<Rightarrow> cpu" where
  "LDX load_func = LDI load_func reg_x reg_x_update"

definition LDY :: "load_func \<Rightarrow> cpu \<Rightarrow> cpu" where
  "LDY load_func = LDI load_func reg_y reg_y_update"

definition STA :: "store_func \<Rightarrow> cpu \<Rightarrow> cpu" where
  "STA store_func s = store_func (ucast (reg_c s)) (LOCAL_65816_M s) s"

definition STX :: "store_func \<Rightarrow> cpu \<Rightarrow> cpu" where
  "STX store_func s = store_func (ucast (reg_x s)) (LOCAL_65816_X s) s"

definition STY :: "store_func \<Rightarrow> cpu \<Rightarrow> cpu" where
  "STY store_func s = store_func (ucast (reg_y s)) (LOCAL_65816_X s) s"

definition STZ :: "store_func \<Rightarrow> cpu \<Rightarrow> cpu" where
  "STZ store_func s = store_func 0 (LOCAL_65816_M s) s"

section \<open>Transfers\<close>

definition TRANSI :: "reg_get \<Rightarrow> reg_get \<Rightarrow> reg_upd \<Rightarrow> cpu \<Rightarrow> cpu" where
  "TRANSI reg_s reg_r reg_r_update s =
     (let s = INC_PC 1 s;
          s = reg_r_update (\<lambda>_. reg_s s) s
      in if LOCAL_65816_X s then
           let s = reg_r_update (\<lambda>r. r AND 0xFF) s
           in LOCAL_SET_NZ (ucast (reg_r s)) True s
         else LOCAL_SET_NZ (ucast (reg_r s)) False s)"

definition TAX :: "cpu \<Rightarrow> cpu" where
  "TAX = TRANSI reg_c reg_x reg_x_update"

definition TAY :: "cpu \<Rightarrow> cpu" where
  "TAY = TRANSI reg_c reg_y reg_y_update"

definition TSX :: "cpu \<Rightarrow> cpu" where
  "TSX = TRANSI reg_sp reg_x reg_x_update"

definition TCD :: "cpu \<Rightarrow> cpu" where
  "TCD s =
     (let s = INC_PC 1 s;
          s = s\<lparr>reg_dpr := reg_c s\<rparr>
      in LOCAL_SET_NZ (ucast (reg_dpr s)) False s)"

definition TCS :: "cpu \<Rightarrow> cpu" where
  "TCS s =
     (let s = INC_PC 1 s
      in if reg_emul s \<noteq> 0 then s\<lparr>reg_sp := 0x100 OR ucast (reg_a s)\<rparr>
         else s\<lparr>reg_sp := reg_c s\<rparr>)"

definition TDC :: "cpu \<Rightarrow> cpu" where
  "TDC s =
     (let s = INC_PC 1 s;
          s = s\<lparr>reg_c := reg_dpr s\<rparr>
      in LOCAL_SET_NZ (ucast (reg_c s)) False s)"

definition TSC :: "cpu \<Rightarrow> cpu" where
  "TSC s =
     (let s = INC_PC 1 s;
          s = s\<lparr>reg_c := reg_sp s\<rparr>
      in LOCAL_SET_NZ (ucast (reg_c s)) False s)"

definition TRANSA :: "reg_get \<Rightarrow> cpu \<Rightarrow> cpu" where
  "TRANSA reg_r s =
     (let s = INC_PC 1 s
      in if LOCAL_65816_M s then
           let s = set_reg_a (ucast (reg_r s)) s
           in LOCAL_SET_NZ (ucast (reg_a s)) True s
         else
           let s = s\<lparr>reg_c := reg_r s\<rparr>
           in LOCAL_SET_NZ (ucast (reg_c s)) False s)"

definition TXA :: "cpu \<Rightarrow> cpu" where
  "TXA = TRANSA reg_x"

definition TYA :: "cpu \<Rightarrow> cpu" where
  "TYA = TRANSA reg_y"

definition TXS :: "cpu \<Rightarrow> cpu" where
  "TXS s =
     (let s = INC_PC 1 s
      in if reg_emul s \<noteq> 0 then s\<lparr>reg_sp := 0x100 OR reg_x s\<rparr>
         else s\<lparr>reg_sp := reg_x s\<rparr>)"

definition TXY :: "cpu \<Rightarrow> cpu" where
  "TXY s =
     (let s = INC_PC 1 s;
          s = s\<lparr>reg_y := reg_x s\<rparr>
      in LOCAL_SET_NZ (ucast (reg_y s)) (LOCAL_65816_X s) s)"

definition TYX :: "cpu \<Rightarrow> cpu" where
  "TYX s =
     (let s = INC_PC 1 s;
          s = s\<lparr>reg_x := reg_y s\<rparr>
      in LOCAL_SET_NZ (ucast (reg_x s)) (LOCAL_65816_X s) s)"

definition XBA :: "cpu \<Rightarrow> cpu" where
  "XBA s =
     (let s = INC_PC 1 s;
          tmp = reg_a s;
          s = set_reg_a (reg_b s) s
      in set_reg_b tmp s)"

section \<open>Flags and mode\<close>

definition CLC :: "cpu \<Rightarrow> cpu" where "CLC s = LOCAL_SET_CARRY False (INC_PC 1 s)"
definition CLD :: "cpu \<Rightarrow> cpu" where "CLD s = LOCAL_SET_DECIMAL False (INC_PC 1 s)"
definition CLI :: "cpu \<Rightarrow> cpu" where "CLI s = LOCAL_SET_INTERRUPT False (INC_PC 1 s)"
definition CLV :: "cpu \<Rightarrow> cpu" where "CLV s = LOCAL_SET_OVERFLOW False (INC_PC 1 s)"
definition SEC :: "cpu \<Rightarrow> cpu" where "SEC s = LOCAL_SET_CARRY True (INC_PC 1 s)"
definition SED :: "cpu \<Rightarrow> cpu" where "SED s = LOCAL_SET_DECIMAL True (INC_PC 1 s)"
definition SEI :: "cpu \<Rightarrow> cpu" where "SEI s = LOCAL_SET_INTERRUPT True (INC_PC 1 s)"
definition NOP :: "cpu \<Rightarrow> cpu" where "NOP s = INC_PC 1 s"
definition WDM :: "cpu \<Rightarrow> cpu" where "WDM s = INC_PC 1 (INC_PC 1 s)"

definition REPSEP :: "bool \<Rightarrow> cpu \<Rightarrow> cpu" where
  "REPSEP v s =
     (let s = INC_PC 1 s;
          value = FETCH_PARAM (reg_pc s) s;
          s = INC_PC 1 s;
          s = (if value AND 0x80 \<noteq> 0 then LOCAL_SET_SIGN v s else s);
          s = (if value AND 0x40 \<noteq> 0 then LOCAL_SET_OVERFLOW v s else s);
          s = (if value AND 0x20 \<noteq> 0 \<and> reg_emul s = 0 then LOCAL_SET_65816_M v s else s);
          s = (if value AND 0x10 \<noteq> 0 \<and> reg_emul s = 0 then
                 let s = LOCAL_SET_65816_X v s
                 in if v then s\<lparr>reg_x := reg_x s AND 0xFF, reg_y := reg_y s AND 0xFF\<rparr> else s
               else s);
          s = (if value AND 0x08 \<noteq> 0 then LOCAL_SET_DECIMAL v s else s);
          s = (if value AND 0x04 \<noteq> 0 then LOCAL_SET_INTERRUPT v s else s);
          s = (if value AND 0x02 \<noteq> 0 then LOCAL_SET_ZERO v s else s)
      in if value AND 0x01 \<noteq> 0 then LOCAL_SET_CARRY v s else s)"

definition REP :: "cpu \<Rightarrow> cpu" where "REP = REPSEP False"
definition SEP :: "cpu \<Rightarrow> cpu" where "SEP = REPSEP True"

definition XCE :: "cpu \<Rightarrow> cpu" where
  "XCE s =
     (let s = INC_PC 1 s
      in if LOCAL_CARRY s \<noteq> reg_emul s then
           if LOCAL_CARRY s \<noteq> 0 then
             let s = s\<lparr>reg_emul := 1\<rparr>;
                 s = LOCAL_SET_CARRY False s;
                 s = LOCAL_SET_BREAK False s
             in s\<lparr>reg_x := reg_x s AND 0xFF, reg_y := reg_y s AND 0xFF,
                  reg_sp := 0x100 OR (reg_sp s AND 0xFF)\<rparr>
           else
             let s = s\<lparr>reg_emul := 0\<rparr>;
                 s = LOCAL_SET_CARRY True s;
                 s = LOCAL_SET_65816_M True s
             in LOCAL_SET_65816_X True s
         else s)"

end
