(* ===== verification/Control.thy ===== *)
theory Control
  imports Alu
begin

text \<open>
  Branches, jumps, calls, returns, software interrupts, the stack instructions and the
  block moves of \<open>emulator/65816core.c\<close>.
\<close>

section \<open>Branches\<close>

definition BRANCH :: "(cpu \<Rightarrow> bool) \<Rightarrow> cpu \<Rightarrow> cpu" where
  "BRANCH cond s =
     (let s = INC_PC 1 s
      in if cond s then
           let p1 = FETCH_PARAM (reg_pc s) s;
               s = INC_PC 1 s;
               dest_addr = (reg_pc s + scast (ucast p1 :: u8)) AND 0xFFFF
           in s\<lparr>reg_pc := dest_addr\<rparr>
         else INC_PC 1 s)"

definition BRANCH_LONG :: "cpu \<Rightarrow> cpu" where
  "BRANCH_LONG s =
     (let s = INC_PC 1 s;
          p1 = FETCH_PARAM (reg_pc s) s;
          s = INC_PC 1 s;
          p2 = push_bit 8 (FETCH_PARAM (reg_pc s) s)
      in INC_PC (p1 + p2 + 1) s)"

section \<open>Software interrupts\<close>

definition BRK :: "cpu \<Rightarrow> cpu" where
  "BRK s =
     (let s = EXPORT_REGISTERS s;
          s = INC_PC 1 s;
          s = INC_PC 1 s;
          s = (if reg_emul s \<noteq> 0 then
                 let s = LOCAL_SET_BREAK True s;
                     s = PUSH (drop_bit 8 (reg_pc s)) s;
                     s = PUSH (reg_pc s) s;
                     s = PUSH (ucast (LOCAL_STATUS s)) s;
                     s = LOCAL_SET_DECIMAL False s;
                     s = LOCAL_SET_INTERRUPT True s
                 in LOAD_INT_ADDR 0xFFFE s
               else
                 let s = PUSH (ucast (reg_pbr s)) s;
                     s = PUSH (drop_bit 8 (reg_pc s)) s;
                     s = PUSH (reg_pc s) s;
                     s = PUSH (ucast (LOCAL_65816_STATUS s)) s;
                     s = LOCAL_SET_DECIMAL False s;
                     s = LOCAL_SET_INTERRUPT True s
                 in LOAD_INT_ADDR 0xFFE6 s)
      in s\<lparr>reg_pbr := 0\<rparr>)"

text \<open>The macro \<open>COP\<close> exists, but opcode 0x02 runs \<open>COP_02\<close>, whose \<open>ROM_TRAP_ALLOWED()\<close>
  is 0 and whose \<open>COP_65816\<close> is empty in this build (\<open>65816.c\<close>).\<close>

definition COP :: "cpu \<Rightarrow> cpu" where
  "COP s =
     (let s = EXPORT_REGISTERS s;
          s = INC_PC 1 s;
          s = INC_PC 1 s;
          s = (if reg_emul s \<noteq> 0 then
                 let s = LOCAL_SET_BREAK True s;
                     s = PUSH (drop_bit 8 (reg_pc s)) s;
                     s = PUSH (reg_pc s) s;
                     s = PUSH (ucast (LOCAL_STATUS s)) s;
                     s = LOCAL_SET_DECIMAL False s;
                     s = LOCAL_SET_INTERRUPT True s
                 in LOAD_INT_ADDR 0xFFF4 s
               else
                 let s = PUSH (ucast (reg_pbr s)) s;
                     s = PUSH (drop_bit 8 (reg_pc s)) s;
                     s = PUSH (reg_pc s) s;
                     s = PUSH (ucast (LOCAL_65816_STATUS s)) s;
                     s = LOCAL_SET_DECIMAL False s;
                     s = LOCAL_SET_INTERRUPT True s
                 in LOAD_INT_ADDR 0xFFE4 s)
      in s\<lparr>reg_pbr := 0\<rparr>)"

definition COP_02 :: "cpu \<Rightarrow> cpu" where
  "COP_02 s = EXPORT_REGISTERS s"

definition STP_65816 :: "cpu \<Rightarrow> cpu" where "STP_65816 s = s"
definition WAI_65816 :: "cpu \<Rightarrow> cpu" where "WAI_65816 s = s"

section \<open>Jumps and calls\<close>

definition JMP :: "cpu \<Rightarrow> cpu" where
  "JMP s =
     (let s = INC_PC 1 s;
          p1 = FETCH_PARAM (reg_pc s) s;
          s = INC_PC 1 s;
          p2 = push_bit 8 (FETCH_PARAM (reg_pc s) s)
      in s\<lparr>reg_pc := p1 + p2\<rparr>)"

definition JMP_IND :: "cpu \<Rightarrow> cpu" where
  "JMP_IND s =
     (let s = INC_PC 1 s;
          p1 = FETCH_PARAM (reg_pc s) s;
          s = INC_PC 1 s;
          p2 = push_bit 8 (FETCH_PARAM (reg_pc s) s);
          ea = p1 + p2;
          s = s\<lparr>reg_pc := LOAD_LONG ea s\<rparr>
      in s\<lparr>reg_pc := reg_pc s OR push_bit 8 (LOAD_BANK0 (ea + 1) s)\<rparr>)"

definition JMP_IND_LONG :: "cpu \<Rightarrow> cpu" where
  "JMP_IND_LONG s =
     (let s = INC_PC 1 s;
          p1 = FETCH_PARAM (reg_pc s) s;
          s = INC_PC 1 s;
          p2 = push_bit 8 (FETCH_PARAM (reg_pc s) s);
          ea = p1 + p2;
          s = s\<lparr>reg_pc := LOAD_LONG ea s\<rparr>;
          s = s\<lparr>reg_pc := reg_pc s OR push_bit 8 (LOAD_BANK0 (ea + 1) s)\<rparr>
      in s\<lparr>reg_pbr := ucast (LOAD_BANK0 (ea + 2) s)\<rparr>)"

definition JMP_IND_X :: "cpu \<Rightarrow> cpu" where
  "JMP_IND_X s =
     (let s = INC_PC 1 s;
          p1 = FETCH_PARAM (reg_pc s) s;
          s = INC_PC 1 s;
          p2 = push_bit 8 (FETCH_PARAM (reg_pc s) s);
          ea = (p1 + p2 + ucast (reg_x s)) AND 0xFFFF;
          s = s\<lparr>reg_pc := FETCH_PARAM ea s\<rparr>
      in s\<lparr>reg_pc := reg_pc s OR push_bit 8 (FETCH_PARAM ((ea + 1) AND 0xFFFF) s)\<rparr>)"

definition JMP_LONG :: "cpu \<Rightarrow> cpu" where
  "JMP_LONG s =
     (let s = INC_PC 1 s;
          p1 = FETCH_PARAM (reg_pc s) s;
          s = INC_PC 1 s;
          p2 = push_bit 8 (FETCH_PARAM (reg_pc s) s);
          s = INC_PC 1 s;
          s = s\<lparr>reg_pbr := ucast (FETCH_PARAM (reg_pc s) s)\<rparr>
      in s\<lparr>reg_pc := p1 + p2\<rparr>)"

definition JSR :: "cpu \<Rightarrow> cpu" where
  "JSR s =
     (let s = INC_PC 1 s;
          p1 = FETCH_PARAM (reg_pc s) s;
          s = INC_PC 1 s;
          p2 = push_bit 8 (FETCH_PARAM (reg_pc s) s);
          s = PUSH (drop_bit 8 (reg_pc s)) s;
          s = PUSH (reg_pc s) s
      in s\<lparr>reg_pc := p1 + p2\<rparr>)"

text \<open>\<open>STORE_LONG(reg_sp, v); reg_sp--\<close>: the stores of the 65816's own instructions do not
  wrap the stack pointer into page one before their last byte.\<close>

definition PUSH_nowrap :: "u32 \<Rightarrow> cpu \<Rightarrow> cpu" where
  "PUSH_nowrap v s = (let s = STORE_LONG (ucast (reg_sp s)) v s in s\<lparr>reg_sp := reg_sp s - 1\<rparr>)"

definition JSR_IND_X :: "cpu \<Rightarrow> cpu" where
  "JSR_IND_X s =
     (let s = INC_PC 1 s;
          p1 = FETCH_PARAM (reg_pc s) s;
          s = INC_PC 1 s;
          s = PUSH_nowrap (drop_bit 8 (reg_pc s)) s;
          s = PUSH (reg_pc s) s;
          p2 = push_bit 8 (FETCH_PARAM (reg_pc s) s);
          ea = (p1 + p2 + ucast (reg_x s)) AND 0xFFFF;
          s = s\<lparr>reg_pc := FETCH_PARAM ea s\<rparr>
      in s\<lparr>reg_pc := reg_pc s OR push_bit 8 (FETCH_PARAM ((ea + 1) AND 0xFFFF) s)\<rparr>)"

definition JSR_LONG :: "cpu \<Rightarrow> cpu" where
  "JSR_LONG s =
     (let s = INC_PC 1 s;
          p1 = FETCH_PARAM (reg_pc s) s;
          s = INC_PC 1 s;
          p2 = push_bit 8 (FETCH_PARAM (reg_pc s) s);
          s = INC_PC 1 s;
          s = PUSH_nowrap (ucast (reg_pbr s)) s;
          s = s\<lparr>reg_pbr := ucast (FETCH_PARAM (reg_pc s) s)\<rparr>;
          s = PUSH_nowrap (drop_bit 8 (reg_pc s)) s;
          s = PUSH (reg_pc s) s
      in s\<lparr>reg_pc := p1 + p2\<rparr>)"

section \<open>Returns\<close>

definition RTI :: "cpu \<Rightarrow> cpu" where
  "RTI s =
     (let s = INC_PC 1 s;
          (tmp, s) = PULL s;
          s = LOCAL_SET_STATUS tmp s;
          s = (if LOCAL_65816_X s then s\<lparr>reg_x := reg_x s AND 0xFF, reg_y := reg_y s AND 0xFF\<rparr>
               else s)
      in if reg_emul s \<noteq> 0 then
           let (l, s) = PULL s;
               (h, s) = PULL s
           in s\<lparr>reg_pc := l OR push_bit 8 h\<rparr>
         else
           let (l, s) = PULL s;
               (h, s) = PULL s;
               s = s\<lparr>reg_pc := l OR push_bit 8 h\<rparr>;
               (b, s) = PULL s
           in s\<lparr>reg_pbr := ucast b\<rparr>)"

text \<open>\<open>reg_sp++; ... LOAD_LONG(reg_sp)\<close>, without the wrap of \<open>PULL\<close>.\<close>

definition PULL_nowrap :: "cpu \<Rightarrow> u32 \<times> cpu" where
  "PULL_nowrap s =
     (let s = s\<lparr>reg_sp := reg_sp s + 1\<rparr> in (LOAD_LONG (ucast (reg_sp s)) s, s))"

definition RTL :: "cpu \<Rightarrow> cpu" where
  "RTL s =
     (let s = INC_PC 1 s;
          (l, s) = PULL_nowrap s;
          (h, s) = PULL_nowrap s;
          s = s\<lparr>reg_pc := l OR push_bit 8 h\<rparr>;
          (b, s) = PULL_nowrap s;
          s = s\<lparr>reg_pbr := ucast b\<rparr>;
          s = (if reg_emul s \<noteq> 0 then s\<lparr>reg_sp := (reg_sp s AND 0xFF) OR 0x100\<rparr> else s)
      in INC_PC 1 s)"

definition RTS :: "cpu \<Rightarrow> cpu" where
  "RTS s =
     (let s = INC_PC 1 s;
          (l, s) = PULL s;
          (h, s) = PULL s;
          s = s\<lparr>reg_pc := l OR push_bit 8 h\<rparr>
      in INC_PC 1 s)"

section \<open>Stack instructions\<close>

definition PEA :: "cpu \<Rightarrow> cpu" where
  "PEA s =
     (let s = INC_PC 1 s;
          p1 = FETCH_PARAM (reg_pc s) s;
          s = INC_PC 1 s;
          p2 = push_bit 8 (FETCH_PARAM (reg_pc s) s);
          s = INC_PC 1 s;
          s = PUSH_nowrap (drop_bit 8 p2) s
      in PUSH p1 s)"

definition PEI :: "cpu \<Rightarrow> cpu" where
  "PEI s =
     (let s = INC_PC 1 s;
          p1 = FETCH_PARAM (reg_pc s) s;
          s = INC_PC 1 s;
          ea = p1 + ucast (reg_dpr s);
          value = LOAD_BANK0 ea s;
          value = value OR push_bit 8 (LOAD_BANK0 (ea + 1) s);
          s = PUSH_nowrap (drop_bit 8 value) s
      in PUSH value s)"

definition PER :: "cpu \<Rightarrow> cpu" where
  "PER s =
     (let s = INC_PC 1 s;
          p1 = FETCH_PARAM (reg_pc s) s;
          s = INC_PC 1 s;
          p2 = push_bit 8 (FETCH_PARAM (reg_pc s) s);
          s = INC_PC 1 s;
          dest_addr = reg_pc s + p1 + p2;
          s = PUSH_nowrap (drop_bit 8 dest_addr) s
      in PUSH dest_addr s)"

definition PHA :: "store_func \<Rightarrow> cpu \<Rightarrow> cpu" where
  "PHA store_func s =
     (if LOCAL_65816_M s then store_func (ucast (reg_a s)) True s
      else store_func (ucast (reg_c s)) False s)"

definition PHB :: "store_func \<Rightarrow> cpu \<Rightarrow> cpu" where
  "PHB store_func s = store_func (ucast (reg_dbr s)) True s"

definition PHD :: "cpu \<Rightarrow> cpu" where
  "PHD s =
     (let s = INC_PC 1 s;
          s = PUSH_nowrap (ucast (drop_bit 8 (reg_dpr s))) s
      in PUSH (ucast (reg_dpr s)) s)"

definition PHK :: "store_func \<Rightarrow> cpu \<Rightarrow> cpu" where
  "PHK store_func s = store_func (ucast (reg_pbr s)) True s"

definition PHP :: "store_func \<Rightarrow> cpu \<Rightarrow> cpu" where
  "PHP store_func s =
     (if reg_emul s \<noteq> 0 then store_func (ucast (LOCAL_STATUS s OR P_BREAK)) True s
      else store_func (ucast (LOCAL_65816_STATUS s)) True s)"

definition PHX :: "store_func \<Rightarrow> cpu \<Rightarrow> cpu" where
  "PHX store_func s = store_func (ucast (reg_x s)) (LOCAL_65816_X s) s"

definition PHY :: "store_func \<Rightarrow> cpu \<Rightarrow> cpu" where
  "PHY store_func s = store_func (ucast (reg_y s)) (LOCAL_65816_X s) s"

definition PLA :: "load_func \<Rightarrow> cpu \<Rightarrow> cpu" where
  "PLA load_func s =
     (if LOCAL_65816_M s then
        let (v, s) = load_func True s;
            s = set_reg_a (ucast v) s
        in LOCAL_SET_NZ (ucast (reg_a s)) True s
      else
        let (v, s) = load_func False s;
            s = s\<lparr>reg_c := ucast v\<rparr>
        in LOCAL_SET_NZ (ucast (reg_c s)) False s)"

definition PLB :: "load_func \<Rightarrow> cpu \<Rightarrow> cpu" where
  "PLB load_func s =
     (let (v, s) = load_func True s;
          s = s\<lparr>reg_dbr := ucast v\<rparr>
      in LOCAL_SET_NZ (ucast (reg_dbr s)) True s)"

definition PLD :: "cpu \<Rightarrow> cpu" where
  "PLD s =
     (let s = INC_PC 1 s;
          (l, s) = PULL_nowrap s;
          (h, s) = PULL_nowrap s;
          s = s\<lparr>reg_dpr := ucast (l OR push_bit 8 h)\<rparr>;
          s = (if reg_emul s \<noteq> 0 then s\<lparr>reg_sp := (reg_sp s AND 0xFF) OR 0x100\<rparr> else s)
      in LOCAL_SET_NZ (ucast (reg_dpr s)) False s)"

definition PLP :: "load_func \<Rightarrow> cpu \<Rightarrow> cpu" where
  "PLP load_func s0 =
     (let (v, s) = load_func True s0;
          s = LOCAL_SET_STATUS v s
      in if LOCAL_65816_X s then s\<lparr>reg_x := reg_x s AND 0xFF, reg_y := reg_y s AND 0xFF\<rparr> else s)"

definition PLI :: "load_func \<Rightarrow> reg_get \<Rightarrow> reg_upd \<Rightarrow> cpu \<Rightarrow> cpu" where
  "PLI load_func reg_r reg_r_update s =
     (if LOCAL_65816_X s then
        let (v, s) = load_func True s;
            s = reg_r_update (\<lambda>_. ucast v) s
        in LOCAL_SET_NZ (ucast (reg_r s)) True s
      else
        let (v, s) = load_func False s;
            s = reg_r_update (\<lambda>_. ucast v) s
        in LOCAL_SET_NZ (ucast (reg_r s)) False s)"

definition PLX :: "load_func \<Rightarrow> cpu \<Rightarrow> cpu" where
  "PLX load_func = PLI load_func reg_x reg_x_update"

definition PLY :: "load_func \<Rightarrow> cpu \<Rightarrow> cpu" where
  "PLY load_func = PLI load_func reg_y reg_y_update"

section \<open>Block moves\<close>

definition MOVE :: "(u16 \<Rightarrow> u16) \<Rightarrow> cpu \<Rightarrow> cpu" where
  "MOVE logic s =
     (let (p1, s) =
            (if reg_c s = 0 then
               let s = INC_PC 1 s;
                   p1 = FETCH_PARAM (reg_pc s) s;
                   s = INC_PC 1 s;
                   s = s\<lparr>reg_dbr := ucast (FETCH_PARAM (reg_pc s) s)\<rparr>
               in (p1, INC_PC 1 s)
             else
               (FETCH_PARAM (reg_pc s + 1) s,
                s\<lparr>reg_dbr := ucast (FETCH_PARAM (reg_pc s + 2) s)\<rparr>));
          tmp = LOAD_LONG (ucast (reg_x s) + dbr16 s) s;
          s = s\<lparr>reg_dbr := ucast p1\<rparr>;
          s = STORE_LONG (ucast (reg_y s) + dbr16 s) tmp s;
          s = s\<lparr>reg_x := logic (reg_x s), reg_y := logic (reg_y s)\<rparr>;
          s = (if LOCAL_65816_X s then s\<lparr>reg_x := reg_x s AND 0xFF, reg_y := reg_y s AND 0xFF\<rparr>
               else s)
      in s\<lparr>reg_c := reg_c s - 1\<rparr>)"

definition MVN :: "cpu \<Rightarrow> cpu" where "MVN = MOVE (\<lambda>r. r + 1)"
definition MVP :: "cpu \<Rightarrow> cpu" where "MVP = MOVE (\<lambda>r. r - 1)"

end
