(* ===== verification/Decode.thy ===== *)
theory Decode
  imports Control
begin

text \<open>
  The opcode switch of \<open>emulator/65816core.c\<close>, in eight parts of 32 opcodes, the
  instruction fetch before it, and the functions of \<open>emulator/65816.c\<close> around it.
\<close>

section \<open>The opcode switch\<close>

definition dispatch_00 :: "u32 \<Rightarrow> cpu \<Rightarrow> cpu" where
  "dispatch_00 p0 s =
     (if p0 = 0x00 then BRK s
      else if p0 = 0x01 then ORA LOAD_INDIRECT_X_FUNC s
      else if p0 = 0x02 then COP_02 s
      else if p0 = 0x03 then ORA LOAD_STACK_REL_FUNC s
      else if p0 = 0x04 then TSB LOAD_DIRECT_PAGE_FUNC_RRW STORE_DIRECT_PAGE_RRW s
      else if p0 = 0x05 then ORA LOAD_DIRECT_PAGE_FUNC s
      else if p0 = 0x06 then ASL LOAD_DIRECT_PAGE_FUNC_RRW STORE_DIRECT_PAGE_RRW s
      else if p0 = 0x07 then ORA LOAD_INDIRECT_LONG_FUNC s
      else if p0 = 0x08 then PHP STORE_STACK s
      else if p0 = 0x09 then ORA LOAD_IMMEDIATE_FUNC s
      else if p0 = 0x0A then ASL LOAD_ACCU_RRW STORE_ACCU_RRW s
      else if p0 = 0x0B then PHD s
      else if p0 = 0x0C then TSB LOAD_ABS_FUNC_RRW STORE_ABS_RRW s
      else if p0 = 0x0D then ORA LOAD_ABS_FUNC s
      else if p0 = 0x0E then ASL LOAD_ABS_FUNC_RRW STORE_ABS_RRW s
      else if p0 = 0x0F then ORA LOAD_ABS_LONG_FUNC s
      else if p0 = 0x10 then BRANCH (\<lambda>s. LOCAL_SIGN s = 0) s
      else if p0 = 0x11 then ORA LOAD_INDIRECT_Y_FUNC s
      else if p0 = 0x12 then ORA LOAD_INDIRECT_FUNC s
      else if p0 = 0x13 then ORA LOAD_STACK_REL_Y_FUNC s
      else if p0 = 0x14 then TRB LOAD_DIRECT_PAGE_FUNC_RRW STORE_DIRECT_PAGE_RRW s
      else if p0 = 0x15 then ORA LOAD_DIRECT_PAGE_X_FUNC s
      else if p0 = 0x16 then ASL LOAD_DIRECT_PAGE_X_FUNC_RRW STORE_DIRECT_PAGE_X_RRW s
      else if p0 = 0x17 then ORA LOAD_INDIRECT_LONG_Y_FUNC s
      else if p0 = 0x18 then CLC s
      else if p0 = 0x19 then ORA LOAD_ABS_Y_FUNC s
      else if p0 = 0x1A then INC LOAD_ACCU_RRW STORE_ACCU_RRW s
      else if p0 = 0x1B then TCS s
      else if p0 = 0x1C then TRB LOAD_ABS_FUNC_RRW STORE_ABS_RRW s
      else if p0 = 0x1D then ORA LOAD_ABS_X_FUNC s
      else if p0 = 0x1E then ASL LOAD_ABS_X_FUNC_RRW STORE_ABS_X_RRW s
      else if p0 = 0x1F then ORA LOAD_ABS_LONG_X_FUNC s
      else s)"

definition dispatch_20 :: "u32 \<Rightarrow> cpu \<Rightarrow> cpu" where
  "dispatch_20 p0 s =
     (if p0 = 0x20 then JSR s
      else if p0 = 0x21 then AND_op LOAD_INDIRECT_X_FUNC s
      else if p0 = 0x22 then JSR_LONG s
      else if p0 = 0x23 then AND_op LOAD_STACK_REL_FUNC s
      else if p0 = 0x24 then BIT LOAD_DIRECT_PAGE_FUNC s
      else if p0 = 0x25 then AND_op LOAD_DIRECT_PAGE_FUNC s
      else if p0 = 0x26 then ROL LOAD_DIRECT_PAGE_FUNC_RRW STORE_DIRECT_PAGE_RRW s
      else if p0 = 0x27 then AND_op LOAD_INDIRECT_LONG_FUNC s
      else if p0 = 0x28 then PLP LOAD_STACK s
      else if p0 = 0x29 then AND_op LOAD_IMMEDIATE_FUNC s
      else if p0 = 0x2A then ROL LOAD_ACCU_RRW STORE_ACCU_RRW s
      else if p0 = 0x2B then PLD s
      else if p0 = 0x2C then BIT LOAD_ABS_FUNC s
      else if p0 = 0x2D then AND_op LOAD_ABS_FUNC s
      else if p0 = 0x2E then ROL LOAD_ABS_FUNC_RRW STORE_ABS_RRW s
      else if p0 = 0x2F then AND_op LOAD_ABS_LONG_FUNC s
      else if p0 = 0x30 then BRANCH (\<lambda>s. LOCAL_SIGN s \<noteq> 0) s
      else if p0 = 0x31 then AND_op LOAD_INDIRECT_Y_FUNC s
      else if p0 = 0x32 then AND_op LOAD_INDIRECT_FUNC s
      else if p0 = 0x33 then AND_op LOAD_STACK_REL_Y_FUNC s
      else if p0 = 0x34 then BIT LOAD_DIRECT_PAGE_X_FUNC s
      else if p0 = 0x35 then AND_op LOAD_DIRECT_PAGE_X_FUNC s
      else if p0 = 0x36 then ROL LOAD_DIRECT_PAGE_X_FUNC_RRW STORE_DIRECT_PAGE_X_RRW s
      else if p0 = 0x37 then AND_op LOAD_INDIRECT_LONG_Y_FUNC s
      else if p0 = 0x38 then SEC s
      else if p0 = 0x39 then AND_op LOAD_ABS_Y_FUNC s
      else if p0 = 0x3A then DEC LOAD_ACCU_RRW STORE_ACCU_RRW s
      else if p0 = 0x3B then TSC s
      else if p0 = 0x3C then BIT LOAD_ABS_X_FUNC s
      else if p0 = 0x3D then AND_op LOAD_ABS_X_FUNC s
      else if p0 = 0x3E then ROL LOAD_ABS_X_FUNC_RRW STORE_ABS_X_RRW s
      else if p0 = 0x3F then AND_op LOAD_ABS_LONG_X_FUNC s
      else s)"

definition dispatch_40 :: "u32 \<Rightarrow> cpu \<Rightarrow> cpu" where
  "dispatch_40 p0 s =
     (if p0 = 0x40 then RTI s
      else if p0 = 0x41 then EOR LOAD_INDIRECT_X_FUNC s
      else if p0 = 0x42 then WDM s
      else if p0 = 0x43 then EOR LOAD_STACK_REL_FUNC s
      else if p0 = 0x44 then MVP s
      else if p0 = 0x45 then EOR LOAD_DIRECT_PAGE_FUNC s
      else if p0 = 0x46 then LSR LOAD_DIRECT_PAGE_FUNC_RRW STORE_DIRECT_PAGE_RRW s
      else if p0 = 0x47 then EOR LOAD_INDIRECT_LONG_FUNC s
      else if p0 = 0x48 then PHA STORE_STACK s
      else if p0 = 0x49 then EOR LOAD_IMMEDIATE_FUNC s
      else if p0 = 0x4A then LSR LOAD_ACCU_RRW STORE_ACCU_RRW s
      else if p0 = 0x4B then PHK STORE_STACK s
      else if p0 = 0x4C then JMP s
      else if p0 = 0x4D then EOR LOAD_ABS_FUNC s
      else if p0 = 0x4E then LSR LOAD_ABS_FUNC_RRW STORE_ABS_RRW s
      else if p0 = 0x4F then EOR LOAD_ABS_LONG_FUNC s
      else if p0 = 0x50 then BRANCH (\<lambda>s. LOCAL_OVERFLOW s = 0) s
      else if p0 = 0x51 then EOR LOAD_INDIRECT_Y_FUNC s
      else if p0 = 0x52 then EOR LOAD_INDIRECT_FUNC s
      else if p0 = 0x53 then EOR LOAD_STACK_REL_Y_FUNC s
      else if p0 = 0x54 then MVN s
      else if p0 = 0x55 then EOR LOAD_DIRECT_PAGE_X_FUNC s
      else if p0 = 0x56 then LSR LOAD_DIRECT_PAGE_X_FUNC_RRW STORE_DIRECT_PAGE_X_RRW s
      else if p0 = 0x57 then EOR LOAD_INDIRECT_LONG_Y_FUNC s
      else if p0 = 0x58 then CLI s
      else if p0 = 0x59 then EOR LOAD_ABS_Y_FUNC s
      else if p0 = 0x5A then PHY STORE_STACK s
      else if p0 = 0x5B then TCD s
      else if p0 = 0x5C then JMP_LONG s
      else if p0 = 0x5D then EOR LOAD_ABS_X_FUNC s
      else if p0 = 0x5E then LSR LOAD_ABS_X_FUNC_RRW STORE_ABS_X_RRW s
      else if p0 = 0x5F then EOR LOAD_ABS_LONG_X_FUNC s
      else s)"

definition dispatch_60 :: "u32 \<Rightarrow> cpu \<Rightarrow> cpu" where
  "dispatch_60 p0 s =
     (if p0 = 0x60 then RTS s
      else if p0 = 0x61 then ADC LOAD_INDIRECT_X_FUNC s
      else if p0 = 0x62 then PER s
      else if p0 = 0x63 then ADC LOAD_STACK_REL_FUNC s
      else if p0 = 0x64 then STZ STORE_DIRECT_PAGE s
      else if p0 = 0x65 then ADC LOAD_DIRECT_PAGE_FUNC s
      else if p0 = 0x66 then ROR LOAD_DIRECT_PAGE_FUNC_RRW STORE_DIRECT_PAGE_RRW s
      else if p0 = 0x67 then ADC LOAD_INDIRECT_LONG_FUNC s
      else if p0 = 0x68 then PLA LOAD_STACK s
      else if p0 = 0x69 then ADC LOAD_IMMEDIATE_FUNC s
      else if p0 = 0x6A then ROR LOAD_ACCU_RRW STORE_ACCU_RRW s
      else if p0 = 0x6B then RTL s
      else if p0 = 0x6C then JMP_IND s
      else if p0 = 0x6D then ADC LOAD_ABS_FUNC s
      else if p0 = 0x6E then ROR LOAD_ABS_FUNC_RRW STORE_ABS_RRW s
      else if p0 = 0x6F then ADC LOAD_ABS_LONG_FUNC s
      else if p0 = 0x70 then BRANCH (\<lambda>s. LOCAL_OVERFLOW s \<noteq> 0) s
      else if p0 = 0x71 then ADC LOAD_INDIRECT_Y_FUNC s
      else if p0 = 0x72 then ADC LOAD_INDIRECT_FUNC s
      else if p0 = 0x73 then ADC LOAD_STACK_REL_Y_FUNC s
      else if p0 = 0x74 then STZ STORE_DIRECT_PAGE_X s
      else if p0 = 0x75 then ADC LOAD_DIRECT_PAGE_X_FUNC s
      else if p0 = 0x76 then ROR LOAD_DIRECT_PAGE_X_FUNC_RRW STORE_DIRECT_PAGE_X_RRW s
      else if p0 = 0x77 then ADC LOAD_INDIRECT_LONG_Y_FUNC s
      else if p0 = 0x78 then SEI s
      else if p0 = 0x79 then ADC LOAD_ABS_Y_FUNC s
      else if p0 = 0x7A then PLY LOAD_STACK s
      else if p0 = 0x7B then TDC s
      else if p0 = 0x7C then JMP_IND_X s
      else if p0 = 0x7D then ADC LOAD_ABS_X_FUNC s
      else if p0 = 0x7E then ROR LOAD_ABS_X_FUNC_RRW STORE_ABS_X_RRW s
      else if p0 = 0x7F then ADC LOAD_ABS_LONG_X_FUNC s
      else s)"

definition dispatch_80 :: "u32 \<Rightarrow> cpu \<Rightarrow> cpu" where
  "dispatch_80 p0 s =
     (if p0 = 0x80 then BRANCH (\<lambda>s. True) s
      else if p0 = 0x81 then STA STORE_INDIRECT_X s
      else if p0 = 0x82 then BRANCH_LONG s
      else if p0 = 0x83 then STA STORE_STACK_REL s
      else if p0 = 0x84 then STY STORE_DIRECT_PAGE s
      else if p0 = 0x85 then STA STORE_DIRECT_PAGE s
      else if p0 = 0x86 then STX STORE_DIRECT_PAGE s
      else if p0 = 0x87 then STA STORE_INDIRECT_LONG s
      else if p0 = 0x88 then DEY s
      else if p0 = 0x89 then BIT_IMM LOAD_IMMEDIATE_FUNC s
      else if p0 = 0x8A then TXA s
      else if p0 = 0x8B then PHB STORE_STACK s
      else if p0 = 0x8C then STY STORE_ABS s
      else if p0 = 0x8D then STA STORE_ABS s
      else if p0 = 0x8E then STX STORE_ABS s
      else if p0 = 0x8F then STA STORE_ABS_LONG s
      else if p0 = 0x90 then BRANCH (\<lambda>s. LOCAL_CARRY s = 0) s
      else if p0 = 0x91 then STA STORE_INDIRECT_Y s
      else if p0 = 0x92 then STA STORE_INDIRECT s
      else if p0 = 0x93 then STA STORE_STACK_REL_Y s
      else if p0 = 0x94 then STY STORE_DIRECT_PAGE_X s
      else if p0 = 0x95 then STA STORE_DIRECT_PAGE_X s
      else if p0 = 0x96 then STX STORE_DIRECT_PAGE_Y s
      else if p0 = 0x97 then STA STORE_INDIRECT_LONG_Y s
      else if p0 = 0x98 then TYA s
      else if p0 = 0x99 then STA STORE_ABS_Y s
      else if p0 = 0x9A then TXS s
      else if p0 = 0x9B then TXY s
      else if p0 = 0x9C then STZ STORE_ABS s
      else if p0 = 0x9D then STA STORE_ABS_X s
      else if p0 = 0x9E then STZ STORE_ABS_X s
      else if p0 = 0x9F then STA STORE_ABS_LONG_X s
      else s)"

definition dispatch_A0 :: "u32 \<Rightarrow> cpu \<Rightarrow> cpu" where
  "dispatch_A0 p0 s =
     (if p0 = 0xA0 then LDY LOAD_IMMEDIATE_FUNC s
      else if p0 = 0xA1 then LDA LOAD_INDIRECT_X_FUNC s
      else if p0 = 0xA2 then LDX LOAD_IMMEDIATE_FUNC s
      else if p0 = 0xA3 then LDA LOAD_STACK_REL_FUNC s
      else if p0 = 0xA4 then LDY LOAD_DIRECT_PAGE_FUNC s
      else if p0 = 0xA5 then LDA LOAD_DIRECT_PAGE_FUNC s
      else if p0 = 0xA6 then LDX LOAD_DIRECT_PAGE_FUNC s
      else if p0 = 0xA7 then LDA LOAD_INDIRECT_LONG_FUNC s
      else if p0 = 0xA8 then TAY s
      else if p0 = 0xA9 then LDA LOAD_IMMEDIATE_FUNC s
      else if p0 = 0xAA then TAX s
      else if p0 = 0xAB then PLB LOAD_STACK s
      else if p0 = 0xAC then LDY LOAD_ABS_FUNC s
      else if p0 = 0xAD then LDA LOAD_ABS_FUNC s
      else if p0 = 0xAE then LDX LOAD_ABS_FUNC s
      else if p0 = 0xAF then LDA LOAD_ABS_LONG_FUNC s
      else if p0 = 0xB0 then BRANCH (\<lambda>s. LOCAL_CARRY s \<noteq> 0) s
      else if p0 = 0xB1 then LDA LOAD_INDIRECT_Y_FUNC s
      else if p0 = 0xB2 then LDA LOAD_INDIRECT_FUNC s
      else if p0 = 0xB3 then LDA LOAD_STACK_REL_Y_FUNC s
      else if p0 = 0xB4 then LDY LOAD_DIRECT_PAGE_X_FUNC s
      else if p0 = 0xB5 then LDA LOAD_DIRECT_PAGE_X_FUNC s
      else if p0 = 0xB6 then LDX LOAD_DIRECT_PAGE_Y_FUNC s
      else if p0 = 0xB7 then LDA LOAD_INDIRECT_LONG_Y_FUNC s
      else if p0 = 0xB8 then CLV s
      else if p0 = 0xB9 then LDA LOAD_ABS_Y_FUNC s
      else if p0 = 0xBA then TSX s
      else if p0 = 0xBB then TYX s
      else if p0 = 0xBC then LDY LOAD_ABS_X_FUNC s
      else if p0 = 0xBD then LDA LOAD_ABS_X_FUNC s
      else if p0 = 0xBE then LDX LOAD_ABS_Y_FUNC s
      else if p0 = 0xBF then LDA LOAD_ABS_LONG_X_FUNC s
      else s)"

definition dispatch_C0 :: "u32 \<Rightarrow> cpu \<Rightarrow> cpu" where
  "dispatch_C0 p0 s =
     (if p0 = 0xC0 then CPY LOAD_IMMEDIATE_FUNC s
      else if p0 = 0xC1 then CMP LOAD_INDIRECT_X_FUNC s
      else if p0 = 0xC2 then REP s
      else if p0 = 0xC3 then CMP LOAD_STACK_REL_FUNC s
      else if p0 = 0xC4 then CPY LOAD_DIRECT_PAGE_FUNC s
      else if p0 = 0xC5 then CMP LOAD_DIRECT_PAGE_FUNC s
      else if p0 = 0xC6 then DEC LOAD_DIRECT_PAGE_FUNC_RRW STORE_DIRECT_PAGE_RRW s
      else if p0 = 0xC7 then CMP LOAD_INDIRECT_LONG_FUNC s
      else if p0 = 0xC8 then INY s
      else if p0 = 0xC9 then CMP LOAD_IMMEDIATE_FUNC s
      else if p0 = 0xCA then DEX s
      else if p0 = 0xCB then WAI_65816 s
      else if p0 = 0xCC then CPY LOAD_ABS_FUNC s
      else if p0 = 0xCD then CMP LOAD_ABS_FUNC s
      else if p0 = 0xCE then DEC LOAD_ABS_FUNC_RRW STORE_ABS_RRW s
      else if p0 = 0xCF then CMP LOAD_ABS_LONG_FUNC s
      else if p0 = 0xD0 then BRANCH (\<lambda>s. \<not> LOCAL_ZERO s) s
      else if p0 = 0xD1 then CMP LOAD_INDIRECT_Y_FUNC s
      else if p0 = 0xD2 then CMP LOAD_INDIRECT_FUNC s
      else if p0 = 0xD3 then CMP LOAD_STACK_REL_Y_FUNC s
      else if p0 = 0xD4 then PEI s
      else if p0 = 0xD5 then CMP LOAD_DIRECT_PAGE_X_FUNC s
      else if p0 = 0xD6 then DEC LOAD_DIRECT_PAGE_X_FUNC_RRW STORE_DIRECT_PAGE_X_RRW s
      else if p0 = 0xD7 then CMP LOAD_INDIRECT_LONG_Y_FUNC s
      else if p0 = 0xD8 then CLD s
      else if p0 = 0xD9 then CMP LOAD_ABS_Y_FUNC s
      else if p0 = 0xDA then PHX STORE_STACK s
      else if p0 = 0xDB then STP_65816 s
      else if p0 = 0xDC then JMP_IND_LONG s
      else if p0 = 0xDD then CMP LOAD_ABS_X_FUNC s
      else if p0 = 0xDE then DEC LOAD_ABS_X_FUNC_RRW STORE_ABS_X_RRW s
      else if p0 = 0xDF then CMP LOAD_ABS_LONG_X_FUNC s
      else s)"

definition dispatch_E0 :: "u32 \<Rightarrow> cpu \<Rightarrow> cpu" where
  "dispatch_E0 p0 s =
     (if p0 = 0xE0 then CPX LOAD_IMMEDIATE_FUNC s
      else if p0 = 0xE1 then SBC LOAD_INDIRECT_X_FUNC s
      else if p0 = 0xE2 then SEP s
      else if p0 = 0xE3 then SBC LOAD_STACK_REL_FUNC s
      else if p0 = 0xE4 then CPX LOAD_DIRECT_PAGE_FUNC s
      else if p0 = 0xE5 then SBC LOAD_DIRECT_PAGE_FUNC s
      else if p0 = 0xE6 then INC LOAD_DIRECT_PAGE_FUNC_RRW STORE_DIRECT_PAGE_RRW s
      else if p0 = 0xE7 then SBC LOAD_INDIRECT_LONG_FUNC s
      else if p0 = 0xE8 then INX s
      else if p0 = 0xE9 then SBC LOAD_IMMEDIATE_FUNC s
      else if p0 = 0xEA then NOP s
      else if p0 = 0xEB then XBA s
      else if p0 = 0xEC then CPX LOAD_ABS_FUNC s
      else if p0 = 0xED then SBC LOAD_ABS_FUNC s
      else if p0 = 0xEE then INC LOAD_ABS_FUNC_RRW STORE_ABS_RRW s
      else if p0 = 0xEF then SBC LOAD_ABS_LONG_FUNC s
      else if p0 = 0xF0 then BRANCH (\<lambda>s. LOCAL_ZERO s) s
      else if p0 = 0xF1 then SBC LOAD_INDIRECT_Y_FUNC s
      else if p0 = 0xF2 then SBC LOAD_INDIRECT_FUNC s
      else if p0 = 0xF3 then SBC LOAD_STACK_REL_Y_FUNC s
      else if p0 = 0xF4 then PEA s
      else if p0 = 0xF5 then SBC LOAD_DIRECT_PAGE_X_FUNC s
      else if p0 = 0xF6 then INC LOAD_DIRECT_PAGE_X_FUNC_RRW STORE_DIRECT_PAGE_X_RRW s
      else if p0 = 0xF7 then SBC LOAD_INDIRECT_LONG_Y_FUNC s
      else if p0 = 0xF8 then SED s
      else if p0 = 0xF9 then SBC LOAD_ABS_Y_FUNC s
      else if p0 = 0xFA then PLX LOAD_STACK s
      else if p0 = 0xFB then XCE s
      else if p0 = 0xFC then JSR_IND_X s
      else if p0 = 0xFD then SBC LOAD_ABS_X_FUNC s
      else if p0 = 0xFE then INC LOAD_ABS_X_FUNC_RRW STORE_ABS_X_RRW s
      else if p0 = 0xFF then SBC LOAD_ABS_LONG_X_FUNC s
      else s)"

definition opcode_switch :: "u32 \<Rightarrow> cpu \<Rightarrow> cpu" where
  "opcode_switch p0 s =
     (if p0 < 0x20 then dispatch_00 p0 s
      else if p0 < 0x40 then dispatch_20 p0 s
      else if p0 < 0x60 then dispatch_40 p0 s
      else if p0 < 0x80 then dispatch_60 p0 s
      else if p0 < 0xA0 then dispatch_80 p0 s
      else if p0 < 0xC0 then dispatch_A0 p0 s
      else if p0 < 0xE0 then dispatch_C0 p0 s
      else dispatch_E0 p0 s)"

section \<open>One instruction\<close>

text \<open>\<open>65816.c\<close> defines the interrupt kinds as 0, so the branches for them are never taken.\<close>

abbreviation IK_RESET :: u32 where "IK_RESET \<equiv> 0"
abbreviation IK_NMI :: u32 where "IK_NMI \<equiv> 0"
abbreviation IK_IRQ :: u32 where "IK_IRQ \<equiv> 0"
abbreviation IK_NONE :: u32 where "IK_NONE \<equiv> 0"

definition fetch_opcode :: "cpu \<Rightarrow> u32" where
  "fetch_opcode s =
     (if interrupt65816 s \<noteq> IK_NONE then
        if interrupt65816 s AND IK_RESET \<noteq> 0 then 0x102
        else if interrupt65816 s AND IK_NMI \<noteq> 0 then 0x101
        else if interrupt65816 s AND IK_IRQ \<noteq> 0 then 0x100
        else FETCH_PARAM (reg_pc s) s
      else FETCH_PARAM (reg_pc s) s)"

definition CPU65816ExecuteOneInstruction :: "cpu \<Rightarrow> cpu" where
  "CPU65816ExecuteOneInstruction s =
     (let p0 = fetch_opcode s;
          s = s\<lparr>last_opcode_addr := reg_pc s\<rparr>
      in opcode_switch p0 s)"

definition CPU65816GetStatus :: "cpu \<Rightarrow> REGISTERSET \<times> cpu" where
  "CPU65816GetStatus s = (let s = EXPORT_REGISTERS s in (exported s, s))"

definition CPU65816GetPC :: "cpu \<Rightarrow> u32" where
  "CPU65816GetPC s = reg_pc s OR push_bit 16 (ucast (reg_pbr s))"

definition CPU65816Reset :: "cpu \<Rightarrow> cpu" where
  "CPU65816Reset s =
     s\<lparr>reg_dbr := 0, reg_dpr := 0, reg_pbr := 0, reg_pc := 0, reg_emul := 1\<rparr>"

text \<open>The state at program start: the initialisers of \<open>65816.c\<close>, zeroed statics, and the
  memory image that has been loaded.\<close>

definition initial_cpu :: "(u32 \<Rightarrow> u8) \<Rightarrow> cpu" where
  "initial_cpu ram =
     \<lparr>reg_c = 0, reg_x = 0, reg_y = 0, reg_dpr = 0, reg_sp = 0x100, reg_pbr = 0, reg_dbr = 0,
      reg_p = 0, flag_n = 0, flag_z = 0, reg_emul = 1, reg_pc = 0, last_opcode_addr = 0,
      interrupt65816 = 0,
      exported = \<lparr>gr_pc = 0, gr_a = 0, gr_b = 0, gr_x = 0, gr_y = 0, gr_emul = 0, gr_dpr = 0,
        gr_pbr = 0, gr_dbr = 0, gr_sp = 0, gr_p = 0, gr_n = 0, gr_z = 0\<rparr>,
      ramMemory = ram\<rparr>"

end
