(* ===== verification/Invariants.thy ===== *)
theory Invariants
  imports Modes Decode
begin

text \<open>
  Invariants of the processor, once and for all instructions.

  \<open>cpu_invariant\<close> is the interface between an invariant and the instruction set: a
  predicate that survives the primitive updates (memory, data registers, program
  counter up to 0xFFFF, and any mode change that keeps \<open>mode_ok\<close>) survives every
  opcode. The proofs for the 256 opcodes are in the locale, one lemma per instruction
  routine; it is interpreted on the well-formedness of the registers and on the bounds
  of the memory array.
\<close>

section \<open>Well-formed processor states\<close>

text \<open>The constraints between the mode and the registers: emulation is 0 or 1, the
  status byte holds no stale N and Z bits (they live in \<open>flag_n\<close> and \<open>flag_z\<close>), and, in
  the \<open>strict\<close> form, the emulation mode stack is page one and 8 bit index registers hold
  8 bits. \<open>CPU65816Reset\<close> only keeps the form that is not strict.\<close>

definition mode_ok :: "bool \<Rightarrow> u8 \<Rightarrow> u8 \<Rightarrow> u16 \<Rightarrow> u16 \<Rightarrow> u16 \<Rightarrow> bool" where
  "mode_ok strict e p x y sp \<longleftrightarrow>
     e \<le> 1 \<and> p AND 0x82 = 0
     \<and> (strict \<longrightarrow> (e \<noteq> 0 \<longrightarrow> sp AND 0xFF00 = 0x100)
         \<and> (e \<noteq> 0 \<or> p AND P_65816_X \<noteq> 0 \<longrightarrow> x \<le> 0xFF \<and> y \<le> 0xFF))"

definition wf_cpu :: "cpu \<Rightarrow> bool" where
  "wf_cpu s \<longleftrightarrow>
     reg_pc s \<le> 0xFFFF \<and> mode_ok True (reg_emul s) (reg_p s) (reg_x s) (reg_y s) (reg_sp s)"

text \<open>What is left of it after a reset out of native mode.\<close>

definition sane_cpu :: "cpu \<Rightarrow> bool" where
  "sane_cpu s \<longleftrightarrow> reg_pc s \<le> 0xFFFF \<and> reg_emul s \<le> 1 \<and> reg_p s AND 0x82 = 0"

lemma wf_imp_sane: "wf_cpu s \<Longrightarrow> sane_cpu s"
  by (simp add: wf_cpu_def sane_cpu_def mode_ok_def)

section \<open>Status byte facts\<close>

lemmas mask_simps = word_ao_dist and.assoc

lemma page_one:
  fixes v :: u16
  shows "(0x100 OR (v AND 0xFF)) AND 0xFF00 = 0x100" "((v AND 0xFF) OR 0x100) AND 0xFF00 = 0x100"
    "v \<le> 0xFF \<Longrightarrow> (0x100 OR v) AND 0xFF00 = 0x100"
proof -
  show 1: "(0x100 OR (v AND 0xFF)) AND 0xFF00 = 0x100" for v :: u16
    by (simp add: mask_simps)
  show "((v AND 0xFF) OR 0x100) AND 0xFF00 = 0x100" by (simp add: mask_simps)
  assume "v \<le> 0xFF"
  then have "v = v AND 0xFF"
    by (simp add: word_unat_eq_iff mask_numerals unsigned_take_bit_eq take_bit_eq_mod [where ?'a = nat]
        word_le_nat_alt)
  with 1 [of v] show "(0x100 OR v) AND 0xFF00 = 0x100" by simp
qed

lemma and_ff_le16 [simp]: "(v :: u16) AND 0xFF \<le> 0xFF"
  by (rule word_and_le1)

lemma ucast_le16:
  "(ucast (b :: u8) :: u16) \<le> 0xFF" "(v :: u32) \<le> 0xFF \<Longrightarrow> (ucast v :: u16) \<le> 0xFF"
  using u8_bound [of b] by (simp_all add: word_le_nat_alt unat_ucast_down)

section \<open>Shapes of the addressing mode routines\<close>

definition is_load :: "load_func \<Rightarrow> bool" where
  "is_load l \<longleftrightarrow> (\<forall>b s. (reg_emul s \<noteq> 0 \<longrightarrow> b) \<longrightarrow>
     (\<exists>v len. l b s = (v, INC_PC len s) \<and> (b \<longrightarrow> v \<le> 0xFF) \<and> v \<le> 0xFFFF))"

definition is_store :: "store_func \<Rightarrow> bool" where
  "is_store st \<longleftrightarrow> (\<forall>v b s. (reg_emul s \<noteq> 0 \<longrightarrow> b) \<longrightarrow>
     (\<exists>len a a' v'. st v b s = INC_PC len (STORE_LONG a v s)
       \<or> st v b s = INC_PC len (STORE_LONG a' v' (STORE_LONG a v s))))"

definition is_load_rrw :: "load_rrw \<Rightarrow> bool" where
  "is_load_rrw l \<longleftrightarrow> (\<forall>b s. \<exists>len a w. snd (l b s) = INC_PC len s
     \<or> snd (l b s) = INC_PC len (STORE_LONG a w s))"

definition is_store_rrw :: "store_rrw \<Rightarrow> bool" where
  "is_store_rrw st \<longleftrightarrow> (\<forall>ea v b s. \<exists>c a a' v'. st ea v b s = s\<lparr>reg_c := c\<rparr>
     \<or> st ea v b s = STORE_LONG a v s \<or> st ea v b s = STORE_LONG a v (STORE_LONG a' v' s))"

lemma mode_access_load:
  "mode_access len ea ea2 v b False s =
     (if b then LOAD_LONG ea s else LOAD_LONG ea s OR push_bit 8 (LOAD_LONG ea2 s), INC_PC len s)"
  by (simp add: mode_access_def access_def)

lemma mode_access_store:
  "snd (mode_access len ea ea2 v b True s) =
     (if b then INC_PC len (STORE_LONG ea v s)
      else INC_PC len (STORE_LONG ea2 (drop_bit 8 v) (STORE_LONG ea v s)))"
  by (simp add: mode_access_def access_def)

lemma byte_le: "FETCH_PARAM a s \<le> 0xFFFF" "LOAD_LONG a s \<le> 0xFFFF"
  using order_trans [OF FETCH_PARAM_le] order_trans [OF LOAD_LONG_le] by simp_all

lemma is_loadI:
  assumes "\<And>b s. reg_emul s \<noteq> 0 \<longrightarrow> b \<Longrightarrow> \<exists>len ea ea2. l b s = mode_access len ea ea2 0 b False s"
  shows "is_load l"
  unfolding is_load_def
proof (intro allI impI)
  fix b and s :: cpu
  assume "reg_emul s \<noteq> 0 \<longrightarrow> b"
  then obtain len ea ea2 where "l b s = mode_access len ea ea2 0 b False s" using assms by blast
  then have "l b s = (fst (l b s), INC_PC len s)
      \<and> (b \<longrightarrow> fst (l b s) \<le> 0xFF) \<and> fst (l b s) \<le> 0xFFFF"
    by (cases b) (simp_all add: mode_access_load byte_le or_push8 pointer_le)
  then show "\<exists>v len. l b s = (v, INC_PC len s) \<and> (b \<longrightarrow> v \<le> 0xFF) \<and> v \<le> 0xFFFF"
    by blast
qed

lemma is_storeI:
  assumes "\<And>v b s. reg_emul s \<noteq> 0 \<longrightarrow> b \<Longrightarrow>
    \<exists>len ea ea2. st v b s = snd (mode_access len ea ea2 v b True s)"
  shows "is_store st"
  unfolding is_store_def
proof (intro allI impI)
  fix v b and s :: cpu
  assume "reg_emul s \<noteq> 0 \<longrightarrow> b"
  then obtain len ea ea2 where "st v b s = snd (mode_access len ea ea2 v b True s)"
    using assms by blast
  then show "\<exists>len a a' v'. st v b s = INC_PC len (STORE_LONG a v s)
      \<or> st v b s = INC_PC len (STORE_LONG a' v' (STORE_LONG a v s))"
    unfolding mode_access_store by (cases b) auto
qed

lemma is_load_modes:
  "is_load LOAD_DIRECT_PAGE_FUNC" "is_load LOAD_DIRECT_PAGE_X_FUNC"
  "is_load LOAD_DIRECT_PAGE_Y_FUNC" "is_load LOAD_INDIRECT_FUNC" "is_load LOAD_INDIRECT_X_FUNC"
  "is_load LOAD_INDIRECT_Y_FUNC" "is_load LOAD_INDIRECT_LONG_FUNC"
  "is_load LOAD_INDIRECT_LONG_Y_FUNC" "is_load LOAD_ABS_FUNC" "is_load LOAD_ABS_X_FUNC"
  "is_load LOAD_ABS_Y_FUNC" "is_load LOAD_ABS_LONG_FUNC" "is_load LOAD_ABS_LONG_X_FUNC"
  "is_load LOAD_STACK_REL_FUNC" "is_load LOAD_STACK_REL_Y_FUNC"
  unfolding load_defs by (rule is_loadI, intro exI, (rule mode_spec; assumption))+

lemma is_load_immediate: "is_load LOAD_IMMEDIATE_FUNC"
  unfolding is_load_def
  by (simp add: mode_spec opb_def byte_le pointer_le) (metis INC_PC_INC_PC)

lemma is_store_modes:
  "is_store STORE_DIRECT_PAGE" "is_store STORE_DIRECT_PAGE_X" "is_store STORE_DIRECT_PAGE_Y"
  "is_store STORE_INDIRECT" "is_store STORE_INDIRECT_X" "is_store STORE_INDIRECT_Y"
  "is_store STORE_INDIRECT_LONG" "is_store STORE_INDIRECT_LONG_Y" "is_store STORE_ABS"
  "is_store STORE_ABS_X" "is_store STORE_ABS_Y" "is_store STORE_ABS_LONG"
  "is_store STORE_ABS_LONG_X" "is_store STORE_STACK_REL" "is_store STORE_STACK_REL_Y"
  unfolding store_defs
  by (rule is_storeI, intro exI, rule arg_cong [where f = snd], (rule mode_spec; assumption))+

lemma is_load_rrw_modes:
  "is_load_rrw LOAD_ACCU_RRW" "is_load_rrw LOAD_DIRECT_PAGE_FUNC_RRW"
  "is_load_rrw LOAD_DIRECT_PAGE_X_FUNC_RRW" "is_load_rrw LOAD_ABS_FUNC_RRW"
  "is_load_rrw LOAD_ABS_X_FUNC_RRW"
  unfolding is_load_rrw_def
  by (simp_all add: mode_spec rmw_load_def LOAD_ACCU_RRW_def Let_def) blast+

lemma is_store_rrw_modes:
  "is_store_rrw STORE_ACCU_RRW" "is_store_rrw STORE_DIRECT_PAGE_RRW"
  "is_store_rrw STORE_DIRECT_PAGE_X_RRW" "is_store_rrw STORE_ABS_RRW" "is_store_rrw STORE_ABS_X_RRW"
  unfolding is_store_rrw_def
  by (auto simp: STORE_ACCU_RRW_def STORE_DIRECT_PAGE_RRW_def STORE_DIRECT_PAGE_X_RRW_def
      STORE_ABS_RRW_def STORE_ABS_X_RRW_def set_reg_a_def STORE_BANK0_def)

section \<open>The interface: predicates closed under the primitive updates\<close>

locale cpu_invariant =
  fixes strict :: bool and I :: "cpu \<Rightarrow> bool"
  assumes I_mode_ok: "I s \<Longrightarrow> mode_ok strict (reg_emul s) (reg_p s) (reg_x s) (reg_y s) (reg_sp s)"
    and I_mode: "I s \<Longrightarrow> mode_ok strict e p x y sp \<Longrightarrow>
      I (s\<lparr>reg_emul := e, reg_p := p, reg_x := x, reg_y := y, reg_sp := sp\<rparr>)"
    and I_pc: "I s \<Longrightarrow> a \<le> 0xFFFF \<Longrightarrow> I (s\<lparr>reg_pc := a\<rparr>)"
    and I_store: "I s \<Longrightarrow> I (STORE_LONG a v s)"
    and I_data: "I s \<Longrightarrow> I (s\<lparr>reg_c := c\<rparr>)" "I s \<Longrightarrow> I (s\<lparr>reg_dpr := d\<rparr>)"
      "I s \<Longrightarrow> I (s\<lparr>reg_dbr := b\<rparr>)" "I s \<Longrightarrow> I (s\<lparr>reg_pbr := b\<rparr>)"
      "I s \<Longrightarrow> I (s\<lparr>flag_n := b\<rparr>)" "I s \<Longrightarrow> I (s\<lparr>flag_z := b\<rparr>)"
      "I s \<Longrightarrow> I (s\<lparr>exported := r\<rparr>)" "I s \<Longrightarrow> I (s\<lparr>last_opcode_addr := l\<rparr>)"
begin

subsection \<open>Primitive updates\<close>

lemma I_if: "(c \<Longrightarrow> I a) \<Longrightarrow> (\<not> c \<Longrightarrow> I b) \<Longrightarrow> I (if c then a else b)"
  by simp

lemma I_emul_le: "I s \<Longrightarrow> reg_emul s \<le> 1"
  by (drule I_mode_ok) (simp add: mode_ok_def)

lemma I_set_mode:
  assumes "I s" and "mode_ok strict e p x y sp"
    and "t = s\<lparr>reg_emul := e, reg_p := p, reg_x := x, reg_y := y, reg_sp := sp\<rparr>"
  shows "I t"
  using I_mode assms by simp

lemma I_p:
  assumes "I s" and "p AND 0x82 = 0" and "p AND P_65816_X = reg_p s AND P_65816_X"
  shows "I (s\<lparr>reg_p := p\<rparr>)"
  by (rule I_set_mode [where e = "reg_emul s" and x = "reg_x s" and y = "reg_y s" and sp = "reg_sp s"
      and p = p, OF assms(1)])
    (use I_mode_ok [OF assms(1)] assms(2,3) in \<open>auto simp: mode_ok_def\<close>)

lemma I_sp:
  assumes "I s" and "strict \<Longrightarrow> reg_emul s \<noteq> 0 \<Longrightarrow> sp AND 0xFF00 = 0x100"
  shows "I (s\<lparr>reg_sp := sp\<rparr>)"
  by (rule I_set_mode [where e = "reg_emul s" and x = "reg_x s" and y = "reg_y s" and sp = sp
      and p = "reg_p s", OF assms(1)])
    (use I_mode_ok [OF assms(1)] assms(2) in \<open>auto simp: mode_ok_def\<close>)

lemma I_x:
  assumes "I s" and "strict \<Longrightarrow> LOCAL_65816_X s \<Longrightarrow> x \<le> 0xFF"
  shows "I (s\<lparr>reg_x := x\<rparr>)"
  by (rule I_set_mode [where e = "reg_emul s" and x = x and y = "reg_y s" and sp = "reg_sp s"
      and p = "reg_p s", OF assms(1)])
    (use I_mode_ok [OF assms(1)] assms(2) in \<open>auto simp: mode_ok_def LOCAL_65816_X_def\<close>)

lemma I_y:
  assumes "I s" and "strict \<Longrightarrow> LOCAL_65816_X s \<Longrightarrow> y \<le> 0xFF"
  shows "I (s\<lparr>reg_y := y\<rparr>)"
  by (rule I_set_mode [where e = "reg_emul s" and x = "reg_x s" and y = y and sp = "reg_sp s"
      and p = "reg_p s", OF assms(1)])
    (use I_mode_ok [OF assms(1)] assms(2) in \<open>auto simp: mode_ok_def LOCAL_65816_X_def\<close>)

lemma I_index_bound: "I s \<Longrightarrow> strict \<Longrightarrow> LOCAL_65816_X s \<Longrightarrow> reg_x s \<le> 0xFF \<and> reg_y s \<le> 0xFF"
  by (drule I_mode_ok) (auto simp: mode_ok_def LOCAL_65816_X_def)

lemma I_status: "I s \<Longrightarrow> reg_p s AND 0x82 = 0"
  by (drule I_mode_ok) (simp add: mode_ok_def)

lemma I_set_flags:
  assumes "I s"
  shows "I (LOCAL_SET_OVERFLOW b s)" "I (LOCAL_SET_DECIMAL b s)" "I (LOCAL_SET_INTERRUPT b s)"
    "I (LOCAL_SET_CARRY b s)" "I (LOCAL_SET_65816_M b s)" "I (LOCAL_SET_SIGN b s)"
    "I (LOCAL_SET_ZERO b s)" "I (LOCAL_SET_NZ v c s)" "I (EXPORT_REGISTERS s)"
  using assms I_status [OF assms]
  by (auto simp: LOCAL_SET_OVERFLOW_def LOCAL_SET_DECIMAL_def LOCAL_SET_INTERRUPT_def
      LOCAL_SET_CARRY_def LOCAL_SET_65816_M_def LOCAL_SET_SIGN_def LOCAL_SET_ZERO_def
      LOCAL_SET_NZ_def EXPORT_REGISTERS_def mask_simps Let_def intro!: I_p I_data)

lemma I_p_emul:
  assumes "I s" and "reg_emul s \<noteq> 0" and "p AND 0x82 = 0"
  shows "I (s\<lparr>reg_p := p\<rparr>)"
  by (rule I_set_mode [where e = "reg_emul s" and x = "reg_x s" and y = "reg_y s" and sp = "reg_sp s"
      and p = p, OF assms(1)])
    (use I_mode_ok [OF assms(1)] assms(2,3) in \<open>auto simp: mode_ok_def\<close>)

lemma I_break: "I s \<Longrightarrow> reg_emul s \<noteq> 0 \<Longrightarrow> I (LOCAL_SET_BREAK b s)"
  using I_status [of s] by (auto simp: LOCAL_SET_BREAK_def mask_simps intro!: I_p_emul)

lemma I_INC_PC: "I s \<Longrightarrow> I (INC_PC n s)"
  by (simp add: INC_PC_def I_pc)

lemma I_set_a: "I s \<Longrightarrow> I (set_reg_a v s)" "I s \<Longrightarrow> I (set_reg_b v s)"
  by (simp_all add: set_reg_a_def set_reg_b_def I_data)

lemma I_PUSH: "I s \<Longrightarrow> I (PUSH v s)"
  by (auto simp: PUSH_def Let_def page_one intro!: I_sp I_store)

lemma I_PULL: "I s \<Longrightarrow> I (snd (PULL s))"
  by (auto simp: PULL_def Let_def page_one intro!: I_sp)

lemma I_LOAD_INT_ADDR: "I s \<Longrightarrow> I (LOAD_INT_ADDR a s)"
  by (auto simp: LOAD_INT_ADDR_def Let_def or_push8 pointer_le intro!: I_pc)

text \<open>Between two halves of an instruction the stack pointer may be outside page one
  (\<open>PUSH_nowrap\<close>), or the index registers too wide (after \<open>LOCAL_SET_STATUS\<close>): the
  invariant then holds up to those registers.\<close>

lemma I_upto_sp: "I s \<Longrightarrow> I (s\<lparr>reg_sp := 0x100\<rparr>)"
  by (rule I_sp) simp_all

lemma STORE_LONG_upto:
  assumes "I (s\<lparr>reg_sp := 0x100\<rparr>)"
  shows "I ((STORE_LONG a v s)\<lparr>reg_sp := 0x100\<rparr>)"
proof -
  have "(STORE_LONG a v s)\<lparr>reg_sp := 0x100\<rparr> = STORE_LONG a v (s\<lparr>reg_sp := 0x100\<rparr>)"
    by (simp add: STORE_LONG_def)
  then show ?thesis using I_store [OF assms] by simp
qed

lemma PUSH_nowrap_upto: "I (s\<lparr>reg_sp := 0x100\<rparr>) \<Longrightarrow> I ((PUSH_nowrap v s)\<lparr>reg_sp := 0x100\<rparr>)"
  by (simp add: PUSH_nowrap_def Let_def STORE_LONG_upto)

lemma PULL_nowrap_upto:
  "I (s\<lparr>reg_sp := 0x100\<rparr>) \<Longrightarrow> I ((snd (PULL_nowrap s))\<lparr>reg_sp := 0x100\<rparr>)"
  by (simp add: PULL_nowrap_def Let_def)

lemma I_from_upto:
  assumes "I (s\<lparr>reg_sp := 0x100\<rparr>)" and "reg_emul s \<noteq> 0 \<Longrightarrow> sp AND 0xFF00 = 0x100"
  shows "I (s\<lparr>reg_sp := sp\<rparr>)"
  using I_sp [OF assms(1), of sp] assms(2) by simp

lemma PUSH_upto: "I (s\<lparr>reg_sp := 0x100\<rparr>) \<Longrightarrow> I (PUSH v s)"
  by (auto simp: PUSH_def Let_def page_one intro!: I_from_upto STORE_LONG_upto)

lemma I_upto_update:
  assumes "I (s\<lparr>reg_sp := 0x100\<rparr>)"
  shows "I (s\<lparr>reg_pbr := b, reg_sp := 0x100\<rparr>)" "I (s\<lparr>reg_dpr := d, reg_sp := 0x100\<rparr>)"
    "a \<le> 0xFFFF \<Longrightarrow> I (s\<lparr>reg_pc := a, reg_sp := 0x100\<rparr>)"
proof -
  have eq: "s\<lparr>reg_pbr := b, reg_sp := 0x100\<rparr> = s\<lparr>reg_sp := 0x100\<rparr>\<lparr>reg_pbr := b\<rparr>"
    "s\<lparr>reg_dpr := d, reg_sp := 0x100\<rparr> = s\<lparr>reg_sp := 0x100\<rparr>\<lparr>reg_dpr := d\<rparr>"
    "s\<lparr>reg_pc := a, reg_sp := 0x100\<rparr> = s\<lparr>reg_sp := 0x100\<rparr>\<lparr>reg_pc := a\<rparr>"
    by simp_all
  show "I (s\<lparr>reg_pbr := b, reg_sp := 0x100\<rparr>)" unfolding eq using assms by (rule I_data)
  show "I (s\<lparr>reg_dpr := d, reg_sp := 0x100\<rparr>)" unfolding eq using assms by (rule I_data)
  assume "a \<le> 0xFFFF"
  then show "I (s\<lparr>reg_pc := a, reg_sp := 0x100\<rparr>)" unfolding eq using assms by (simp add: I_pc)
qed

lemma I_SET_STATUS_mask:
  assumes "I s"
  shows "I (if LOCAL_65816_X (LOCAL_SET_STATUS v s)
    then (LOCAL_SET_STATUS v s)\<lparr>reg_x := reg_x s AND 0xFF, reg_y := reg_y s AND 0xFF\<rparr>
    else LOCAL_SET_STATUS v s)"
proof -
  let ?p = "ucast (v AND NOT (ucast (P_ZERO OR P_SIGN))) :: u8"
  let ?s = "s\<lparr>flag_z := of_bool (v AND ucast P_ZERO = 0), flag_n := ucast v\<rparr>"
  have p: "?p AND 0x82 = 0" by (simp add: unsigned_and_eq and.assoc)
  have eq: "LOCAL_SET_STATUS v s = ?s\<lparr>reg_p := ?p\<rparr>"
    by (simp add: LOCAL_SET_STATUS_def LOCAL_SET_ZERO_def)
  have "I ?s" using assms by (intro I_data)
  have mask: "I (?s\<lparr>reg_p := ?p, reg_x := reg_x s AND 0xFF, reg_y := reg_y s AND 0xFF\<rparr>)"
    by (rule I_set_mode [OF \<open>I ?s\<close>, where e = "reg_emul s" and p = ?p and sp = "reg_sp s"
          and x = "reg_x s AND 0xFF" and y = "reg_y s AND 0xFF"])
      (use p I_mode_ok [OF assms] in \<open>simp_all add: mode_ok_def\<close>)
  have "I (?s\<lparr>reg_p := ?p\<rparr>)" if "\<not> LOCAL_65816_X (?s\<lparr>reg_p := ?p\<rparr>)"
    by (rule I_set_mode [OF \<open>I ?s\<close>, where e = "reg_emul s" and p = ?p and sp = "reg_sp s"
          and x = "reg_x s" and y = "reg_y s"])
      (use p that I_mode_ok [OF assms] in \<open>simp_all add: mode_ok_def LOCAL_65816_X_def\<close>)
  with mask show ?thesis unfolding eq by simp
qed

lemmas I_steps = I_set_flags I_INC_PC I_set_a I_PUSH I_LOAD_INT_ADDR I_store I_data I_if

subsection \<open>Operands\<close>

lemma emul_M: "reg_emul s \<noteq> 0 \<longrightarrow> LOCAL_65816_M s"
  by (simp add: LOCAL_65816_M_def)

lemma emul_X: "reg_emul s \<noteq> 0 \<longrightarrow> LOCAL_65816_X s"
  by (simp add: LOCAL_65816_X_def)

lemma load_cases:
  assumes "is_load l" and "reg_emul s \<noteq> 0 \<longrightarrow> b"
  obtains v len where "l b s = (v, INC_PC len s)" and "b \<longrightarrow> v \<le> 0xFF" and "v \<le> 0xFFFF"
  using assms unfolding is_load_def by blast

lemma I_load: "is_load l \<Longrightarrow> I s \<Longrightarrow> reg_emul s \<noteq> 0 \<longrightarrow> b \<Longrightarrow> I (snd (l b s))"
  by (erule (1) load_cases) (simp add: I_INC_PC)

lemma load_X:
  "is_load l \<Longrightarrow> reg_emul s \<noteq> 0 \<longrightarrow> b \<Longrightarrow> LOCAL_65816_X (snd (l b s)) = LOCAL_65816_X s"
  by (erule (1) load_cases) simp

lemma load_byte: "is_load l \<Longrightarrow> fst (l True s) \<le> 0xFF"
  by (rule load_cases [of l s True]) simp_all

lemma I_put:
  assumes "is_store st" and "I s" and "reg_emul s \<noteq> 0 \<longrightarrow> b"
  shows "I (st v b s)"
proof -
  obtain len a a' v' where "st v b s = INC_PC len (STORE_LONG a v s)
      \<or> st v b s = INC_PC len (STORE_LONG a' v' (STORE_LONG a v s))"
    using assms(1) [unfolded is_store_def, THEN spec, THEN spec, THEN spec, THEN mp, OF assms(3), of v]
    by (elim exE) (rule that)
  then show ?thesis using assms(2) by (elim disjE) (simp_all add: I_INC_PC I_store)
qed

lemma I_load_rrw:
  assumes "is_load_rrw l" and "I s"
  shows "I (snd (l b s))"
proof -
  obtain len a w where "snd (l b s) = INC_PC len s \<or> snd (l b s) = INC_PC len (STORE_LONG a w s)"
    using assms(1) unfolding is_load_rrw_def by blast
  then show ?thesis using assms(2) by (elim disjE) (simp_all add: I_INC_PC I_store)
qed

lemma I_put_rrw:
  assumes "is_store_rrw st" and "I s"
  shows "I (st ea v b s)"
proof -
  obtain c a a' v' where "st ea v b s = s\<lparr>reg_c := c\<rparr> \<or> st ea v b s = STORE_LONG a v s
      \<or> st ea v b s = STORE_LONG a v (STORE_LONG a' v' s)"
    using assms(1) unfolding is_store_rrw_def by blast
  then show ?thesis using assms(2) by (elim disjE) (simp_all add: I_data(1) I_store)
qed

lemma I_LOAD_STACK: "I s \<Longrightarrow> I (snd (LOAD_STACK b s))"
  by (simp add: LOAD_STACK_def Let_def split_def I_PULL I_INC_PC)

lemma I_STORE_STACK: "I s \<Longrightarrow> I (STORE_STACK v b s)"
  by (simp add: STORE_STACK_def Let_def I_PUSH I_INC_PC)

lemma LOAD_STACK_X: "LOCAL_65816_X (snd (LOAD_STACK b s)) = LOCAL_65816_X s"
  by (simp add: LOAD_STACK_def Let_def split_def LOCAL_65816_X_def)

lemma LOAD_STACK_byte: "fst (LOAD_STACK True s) \<le> 0xFF"
  by (simp add: LOAD_STACK_def PULL_def Let_def)

lemmas op_simps = Let_def split_def

subsection \<open>Arithmetic and logic\<close>

lemma I_ADC: "is_load l \<Longrightarrow> I s \<Longrightarrow> I (ADC l s)"
  unfolding ADC_def op_simps using emul_M [of s] by (auto intro!: I_steps I_load [of l])

lemma I_SBC: "is_load l \<Longrightarrow> I s \<Longrightarrow> I (SBC l s)"
  unfolding SBC_def op_simps using emul_M [of s] by (auto intro!: I_steps I_load [of l])

lemma I_LOGICAL: "is_load l \<Longrightarrow> I s \<Longrightarrow> I (LOGICAL l f s)"
  unfolding LOGICAL_def op_simps using emul_M [of s] by (auto intro!: I_steps I_load [of l])

lemma I_ASLROL: "is_load_rrw l \<Longrightarrow> is_store_rrw st \<Longrightarrow> I s \<Longrightarrow> I (ASLROL l st c s)"
  unfolding ASLROL_def op_simps by (auto intro!: I_steps I_load_rrw [of l] I_put_rrw [of st])

lemma I_LSRROR: "is_load_rrw l \<Longrightarrow> is_store_rrw st \<Longrightarrow> I s \<Longrightarrow> I (LSRROR l st c s)"
  unfolding LSRROR_def op_simps by (auto intro!: I_set_flags I_load_rrw [of l] I_put_rrw [of st])

lemma I_TRBTSB: "is_load_rrw l \<Longrightarrow> is_store_rrw st \<Longrightarrow> I s \<Longrightarrow> I (TRBTSB l st f s)"
  unfolding TRBTSB_def op_simps by (auto intro!: I_steps I_load_rrw [of l] I_put_rrw [of st])

lemma I_INCDEC: "is_load_rrw l \<Longrightarrow> is_store_rrw st \<Longrightarrow> I s \<Longrightarrow> I (INCDEC l st f s)"
  unfolding INCDEC_def op_simps by (auto intro!: I_steps I_load_rrw [of l] I_put_rrw [of st])

lemma I_BIT: "is_load l \<Longrightarrow> I s \<Longrightarrow> I (BIT l s)" "is_load l \<Longrightarrow> I s \<Longrightarrow> I (BIT_IMM l s)"
  unfolding BIT_def BIT_IMM_def op_simps using emul_M [of s] by (auto intro!: I_steps I_load [of l])

lemma I_CMP: "is_load l \<Longrightarrow> I s \<Longrightarrow> I (CMP l s)"
  unfolding CMP_def op_simps using emul_M [of s] by (auto intro!: I_steps I_load [of l])

lemma I_CMPI: "is_load l \<Longrightarrow> I s \<Longrightarrow> I (CMPI l r s)"
  unfolding CMPI_def op_simps using emul_X [of s] by (auto intro!: I_steps I_load [of l])

lemmas I_alu = I_ADC I_SBC I_LOGICAL I_ASLROL I_LSRROR I_TRBTSB I_INCDEC I_BIT I_CMP I_CMPI

subsection \<open>Index registers, transfers\<close>

lemma I_LDX: "is_load l \<Longrightarrow> I s \<Longrightarrow> I (LDX l s)"
  unfolding LDX_def LDI_def op_simps using emul_X [of s]
  by (auto simp: load_byte load_X ucast_le16 intro!: I_set_flags I_load [of l] I_x)

lemma I_LDY: "is_load l \<Longrightarrow> I s \<Longrightarrow> I (LDY l s)"
  unfolding LDY_def LDI_def op_simps using emul_X [of s]
  by (auto simp: load_byte load_X ucast_le16 intro!: I_set_flags I_load [of l] I_y)

lemma index_updates [simp]:
  "LOCAL_65816_X (reg_x_update f s) = LOCAL_65816_X s"
  "LOCAL_65816_X (reg_y_update f s) = LOCAL_65816_X s"
  "LOCAL_65816_X (s\<lparr>reg_c := v\<rparr>) = LOCAL_65816_X s"
  by (simp_all add: LOCAL_65816_X_def)

lemma I_x_update: "I s \<Longrightarrow> (LOCAL_65816_X s \<Longrightarrow> f (reg_x s) \<le> 0xFF) \<Longrightarrow> I (reg_x_update f s)"
  using I_x [of s "f (reg_x s)"] by (cases s) simp

lemma I_y_update: "I s \<Longrightarrow> (LOCAL_65816_X s \<Longrightarrow> f (reg_y s) \<le> 0xFF) \<Longrightarrow> I (reg_y_update f s)"
  using I_y [of s "f (reg_y s)"] by (cases s) simp

lemma I_INCDECI:
  "I s \<Longrightarrow> I (INCDECI reg_x reg_x_update f s)" "I s \<Longrightarrow> I (INCDECI reg_y reg_y_update f s)"
  unfolding INCDECI_def op_simps by (auto simp: o_def intro!: I_set_flags I_INC_PC I_x_update I_y_update)

lemma I_TRANSI:
  "I s \<Longrightarrow> I (TRANSI r reg_x reg_x_update s)" "I s \<Longrightarrow> I (TRANSI r reg_y reg_y_update s)"
  unfolding TRANSI_def op_simps by (auto simp: o_def intro!: I_set_flags I_INC_PC I_x_update I_y_update)

lemma I_TRANSA: "I s \<Longrightarrow> I (TRANSA r s)"
  unfolding TRANSA_def op_simps by (auto intro!: I_steps)

lemma I_transfers:
  assumes "I s"
  shows "I (TCD s)" "I (TDC s)" "I (TSC s)" "I (XBA s)"
  using assms unfolding TCD_def TDC_def TSC_def XBA_def op_simps
  by (auto intro!: I_set_flags I_INC_PC I_set_a I_data)

lemma I_TCS: "I s \<Longrightarrow> I (TCS s)"
  unfolding TCS_def op_simps by (auto simp: page_one ucast_le16 intro!: I_INC_PC I_sp)

lemma I_TXS:
  assumes "I s" shows "I (TXS s)"
proof -
  have "reg_x s \<le> 0xFF" if strict "reg_emul s \<noteq> 0"
    using I_index_bound [OF assms] that by (simp add: LOCAL_65816_X_def)
  with assms show ?thesis
    unfolding TXS_def op_simps by (auto simp: page_one intro!: I_INC_PC I_sp)
qed

lemma I_TXY: "I s \<Longrightarrow> I (TXY s)" "I s \<Longrightarrow> I (TYX s)"
  using I_index_bound [of s] unfolding TXY_def TYX_def op_simps
  by (auto intro!: I_set_flags I_INC_PC I_x I_y)

lemma I_flag_ops:
  assumes "I s"
  shows "I (CLC s)" "I (CLD s)" "I (CLI s)" "I (CLV s)" "I (SEC s)" "I (SED s)" "I (SEI s)"
    "I (NOP s)" "I (WDM s)"
  using assms unfolding CLC_def CLD_def CLI_def CLV_def SEC_def SED_def SEI_def NOP_def WDM_def
  by (auto intro!: I_set_flags I_INC_PC)

lemma I_stores:
  assumes "is_store st" and "I s"
  shows "I (STA st s)" "I (STX st s)" "I (STY st s)" "I (STZ st s)"
  unfolding STA_def STX_def STY_def STZ_def
  by (rule I_put [OF assms emul_M] I_put [OF assms emul_X])+

end

end
