(* ===== verification/Instr_Invariants.thy ===== *)
theory Instr_Invariants
  imports Invariants
begin

text \<open>
  The instructions that change the mode, the program counter or the stack pointer, the
  block moves and the opcode switch preserve every \<open>cpu_invariant\<close>.
\<close>

context cpu_invariant
begin

subsection \<open>Mode changes\<close>

lemma I_SET_X:
  assumes "I s" and "reg_emul s = 0"
  shows "I (if v then (LOCAL_SET_65816_X v s)\<lparr>reg_x := reg_x s AND 0xFF, reg_y := reg_y s AND 0xFF\<rparr>
    else LOCAL_SET_65816_X v s)"
proof (cases v)
  case True
  then show ?thesis
    using assms I_status [OF assms(1)]
    by (simp, intro I_set_mode [OF assms(1), where e = 0 and p = "reg_p s OR P_65816_X"
        and x = "reg_x s AND 0xFF" and y = "reg_y s AND 0xFF" and sp = "reg_sp s"])
      (simp_all add: mode_ok_def LOCAL_SET_65816_X_def mask_simps)
next
  case False
  then show ?thesis
    using assms I_status [OF assms(1)]
    by (simp, intro I_set_mode [OF assms(1), where e = 0 and p = "reg_p s AND NOT P_65816_X"
        and x = "reg_x s" and y = "reg_y s" and sp = "reg_sp s"])
      (simp_all add: mode_ok_def LOCAL_SET_65816_X_def mask_simps)
qed

lemma I_Let: "I t \<Longrightarrow> (\<And>s. I s \<Longrightarrow> I (f s)) \<Longrightarrow> I (Let t f)"
  by (simp add: Let_def)

lemma I_Let_value: "(\<And>v. I (f (v :: u32))) \<Longrightarrow> I (Let x f)"
  by (simp add: Let_def)

lemma I_SET_X_let:
  assumes "I s" and "c \<and> reg_emul s = 0"
  shows "I (let s = LOCAL_SET_65816_X v s
    in if v then s\<lparr>reg_x := reg_x s AND 0xFF, reg_y := reg_y s AND 0xFF\<rparr> else s)"
  using I_SET_X [of s v] assms by (simp add: Let_def split: if_splits)

lemma I_REPSEP: "I s \<Longrightarrow> I (REPSEP v s)"
  unfolding REPSEP_def by (intro I_SET_X_let I_if I_set_flags I_Let_value I_INC_PC I_Let)

lemma I_XCE:
  assumes "I s"
  shows "I (XCE s)"
proof -
  let ?s = "INC_PC 1 s"
  have I: "I ?s" using assms by (rule I_INC_PC)
  have st: "reg_p s AND 0x82 = 0" using assms by (rule I_status)
  have emul: "reg_emul s = 1" if "LOCAL_CARRY s = 0" "LOCAL_CARRY s \<noteq> reg_emul s"
    using that I_emul_le [OF assms] by (simp add: word_le_nat_alt word_unat_eq_iff)
  have to_emul: "I (?s\<lparr>reg_emul := 1, reg_p := (reg_p s AND NOT P_CARRY) AND NOT P_BREAK,
      reg_x := reg_x s AND 0xFF, reg_y := reg_y s AND 0xFF, reg_sp := 0x100 OR (reg_sp s AND 0xFF)\<rparr>)"
    by (rule I_mode [OF I]) (use st in \<open>simp add: mode_ok_def mask_simps page_one\<close>)
  have "reg_x s \<le> 0xFF \<and> reg_y s \<le> 0xFF" if strict "reg_emul s = 1"
    using I_index_bound [OF assms] that by (simp add: LOCAL_65816_X_def)
  then have to_native: "I (?s\<lparr>reg_emul := 0,
      reg_p := ((reg_p s OR P_CARRY) OR P_65816_M) OR P_65816_X\<rparr>)" if "reg_emul s = 1"
    by (intro I_set_mode [OF I, where e = 0 and x = "reg_x s" and y = "reg_y s" and sp = "reg_sp s"
          and p = "((reg_p s OR P_CARRY) OR P_65816_M) OR P_65816_X"])
      (use st that in \<open>simp_all add: mode_ok_def mask_simps\<close>)
  consider "LOCAL_CARRY s = reg_emul s" | "LOCAL_CARRY s \<noteq> reg_emul s" "LOCAL_CARRY s \<noteq> 0"
    | "LOCAL_CARRY s \<noteq> reg_emul s" "LOCAL_CARRY s = 0" by blast
  then show ?thesis
  proof cases
    case 1
    with I show ?thesis by (simp add: XCE_def)
  next
    case 2
    with to_emul show ?thesis by (simp add: XCE_def LOCAL_SET_CARRY_def LOCAL_SET_BREAK_def)
  next
    case 3
    then have "XCE s = ?s\<lparr>reg_emul := 0, reg_p := ((reg_p s OR P_CARRY) OR P_65816_M) OR P_65816_X\<rparr>"
      by (simp add: XCE_def LOCAL_SET_CARRY_def LOCAL_SET_65816_M_def LOCAL_SET_65816_X_def)
    with to_native emul 3 show ?thesis by simp
  qed
qed

subsection \<open>Control flow and stack\<close>

lemma fetch_pair_le: "FETCH_PARAM a s + push_bit 8 (FETCH_PARAM b t) \<le> 0xFFFF"
  by (simp add: pointer_le)

lemma PULL_pair_le: "fst (PULL s) OR push_bit 8 (fst (PULL t)) \<le> 0xFFFF"
  by (simp add: or_push8 pointer_le PULL_def Let_def)

lemma PULL_nowrap_pair_le: "fst (PULL_nowrap s) OR push_bit 8 (fst (PULL_nowrap t)) \<le> 0xFFFF"
  by (simp add: or_push8 pointer_le PULL_nowrap_def Let_def)

lemma I_BRANCH: "I s \<Longrightarrow> I (BRANCH c s)"
  unfolding BRANCH_def op_simps by (auto intro!: I_INC_PC I_pc)

lemma I_jumps:
  assumes "I s"
  shows "I (BRANCH_LONG s)" "I (JMP s)" "I (JMP_LONG s)" "I (JSR s)"
  using assms unfolding BRANCH_LONG_def JMP_def JMP_LONG_def JSR_def op_simps
  by (auto intro!: I_INC_PC I_pc I_PUSH I_data fetch_pair_le)

lemma I_jumps_indirect:
  assumes "I s"
  shows "I (JMP_IND s)" "I (JMP_IND_LONG s)" "I (JMP_IND_X s)"
  using assms unfolding JMP_IND_def JMP_IND_LONG_def JMP_IND_X_def op_simps
  by (auto simp: or_push8 pointer_le LOAD_BANK0_def intro!: I_INC_PC I_pc I_data)

lemma I_JSR_IND_X: "I s \<Longrightarrow> I (JSR_IND_X s)"
  unfolding JSR_IND_X_def op_simps
  by (intro I_pc PUSH_upto PUSH_nowrap_upto I_upto_sp I_INC_PC)
    (simp_all add: or_push8 pointer_le byte_le)

lemma I_JSR_LONG: "I s \<Longrightarrow> I (JSR_LONG s)"
  unfolding JSR_LONG_def op_simps
  by (intro I_pc PUSH_upto PUSH_nowrap_upto I_upto_update I_upto_sp I_INC_PC fetch_pair_le)

lemma I_BRK: "I s \<Longrightarrow> I (BRK s)" "I s \<Longrightarrow> I (COP s)"
  unfolding BRK_def COP_def op_simps
  by (auto intro!: I_data I_set_flags I_PUSH I_LOAD_INT_ADDR I_INC_PC I_break)

lemma I_COP_02: "I s \<Longrightarrow> I (COP_02 s)" "I s \<Longrightarrow> I (STP_65816 s)" "I s \<Longrightarrow> I (WAI_65816 s)"
  unfolding COP_02_def STP_65816_def WAI_65816_def by (auto intro: I_set_flags)

lemma I_SET_STATUS:
  "I s \<Longrightarrow> I (if LOCAL_65816_X (LOCAL_SET_STATUS v s)
    then (LOCAL_SET_STATUS v s)\<lparr>reg_x := reg_x (LOCAL_SET_STATUS v s) AND 0xFF,
      reg_y := reg_y (LOCAL_SET_STATUS v s) AND 0xFF\<rparr>
    else LOCAL_SET_STATUS v s)"
  using I_SET_STATUS_mask [of s v] by (simp split: if_splits)

lemma I_RTI: "I s \<Longrightarrow> I (RTI s)"
  unfolding RTI_def op_simps
  by (intro I_if I_data(4) I_pc I_PULL PULL_pair_le I_SET_STATUS I_INC_PC)

lemma I_RTS: "I s \<Longrightarrow> I (RTS s)"
  unfolding RTS_def op_simps by (intro I_INC_PC I_pc I_PULL PULL_pair_le)

lemma upto_page_one:
  assumes "I (s\<lparr>reg_sp := 0x100\<rparr>)"
  shows "I (if reg_emul s \<noteq> 0 then s\<lparr>reg_sp := (reg_sp s AND 0xFF) OR 0x100\<rparr> else s)"
  using I_from_upto [OF assms, of "(reg_sp s AND 0xFF) OR 0x100"] I_from_upto [OF assms, of "reg_sp s"]
  by (auto simp: page_one)

lemma I_RTL: "I s \<Longrightarrow> I (RTL s)"
  unfolding RTL_def op_simps
  by (intro I_INC_PC upto_page_one I_upto_update PULL_nowrap_upto I_upto_sp PULL_nowrap_pair_le)

lemma I_PLD: "I s \<Longrightarrow> I (PLD s)"
  unfolding PLD_def op_simps
  by (intro I_set_flags upto_page_one I_upto_update PULL_nowrap_upto I_upto_sp I_INC_PC)

lemma I_pushes:
  assumes "I s"
  shows "I (PEA s)" "I (PEI s)" "I (PER s)" "I (PHD s)"
  using assms unfolding PEA_def PEI_def PER_def PHD_def op_simps
  by (intro PUSH_upto PUSH_nowrap_upto I_upto_sp I_INC_PC; assumption)+

lemma I_stack_ops:
  assumes "I s"
  shows "I (PHA STORE_STACK s)" "I (PHB STORE_STACK s)" "I (PHK STORE_STACK s)"
    "I (PHP STORE_STACK s)" "I (PHX STORE_STACK s)" "I (PHY STORE_STACK s)"
  using assms unfolding PHA_def PHB_def PHK_def PHP_def PHX_def PHY_def
  by (auto intro!: I_STORE_STACK)

lemma I_pulls:
  assumes "I s"
  shows "I (PLA LOAD_STACK s)" "I (PLB LOAD_STACK s)"
  using assms unfolding PLA_def PLB_def op_simps
  by (auto intro!: I_set_flags I_set_a I_data I_LOAD_STACK)

lemma I_PLX: "I s \<Longrightarrow> I (PLX LOAD_STACK s)" "I s \<Longrightarrow> I (PLY LOAD_STACK s)"
  unfolding PLX_def PLY_def PLI_def op_simps
  by (auto simp: LOAD_STACK_X LOAD_STACK_byte ucast_le16 intro!: I_set_flags I_x_update I_y_update
      I_LOAD_STACK)

lemma I_PLP: "I s \<Longrightarrow> I (PLP LOAD_STACK s)"
  unfolding PLP_def op_simps by (intro I_SET_STATUS I_LOAD_STACK)

subsection \<open>Block moves\<close>

lemma I_wide_index:
  assumes "I s"
  shows "I (let s = s\<lparr>reg_x := x, reg_y := y\<rparr>
    in if LOCAL_65816_X s then s\<lparr>reg_x := reg_x s AND 0xFF, reg_y := reg_y s AND 0xFF\<rparr> else s)"
proof (cases "LOCAL_65816_X s")
  case True
  have "I (s\<lparr>reg_x := x AND 0xFF, reg_y := y AND 0xFF\<rparr>)"
    using I_y [OF I_x [OF assms, of "x AND 0xFF"], of "y AND 0xFF"] by simp
  with True show ?thesis by simp
next
  case False
  have "I (s\<lparr>reg_x := x, reg_y := y\<rparr>)"
    using I_y [OF I_x [OF assms, of x], of y] False by simp
  with False show ?thesis by simp
qed

lemma I_MOVE_operands:
  "I s \<Longrightarrow> I (snd (if reg_c s = 0 then
     let s = INC_PC 1 s;
         p1 = FETCH_PARAM (reg_pc s) s;
         s = INC_PC 1 s;
         s = s\<lparr>reg_dbr := ucast (FETCH_PARAM (reg_pc s) s)\<rparr>
     in (p1, INC_PC 1 s)
   else (FETCH_PARAM (reg_pc s + 1) s, s\<lparr>reg_dbr := ucast (FETCH_PARAM (reg_pc s + 2) s)\<rparr>)))"
  by (auto simp: Let_def intro!: I_INC_PC I_data)

lemma I_Let_pair: "I (snd p) \<Longrightarrow> (\<And>a s. I s \<Longrightarrow> I (f a s)) \<Longrightarrow> I (let (a, s) = p in f a s)"
  by (cases p) simp

lemma I_MOVE: "I s \<Longrightarrow> I (MOVE f s)"
  unfolding MOVE_def
  by (rule I_Let_pair, erule I_MOVE_operands, unfold Let_def, rule I_data(1),
      rule I_wide_index [unfolded Let_def], intro I_store I_data(3), assumption)

subsection \<open>The opcode switch\<close>

lemma I_loading:
  assumes "is_load l" and "I s"
  shows "I (AND_op l s)" "I (EOR l s)" "I (ORA l s)" "I (LDA l s)" "I (ADC l s)" "I (SBC l s)"
    "I (CMP l s)" "I (CPX l s)" "I (CPY l s)" "I (BIT l s)" "I (BIT_IMM l s)" "I (LDX l s)"
    "I (LDY l s)"
  unfolding AND_op_def EOR_def ORA_def LDA_def CPX_def CPY_def
  by (intro I_alu I_LDX I_LDY assms)+

lemma I_modifying:
  assumes "is_load_rrw l" and "is_store_rrw st" and "I s"
  shows "I (ASL l st s)" "I (ROL l st s)" "I (LSR l st s)" "I (ROR l st s)" "I (TRB l st s)"
    "I (TSB l st s)" "I (DEC l st s)" "I (INC l st s)"
  unfolding ASL_def ROL_def LSR_def ROR_def TRB_def TSB_def DEC_def INC_def
  by (intro I_alu assms)+

lemma I_register_ops:
  assumes "I s"
  shows "I (DEX s)" "I (DEY s)" "I (INX s)" "I (INY s)" "I (TAX s)" "I (TAY s)" "I (TSX s)"
    "I (TXA s)" "I (TYA s)" "I (REP s)" "I (SEP s)" "I (MVN s)" "I (MVP s)"
  unfolding DEX_def DEY_def INX_def INY_def TAX_def TAY_def TSX_def TXA_def TYA_def REP_def SEP_def
    MVN_def MVP_def
  by (intro I_INCDECI I_TRANSI I_TRANSA I_REPSEP I_MOVE assms)+

lemmas I_instructions = I_loading I_modifying I_register_ops I_stores I_transfers I_TCS I_TXS I_TXY
  I_flag_ops I_XCE I_BRANCH I_jumps I_jumps_indirect I_JSR_IND_X I_JSR_LONG I_BRK I_COP_02 I_RTI
  I_RTS I_RTL I_PLD I_pushes I_stack_ops I_pulls I_PLX I_PLP

lemmas mode_shapes = is_load_modes is_load_immediate is_store_modes is_load_rrw_modes
  is_store_rrw_modes

lemma I_dispatch_low:
  assumes "I s"
  shows "I (dispatch_00 p0 s)" "I (dispatch_20 p0 s)" "I (dispatch_40 p0 s)" "I (dispatch_60 p0 s)"
  unfolding dispatch_00_def dispatch_20_def dispatch_40_def dispatch_60_def
  by (intro I_if I_instructions mode_shapes assms)+

lemma I_dispatch_high:
  assumes "I s"
  shows "I (dispatch_80 p0 s)" "I (dispatch_A0 p0 s)" "I (dispatch_C0 p0 s)" "I (dispatch_E0 p0 s)"
  unfolding dispatch_80_def dispatch_A0_def dispatch_C0_def dispatch_E0_def
  by (intro I_if I_instructions mode_shapes assms)+

lemma I_opcode_switch: "I s \<Longrightarrow> I (opcode_switch p0 s)"
  unfolding opcode_switch_def by (intro I_if I_dispatch_low I_dispatch_high)

theorem I_ExecuteOneInstruction: "I s \<Longrightarrow> I (CPU65816ExecuteOneInstruction s)"
  unfolding CPU65816ExecuteOneInstruction_def Let_def by (intro I_opcode_switch I_data)

end

end
