(* ===== verification/Safety.thy ===== *)
theory Safety
  imports Instr_Invariants
begin

text \<open>
  The safety properties of the processor: the interpretations of \<open>cpu_invariant\<close> and
  what they give for runs of any length.
\<close>

section \<open>Interpretations\<close>

interpretation wf: cpu_invariant True wf_cpu
  by unfold_locales (auto simp: wf_cpu_def mode_ok_def)

interpretation sane: cpu_invariant False sane_cpu
  by unfold_locales (auto simp: sane_cpu_def mode_ok_def STORE_LONG_def)

text \<open>\<open>within_ram ram s\<close>: outside the array \<open>ramMemory[RAMSIZE]\<close> nothing has been
  written since the memory was \<open>ram\<close>, and no interrupt has been requested.\<close>

definition within_ram :: "(u32 \<Rightarrow> u8) \<Rightarrow> cpu \<Rightarrow> bool" where
  "within_ram ram s \<longleftrightarrow> sane_cpu s \<and> interrupt65816 s = 0 \<and> (\<forall>a > RAMMASK. ramMemory s a = ram a)"

lemma ram_index_le: "a > RAMMASK \<Longrightarrow> a \<noteq> b AND RAMMASK"
  using and_mask_le(3) [of b] by (metis not_le)

interpretation ram: cpu_invariant False "within_ram ram" for ram
  by unfold_locales (auto simp: within_ram_def sane_cpu_def mode_ok_def STORE_LONG_def ram_index_le)

lemma sane_execute: "sane_cpu s \<Longrightarrow> sane_cpu (CPU65816ExecuteOneInstruction s)"
  by (rule sane.I_ExecuteOneInstruction)

section \<open>Runs\<close>

definition run :: "nat \<Rightarrow> cpu \<Rightarrow> cpu" where
  "run n = CPU65816ExecuteOneInstruction ^^ n"

lemma run_simps [simp]: "run 0 s = s" "run (Suc n) s = CPU65816ExecuteOneInstruction (run n s)"
  by (simp_all add: run_def)

lemma run_Suc_first: "run (Suc n) s = run n (CPU65816ExecuteOneInstruction s)"
  by (induction n) simp_all

lemma run_induct: "P s \<Longrightarrow> (\<And>s. P s \<Longrightarrow> P (CPU65816ExecuteOneInstruction s)) \<Longrightarrow> P (run n s)"
  by (induction n) simp_all

lemma wf_initial: "wf_cpu (initial_cpu ram)"
  by (simp add: wf_cpu_def mode_ok_def initial_cpu_def)

text \<open>A native mode state to run examples from.\<close>

definition native_cpu :: "(u32 \<Rightarrow> u8) \<Rightarrow> cpu" where
  "native_cpu ram = (initial_cpu ram)\<lparr>reg_emul := 0, reg_c := 0x1234, reg_x := 0x5678, reg_y := 0x9ABC,
     reg_dpr := 0x2000, reg_dbr := 3, reg_pbr := 2, reg_sp := 0x1FFF, reg_pc := 0x8000, reg_p := P_CARRY\<rparr>"

lemma wf_native: "wf_cpu (native_cpu ram)"
  by (simp add: wf_cpu_def mode_ok_def native_cpu_def initial_cpu_def)

text \<open>C3: Every instruction preserves the constraints on the registers: \<open>reg_pc\<close> stays
  within 16 bits, \<open>reg_emul\<close> is 0 or 1, the status byte keeps its N and Z bits clear, the
  emulation mode stack pointer stays in page one, and index registers hold 8 bits whenever
  the mode says so. It holds for any opcode byte and any memory contents.\<close>

theorem execute_preserves_wf:
  "wf_cpu s \<Longrightarrow> wf_cpu (CPU65816ExecuteOneInstruction s)"
  by (rule wf.I_ExecuteOneInstruction)

theorem execute_preserves_wf_witness: "wf_cpu (CPU65816ExecuteOneInstruction (initial_cpu (\<lambda>a. 0xFB)))"
  by (rule execute_preserves_wf [OF wf_initial])

text \<open>C4: No instruction of a program writes outside the array \<open>ramMemory[RAMSIZE]\<close>,
  whatever the program, and none requests an interrupt. The initial
  state may be one that a reset out of native mode leaves behind.\<close>

theorem run_within_ram:
  "sane_cpu s \<Longrightarrow> interrupt65816 s = 0 \<Longrightarrow> a > RAMMASK \<Longrightarrow>
     ramMemory (run n s) a = ramMemory s a \<and> interrupt65816 (run n s) = 0"
  using run_induct [where P = "within_ram (ramMemory s)" and n = n and s = s,
      OF _ ram.I_ExecuteOneInstruction]
  by (simp add: within_ram_def)

theorem run_within_ram_witness:
  "ramMemory (run 1000 (initial_cpu (\<lambda>a. 0xFB))) 0x123456 = 0xFB"
  using run_within_ram [of "initial_cpu (\<lambda>a. 0xFB)" "0x123456" 1000]
  by (simp add: wf_initial wf_imp_sane) (simp add: initial_cpu_def)

end
