(* ===== verification/Stack.thy ===== *)
theory Stack
  imports Safety
begin

text \<open>
  The memory and the hardware stack as interfaces. \<open>byte_memory\<close> is a memory of bytes,
  \<open>byte_stack\<close> a stack of bytes of bounded depth; both are interpreted on the macros
  \<open>LOAD_LONG\<close>, \<open>STORE_LONG\<close>, \<open>LOAD_BANK0\<close>, \<open>STORE_BANK0\<close>, \<open>PUSH\<close> and \<open>PULL\<close>
  of the code. \<open>peek k s\<close> is the byte that the (k+1)-st \<open>PULL\<close> from \<open>s\<close> returns.
\<close>

section \<open>Bytes, words and page one\<close>

lemma word_bytes: "((v::u32) AND 0xFF) OR push_bit 8 (drop_bit 8 v AND 0xFF) = v AND 0xFFFF"
  by (rule bit_eqI) (auto simp: mask_numerals bit_simps)

lemma and_ffff_u16 [simp]: "(v :: u16) AND 0xFFFF = v"
  by (rule bit_eqI) (auto simp: mask_numerals bit_simps)

lemma or_page: 
  fixes v :: u16
  assumes "v \<le> 0xFF"
  shows "0x100 OR v = 0x100 + v" "unat (0x100 OR v) = 256 + unat v"
proof -
  have "unat v < 256" using assms by (simp add: word_le_nat_alt)
  then have "v = v AND 0xFF" by (simp add: word_unat_eq_iff unat_and_ff16)
  then have "0x100 AND v = 0x100 AND (v AND 0xFF)" by simp
  also have "\<dots> = 0" by (simp only: and.left_commute) (simp add: and.commute)
  finally have "0x100 AND v = 0" .
  then show 1: "0x100 OR v = 0x100 + v" by (simp add: disjunctive_add_eq_or)
  show "unat (0x100 OR v) = 256 + unat v"
    unfolding 1 using \<open>unat v < 256\<close> by (simp add: unat_word_ariths)
qed

lemma page_one_unat:
  fixes sp :: u16
  assumes "sp AND 0xFF00 = 0x100"
  shows "0x100 OR (sp AND 0xFF) = sp" "unat sp = 256 + unat sp mod 256"
proof -
  have "(sp AND 0xFF00) OR (sp AND 0xFF) = sp AND (0xFF00 OR 0xFF)"
    by (simp only: word_ao_dist2 and.commute)
  then show 1: "0x100 OR (sp AND 0xFF) = sp" using assms by simp
  show "unat sp = 256 + unat sp mod 256"
    using or_page(2) [of "sp AND 0xFF"] unfolding 1 by (simp add: unat_and_ff16)
qed

lemma and_ffff_RAMMASK [simp]: "((a :: u32) AND 0xFFFF) AND RAMMASK = a AND 0xFFFF"
  by (simp add: and.assoc)

section \<open>A memory of bytes\<close>

locale byte_memory =
  fixes rd :: "'a \<Rightarrow> 's \<Rightarrow> u32" and wr :: "'a \<Rightarrow> u32 \<Rightarrow> 's \<Rightarrow> 's" and cell :: "'a \<Rightarrow> u32"
  assumes rd_wr: "rd a (wr b v s) = (if cell a = cell b then v AND 0xFF else rd a s)"
begin

lemma rd_wr_same: "rd a (wr a v s) = v AND 0xFF"
  by (simp add: rd_wr)

lemma rd_wr_other: "cell a \<noteq> cell b \<Longrightarrow> rd a (wr b v s) = rd a s"
  by (simp add: rd_wr)

lemma rd_word:
  assumes "cell a \<noteq> cell a2"
  shows "rd a (wr a2 (drop_bit 8 v) (wr a v s))
      OR push_bit 8 (rd a2 (wr a2 (drop_bit 8 v) (wr a v s))) = v AND 0xFFFF"
    and "rd a (wr a v (wr a2 (drop_bit 8 v) s))
      OR push_bit 8 (rd a2 (wr a v (wr a2 (drop_bit 8 v) s))) = v AND 0xFFFF"
  using assms word_bytes [of v] by (simp_all add: rd_wr)

end

interpretation bus: byte_memory LOAD_LONG STORE_LONG "\<lambda>a. a AND RAMMASK"
  by unfold_locales (rule LOAD_STORE)

interpretation bank0: byte_memory LOAD_BANK0 STORE_BANK0 "\<lambda>a. a AND 0xFFFF"
  by unfold_locales (simp add: LOAD_BANK0_def STORE_BANK0_def LOAD_STORE and_ffff_RAMMASK)

section \<open>A bounded stack of bytes\<close>

primrec pulls :: "('s \<Rightarrow> u32 \<times> 's) \<Rightarrow> nat \<Rightarrow> 's \<Rightarrow> u32 list \<times> 's" where
  "pulls pull 0 s = ([], s)"
| "pulls pull (Suc n) s = (fst (pull s) # fst (pulls pull n (snd (pull s))),
                          snd (pulls pull n (snd (pull s))))"

locale byte_stack =
  fixes push :: "u32 \<Rightarrow> 's \<Rightarrow> 's" and pull :: "'s \<Rightarrow> u32 \<times> 's" and peek :: "nat \<Rightarrow> 's \<Rightarrow> u32"
    and ok :: "'s \<Rightarrow> bool" and cap :: "'s \<Rightarrow> nat"
  assumes pull_peek: "fst (pull s) = peek 0 s"
    and peek_pull: "ok s \<Longrightarrow> peek k (snd (pull s)) = peek (Suc k) s"
    and peek_push: "ok s \<Longrightarrow> k < cap s \<Longrightarrow> peek k (push v s) = (if k = 0 then v AND 0xFF else peek (k - 1) s)"
    and ok_push: "ok s \<Longrightarrow> ok (push v s)" and ok_pull: "ok s \<Longrightarrow> ok (snd (pull s))"
    and cap_push: "cap (push v s) = cap s"
begin

lemma pulls_peek: "ok s \<Longrightarrow> fst (pulls pull n s) = map (\<lambda>k. peek k s) [0..<n]"
proof (induction n arbitrary: s)
  case (Suc n)
  have "fst (pulls pull (Suc n) s) = peek 0 s # map (\<lambda>k. peek (Suc k) s) [0..<n]"
    using Suc by (simp add: pull_peek ok_pull peek_pull)
  then show ?case by (simp add: map_upt_Suc del: upt_Suc)
qed simp

lemma fold_push: "ok s \<Longrightarrow> ok (fold push vs s) \<and> cap (fold push vs s) = cap s"
  by (induction vs arbitrary: s) (simp_all add: ok_push cap_push)

lemma peek_fold_push:
  "ok s \<Longrightarrow> length vs \<le> cap s \<Longrightarrow> k < length vs \<Longrightarrow> peek k (fold push vs s) = rev vs ! k AND 0xFF"
proof (induction vs arbitrary: k rule: rev_induct)
  case (snoc v vs)
  have "ok (fold push vs s)" "k < cap (fold push vs s)" using fold_push [of s vs] snoc.prems by auto
  then have "peek k (fold push (vs @ [v]) s) =
      (if k = 0 then v AND 0xFF else peek (k - 1) (fold push vs s))"
    by (simp add: peek_push)
  with snoc show ?case by (cases k) simp_all
qed simp

theorem pulls_pushes:
  assumes "ok s" and "length vs \<le> cap s"
  shows "fst (pulls pull (length vs) (fold push vs s)) = rev (map (\<lambda>v. v AND 0xFF) vs)"
  using assms fold_push [of s vs]
  by (intro nth_equalityI) (simp_all add: pulls_peek peek_fold_push rev_map rev_nth)

end

section \<open>The hardware stack\<close>

definition stack_pos :: "u8 \<Rightarrow> u16 \<Rightarrow> u16 \<Rightarrow> u16" where
  "stack_pos e sp k = (if e \<noteq> 0 then 0x100 OR ((sp + k) AND 0xFF) else sp + k)"

definition stack_ok :: "cpu \<Rightarrow> bool" where
  "stack_ok s \<longleftrightarrow> (reg_emul s \<noteq> 0 \<longrightarrow> reg_sp s AND 0xFF00 = 0x100)"

definition stack_cap :: "cpu \<Rightarrow> nat" where
  "stack_cap s = (if reg_emul s \<noteq> 0 then 256 else 65536)"

definition peek :: "nat \<Rightarrow> cpu \<Rightarrow> u32" where
  "peek k s = LOAD_LONG (ucast (stack_pos (reg_emul s) (reg_sp s) (of_nat (Suc k)))) s"

lemma page_offset_add:
  fixes v k :: u16
  shows "(0x100 OR (v AND 0xFF)) + k AND 0xFF = (v + k) AND 0xFF"
proof -
  have "unat (0x100 OR (v AND 0xFF)) = 256 + unat v mod 256"
    using or_page(2) [of "v AND 0xFF"] by (simp add: unat_and_ff16)
  then have "unat ((0x100 OR (v AND 0xFF)) + k AND 0xFF) = (256 + unat v mod 256 + unat k) mod 256"
    by (simp add: unat_and_ff16 unat_word_ariths mod_mod_cancel)
  also have "\<dots> = (256 + (unat v + unat k)) mod 256"
    by (metis add.assoc mod_add_left_eq mod_add_right_eq)
  also have "\<dots> = (unat v + unat k) mod 256" by (rule mod_add_self1)
  also have "\<dots> = unat ((v + k) AND 0xFF)"
    by (simp add: unat_and_ff16 unat_word_ariths mod_mod_cancel)
  finally show ?thesis by (simp only: word_unat_eq_iff)
qed

lemma stack_pos_add: "stack_pos e (stack_pos e sp j) k = stack_pos e sp (j + k)"
  by (simp add: stack_pos_def page_offset_add add.assoc)

lemma stack_pos_0: "stack_ok s \<Longrightarrow> stack_pos (reg_emul s) (reg_sp s) 0 = reg_sp s"
  by (simp add: stack_pos_def stack_ok_def page_one_unat)

lemma and_ff_eq_iff: "(v :: u16) AND 0xFF = w AND 0xFF \<longleftrightarrow> (ucast v :: u8) = ucast w"
  by (simp add: word_unat_eq_iff unat_ucast_down unat_and_ff16)

lemma ucast_u8_add: "(ucast ((v :: u16) + w) :: u8) = ucast v + ucast w"
  by (simp add: word_unat_eq_iff unat_ucast_down unat_word_ariths mod_mod_cancel mod_simps)

lemma stack_pos_eq_iff:
  "stack_pos e sp j = stack_pos e sp k \<longleftrightarrow> (unat j) mod (if e \<noteq> 0 then 256 else 65536) = (unat k) mod (if e \<noteq> 0 then 256 else 65536)"
proof (cases "e = 0")
  case True
  then show ?thesis
    using u16_bound [of j] u16_bound [of k] by (simp add: stack_pos_def word_unat_eq_iff [of j])
next
  case False
  have "stack_pos e sp j = stack_pos e sp k \<longleftrightarrow> (sp + j) AND 0xFF = (sp + k) AND 0xFF"
    using False by (simp add: stack_pos_def word_unat_eq_iff or_page(2))
  also have "\<dots> \<longleftrightarrow> unat j mod 256 = unat k mod 256"
    by (simp add: and_ff_eq_iff ucast_u8_add) (simp add: word_unat_eq_iff unat_ucast_down)
  finally show ?thesis using False by simp
qed

lemma ucast_u16_RAMMASK [simp]: "(ucast (a :: u16) :: u32) AND RAMMASK = ucast a"
  using u16_bound [of a]
  by (simp add: word_unat_eq_iff mask_numerals unsigned_take_bit_eq take_bit_eq_mod [where ?'a = nat])

lemma ucast_u16_eq_iff [simp]: "(ucast (a :: u16) :: u32) = ucast b \<longleftrightarrow> a = b"
  by (metis ucast_down_up(2))


lemma PUSH_sp: "reg_sp (PUSH v s) = stack_pos (reg_emul s) (reg_sp s) (-1)"
  by (simp add: PUSH_def Let_def stack_pos_def)

lemma PULL_eq: "PULL s = (peek 0 s, s\<lparr>reg_sp := stack_pos (reg_emul s) (reg_sp s) 1\<rparr>)"
  by (simp add: PULL_def Let_def peek_def stack_pos_def LOAD_LONG_def)

lemma PUSH_eq:
  "PUSH v s = (STORE_LONG (ucast (reg_sp s)) v s)\<lparr>reg_sp := stack_pos (reg_emul s) (reg_sp s) (-1)\<rparr>"
  by (simp add: PUSH_def Let_def stack_pos_def)

lemma stack_pos_one: "e \<noteq> 0 \<Longrightarrow> stack_pos e sp k AND 0xFF00 = 0x100"
  by (simp add: stack_pos_def page_one)

lemma LOAD_LONG_sp [simp]: "LOAD_LONG a (s\<lparr>reg_sp := v\<rparr>) = LOAD_LONG a s"
  by (simp add: LOAD_LONG_def)

lemma peek_PULL: "peek k (snd (PULL s)) = peek (Suc k) s"
  by (simp add: PULL_eq peek_def stack_pos_add add.assoc)

lemma peek_PUSH:
  assumes "stack_ok s" and "k < stack_cap s"
  shows "peek k (PUSH v s) = (if k = 0 then v AND 0xFF else peek (k - 1) s)"
proof -
  have pos: "peek k (PUSH v s) = LOAD_LONG (ucast (stack_pos (reg_emul s) (reg_sp s) (of_nat k)))
      (STORE_LONG (ucast (reg_sp s)) v s)"
    by (simp add: PUSH_eq peek_def stack_pos_add)
  have "stack_pos (reg_emul s) (reg_sp s) (of_nat k) = reg_sp s \<longleftrightarrow> k = 0"
    using stack_pos_eq_iff [of "reg_emul s" "reg_sp s" "of_nat k" 0] stack_pos_0 [OF assms(1)] assms(2)
    by (simp add: stack_cap_def unat_of_nat mod_mod_cancel split: if_splits)
  then show ?thesis
    unfolding pos LOAD_STORE by (cases k) (simp_all add: peek_def)
qed

interpretation hw: byte_stack PUSH PULL peek stack_ok stack_cap
  by unfold_locales
    (simp_all only: peek_PULL peek_PUSH, simp_all add: PULL_eq PUSH_eq stack_ok_def stack_pos_one stack_cap_def)

end
