(* ===== verification/Calls.thy ===== *)
theory Calls
  imports Stack
begin

text \<open>
  Round trips over the hardware stack: call and return, interrupt and return, push and
  pull of every register. In each of them the state \<open>u\<close> in which the return or the pull
  runs is any state whose stack still holds what was pushed (\<open>same_stack\<close>): the code in
  between is arbitrary.
\<close>

section \<open>Views of the stack\<close>

lemma peek_frame [simp]:
  "peek k (s\<lparr>reg_pc := a\<rparr>) = peek k s" "peek k (INC_PC n s) = peek k s"
  "peek k (s\<lparr>reg_pbr := b\<rparr>) = peek k s" "peek k (s\<lparr>reg_dbr := b\<rparr>) = peek k s"
  "peek k (LOCAL_SET_STATUS v s) = peek k s" "peek k (LOCAL_SET_OVERFLOW c s) = peek k s"
  "peek k (LOCAL_SET_BREAK c s) = peek k s" "peek k (LOCAL_SET_DECIMAL c s) = peek k s"
  "peek k (LOCAL_SET_INTERRUPT c s) = peek k s" "peek k (LOAD_INT_ADDR a s) = peek k s"
  "peek k (s\<lparr>reg_x := x\<rparr>) = peek k s" "peek k (s\<lparr>reg_y := y\<rparr>) = peek k s"
  "peek k (EXPORT_REGISTERS s) = peek k s"
  by (simp_all add: peek_def LOAD_LONG_def)

lemma stack_ok_frame [simp]:
  "stack_ok (s\<lparr>reg_pc := a\<rparr>) = stack_ok s" "stack_ok (INC_PC n s) = stack_ok s"
  "stack_ok (s\<lparr>reg_pbr := b\<rparr>) = stack_ok s" "stack_ok (s\<lparr>reg_dbr := b\<rparr>) = stack_ok s"
  "stack_ok (LOCAL_SET_BREAK c s) = stack_ok s" "stack_ok (EXPORT_REGISTERS s) = stack_ok s"
  by (simp_all add: stack_ok_def)

lemma stack_ok_PUSH [simp]: "stack_ok (PUSH v s)"
  by (simp add: stack_ok_def PUSH_sp stack_pos_one)

lemma stack_cap_ge: "256 \<le> stack_cap s"
  by (simp add: stack_cap_def)

lemma peek_PUSH_simps:
  assumes "stack_ok s"
  shows "peek 0 (PUSH v s) = v AND 0xFF" "k < 255 \<Longrightarrow> peek (Suc k) (PUSH v s) = peek k s"
  using assms stack_cap_ge [of s] by (simp_all add: peek_PUSH)

lemma peek_up:
  assumes "reg_emul s = e"
  shows "peek k (s\<lparr>reg_sp := stack_pos e (reg_sp s) 1\<rparr>) = peek (Suc k) s"
    "peek k (s\<lparr>reg_sp := stack_pos e (reg_sp s) 2\<rparr>) = peek (Suc (Suc k)) s"
    "peek k (s\<lparr>reg_sp := stack_pos e (reg_sp s) 3\<rparr>) = peek (Suc (Suc (Suc k))) s"
  using assms by (simp_all add: peek_def stack_pos_add add.assoc)

text \<open>\<open>same_stack n s t\<close>: the next \<open>n\<close> bytes a program pulls in \<open>t\<close> are those it would
  pull in \<open>s\<close>. The code between a push and its pull may do anything else.\<close>

definition same_stack :: "nat \<Rightarrow> cpu \<Rightarrow> cpu \<Rightarrow> bool" where
  "same_stack n s t \<longleftrightarrow>
     reg_sp t = reg_sp s \<and> reg_emul t = reg_emul s \<and> (\<forall>k \<in> {0..<n}. peek k t = peek k s)"

lemma same_stack_refl [simp]: "same_stack n s s"
  by (simp add: same_stack_def)

lemma same_stackD:
  "same_stack n s t \<Longrightarrow> reg_sp t = reg_sp s" "same_stack n s t \<Longrightarrow> reg_emul t = reg_emul s"
  "same_stack n s t \<Longrightarrow> k < n \<Longrightarrow> peek k t = peek k s"
  by (simp_all add: same_stack_def)

lemma wf_stack_ok: "wf_cpu s \<Longrightarrow> stack_ok s"
  by (simp add: wf_cpu_def mode_ok_def stack_ok_def)

lemma stack_pos_back:
  "stack_ok s \<Longrightarrow> stack_pos (reg_emul s) (stack_pos (reg_emul s) (reg_sp s) j) (- j) = reg_sp s"
  by (simp add: stack_pos_add stack_pos_0)

section \<open>Calls and returns\<close>

lemma RTS_eq:
  "RTS u = u\<lparr>reg_pc := ((peek 0 u OR push_bit 8 (peek 1 u)) + 1) AND 0xFFFF,
             reg_sp := stack_pos (reg_emul u) (reg_sp u) 2\<rparr>"
  by (simp add: RTS_def Let_def PULL_eq INC_PC_def peek_up stack_pos_add)

lemma JSR_stack:
  assumes "stack_ok s"
  shows "reg_sp (JSR s) = stack_pos (reg_emul s) (reg_sp s) (-2)"
    "reg_emul (JSR s) = reg_emul s"
    "peek 0 (JSR s) OR push_bit 8 (peek 1 (JSR s)) = (reg_pc s + 2) AND 0xFFFF"
proof -
  show "reg_sp (JSR s) = stack_pos (reg_emul s) (reg_sp s) (-2)" "reg_emul (JSR s) = reg_emul s"
    by (simp_all add: JSR_def Let_def PUSH_sp stack_pos_add)
  have "peek 0 (JSR s) = reg_pc (INC_PC 2 s) AND 0xFF"
    "peek 1 (JSR s) = drop_bit 8 (reg_pc (INC_PC 2 s)) AND 0xFF"
    using assms by (simp_all add: JSR_def Let_def peek_PUSH_simps del: reg_pc_INC_PC)
  then show "peek 0 (JSR s) OR push_bit 8 (peek 1 (JSR s)) = (reg_pc s + 2) AND 0xFFFF"
    by (simp only: word_bytes) simp
qed

lemma RTS_after_JSR:
  assumes "wf_cpu s" and "same_stack 2 (JSR s) u"
  shows "RTS u = u\<lparr>reg_pc := (reg_pc s + 3) AND 0xFFFF, reg_sp := reg_sp s\<rparr>"
proof -
  note st = same_stackD [OF assms(2)] and ok = wf_stack_ok [OF assms(1)]
  have "stack_pos (reg_emul u) (reg_sp u) 2 = reg_sp s"
    using JSR_stack [OF ok] stack_pos_back [OF ok, of "- 2"] by (simp add: st)
  with JSR_stack(3) [OF ok] show ?thesis by (simp add: RTS_eq st add.assoc)
qed

text \<open>C15: An RTS that runs with the stack as JSR left it returns to the instruction after
  the JSR (three bytes on, within the bank), with the stack pointer of the caller and
  nothing else changed; the subroutine in between is arbitrary.\<close>

theorem JSR_RTS:
  assumes "wf_cpu s" and "same_stack 2 (JSR s) u"
  shows "RTS u = u\<lparr>reg_pc := (reg_pc s + 3) AND 0xFFFF, reg_sp := reg_sp s\<rparr>"
  using assms by (rule RTS_after_JSR)

lemma PULL_nowrap_eq:
  "PULL_nowrap s = (LOAD_LONG (ucast (reg_sp s + 1)) s, s\<lparr>reg_sp := reg_sp s + 1\<rparr>)"
  by (simp add: PULL_nowrap_def Let_def)

lemma PUSH_nowrap_eq:
  "PUSH_nowrap v s = (STORE_LONG (ucast (reg_sp s)) v s)\<lparr>reg_sp := reg_sp s - 1\<rparr>"
  by (simp add: PUSH_nowrap_def Let_def)

text \<open>Away from the ends of page one the macros that do not wrap are the macros that do.\<close>

definition room_below :: "nat \<Rightarrow> cpu \<Rightarrow> bool" where
  "room_below n s \<longleftrightarrow> stack_ok s \<and> (reg_emul s \<noteq> 0 \<longrightarrow> 256 + n \<le> unat (reg_sp s))"

definition room_above :: "nat \<Rightarrow> cpu \<Rightarrow> bool" where
  "room_above n s \<longleftrightarrow> stack_ok s \<and> (reg_emul s \<noteq> 0 \<longrightarrow> unat (reg_sp s) + n < 512)"

lemma room_frame [simp]:
  "room_below n (s\<lparr>reg_pc := a\<rparr>) = room_below n s" "room_below n (INC_PC k s) = room_below n s"
  "room_below n (s\<lparr>reg_pbr := b\<rparr>) = room_below n s"
  "room_above n (s\<lparr>reg_pc := a\<rparr>) = room_above n s" "room_above n (INC_PC k s) = room_above n s"
  "room_above n (s\<lparr>reg_pbr := b\<rparr>) = room_above n s"
  by (simp_all add: room_below_def room_above_def)

lemma stack_pos_in_page:
  assumes "e \<noteq> 0 \<longrightarrow> unat (sp + k) div 256 = 1"
  shows "stack_pos e sp k = sp + k"
proof (cases "e = 0")
  case False
  then have "unat (sp + k) = 256 + unat (sp + k) mod 256"
    using assms div_mult_mod_eq [of "unat (sp + k)" 256] by simp
  also have "\<dots> = unat (0x100 OR (sp + k AND 0xFF))"
    by (subst or_page(2)) (simp_all add: unat_and_ff16)
  finally show ?thesis using False by (simp only: stack_pos_def word_unat_eq_iff) simp
qed (simp add: stack_pos_def)

lemma stack_ok_range:
  assumes "stack_ok s" and "reg_emul s \<noteq> 0"
  shows "256 \<le> unat (reg_sp s)" "unat (reg_sp s) < 512"
proof -
  have "unat (reg_sp s) = 256 + unat (reg_sp s) mod 256"
    using assms by (intro page_one_unat(2)) (simp add: stack_ok_def)
  moreover have "unat (reg_sp s) mod 256 < 256" by simp
  ultimately show "256 \<le> unat (reg_sp s)" "unat (reg_sp s) < 512" by linarith+
qed

lemma stack_pos_down:
  assumes "stack_ok s" and "reg_emul s \<noteq> 0 \<longrightarrow> 256 + n \<le> unat (reg_sp s)" and "n < 256"
  shows "stack_pos (reg_emul s) (reg_sp s) (- of_nat n) = reg_sp s - of_nat n"
    and "reg_emul s \<noteq> 0 \<longrightarrow> unat (reg_sp s - of_nat n) = unat (reg_sp s) - n"
proof -
  show *: "reg_emul s \<noteq> 0 \<longrightarrow> unat (reg_sp s - of_nat n) = unat (reg_sp s) - n"
    using assms by (auto simp: unat_sub word_le_nat_alt unat_of_nat)
  have "reg_emul s \<noteq> 0 \<longrightarrow> unat (reg_sp s + - of_nat n) div 256 = 1"
    using * assms stack_ok_range [OF assms(1)] by (auto simp: div_nat_eqI)
  from stack_pos_in_page [OF this]
  show "stack_pos (reg_emul s) (reg_sp s) (- of_nat n) = reg_sp s - of_nat n" by simp
qed

lemma PUSH_room:
  assumes "room_below (Suc n) s"
  shows "PUSH_nowrap v s = PUSH v s" and "room_below n (PUSH v s)"
proof -
  have sp: "stack_pos (reg_emul s) (reg_sp s) (-1) = reg_sp s - 1"
    "reg_emul s \<noteq> 0 \<longrightarrow> unat (reg_sp s - 1) = unat (reg_sp s) - 1"
    using assms stack_pos_down [of s 1] by (auto simp: room_below_def)
  then show "PUSH_nowrap v s = PUSH v s" by (simp add: PUSH_nowrap_eq PUSH_eq)
  show "room_below n (PUSH v s)"
    using assms sp by (auto simp: room_below_def PUSH_sp)
qed

lemma PULL_room:
  assumes "room_above (Suc n) s"
  shows "PULL_nowrap s = PULL s" and "room_above n (snd (PULL s))"
proof -
  have up: "reg_emul s \<noteq> 0 \<longrightarrow> unat (reg_sp s + 1) = unat (reg_sp s) + 1"
    using assms by (auto simp: room_above_def unat_word_ariths)
  have "reg_emul s \<noteq> 0 \<longrightarrow> unat (reg_sp s + 1) div 256 = 1"
    using assms up stack_ok_range [of s] by (auto simp: room_above_def div_nat_eqI)
  then have sp: "stack_pos (reg_emul s) (reg_sp s) 1 = reg_sp s + 1" by (rule stack_pos_in_page)
  then show "PULL_nowrap s = PULL s" by (simp add: PULL_nowrap_eq PULL_eq peek_def)
  have "stack_ok (snd (PULL s))" by (simp add: PULL_eq stack_ok_def stack_pos_one)
  then show "room_above n (snd (PULL s))"
    using assms up by (simp add: room_above_def PULL_eq sp)
qed

lemma peek_pc_sp [simp]: "peek k (u\<lparr>reg_pc := a, reg_sp := v\<rparr>) = peek k (u\<lparr>reg_sp := v\<rparr>)"
  by (simp add: peek_def LOAD_LONG_def)

lemma room_below_weaken: "room_below (Suc n) s \<Longrightarrow> room_below n s"
  by (auto simp: room_below_def)


lemma JSR_LONG_stack:
  assumes "room_below 2 s"
  shows "reg_sp (JSR_LONG s) = stack_pos (reg_emul s) (reg_sp s) (-3)"
    "reg_emul (JSR_LONG s) = reg_emul s"
    "peek 0 (JSR_LONG s) OR push_bit 8 (peek 1 (JSR_LONG s)) = (reg_pc s + 3) AND 0xFFFF"
    "peek 2 (JSR_LONG s) = ucast (reg_pbr s)"
proof -
  define pc where "pc = reg_pc (INC_PC 3 s)"
  have room: "room_below (Suc (Suc 0)) (INC_PC 3 s)" using assms by (simp add: numeral_2_eq_2)
  then have ok: "stack_ok (INC_PC 3 s)" by (simp add: room_below_def)
  have room1: "room_below (Suc 0) ((PUSH (ucast (reg_pbr s)) (INC_PC 3 s))\<lparr>reg_pbr := b\<rparr>)" for b
    using PUSH_room(2) [OF room] by simp
  obtain b a where eq: "JSR_LONG s =
      (PUSH pc (PUSH (drop_bit 8 pc) ((PUSH (ucast (reg_pbr s)) (INC_PC 3 s))\<lparr>reg_pbr := b\<rparr>)))\<lparr>reg_pc := a\<rparr>"
    by (simp add: JSR_LONG_def Let_def PUSH_room(1) [OF room] PUSH_room(1) [OF room1] pc_def
        del: reg_pc_INC_PC)
  show "reg_sp (JSR_LONG s) = stack_pos (reg_emul s) (reg_sp s) (-3)"
    "reg_emul (JSR_LONG s) = reg_emul s"
    by (simp_all add: eq PUSH_sp stack_pos_add)
  have "peek 0 (JSR_LONG s) = pc AND 0xFF" "peek 1 (JSR_LONG s) = drop_bit 8 pc AND 0xFF"
    by (simp_all add: eq peek_PUSH_simps)
  then show "peek 0 (JSR_LONG s) OR push_bit 8 (peek 1 (JSR_LONG s)) = (reg_pc s + 3) AND 0xFFFF"
    by (simp only: word_bytes) (simp add: pc_def)
  show "peek 2 (JSR_LONG s) = ucast (reg_pbr s)"
    using ok by (simp add: eq numeral_2_eq_2 peek_PUSH_simps and_mask_id)
qed


lemma RTL_eq:
  assumes "room_above 3 u"
  shows "RTL u = u\<lparr>reg_pc := ((peek 0 u OR push_bit 8 (peek 1 u)) + 1) AND 0xFFFF,
    reg_pbr := ucast (peek 2 u), reg_sp := stack_pos (reg_emul u) (reg_sp u) 3\<rparr>"
proof -
  let ?u = "INC_PC 1 u"
  have r0: "room_above (Suc (Suc (Suc 0))) ?u" using assms by (simp add: eval_nat_numeral)
  note r1 = PULL_room(2) [OF r0]
  have r2: "room_above (Suc 0) ((snd (PULL (snd (PULL ?u))))\<lparr>reg_pc := a\<rparr>)" for a
    using PULL_room(2) [OF r1] by simp
  have page: "(stack_pos e sp k AND 0xFF) OR 0x100 = stack_pos e sp k" if "e \<noteq> 0" for e sp k
    using page_one_unat(1) [OF stack_pos_one [OF that]] by (simp add: or.commute)
  show ?thesis
    by (simp add: RTL_def Let_def split_def PULL_room(1) [OF r0] PULL_room(1) [OF r1] PULL_room(1) [OF r2])
      (simp add: PULL_eq INC_PC_def peek_up stack_pos_add page numeral_2_eq_2)
qed

lemma RTL_after_JSL:
  assumes "wf_cpu s" and "reg_emul s \<noteq> 0 \<Longrightarrow> 0x103 \<le> reg_sp s" and "same_stack 3 (JSR_LONG s) u"
  shows "RTL u = u\<lparr>reg_pc := (reg_pc s + 4) AND 0xFFFF, reg_pbr := reg_pbr s, reg_sp := reg_sp s\<rparr>"
proof -
  note st = same_stackD [OF assms(3)] and ok = wf_stack_ok [OF assms(1)]
  have sp: "reg_emul s \<noteq> 0 \<longrightarrow> 256 + 3 \<le> unat (reg_sp s)"
    using assms(2) by (auto simp: word_le_nat_alt)
  with ok have room: "room_below 2 s" by (auto simp: room_below_def)
  note js = JSR_LONG_stack [OF room]
  have pos: "stack_pos (reg_emul u) (reg_sp u) 3 = reg_sp s"
    using js stack_pos_back [OF ok, of "- 3"] by (simp add: st)
  have "stack_ok (JSR_LONG s)" using js by (simp add: stack_ok_def stack_pos_one)
  then have "room_above 3 u"
    using js st stack_pos_down [OF ok sp] stack_ok_range [OF ok] sp
    by (auto simp: room_above_def stack_ok_def)
  from RTL_eq [OF this] show ?thesis using js pos by (simp add: st add.assoc)
qed

text \<open>C16: RTL undoes JSL: return address, program bank and stack pointer. In emulation mode
  JSL pushes without wrapping, so the stack pointer must not be within three bytes of the
  start of page one.\<close>

theorem JSL_RTL:
  assumes "wf_cpu s" and "reg_emul s \<noteq> 0 \<Longrightarrow> 0x103 \<le> reg_sp s" and "same_stack 3 (JSR_LONG s) u"
  shows "RTL u = u\<lparr>reg_pc := (reg_pc s + 4) AND 0xFFFF, reg_pbr := reg_pbr s, reg_sp := reg_sp s\<rparr>"
  using assms by (rule RTL_after_JSL)

section \<open>Interrupt and return, status byte\<close>

lemma ucast_u8_and: "(ucast (x :: u8) AND ucast y :: u32) = ucast (x AND y)"
  by (rule bit_eqI) (auto simp: bit_simps)

lemma ucast_u8_eq_0 [simp]: "(ucast (x :: u8) :: u32) = 0 \<longleftrightarrow> x = 0"
  by (simp add: word_unat_eq_iff)

lemma LOCAL_SET_STATUS_byte:
  "LOCAL_SET_STATUS (ucast (st :: u8)) s =
     s\<lparr>reg_p := st AND NOT 0x82, flag_z := of_bool (st AND 0x02 = 0), flag_n := st\<rparr>"
proof -
  have "(ucast (ucast st AND NOT (0x82 :: u32)) :: u8) = st AND NOT 0x82"
    by (rule bit_eqI) (auto simp: bit_simps)
  moreover have "(ucast st AND (2 :: u32) = 0) = (st AND 2 = 0)"
    using ucast_u8_and [of st 2] ucast_u8_eq_0 [of "st AND 2"] by simp
  ultimately show ?thesis by (simp add: LOCAL_SET_STATUS_def LOCAL_SET_ZERO_def)
qed

text \<open>What a status byte restores: the bits kept in \<open>reg_p\<close>, and the N and Z flags.\<close>

definition same_flags :: "cpu \<Rightarrow> cpu \<Rightarrow> bool" where
  "same_flags s t \<longleftrightarrow> LOCAL_SIGN t = LOCAL_SIGN s \<and> LOCAL_ZERO t = LOCAL_ZERO s"

lemma status_parts:
  fixes p n :: u8 and z :: bool
  assumes "p AND 0x82 = 0"
  defines "v \<equiv> p OR (n AND 0x80) OR (if z then 0x02 else 0)"
  shows "v AND NOT 0x82 = p" "v AND 0x80 = n AND 0x80" "(v AND 0x02 = 0) = (\<not> z)"
proof -
  have p: "p AND NOT 0x82 = p" 
  proof -
    have "p = (p AND 0x82) OR (p AND NOT 0x82)" by (rule bit_eqI) (auto simp: bit_simps)
    with assms(1) show ?thesis by simp
  qed
  have p80: "p AND 0x80 = 0" "p AND 0x02 = 0"
  proof -
    have "p AND 0x80 = (p AND 0x82) AND 0x80" by (simp add: and.assoc)
    with assms(1) show "p AND 0x80 = 0" by simp
    have "p AND 0x02 = (p AND 0x82) AND 0x02" by (simp add: and.assoc)
    with assms(1) show "p AND 0x02 = 0" by simp
  qed
  show "v AND NOT 0x82 = p" using p by (simp add: v_def mask_simps)
  show "v AND 0x80 = n AND 0x80" using p80 by (simp add: v_def mask_simps)
  show "(v AND 0x02 = 0) = (\<not> z)" using p80 by (simp add: v_def mask_simps)
qed

definition mask_index :: "cpu \<Rightarrow> cpu" where
  "mask_index s = (if LOCAL_65816_X s then s\<lparr>reg_x := reg_x s AND 0xFF, reg_y := reg_y s AND 0xFF\<rparr> else s)"

lemma mask_index_frame [simp]:
  "reg_sp (mask_index s) = reg_sp s" "reg_emul (mask_index s) = reg_emul s"
  "ramMemory (mask_index s) = ramMemory s" "reg_p (mask_index s) = reg_p s"
  "mask_index (s\<lparr>reg_sp := v\<rparr>) = (mask_index s)\<lparr>reg_sp := v\<rparr>"
  "mask_index (s\<lparr>reg_pc := w\<rparr>) = (mask_index s)\<lparr>reg_pc := w\<rparr>"
  by (simp_all add: mask_index_def LOCAL_65816_X_def)

lemma LOCAL_SET_STATUS_commute [simp]:
  "LOCAL_SET_STATUS st (s\<lparr>reg_sp := v\<rparr>) = (LOCAL_SET_STATUS st s)\<lparr>reg_sp := v\<rparr>"
  "LOCAL_SET_STATUS st (s\<lparr>reg_pc := w\<rparr>) = (LOCAL_SET_STATUS st s)\<lparr>reg_pc := w\<rparr>"
  by (simp_all add: LOCAL_SET_STATUS_def LOCAL_SET_ZERO_def)

lemma RTI_eq:
  "RTI u = (let t = mask_index (LOCAL_SET_STATUS (peek 0 u) u)
     in if reg_emul u = 0 then
       t\<lparr>reg_pc := peek 1 u OR push_bit 8 (peek 2 u), reg_pbr := ucast (peek 3 u),
         reg_sp := stack_pos 0 (reg_sp u) 4\<rparr>
     else t\<lparr>reg_pc := peek 1 u OR push_bit 8 (peek 2 u),
         reg_sp := stack_pos (reg_emul u) (reg_sp u) 3\<rparr>)"
  unfolding RTI_def mask_index_def [symmetric]
  by (simp add: Let_def split_def PULL_eq peek_def LOAD_LONG_def stack_pos_add INC_PC_def)

lemma BRK_native:
  assumes "stack_ok s" and "reg_emul s = 0"
  defines "pc \<equiv> (reg_pc s + 2) AND 0xFFFF"
  shows "reg_sp (BRK s) = stack_pos 0 (reg_sp s) (-4)" "reg_emul (BRK s) = 0"
    "peek 0 (BRK s) = ucast (LOCAL_65816_STATUS s)" 
    "peek 1 (BRK s) = pc AND 0xFF" "peek 2 (BRK s) = drop_bit 8 pc AND 0xFF"
    "peek 3 (BRK s) = ucast (reg_pbr s)"
proof -
  define pc' where "pc' = reg_pc (INC_PC 2 s)"
  have st: "LOCAL_65816_STATUS (PUSH v t) = LOCAL_65816_STATUS t"
    "LOCAL_65816_STATUS (INC_PC n t) = LOCAL_65816_STATUS t" 
    "LOCAL_65816_STATUS (EXPORT_REGISTERS t) = LOCAL_65816_STATUS t" for v n t
    by (simp_all add: LOCAL_65816_STATUS_def LOCAL_ZERO_def)
  let ?t = "INC_PC 2 (EXPORT_REGISTERS s)"
  have ok: "stack_ok ?t" using assms by simp
  have eq: "BRK s = (LOAD_INT_ADDR 0xFFE6 (LOCAL_SET_INTERRUPT True (LOCAL_SET_DECIMAL False
      (PUSH (ucast (LOCAL_65816_STATUS s)) (PUSH pc (PUSH (drop_bit 8 pc) 
        (PUSH (ucast (reg_pbr s)) ?t)))))))\<lparr>reg_pbr := 0\<rparr>"
    using assms by (simp add: BRK_def Let_def st)
  show "reg_sp (BRK s) = stack_pos 0 (reg_sp s) (-4)" "reg_emul (BRK s) = 0"
    using assms by (simp_all add: eq PUSH_sp stack_pos_add)
  show "peek 0 (BRK s) = ucast (LOCAL_65816_STATUS s)" 
    "peek 1 (BRK s) = pc AND 0xFF" "peek 2 (BRK s) = drop_bit 8 pc AND 0xFF"
    "peek 3 (BRK s) = ucast (reg_pbr s)"
    using ok by (simp_all add: eq eval_nat_numeral peek_PUSH_simps and_mask_id)
qed

lemma status_frame [simp]:
  "LOCAL_STATUS (PUSH v t) = LOCAL_STATUS t" "LOCAL_65816_STATUS (PUSH v t) = LOCAL_65816_STATUS t"
  "LOCAL_STATUS (INC_PC n t) = LOCAL_STATUS t"
  "LOCAL_65816_STATUS (INC_PC n t) = LOCAL_65816_STATUS t"
  "LOCAL_STATUS (EXPORT_REGISTERS t) = LOCAL_STATUS t"
  "LOCAL_65816_STATUS (EXPORT_REGISTERS t) = LOCAL_65816_STATUS t"
  by (simp_all add: LOCAL_STATUS_def LOCAL_65816_STATUS_def LOCAL_ZERO_def)

lemma BRK_emulation:
  assumes "stack_ok s" and "reg_emul s \<noteq> 0"
  defines "pc \<equiv> (reg_pc s + 2) AND 0xFFFF"
  shows "reg_sp (BRK s) = stack_pos (reg_emul s) (reg_sp s) (-3)" "reg_emul (BRK s) = reg_emul s"
    "peek 0 (BRK s) = ucast (LOCAL_STATUS (LOCAL_SET_BREAK True s))"
    "peek 1 (BRK s) = pc AND 0xFF" "peek 2 (BRK s) = drop_bit 8 pc AND 0xFF"
proof -
  let ?t = "LOCAL_SET_BREAK True (INC_PC 2 (EXPORT_REGISTERS s))"
  have st: "LOCAL_STATUS ?t = LOCAL_STATUS (LOCAL_SET_BREAK True s)"
    by (simp add: LOCAL_STATUS_def LOCAL_ZERO_def LOCAL_SET_BREAK_def)
  have ok: "stack_ok ?t" using assms by simp
  have eq: "BRK s = (LOAD_INT_ADDR 0xFFFE (LOCAL_SET_INTERRUPT True (LOCAL_SET_DECIMAL False
      (PUSH (ucast (LOCAL_STATUS (LOCAL_SET_BREAK True s)))
        (PUSH pc (PUSH (drop_bit 8 pc) ?t))))))\<lparr>reg_pbr := 0\<rparr>"
    using assms by (simp add: BRK_def Let_def st)
  show "reg_sp (BRK s) = stack_pos (reg_emul s) (reg_sp s) (-3)" "reg_emul (BRK s) = reg_emul s"
    by (simp_all add: eq PUSH_sp stack_pos_add)
  show "peek 0 (BRK s) = ucast (LOCAL_STATUS (LOCAL_SET_BREAK True s))"
    "peek 1 (BRK s) = pc AND 0xFF" "peek 2 (BRK s) = drop_bit 8 pc AND 0xFF"
    using ok by (simp_all add: eq eval_nat_numeral peek_PUSH_simps and_mask_id)
qed

lemma RTI_result:
  assumes "peek 0 u = ucast st" and "st AND NOT 0x82 = p" "st AND 0x80 = LOCAL_SIGN s"
    "(st AND 0x02 = 0) = (\<not> LOCAL_ZERO s)"
  shows "reg_p (RTI u) = p" "same_flags s (RTI u)"
    "reg_pc (RTI u) = peek 1 u OR push_bit 8 (peek 2 u)"
    "reg_pbr (RTI u) = (if reg_emul u = 0 then ucast (peek 3 u) else reg_pbr u)"
    "reg_sp (RTI u) = stack_pos (reg_emul u) (reg_sp u) (if reg_emul u = 0 then 4 else 3)"
proof -
  have m: "reg_pbr (mask_index t) = reg_pbr t" "flag_n (mask_index t) = flag_n t"
    "flag_z (mask_index t) = flag_z t" for t by (simp_all add: mask_index_def)
  show "reg_p (RTI u) = p" "same_flags s (RTI u)"
    "reg_pc (RTI u) = peek 1 u OR push_bit 8 (peek 2 u)"
    "reg_pbr (RTI u) = (if reg_emul u = 0 then ucast (peek 3 u) else reg_pbr u)"
    "reg_sp (RTI u) = stack_pos (reg_emul u) (reg_sp u) (if reg_emul u = 0 then 4 else 3)"
    using assms
    by (simp_all add: RTI_eq Let_def m LOCAL_SET_STATUS_byte same_flags_def LOCAL_SIGN_def LOCAL_ZERO_def)
qed

lemma wf_status: "wf_cpu s \<Longrightarrow> reg_p s AND 0x82 = 0"
  by (simp add: wf_cpu_def mode_ok_def)

lemma return_address: "(((pc :: u32) AND 0xFFFF) AND 0xFF) OR push_bit 8 (drop_bit 8 (pc AND 0xFFFF) AND 0xFF)
    = pc AND 0xFFFF"
  by (subst word_bytes) simp

text \<open>C17: In native mode RTI after BRK resumes behind the signature byte, with the program
  bank, the stack pointer, the status byte and the N and Z flags of the interrupted code.\<close>

theorem BRK_RTI_native:
  assumes "wf_cpu s" and "reg_emul s = 0" and "same_stack 4 (BRK s) u"
  shows "reg_pc (RTI u) = (reg_pc s + 2) AND 0xFFFF \<and> reg_pbr (RTI u) = reg_pbr s
    \<and> reg_sp (RTI u) = reg_sp s \<and> reg_p (RTI u) = reg_p s \<and> same_flags s (RTI u)"
proof -
  note st = same_stackD [OF assms(3)] and ok = wf_stack_ok [OF assms(1)]
  note br = BRK_native [OF ok assms(2)] and pt = status_parts [OF wf_status [OF assms(1)]]
  have byte: "LOCAL_65816_STATUS s =
      reg_p s OR (flag_n s AND 0x80) OR (if LOCAL_ZERO s then 0x02 else 0)"
    by (simp add: LOCAL_65816_STATUS_def)
  have "peek 0 u = ucast (LOCAL_65816_STATUS s)" using br st by simp
  note r = RTI_result [OF this, of "reg_p s" s, unfolded byte pt LOCAL_SIGN_def, simplified]
  have "reg_sp (RTI u) = reg_sp s"
    using r(5) br st stack_pos_back [OF ok, of "- 4"] assms(2) by simp
  moreover have "peek 1 u OR push_bit 8 (peek 2 u) = (reg_pc s + 2) AND 0xFFFF"
    using br(4,5) return_address [of "reg_pc s + 2"] st(3) by simp
  ultimately show ?thesis using r(1-4) br st assms(2) by simp
qed

text \<open>C18: In emulation mode RTI after BRK resumes behind the signature byte; the B bit that
  BRK sets and the unused bit stay set in the status byte, N and Z come back, and the
  program bank is not restored.\<close>

theorem BRK_RTI_emulation:
  assumes "wf_cpu s" and "reg_emul s \<noteq> 0" and "same_stack 3 (BRK s) u"
  shows "reg_pc (RTI u) = (reg_pc s + 2) AND 0xFFFF \<and> reg_pbr (RTI u) = reg_pbr u
    \<and> reg_sp (RTI u) = reg_sp s \<and> reg_p (RTI u) = reg_p s OR 0x30
    \<and> same_flags s (RTI u)"
proof -
  note st = same_stackD [OF assms(3)] and ok = wf_stack_ok [OF assms(1)]
  define p where "p = reg_p s OR 0x30"
  have "p AND 0x82 = 0" using wf_status [OF assms(1)] by (simp add: p_def mask_simps)
  note br = BRK_emulation [OF ok assms(2)] and pt = status_parts [OF this]
  have byte: "LOCAL_STATUS (LOCAL_SET_BREAK True s) =
      p OR (flag_n s AND 0x80) OR (if LOCAL_ZERO s then 0x02 else 0)"
  proof -
    have "(0x30 :: u8) = 0x10 OR 0x20" by simp
    then show ?thesis
      unfolding LOCAL_STATUS_def LOCAL_SET_BREAK_def LOCAL_ZERO_def p_def
      by (simp only: or.assoc or.left_commute or.commute)
        (simp, simp only: or.assoc or.left_commute or.commute, simp)
  qed
  have "peek 0 u = ucast (LOCAL_STATUS (LOCAL_SET_BREAK True s))" using br st by simp
  note r = RTI_result [OF this, of p s, unfolded byte pt LOCAL_SIGN_def, simplified]
  have "reg_sp (RTI u) = reg_sp s"
    using r(5) br st stack_pos_back [OF ok, of "- 3"] assms(2) by simp
  moreover have "peek 1 u OR push_bit 8 (peek 2 u) = (reg_pc s + 2) AND 0xFFFF"
    using br(4,5) return_address [of "reg_pc s + 2"] st(3) by simp
  ultimately show ?thesis using r(1-4) br st assms(2) by (simp add: p_def)
qed

section \<open>Pushes and pulls of registers\<close>

lemma STORE_STACK_peek:
  assumes "stack_ok s"
  shows "reg_emul (STORE_STACK v b s) = reg_emul s"
    "reg_sp (STORE_STACK v b s) = stack_pos (reg_emul s) (reg_sp s) (if b then -1 else -2)"
    "peek 0 (STORE_STACK v b s) = v AND 0xFF"
    "\<not> b \<Longrightarrow> peek 1 (STORE_STACK v b s) = drop_bit 8 v AND 0xFF"
  using assms by (simp_all add: STORE_STACK_def Let_def PUSH_sp stack_pos_add peek_PUSH_simps)

lemma LOAD_STACK_eq:
  "LOAD_STACK b u = (if b then peek 0 u else peek 0 u OR push_bit 8 (peek 1 u),
     (INC_PC 1 u)\<lparr>reg_sp := stack_pos (reg_emul u) (reg_sp u) (if b then 1 else 2)\<rparr>)"
  by (simp add: LOAD_STACK_def Let_def PULL_eq stack_pos_add INC_PC_def peek_up)

theorem push_then_pull:
  assumes "stack_ok s" and "same_stack (if b then 1 else 2) (STORE_STACK v b s) u"
  shows "LOAD_STACK b u = (v AND (if b then 0xFF else 0xFFFF), (INC_PC 1 u)\<lparr>reg_sp := reg_sp s\<rparr>)"
proof -
  note st = same_stackD [OF assms(2)] and p = STORE_STACK_peek [OF assms(1), where v = v and b = b]
  have "stack_pos (reg_emul u) (reg_sp u) (if b then 1 else 2) = reg_sp s"
    using st(1,2) p(1,2) stack_pos_back [OF assms(1), of "if b then - 1 else - 2"] by (cases b) simp_all
  moreover have "peek 0 u = v AND 0xFF" using st(3) [of 0] p(3) by (simp split: if_splits)
  moreover have "peek 1 u = drop_bit 8 v AND 0xFF" if "\<not> b" using st(3) [of 1] p(4) that by simp
  ultimately show ?thesis using word_bytes [of v] by (cases b) (simp_all add: LOAD_STACK_eq)
qed

lemma PHA_PLA:
  assumes "wf_cpu s" and "LOCAL_65816_M u = LOCAL_65816_M s"
    and "same_stack (if LOCAL_65816_M s then 1 else 2) (PHA STORE_STACK s) u"
  shows "reg_sp (PLA LOAD_STACK u) = reg_sp s \<and> reg_a (PLA LOAD_STACK u) = reg_a s
    \<and> reg_b (PLA LOAD_STACK u) = (if LOCAL_65816_M s then reg_b u else reg_b s)"
proof (cases "LOCAL_65816_M s")
  case True
  then show ?thesis
    using assms push_then_pull [OF wf_stack_ok [OF assms(1)], of True "ucast (reg_a s)" u]
    by (simp add: PLA_def PHA_def and_mask_id)
next
  case False
  then show ?thesis
    using assms push_then_pull [OF wf_stack_ok [OF assms(1)], of False "ucast (reg_c s)" u]
    by (simp add: PLA_def PHA_def and_mask_id reg_a_def reg_b_def)
qed

lemma wf_index_bound: "wf_cpu s \<Longrightarrow> LOCAL_65816_X s \<Longrightarrow> reg_x s \<le> 0xFF \<and> reg_y s \<le> 0xFF"
  by (auto simp: wf_cpu_def mode_ok_def LOCAL_65816_X_def)

lemma ucast_and_u16:
  "(v :: u16) \<le> 0xFF \<Longrightarrow> (ucast ((ucast v :: u32) AND 0xFF) :: u16) = v"
  "(ucast ((ucast v :: u32) AND 0xFFFF) :: u16) = v"
  using u16_bound [of v] by (simp_all add: word_unat_eq_iff unat_ucast_down unat_masks word_le_nat_alt)

lemma ucast_drop8: "(ucast (drop_bit 8 (v :: u16)) :: u32) = drop_bit 8 (ucast v)"
  by (rule bit_eqI) (auto simp: bit_simps dest: bit_imp_le_length)

lemma PHX_PLX:
  assumes "wf_cpu s" and "LOCAL_65816_X u = LOCAL_65816_X s"
    and "same_stack (if LOCAL_65816_X s then 1 else 2) (PHX STORE_STACK s) u"
  shows "reg_sp (PLX LOAD_STACK u) = reg_sp s \<and> reg_x (PLX LOAD_STACK u) = reg_x s"
  using assms wf_index_bound [OF assms(1)]
    push_then_pull [OF wf_stack_ok [OF assms(1)], of "LOCAL_65816_X s" "ucast (reg_x s)" u]
  by (cases "LOCAL_65816_X s") (simp_all add: PLX_def PLI_def PHX_def ucast_and_u16)

lemma PHY_PLY:
  assumes "wf_cpu s" and "LOCAL_65816_X u = LOCAL_65816_X s"
    and "same_stack (if LOCAL_65816_X s then 1 else 2) (PHY STORE_STACK s) u"
  shows "reg_sp (PLY LOAD_STACK u) = reg_sp s \<and> reg_y (PLY LOAD_STACK u) = reg_y s"
  using assms wf_index_bound [OF assms(1)]
    push_then_pull [OF wf_stack_ok [OF assms(1)], of "LOCAL_65816_X s" "ucast (reg_y s)" u]
  by (cases "LOCAL_65816_X s") (simp_all add: PLY_def PLI_def PHY_def ucast_and_u16)

lemma PHB_PLB:
  assumes "wf_cpu s" and "same_stack 1 (PHB STORE_STACK s) u"
  shows "reg_sp (PLB LOAD_STACK u) = reg_sp s \<and> reg_dbr (PLB LOAD_STACK u) = reg_dbr s"
  using assms push_then_pull [OF wf_stack_ok [OF assms(1)], of True "ucast (reg_dbr s)" u]
  by (simp add: PLB_def PHB_def and_mask_id)

lemma PHP_PLP:
  assumes "wf_cpu s" and "same_stack 1 (PHP STORE_STACK s) u"
  shows "reg_sp (PLP LOAD_STACK u) = reg_sp s \<and> same_flags s (PLP LOAD_STACK u)
    \<and> reg_p (PLP LOAD_STACK u) = (if reg_emul s \<noteq> 0 then reg_p s OR 0x30 else reg_p s)"
proof -
  define p where "p = (if reg_emul s \<noteq> 0 then reg_p s OR 0x30 else reg_p s)"
  define st where "st = p OR (flag_n s AND 0x80) OR (if LOCAL_ZERO s then 0x02 else 0)"
  have "p AND 0x82 = 0" using wf_status [OF assms(1)] by (simp add: p_def mask_simps)
  note pt = status_parts [OF this, of "flag_n s" "LOCAL_ZERO s", folded st_def]
  have "LOCAL_STATUS s OR 0x10 = (reg_p s OR 0x30) OR (flag_n s AND 0x80) OR (if LOCAL_ZERO s then 0x02 else 0)"
  proof -
    have "(0x30 :: u8) = 0x10 OR 0x20" by simp
    then show ?thesis
      unfolding LOCAL_STATUS_def by (simp only: or.assoc or.left_commute or.commute)
  qed
  then have "PHP STORE_STACK s = STORE_STACK (ucast st) True s"
    by (simp add: PHP_def st_def p_def LOCAL_65816_STATUS_def)
  with assms(2) have "LOAD_STACK True u = (ucast st, (INC_PC 1 u)\<lparr>reg_sp := reg_sp s\<rparr>)"
    using push_then_pull [OF wf_stack_ok [OF assms(1)], of True "ucast st" u] by (simp add: and_mask_id)
  then have "PLP LOAD_STACK u = mask_index (LOCAL_SET_STATUS (ucast st) ((INC_PC 1 u)\<lparr>reg_sp := reg_sp s\<rparr>))"
    by (simp add: PLP_def mask_index_def Let_def)
  then show ?thesis
    using pt by (simp add: LOCAL_SET_STATUS_byte same_flags_def LOCAL_SIGN_def LOCAL_ZERO_def
        mask_index_def p_def)
qed

lemma PHD_PLD:
  assumes "wf_cpu s" and "reg_emul s \<noteq> 0 \<Longrightarrow> 0x102 \<le> reg_sp s" and "same_stack 2 (PHD s) u"
  shows "reg_sp (PLD u) = reg_sp s \<and> reg_dpr (PLD u) = reg_dpr s"
proof -
  note st = same_stackD [OF assms(3)] and ok = wf_stack_ok [OF assms(1)]
  have sp: "reg_emul s \<noteq> 0 \<longrightarrow> 256 + 2 \<le> unat (reg_sp s)"
    using assms(2) by (auto simp: word_le_nat_alt)
  with ok have room: "room_below (Suc 0) (INC_PC 1 s)" by (auto simp: room_below_def)
  have eq: "PHD s = PUSH (ucast (reg_dpr s)) (PUSH (ucast (drop_bit 8 (reg_dpr s))) (INC_PC 1 s))"
    by (simp add: PHD_def Let_def PUSH_room(1) [OF room])
  have ph: "reg_sp (PHD s) = stack_pos (reg_emul s) (reg_sp s) (-2)" "reg_emul (PHD s) = reg_emul s"
    "peek 0 (PHD s) = ucast (reg_dpr s) AND 0xFF" 
    "peek 1 (PHD s) = ucast (drop_bit 8 (reg_dpr s)) AND 0xFF"
    using ok by (simp_all add: eq PUSH_sp stack_pos_add peek_PUSH_simps)
  have "stack_ok (PHD s)" using ph by (simp add: stack_ok_def stack_pos_one)
  then have r0: "room_above (Suc (Suc 0)) (INC_PC 1 u)"
    using ph st stack_pos_down [OF ok sp] stack_ok_range [OF ok] sp
    by (auto simp: room_above_def stack_ok_def)
  note r1 = PULL_room(2) [OF r0]
  have page: "(stack_pos e sp k AND 0xFF) OR 0x100 = stack_pos e sp k" if "e \<noteq> 0" for e sp k
    using page_one_unat(1) [OF stack_pos_one [OF that]] by (simp add: or.commute)
  have "reg_sp (PLD u) = stack_pos (reg_emul u) (reg_sp u) 2
      \<and> reg_dpr (PLD u) = ucast (peek 0 u OR push_bit 8 (peek 1 u))"
    by (simp add: PLD_def Let_def split_def PULL_room(1) [OF r0] PULL_room(1) [OF r1])
      (simp add: PULL_eq INC_PC_def peek_up stack_pos_add page)
  moreover have "(ucast (reg_dpr s) AND (0xFF :: u32)) OR push_bit 8 (ucast (drop_bit 8 (reg_dpr s)) AND 0xFF)
      = ucast (reg_dpr s)"
    using word_bytes [of "ucast (reg_dpr s)"] by (simp add: and_mask_id ucast_drop8)
  ultimately show ?thesis
    using ph st(1,2) st(3) [of 0] st(3) [of 1] stack_pos_back [OF ok, of "- 2"] by simp
qed

section \<open>Last in, first out\<close>

text \<open>C20: The hardware stack is a stack: bytes pushed one after the other are pulled in
  reverse order, up to its capacity of one page in emulation mode and a bank in native
  mode, wherever the stack pointer starts.\<close>

theorem stack_lifo:
  "stack_ok s \<Longrightarrow> length vs \<le> stack_cap s \<Longrightarrow>
     fst (pulls PULL (length vs) (fold PUSH vs s)) = rev (map (\<lambda>v. v AND 0xFF) vs)"
  by (rule hw.pulls_pushes)

theorem stack_lifo_witness:
  "fst (pulls PULL 3 (fold PUSH [1, 2, 0x103] (initial_cpu (\<lambda>a. 0)))) = [3, 2, 1]"
  using stack_lifo [of "initial_cpu (\<lambda>a. 0)" "[1, 2, 0x103]"]
  by (simp add: stack_ok_def stack_cap_def eval_nat_numeral) (simp add: initial_cpu_def)

section \<open>The round trips on concrete states\<close>

text \<open>Between the two instructions a register is overwritten.\<close>

lemma same_stack_clobber [simp]:
  "same_stack n s (s\<lparr>reg_c := c\<rparr>)" "same_stack n s (s\<lparr>reg_x := x\<rparr>)" "same_stack n s (s\<lparr>reg_y := x\<rparr>)"
  "same_stack n s (s\<lparr>reg_p := p\<rparr>)" "same_stack n s (s\<lparr>reg_dbr := b\<rparr>)" "same_stack n s (s\<lparr>reg_dpr := d\<rparr>)"
  by (simp_all add: same_stack_def peek_def LOAD_LONG_def)

theorem JSR_RTS_witness:
  "reg_pc (RTS ((JSR (native_cpu (\<lambda>a. 0x20)))\<lparr>reg_c := 7\<rparr>)) = 0x8003"
  using JSR_RTS [of "native_cpu (\<lambda>a. 0x20)" "(JSR (native_cpu (\<lambda>a. 0x20)))\<lparr>reg_c := 7\<rparr>"]
  by (simp add: wf_native wf_initial) (simp add: native_cpu_def initial_cpu_def)

theorem JSL_RTL_witness:
  "reg_pbr (RTL ((JSR_LONG (native_cpu (\<lambda>a. 0x22)))\<lparr>reg_c := 7\<rparr>)) = 2"
  using JSL_RTL [of "native_cpu (\<lambda>a. 0x22)" "(JSR_LONG (native_cpu (\<lambda>a. 0x22)))\<lparr>reg_c := 7\<rparr>"]
  by (simp add: wf_native wf_initial) (simp add: native_cpu_def initial_cpu_def)

theorem BRK_RTI_native_witness:
  "reg_p (RTI ((BRK (native_cpu (\<lambda>a. 0x22)))\<lparr>reg_p := 0x30\<rparr>)) = P_CARRY"
  using BRK_RTI_native [of "native_cpu (\<lambda>a. 0x22)" "(BRK (native_cpu (\<lambda>a. 0x22)))\<lparr>reg_p := 0x30\<rparr>"]
  by (simp add: wf_native wf_initial) (simp add: native_cpu_def initial_cpu_def)

theorem BRK_RTI_emulation_witness:
  "reg_p (RTI ((BRK (initial_cpu (\<lambda>a. 0)))\<lparr>reg_p := 1\<rparr>)) = 0x30"
  using BRK_RTI_emulation [of "initial_cpu (\<lambda>a. 0)" "(BRK (initial_cpu (\<lambda>a. 0)))\<lparr>reg_p := 1\<rparr>"]
  by (simp add: wf_native wf_initial) (simp add: native_cpu_def initial_cpu_def)

section \<open>Pushing and pulling every register\<close>

text \<open>C22: PLA, PLX and PLY restore what PHA, PHX and PHY pushed, at the width that the M and X
  flags select; with 8 bits PLA leaves the high byte of the accumulator alone. The code
  between push and pull may do anything that leaves the pushed bytes and the width.\<close>

theorem wide_push_pull:
  assumes "wf_cpu s" and "LOCAL_65816_M u = LOCAL_65816_M s" and "LOCAL_65816_X u = LOCAL_65816_X s"
  shows "(same_stack (if LOCAL_65816_M s then 1 else 2) (PHA STORE_STACK s) u \<longrightarrow>
      reg_sp (PLA LOAD_STACK u) = reg_sp s \<and> reg_a (PLA LOAD_STACK u) = reg_a s
      \<and> reg_b (PLA LOAD_STACK u) = (if LOCAL_65816_M s then reg_b u else reg_b s))
    \<and> (same_stack (if LOCAL_65816_X s then 1 else 2) (PHX STORE_STACK s) u \<longrightarrow>
      reg_sp (PLX LOAD_STACK u) = reg_sp s \<and> reg_x (PLX LOAD_STACK u) = reg_x s)
    \<and> (same_stack (if LOCAL_65816_X s then 1 else 2) (PHY STORE_STACK s) u \<longrightarrow>
      reg_sp (PLY LOAD_STACK u) = reg_sp s \<and> reg_y (PLY LOAD_STACK u) = reg_y s)"
  using PHA_PLA [OF assms(1,2)] PHX_PLX [OF assms(1,3)] PHY_PLY [OF assms(1,3)] by blast

theorem wide_push_pull_witness:
  "reg_a (PLA LOAD_STACK ((PHA STORE_STACK (native_cpu (\<lambda>a. 0)))\<lparr>reg_c := 0\<rparr>)) = 0x34
   \<and> reg_x (PLX LOAD_STACK ((PHX STORE_STACK (native_cpu (\<lambda>a. 0)))\<lparr>reg_x := 0\<rparr>)) = 0x5678"
proof -
  have w: "LOCAL_65816_M (native_cpu (\<lambda>a. 0)) = False" "LOCAL_65816_X (native_cpu (\<lambda>a. 0)) = False"
    "LOCAL_65816_M ((PHA STORE_STACK (native_cpu (\<lambda>a. 0)))\<lparr>reg_c := 0\<rparr>) = False"
    "LOCAL_65816_X (PHA STORE_STACK (native_cpu (\<lambda>a. 0))) = False"
    "LOCAL_65816_M ((PHX STORE_STACK (native_cpu (\<lambda>a. 0)))\<lparr>reg_x := 0\<rparr>) = False"
    "LOCAL_65816_X (PHX STORE_STACK (native_cpu (\<lambda>a. 0))) = False"
    by (simp_all add: native_cpu_def initial_cpu_def LOCAL_65816_M_def LOCAL_65816_X_def PHA_def PHX_def
        STORE_STACK_def Let_def)
  have regs: "reg_a (native_cpu (\<lambda>a. 0)) = 0x34" "reg_x (native_cpu (\<lambda>a. 0)) = 0x5678"
    by (simp_all add: native_cpu_def reg_a_def)
  show ?thesis
    using wide_push_pull [of "native_cpu (\<lambda>a. 0)" "(PHA STORE_STACK (native_cpu (\<lambda>a. 0)))\<lparr>reg_c := 0\<rparr>"]
      wide_push_pull [of "native_cpu (\<lambda>a. 0)" "(PHX STORE_STACK (native_cpu (\<lambda>a. 0)))\<lparr>reg_x := 0\<rparr>"]
    by (simp add: w regs wf_native)
qed

text \<open>PLB, PLP and PLD restore the data bank, the status byte and the direct page register
  that PHB, PHP and PHD pushed; in emulation mode the break bit and the unused bit of the
  status come back set, as on the 6502, and PHD must not start at the bottom of page one,
  where it does not wrap.\<close>

theorem fixed_push_pull:
  assumes "wf_cpu s"
  shows "(same_stack 1 (PHB STORE_STACK s) u \<longrightarrow>
      reg_sp (PLB LOAD_STACK u) = reg_sp s \<and> reg_dbr (PLB LOAD_STACK u) = reg_dbr s)
    \<and> (same_stack 1 (PHP STORE_STACK s) u \<longrightarrow>
      reg_sp (PLP LOAD_STACK u) = reg_sp s \<and> same_flags s (PLP LOAD_STACK u)
      \<and> reg_p (PLP LOAD_STACK u) = (if reg_emul s \<noteq> 0 then reg_p s OR 0x30 else reg_p s))
    \<and> ((reg_emul s \<noteq> 0 \<longrightarrow> 0x102 \<le> reg_sp s) \<and> same_stack 2 (PHD s) u \<longrightarrow>
      reg_sp (PLD u) = reg_sp s \<and> reg_dpr (PLD u) = reg_dpr s)"
  using PHB_PLB [OF assms] PHP_PLP [OF assms] PHD_PLD [OF assms] by blast

theorem fixed_push_pull_witness:
  "reg_dbr (PLB LOAD_STACK ((PHB STORE_STACK (native_cpu (\<lambda>a. 0)))\<lparr>reg_dbr := 0\<rparr>)) = 3
   \<and> reg_p (PLP LOAD_STACK ((PHP STORE_STACK (native_cpu (\<lambda>a. 0)))\<lparr>reg_p := 0\<rparr>)) = P_CARRY
   \<and> reg_dpr (PLD ((PHD (native_cpu (\<lambda>a. 0)))\<lparr>reg_dpr := 0\<rparr>)) = 0x2000"
proof -
  note w = fixed_push_pull [OF wf_native, of "\<lambda>a. 0"]
  have e: "reg_emul (native_cpu (\<lambda>a. 0)) = 0" "reg_dbr (native_cpu (\<lambda>a. 0)) = 3"
    "reg_p (native_cpu (\<lambda>a. 0)) = P_CARRY" "reg_dpr (native_cpu (\<lambda>a. 0)) = 0x2000"
    by (simp_all add: native_cpu_def)
  show ?thesis
    using w [of "(PHB STORE_STACK (native_cpu (\<lambda>a. 0)))\<lparr>reg_dbr := 0\<rparr>"]
      w [of "(PHP STORE_STACK (native_cpu (\<lambda>a. 0)))\<lparr>reg_p := 0\<rparr>"] w [of "(PHD (native_cpu (\<lambda>a. 0)))\<lparr>reg_dpr := 0\<rparr>"]
    by (simp add: e)
qed

end
