(* ===== verification/Keyboard.thy ===== *)
theory Keyboard
  imports Prelude
begin

text \<open>
  The keyboard of the emulator (\<open>src/emulator/framework/gfx.cpp\<close>): the array \<open>keyState\<close>
  of key records, how SDL key events update it, and the conversion of a key to ASCII.

  The key codes of SDL (\<open>SDLK_UP\<close>, \<open>SDLK_a\<close>, ...) come from its headers; they are the
  argument \<open>sdlk\<close>, a function from the name after \<open>SDLK_\<close> to the code. Keys that no
  entry of the table names keep the code 0. The C arrays have 128 entries; a C \<open>int\<close> that
  only holds key numbers, flags or codes is an \<open>int\<close>.
\<close>

section \<open>Key numbers\<close>

definition GFXKEY_BASE :: int where "GFXKEY_BASE = 1"

definition GFXKEY_LSHIFT :: int where "GFXKEY_LSHIFT = GFXKEY_BASE + 5"
definition GFXKEY_CONTROL :: int where "GFXKEY_CONTROL = GFXKEY_BASE + 6"
definition GFXKEY_F1 :: int where "GFXKEY_F1 = GFXKEY_BASE + 7"
definition GFXKEY_F2 :: int where "GFXKEY_F2 = GFXKEY_BASE + 8"
definition GFXKEY_F5 :: int where "GFXKEY_F5 = GFXKEY_BASE + 11"
definition GFXKEY_F6 :: int where "GFXKEY_F6 = GFXKEY_BASE + 12"
definition GFXKEY_F7 :: int where "GFXKEY_F7 = GFXKEY_BASE + 13"
definition GFXKEY_F8 :: int where "GFXKEY_F8 = GFXKEY_BASE + 14"
definition GFXKEY_F9 :: int where "GFXKEY_F9 = GFXKEY_BASE + 15"
definition GFXKEY_RETURN :: int where "GFXKEY_RETURN = GFXKEY_BASE + 17"
definition GFXKEY_BACKSPACE :: int where "GFXKEY_BACKSPACE = GFXKEY_BASE + 18"
definition GFXKEY_TAB :: int where "GFXKEY_TAB = GFXKEY_BASE + 19"
definition GFXKEY_RSHIFT :: int where "GFXKEY_RSHIFT = GFXKEY_BASE + 20"
definition GFXKEY_SHIFT :: int where "GFXKEY_SHIFT = GFXKEY_BASE + 21"

lemmas gfxkey_defs = GFXKEY_BASE_def GFXKEY_LSHIFT_def GFXKEY_CONTROL_def GFXKEY_F1_def
  GFXKEY_F2_def GFXKEY_F5_def GFXKEY_F6_def GFXKEY_F7_def GFXKEY_F8_def GFXKEY_F9_def
  GFXKEY_RETURN_def GFXKEY_BACKSPACE_def GFXKEY_TAB_def GFXKEY_RSHIFT_def GFXKEY_SHIFT_def

definition GFXISSHIFTKEY :: "int \<Rightarrow> bool" where
  "GFXISSHIFTKEY x \<longleftrightarrow> x = GFXKEY_SHIFT \<or> x = GFXKEY_RSHIFT \<or> x = GFXKEY_LSHIFT"

definition GFXISCONTROLKEY :: "int \<Rightarrow> bool" where
  "GFXISCONTROLKEY x \<longleftrightarrow> x = GFXKEY_CONTROL"

definition GFXISMODIFIERKEY :: "int \<Rightarrow> bool" where
  "GFXISMODIFIERKEY x \<longleftrightarrow> GFXISCONTROLKEY x \<or> GFXISSHIFTKEY x"

section \<open>The key table\<close>

definition keyTable :: "(string \<Rightarrow> int) \<Rightarrow> int list" where
  "keyTable sdlk =
    [GFXKEY_BASE + 1, sdlk ''UP'', GFXKEY_BASE + 2, sdlk ''DOWN'', GFXKEY_BASE + 3, sdlk ''LEFT'',
     GFXKEY_BASE + 4, sdlk ''RIGHT'',
     GFXKEY_RETURN, sdlk ''RETURN'', GFXKEY_BACKSPACE, sdlk ''BACKSPACE'', GFXKEY_TAB, sdlk ''TAB'',
     GFXKEY_LSHIFT, sdlk ''LSHIFT'', GFXKEY_RSHIFT, sdlk ''RSHIFT'', GFXKEY_SHIFT, -1,
     GFXKEY_CONTROL, sdlk ''LCTRL'',
     GFXKEY_F1, sdlk ''F1'', GFXKEY_F2, sdlk ''F2'', GFXKEY_BASE + 9, sdlk ''F3'',
     GFXKEY_BASE + 10, sdlk ''F4'', GFXKEY_F5, sdlk ''F5'', GFXKEY_F6, sdlk ''F6'',
     GFXKEY_F7, sdlk ''F7'', GFXKEY_F8, sdlk ''F8'', GFXKEY_F9, sdlk ''F9'',
     GFXKEY_BASE + 16, sdlk ''F10'', GFXKEY_BASE + 22, sdlk ''F11'', GFXKEY_BASE + 23, sdlk ''F12'',
     65, sdlk ''a'', 66, sdlk ''b'', 67, sdlk ''c'', 68, sdlk ''d'', 69, sdlk ''e'',
     70, sdlk ''f'', 71, sdlk ''g'', 72, sdlk ''h'', 73, sdlk ''i'', 74, sdlk ''j'',
     75, sdlk ''k'', 76, sdlk ''l'', 77, sdlk ''m'', 78, sdlk ''n'', 79, sdlk ''o'',
     80, sdlk ''p'', 81, sdlk ''q'', 82, sdlk ''r'', 83, sdlk ''s'', 84, sdlk ''t'',
     85, sdlk ''u'', 86, sdlk ''v'', 87, sdlk ''w'', 88, sdlk ''x'', 89, sdlk ''y'', 90, sdlk ''z'',
     48, sdlk ''0'', 49, sdlk ''1'', 50, sdlk ''2'', 51, sdlk ''3'', 52, sdlk ''4'',
     53, sdlk ''5'', 54, sdlk ''6'', 55, sdlk ''7'', 56, sdlk ''8'', 57, sdlk ''9'',
     45, sdlk ''MINUS'', 92, sdlk ''BACKSLASH'', 64, sdlk ''QUOTE'', 91, sdlk ''LEFTBRACKET'',
     93, sdlk ''RIGHTBRACKET'', 59, sdlk ''SEMICOLON'', 58, sdlk ''COLON'',
     46, sdlk ''PERIOD'', 44, sdlk ''COMMA'', 47, sdlk ''SLASH'', 35, sdlk ''HASH'',
     61, sdlk ''EQUALS'', 32, sdlk ''SPACE'',
     -1]"

section \<open>Key records\<close>

record KeyRecord =
  sdlKey :: int
  gfxKey :: int
  isPressed :: int

type_synonym key_state = "KeyRecord list"

text \<open>The scan of \<open>keyTable\<close>: pairs up to the terminating -1.\<close>

fun scan_keyTable :: "int list \<Rightarrow> key_state \<Rightarrow> key_state" where
  "scan_keyTable (k # v # table) keys =
     (if k = -1 then keys
      else scan_keyTable table
        (keys[nat k := (keys ! nat k)\<lparr>sdlKey := v, gfxKey := k\<rparr>]))"
| "scan_keyTable _ keys = keys"

definition GFXInitialiseKeyRecord :: "(string \<Rightarrow> int) \<Rightarrow> key_state" where
  "GFXInitialiseKeyRecord sdlk =
     scan_keyTable (keyTable sdlk) (replicate 128 \<lparr>sdlKey = 0, gfxKey = 0, isPressed = 0\<rparr>)"

definition GFXUpdateKeyRecord :: "int \<Rightarrow> bool \<Rightarrow> key_state \<Rightarrow> key_state" where
  "GFXUpdateKeyRecord scancode isDown keys =
     (let keys = map (\<lambda>r. if sdlKey r = scancode then r\<lparr>isPressed := of_bool isDown\<rparr> else r) keys
      in keys[nat GFXKEY_SHIFT := (keys ! nat GFXKEY_SHIFT)\<lparr>isPressed :=
           of_bool (isPressed (keys ! nat GFXKEY_LSHIFT) \<noteq> 0
                    \<or> isPressed (keys ! nat GFXKEY_RSHIFT) \<noteq> 0)\<rparr>])"

definition GFXIsKeyPressed :: "int \<Rightarrow> key_state \<Rightarrow> int" where
  "GFXIsKeyPressed character keys =
     (let character = (if 97 \<le> character \<and> character \<le> 122 then character - 97 + 65 else character)
      in isPressed (keys ! nat character))"

section \<open>Conversion to ASCII\<close>

text \<open>\<open>tolower\<close> and \<open>toupper\<close> of the C library, in the C locale.\<close>

definition tolower :: "int \<Rightarrow> int" where
  "tolower ch = (if 65 \<le> ch \<and> ch \<le> 90 then ch + 32 else ch)"

definition toupper :: "int \<Rightarrow> int" where
  "toupper ch = (if 97 \<le> ch \<and> ch \<le> 122 then ch - 32 else ch)"

text \<open>The \<open>switch\<close> for a key pressed together with shift: \<open>'\<close> gives \<open>@\<close>, \<open>-\<close> gives \<open>_\<close>,
  \<open>#\<close> gives \<open>~\<close>, \<open>=\<close> gives \<open>+\<close>, \<open>;\<close> gives \<open>:\<close>, and 6, 7, 8, 9, 0 give \<open>^ & * ( )\<close>.\<close>

definition shifted_key :: "int \<Rightarrow> int" where
  "shifted_key ch =
     (if ch = 39 then 64 else if ch = 45 then 95 else if ch = 35 then 126
      else if ch = 61 then 43 else if ch = 59 then 58 else if ch = 54 then 94
      else if ch = 55 then 38 else if ch = 56 then 42 else if ch = 57 then 40
      else if ch = 48 then 41
      else ch XOR (if ch < 64 then 0x10 else 0x20))"

definition GFXToASCII :: "int \<Rightarrow> int \<Rightarrow> key_state \<Rightarrow> int" where
  "GFXToASCII ch applyModifiers keys =
     (if 32 \<le> ch \<and> ch < 127 then
        let ch = tolower ch;
            ch = (if ch = 64 then 39 else ch)
        in if applyModifiers \<noteq> 0 then
             let ch = (if GFXIsKeyPressed GFXKEY_SHIFT keys \<noteq> 0 then shifted_key ch else ch)
             in (if GFXIsKeyPressed GFXKEY_CONTROL keys \<noteq> 0 then ch AND 31 else ch)
           else ch
      else if ch = GFXKEY_TAB then 0x09
      else if ch = GFXKEY_RETURN then 0x0D
      else if ch = GFXKEY_BACKSPACE then 0x08
      else 0x00)"

section \<open>The key records follow the events\<close>

text \<open>The SDL code stored for a key, as the table gives it.\<close>

fun table_code :: "int list \<Rightarrow> int \<Rightarrow> int \<Rightarrow> int" where
  "table_code (k # v # table) i c = (if k = -1 then c else table_code table i (if k = i then v else c))"
| "table_code _ i c = c"

fun table_ok :: "int list \<Rightarrow> bool" where
  "table_ok (k # v # table) \<longleftrightarrow> k = -1 \<or> 0 \<le> k \<and> k < 128 \<and> table_ok table"
| "table_ok _ \<longleftrightarrow> True"

lemma length_scan [simp]: "length (scan_keyTable table keys) = length keys"
  by (induction table keys rule: scan_keyTable.induct) simp_all

lemma scan_keyTable_nth:
  assumes "0 \<le> i" and "i < 128"
  shows "length keys = 128 \<Longrightarrow> table_ok table \<Longrightarrow>
    sdlKey (scan_keyTable table keys ! nat i) = table_code table i (sdlKey (keys ! nat i))
    \<and> isPressed (scan_keyTable table keys ! nat i) = isPressed (keys ! nat i)"
  using assms by (induction table keys rule: scan_keyTable.induct) (auto simp: nth_list_update)

definition key_code :: "(string \<Rightarrow> int) \<Rightarrow> int \<Rightarrow> int" where
  "key_code sdlk i = table_code (keyTable sdlk) i 0"

lemma initial_keys:
  "length (GFXInitialiseKeyRecord sdlk) = 128"
  "0 \<le> i \<Longrightarrow> i < 128 \<Longrightarrow> sdlKey (GFXInitialiseKeyRecord sdlk ! nat i) = key_code sdlk i"
  "0 \<le> i \<Longrightarrow> i < 128 \<Longrightarrow> isPressed (GFXInitialiseKeyRecord sdlk ! nat i) = 0"
proof -
  have ok: "table_ok (keyTable sdlk)" by (simp add: keyTable_def gfxkey_defs)
  show "length (GFXInitialiseKeyRecord sdlk) = 128" by (simp add: GFXInitialiseKeyRecord_def)
  show "0 \<le> i \<Longrightarrow> i < 128 \<Longrightarrow> sdlKey (GFXInitialiseKeyRecord sdlk ! nat i) = key_code sdlk i"
    "0 \<le> i \<Longrightarrow> i < 128 \<Longrightarrow> isPressed (GFXInitialiseKeyRecord sdlk ! nat i) = 0"
    by (simp_all add: GFXInitialiseKeyRecord_def scan_keyTable_nth [OF _ _ _ ok] key_code_def)
qed

lemma update_nth:
  assumes "length keys = 128"
  shows "length (GFXUpdateKeyRecord c d keys) = 128"
    and "0 \<le> i \<Longrightarrow> i < 128 \<Longrightarrow> sdlKey (GFXUpdateKeyRecord c d keys ! nat i) = sdlKey (keys ! nat i)"
    and "0 \<le> i \<Longrightarrow> i < 128 \<Longrightarrow> i \<noteq> GFXKEY_SHIFT \<Longrightarrow> isPressed (GFXUpdateKeyRecord c d keys ! nat i) =
      (if sdlKey (keys ! nat i) = c then of_bool d else isPressed (keys ! nat i))"
    and "isPressed (GFXUpdateKeyRecord c d keys ! nat GFXKEY_SHIFT) =
      of_bool (isPressed (GFXUpdateKeyRecord c d keys ! nat GFXKEY_LSHIFT) \<noteq> 0
        \<or> isPressed (GFXUpdateKeyRecord c d keys ! nat GFXKEY_RSHIFT) \<noteq> 0)"
  using assms by (auto simp: GFXUpdateKeyRecord_def Let_def nth_list_update gfxkey_defs)

text \<open>A session: the events since the window was opened. \<open>held c es\<close>: the last event of the
  key with code \<open>c\<close> was a key-down event.\<close>

definition key_events :: "(string \<Rightarrow> int) \<Rightarrow> (int \<times> bool) list \<Rightarrow> key_state" where
  "key_events sdlk es = fold (\<lambda>(c, d). GFXUpdateKeyRecord c d) es (GFXInitialiseKeyRecord sdlk)"

definition held :: "int \<Rightarrow> (int \<times> bool) list \<Rightarrow> bool" where
  "held c es = fold (\<lambda>(c', d) h. if c' = c then d else h) es False"

lemma key_events_snoc [simp]:
  "key_events sdlk [] = GFXInitialiseKeyRecord sdlk"
  "key_events sdlk (es @ [(c, d)]) = GFXUpdateKeyRecord c d (key_events sdlk es)"
  "held c' [] = False" "held c' (es @ [(c, d)]) = (if c = c' then d else held c' es)"
  by (simp_all add: key_events_def held_def)

lemma key_events_nth:
  shows "length (key_events sdlk es) = 128"
    and "0 \<le> i \<Longrightarrow> i < 128 \<Longrightarrow> sdlKey (key_events sdlk es ! nat i) = key_code sdlk i"
    and "0 \<le> i \<Longrightarrow> i < 128 \<Longrightarrow> i \<noteq> GFXKEY_SHIFT \<Longrightarrow>
      isPressed (key_events sdlk es ! nat i) = of_bool (held (key_code sdlk i) es)"
proof (induction es rule: rev_induct)
  case (snoc e es)
  obtain c d where e: "e = (c, d)" by (cases e)
  { case 1 then show ?case using snoc(1) by (simp add: e update_nth)
  next case 2 then show ?case using snoc(1,2) by (simp add: e update_nth)
  next case 3 then show ?case using snoc by (simp add: e update_nth eq_commute [of c]) }
qed (simp_all add: initial_keys)

lemma key_codes [simp]:
  "key_code sdlk GFXKEY_LSHIFT = sdlk ''LSHIFT''" "key_code sdlk GFXKEY_RSHIFT = sdlk ''RSHIFT''"
  "key_code sdlk GFXKEY_CONTROL = sdlk ''LCTRL''" "key_code sdlk 67 = sdlk ''c''"
  by (simp_all add: key_code_def keyTable_def gfxkey_defs)

lemma shift_held:
  "isPressed (key_events sdlk es ! nat GFXKEY_SHIFT) =
     of_bool (held (sdlk ''LSHIFT'') es \<or> held (sdlk ''RSHIFT'') es)"
proof (cases es rule: rev_cases)
  case Nil
  then show ?thesis using initial_keys(3) [of GFXKEY_SHIFT sdlk] by (simp add: gfxkey_defs)
next
  case (snoc fs e)
  obtain c d where e: "e = (c, d)" by (cases e)
  have "isPressed (key_events sdlk es ! nat GFXKEY_LSHIFT) = of_bool (held (sdlk ''LSHIFT'') es)"
    "isPressed (key_events sdlk es ! nat GFXKEY_RSHIFT) = of_bool (held (sdlk ''RSHIFT'') es)"
    using key_events_nth(3) [of GFXKEY_LSHIFT sdlk es] key_events_nth(3) [of GFXKEY_RSHIFT sdlk es]
    unfolding key_codes by (simp_all add: gfxkey_defs)
  with update_nth(4) [OF key_events_nth(1), of c d sdlk fs] show ?thesis
    by (simp add: snoc e)
qed

lemma key_pressed:
  assumes "0 \<le> i" and "i < 128"
  shows "GFXIsKeyPressed i (key_events sdlk es) =
    of_bool (if i = GFXKEY_SHIFT then held (sdlk ''LSHIFT'') es \<or> held (sdlk ''RSHIFT'') es
             else held (key_code sdlk (toupper i)) es)"
proof -
  define j where "j = toupper i"
  have j: "0 \<le> j" "j < 128" "j = GFXKEY_SHIFT \<longleftrightarrow> i = GFXKEY_SHIFT"
    using assms by (auto simp: j_def toupper_def gfxkey_defs)
  have "GFXIsKeyPressed i (key_events sdlk es) = isPressed (key_events sdlk es ! nat j)"
    by (simp add: GFXIsKeyPressed_def j_def toupper_def)
  then show ?thesis
    using key_events_nth(3) [OF j(1,2)] shift_held [of sdlk es] j(3) by (auto simp: j_def [symmetric])
qed

text \<open>C32: After any sequence of SDL key events, a key counts as pressed exactly when the last
  event of its code was a key-down event, in upper or lower case, and SHIFT exactly when the
  left or the right shift key is held.\<close>

theorem keys_follow_events:
  assumes "0 \<le> i" and "i < 128"
  shows "GFXIsKeyPressed i (key_events sdlk es) =
    of_bool (if i = GFXKEY_SHIFT then held (sdlk ''LSHIFT'') es \<or> held (sdlk ''RSHIFT'') es
             else held (key_code sdlk (toupper i)) es)"
  using assms by (rule key_pressed)

theorem keys_follow_events_witness:
  "GFXIsKeyPressed 99 (key_events (\<lambda>n. if n = ''c'' then 99 else 1) [(99, True), (1, False)]) = 1"
  by (subst keys_follow_events) (simp_all add: toupper_def held_def gfxkey_defs)

section \<open>What a key types\<close>

text \<open>The conversion of a key to ASCII: a letter key types the lower case letter, with
  shift the capital, with control its number in the alphabet, whatever case the caller uses.\<close>

theorem GFXToASCII_letters:
  fixes ch :: int and keys :: key_state
  assumes "65 \<le> ch" and "ch \<le> 90"
  defines "shift \<equiv> GFXIsKeyPressed GFXKEY_SHIFT keys \<noteq> 0" and "control \<equiv> GFXIsKeyPressed GFXKEY_CONTROL keys \<noteq> 0"
  shows "GFXToASCII ch (-1) keys = (if control then ch - 64 else if shift then ch else ch + 32)
    \<and> GFXToASCII (ch + 32) (-1) keys = GFXToASCII ch (-1) keys
    \<and> GFXToASCII ch 0 keys = ch + 32"
proof -
  have "ch \<in> {65, 66, 67, 68, 69, 70, 71, 72, 73, 74, 75, 76, 77, 78, 79, 80, 81, 82, 83, 84, 85, 86, 87, 88, 89, 90}"
    using assms(1,2) by simp presburger
  then show ?thesis
    by (elim insertE emptyE) (simp_all add: GFXToASCII_def tolower_def shifted_key_def shift_def control_def)
qed

theorem GFXToASCII_letters_witness:
  "GFXToASCII 67 (-1) (key_events (\<lambda>n. 1) [(1, False)]) = 99"
  using GFXToASCII_letters [of 67 "key_events (\<lambda>n. 1) [(1, False)]"]
  by (simp add: key_pressed held_def gfxkey_defs)

text \<open>Whatever number is passed, the result is a 7 bit code, so that storing it in the
  key byte of the machine loses nothing.\<close>

theorem GFXToASCII_range:
  "0 \<le> GFXToASCII ch applyModifiers keys \<and> GFXToASCII ch applyModifiers keys < 128"
proof -
  have low: "0 \<le> tolower ch" "tolower ch < 128" if "32 \<le> ch" "ch < 127"
    using that by (simp_all add: tolower_def)
  have "0 \<le> c XOR d" "c XOR d < 128" if "0 \<le> c" "c < 128" "0 \<le> d" "d < 128" for c d :: int
    using that XOR_upper [of c 7 d] by simp_all
  then have shift: "0 \<le> shifted_key c" "shifted_key c < 128" if "0 \<le> c" "c < 128" for c
    using that by (auto simp: shifted_key_def)
  have "0 \<le> c AND 31" "c AND 31 < 128" if "0 \<le> c" for c :: int
    using that AND_upper2' [of 31 c 31] by (simp_all add: le_less_trans)
  with low shift show ?thesis by (auto simp: GFXToASCII_def Let_def gfxkey_defs)
qed

text \<open>Shift and space type the digit 0: the bit that turns a digit key into its symbol is
  flipped for the space bar too.\<close>

theorem shift_space_types_zero:
  assumes "GFXIsKeyPressed GFXKEY_SHIFT keys \<noteq> 0" and "GFXIsKeyPressed GFXKEY_CONTROL keys = 0"
  shows "GFXToASCII 32 (-1) keys = 48"
  using assms by (simp add: GFXToASCII_def tolower_def shifted_key_def)

theorem shift_space_types_zero_witness:
  "GFXToASCII 32 (-1) (key_events (\<lambda>n. if n = ''LSHIFT'' then 5 else 1) [(5, True)]) = 48"
  by (rule shift_space_types_zero) (simp_all add: key_pressed held_def gfxkey_defs key_code_def toupper_def keyTable_def)

end
