(* ===== verification/Machine.thy ===== *)
theory Machine
  imports Calls Keyboard
begin

text \<open>
  The machine around the processor (\<open>src/emulator/sys_processor.cpp\<close>): frame timing, the
  run loop with its breakpoints, the memory mapped keyboard bytes, program loading and the
  register snapshot of the debugger.

  The record \<open>machine\<close> holds the static variables of \<open>sys_processor.cpp\<close> besides the
  processor and its memory, and the two of \<open>gfx.cpp\<close> that the machine reads or writes:
  \<open>keyState\<close> and \<open>isRunning\<close>.
\<close>

section \<open>State\<close>

record machine =
  proc :: cpu
  Cycles :: u32
  instructionCount :: u32
  keyState :: key_state
  isRunning :: int

definition RAMSIZE :: nat where "RAMSIZE = 0x100000"

definition CYCLES_PER_SECOND :: u32 where "CYCLES_PER_SECOND = 3100000"
definition FRAME_RATE :: u32 where "FRAME_RATE = 60"
definition CYCLES_PER_FRAME :: u32 where "CYCLES_PER_FRAME = CYCLES_PER_SECOND div FRAME_RATE"

text \<open>An assignment \<open>ramMemory[addr & RAMMASK] = v\<close>.\<close>

definition set_ram :: "u32 \<Rightarrow> u8 \<Rightarrow> machine \<Rightarrow> machine" where
  "set_ram addr v m =
     m\<lparr>proc := (proc m)\<lparr>ramMemory := (ramMemory (proc m))(addr AND RAMMASK := v)\<rparr>\<rparr>"

definition CPURead :: "u32 \<Rightarrow> machine \<Rightarrow> u8" where
  "CPURead address m = ramMemory (proc m) (address AND RAMMASK)"

definition PCTR :: "machine \<Rightarrow> u32" where
  "PCTR m = CPU65816GetPC (proc m)"

section \<open>Reset and program loading\<close>

text \<open>\<open>rnd i\<close> is the value of the \<open>i\<close>th call of \<open>rand\<close>.\<close>

definition CPUReset :: "(nat \<Rightarrow> u32) \<Rightarrow> machine \<Rightarrow> machine" where
  "CPUReset rnd m =
     (let m = m\<lparr>proc := CPU65816Reset (proc m)\<rparr>;
          m = m\<lparr>Cycles := 0\<rparr>
      in fold (\<lambda>i. set_ram (of_nat i + 0xF0000) (ucast (rnd i AND 0xFF))) [0 ..< 64 * 32] m)"

text \<open>The loop of \<open>CPULoadBinary\<close> runs until \<open>feof\<close>, which is false until a read has failed:
  it stores the result -1 of the last \<open>fgetc\<close>, too. An index outside \<open>ramMemory\<close>, and a file
  that could not be opened, are undefined behaviour: \<open>None\<close>.\<close>

fun load_bytes :: "u8 list \<Rightarrow> nat \<Rightarrow> machine \<Rightarrow> machine option" where
  "load_bytes bytes n m =
     (if n < RAMSIZE then
        (case bytes of
           [] \<Rightarrow> Some (set_ram (of_nat n) 0xFF m)
         | b # bytes \<Rightarrow> load_bytes bytes (n + 1) (set_ram (of_nat n) b m))
      else None)"

definition CPULoadBinary :: "u8 list option \<Rightarrow> machine \<Rightarrow> machine option" where
  "CPULoadBinary file m =
     (case file of None \<Rightarrow> None | Some bytes \<Rightarrow> load_bytes bytes 0 m)"

section \<open>Execution\<close>

definition CPUExecuteInstruction :: "machine \<Rightarrow> u8 \<times> machine" where
  "CPUExecuteInstruction m =
     (let m = m\<lparr>Cycles := Cycles m + 1\<rparr>;
          m = m\<lparr>instructionCount := instructionCount m + 1\<rparr>;
          m = m\<lparr>proc := CPU65816ExecuteOneInstruction (proc m)\<rparr>
      in if Cycles m < CYCLES_PER_FRAME then (0, m)
         else
           let m = m\<lparr>Cycles := Cycles m - CYCLES_PER_FRAME\<rparr>;
               m = set_ram 0xF8000
                     (if GFXIsKeyPressed GFXKEY_CONTROL (keyState m) \<noteq> 0
                         \<and> GFXIsKeyPressed 67 (keyState m) \<noteq> 0 then 1 else 0) m
           in (ucast FRAME_RATE, m))"

definition CPUKeyHandler :: "int \<Rightarrow> int \<Rightarrow> machine \<Rightarrow> int \<times> machine" where
  "CPUKeyHandler key inRunMode m =
     (let m = (if inRunMode \<noteq> 0
               then set_ram 0xF8010 (word_of_int (GFXToASCII key (-1) (keyState m))) m
               else m)
      in (key, m))"

definition CPUGetStepOverBreakpoint :: "machine \<Rightarrow> u32" where
  "CPUGetStepOverBreakpoint m =
     (let opcode = CPURead (PCTR m) m
      in if opcode = 0x20 \<or> opcode = 0xFC then PCTR m + 3
         else if opcode = 0x22 then PCTR m + 4
         else 0)"

definition GFXCloseOnDebug :: "machine \<Rightarrow> machine" where
  "GFXCloseOnDebug m = m\<lparr>isRunning := 0\<rparr>"

text \<open>The run loop. It ends: every turn adds one to \<open>Cycles\<close>, and a turn that finds
  \<open>CYCLES_PER_FRAME\<close> reached is the last one.\<close>

definition cycles_left :: "machine \<Rightarrow> nat" where
  "cycles_left m = (if Cycles m = 0xFFFFFFFF then unat CYCLES_PER_FRAME + 1
                    else unat CYCLES_PER_FRAME - unat (Cycles m))"

lemma cycles_per_frame: "CYCLES_PER_FRAME = 51666"
  by (simp add: CYCLES_PER_FRAME_def CYCLES_PER_SECOND_def FRAME_RATE_def word_div_def)

lemma cycles_left_step:
  assumes "CPUExecuteInstruction m = (0, m')"
  shows "cycles_left m' < cycles_left m"
proof -
  have c: "Cycles m + 1 < 51666" "Cycles m' = Cycles m + 1"
    using assms by (auto simp: CPUExecuteInstruction_def Let_def cycles_per_frame FRAME_RATE_def split: if_splits)
  show ?thesis
  proof (cases "Cycles m = 0xFFFFFFFF")
    case False
    then have "unat (Cycles m) + 1 < 2 ^ 32"
      using unsigned_less [of "Cycles m", where ?'a = nat] by (simp add: word_unat_eq_iff)
    then have "unat (Cycles m + 1) = unat (Cycles m) + 1" by (simp add: unat_word_ariths)
    then show ?thesis using c False by (auto simp: cycles_left_def cycles_per_frame word_less_nat_alt)
  qed (use c in \<open>simp add: cycles_left_def cycles_per_frame\<close>)
qed

function CPUExecute :: "u32 \<Rightarrow> u32 \<Rightarrow> machine \<Rightarrow> u8 \<times> machine" where
  "CPUExecute break1 break2 m =
     (case CPUExecuteInstruction m of (rate, m) \<Rightarrow>
        if rate \<noteq> 0 then (rate, m)
        else if CPURead (PCTR m) m = 0xEA then (0, m)
        else
          let m = (if CPURead (PCTR m) m = 0x02 then GFXCloseOnDebug m else m)
          in if PCTR m = break1 \<or> PCTR m = break2 then (0, m)
             else CPUExecute break1 break2 m)"
  by auto

termination
  by (relation "measure (\<lambda>(_, _, m). cycles_left m)")
    (auto simp: cycles_left_def GFXCloseOnDebug_def dest!: cycles_left_step [OF sym])

declare CPUExecute.simps [simp del]

section \<open>The register snapshot\<close>

record CPUSTATUS =
  st_pc :: u16
  st_a :: u16
  st_x :: u16
  st_y :: u16
  st_emul :: u16
  st_dpr :: u16
  st_pbr :: u16
  st_dbr :: u16
  st_sp :: u16
  st_p :: u16

definition CPUGetStatus :: "machine \<Rightarrow> CPUSTATUS \<times> machine" where
  "CPUGetStatus m =
     (let (r, s) = CPU65816GetStatus (proc m);
          p = gr_p r AND ucast (0xFF XOR (P_SIGN OR P_ZERO));
          p = (if gr_z r = 0 then p OR ucast P_ZERO else p);
          p = (if gr_n r \<noteq> 0 then p OR ucast P_SIGN else p)
      in (\<lparr>st_pc = gr_pc r, st_a = gr_a r OR push_bit 8 (gr_b r), st_x = gr_x r, st_y = gr_y r,
           st_emul = gr_emul r, st_dpr = gr_dpr r, st_pbr = gr_pbr r, st_dbr = gr_dbr r,
           st_sp = gr_sp r, st_p = p\<rparr>, m\<lparr>proc := s\<rparr>))"

section \<open>Running to the end of a frame or to a breakpoint\<close>

definition stops_at :: "u32 \<Rightarrow> u32 \<Rightarrow> cpu \<Rightarrow> bool" where
  "stops_at b1 b2 s \<longleftrightarrow>
     ramMemory s (CPU65816GetPC s AND RAMMASK) = 0xEA \<or> CPU65816GetPC s = b1 \<or> CPU65816GetPC s = b2"

text \<open>\<open>break_key keys\<close>: control and C are held, the condition of the byte at \<open>0xF8000\<close>.\<close>

definition break_key :: "key_state \<Rightarrow> bool" where
  "break_key keys \<longleftrightarrow> GFXIsKeyPressed GFXKEY_CONTROL keys \<noteq> 0 \<and> GFXIsKeyPressed 67 keys \<noteq> 0"

definition end_frame :: "machine \<Rightarrow> cpu \<Rightarrow> cpu" where
  "end_frame m s = s\<lparr>ramMemory := (ramMemory s)(0xF8000 := of_bool (break_key (keyState m)))\<rparr>"

lemma CPUExecuteInstruction_eq:
  assumes "Cycles m < CYCLES_PER_FRAME"
  shows "CPUExecuteInstruction m =
    (if unat (Cycles m) + 1 < 51666
     then (0, m\<lparr>Cycles := Cycles m + 1, instructionCount := instructionCount m + 1,
               proc := CPU65816ExecuteOneInstruction (proc m)\<rparr>)
     else (60, m\<lparr>Cycles := 0, instructionCount := instructionCount m + 1,
               proc := end_frame m (CPU65816ExecuteOneInstruction (proc m))\<rparr>))"
proof -
  have c: "unat (Cycles m) < 51666" using assms by (simp add: cycles_per_frame word_less_nat_alt)
  then have u: "unat (Cycles m + 1) = unat (Cycles m) + 1" by (simp add: unat_word_ariths)
  have "Cycles m + 1 < CYCLES_PER_FRAME \<longleftrightarrow> unat (Cycles m) + 1 < 51666"
    unfolding word_less_nat_alt u by (simp add: cycles_per_frame)
  moreover have "Cycles m + 1 = CYCLES_PER_FRAME" if "\<not> unat (Cycles m) + 1 < 51666"
    unfolding word_unat_eq_iff u using that c by (simp add: cycles_per_frame)
  ultimately show ?thesis
    by (auto simp: CPUExecuteInstruction_def Let_def set_ram_def end_frame_def break_key_def FRAME_RATE_def)
qed

text \<open>\<open>closes m n\<close>: within \<open>n\<close> instructions of the frame one leads to a COP opcode.\<close>

definition closes :: "machine \<Rightarrow> nat \<Rightarrow> bool" where
  "closes m n \<longleftrightarrow> (\<exists>k \<le> n. 0 < k \<and> unat (Cycles m) + k < 51666
     \<and> ramMemory (run k (proc m)) (CPU65816GetPC (run k (proc m)) AND RAMMASK) = 0x02)"

text \<open>What \<open>CPUExecute\<close> computes, relative to \<open>run\<close>, the iteration of the processor.\<close>

definition frame_result :: "u32 \<Rightarrow> u32 \<Rightarrow> machine \<Rightarrow> nat \<Rightarrow> u8 \<times> machine \<Rightarrow> bool" where
  "frame_result b1 b2 m n res \<longleftrightarrow>
     (case res of (rate, m') \<Rightarrow>
        0 < n \<and> unat (Cycles m) + n \<le> 51666
        \<and> (\<forall>k. 0 < k \<and> k < n \<longrightarrow> \<not> stops_at b1 b2 (run k (proc m)))
        \<and> instructionCount m' = instructionCount m + of_nat n \<and> keyState m' = keyState m
        \<and> isRunning m' = (if closes m n then 0 else isRunning m)
        \<and> (if unat (Cycles m) + n = 51666
           then rate = 60 \<and> Cycles m' = 0 \<and> proc m' = end_frame m (run n (proc m))
           else rate = 0 \<and> Cycles m' = Cycles m + of_nat n \<and> proc m' = run n (proc m)
                \<and> stops_at b1 b2 (proc m')))"

lemma shift_first:
  "(\<exists>k \<le> Suc n. 0 < k \<and> P k) \<longleftrightarrow> P 1 \<or> (\<exists>k \<le> n. 0 < k \<and> P (Suc k))"
  "(\<forall>k. 0 < k \<and> k < Suc n \<longrightarrow> P k) \<longleftrightarrow> (0 < n \<longrightarrow> P 1) \<and> (\<forall>k. 0 < k \<and> k < n \<longrightarrow> P (Suc k))"
  by (metis One_nat_def Suc_le_mono le0 less_Suc_eq_0_disj not0_implies_Suc not_gr_zero zero_less_Suc)
    (metis One_nat_def Suc_less_eq not0_implies_Suc not_gr_zero zero_less_Suc)

lemma closes_Suc:
  assumes "unat (Cycles t) = unat (Cycles m) + 1" and "proc t = CPU65816ExecuteOneInstruction (proc m)"
  shows "closes m (Suc n) \<longleftrightarrow> unat (Cycles m) + 1 < 51666
    \<and> ramMemory (proc t) (CPU65816GetPC (proc t) AND RAMMASK) = 0x02 \<or> closes t n"
  using assms unfolding closes_def shift_first(1) by (simp add: run_Suc_first del: run_simps(2))

lemma frame_result_Suc:
  assumes n: "frame_result b1 b2 t n res"
    and t: "proc t = CPU65816ExecuteOneInstruction (proc m)" "keyState t = keyState m"
      "instructionCount t = instructionCount m + 1" "Cycles t = Cycles m + 1"
      "isRunning t = (if ramMemory (proc t) (CPU65816GetPC (proc t) AND RAMMASK) = 0x02 then 0 else isRunning m)"
    and c: "unat (Cycles m) + 1 < 51666" and go: "\<not> stops_at b1 b2 (proc t)"
  shows "frame_result b1 b2 m (Suc n) res"
proof -
  have u: "unat (Cycles t) = unat (Cycles m) + 1" using c by (simp add: t unat_word_ariths)
  have closes: "closes m (Suc n) \<longleftrightarrow>
      ramMemory (proc t) (CPU65816GetPC (proc t) AND RAMMASK) = 0x02 \<or> closes t n"
    using closes_Suc [OF u t(1), of n] c by simp
  have "\<not> stops_at b1 b2 (run k (proc m))" if "0 < k" "k < Suc n" for k
  proof (cases "k = 1")
    case False
    with \<open>0 < k\<close> \<open>k < Suc n\<close> obtain j where "k = Suc j" "0 < j" "j < n" by (cases k) auto
    then show ?thesis using n by (simp add: frame_result_def t(1) run_Suc_first split_beta del: run_simps(2))
  qed (use go t(1) in simp)
  moreover have "end_frame t = end_frame m" by (simp add: end_frame_def t fun_eq_iff)
  moreover note n [unfolded frame_result_def split_beta u]
  moreover have "Cycles t + of_nat n = Cycles m + of_nat (Suc n)" "run n (proc t) = run (Suc n) (proc m)"
    by (simp_all add: t run_Suc_first add.assoc del: run_simps(2))
  ultimately show ?thesis
    unfolding frame_result_def split_beta closes t(5)
    by (auto simp: t(2,3) add.assoc simp del: run_simps(2) split: if_splits)
qed

lemma CPUExecute_result:
  "Cycles m < CYCLES_PER_FRAME \<Longrightarrow> \<exists>n. frame_result b1 b2 m n (CPUExecute b1 b2 m)"
proof (induction "51666 - unat (Cycles m)" arbitrary: m rule: less_induct)
  case less
  let ?m = "m\<lparr>Cycles := Cycles m + 1, instructionCount := instructionCount m + 1,
      proc := CPU65816ExecuteOneInstruction (proc m)\<rparr>"
  let ?t = "if CPURead (PCTR ?m) ?m = 0x02 then GFXCloseOnDebug ?m else ?m"
  note step = CPUExecuteInstruction_eq [OF less(2)]
  have lt: "unat (Cycles m) < 51666" using less(2) by (simp add: word_less_nat_alt cycles_per_frame)
  show ?case
  proof (cases "unat (Cycles m) + 1 < 51666")
    case False
    then show ?thesis using lt
      by (intro exI [of _ 1]) (auto simp: CPUExecute.simps step frame_result_def closes_def)
  next
    case True
    then have c: "unat (Cycles ?t) = unat (Cycles m) + 1" "Cycles ?t < CYCLES_PER_FRAME"
      by (simp_all add: unat_word_ariths word_less_nat_alt cycles_per_frame GFXCloseOnDebug_def)
    show ?thesis
    proof (cases "stops_at b1 b2 (proc ?m)")
      case stop: True
      then have "CPUExecute b1 b2 m = (0, ?t)"
        using True by (auto simp: CPUExecute.simps [of b1 b2 m] step stops_at_def CPURead_def PCTR_def GFXCloseOnDebug_def)
      moreover have "closes m (Suc 0) \<longleftrightarrow> CPURead (PCTR ?m) ?m = 0x02"
        using closes_Suc [of ?m m 0] True by (simp add: CPURead_def PCTR_def closes_def [of _ 0] unat_word_ariths)
      ultimately show ?thesis using True stop
        by (intro exI [of _ 1]) (auto simp: frame_result_def GFXCloseOnDebug_def)
    next
      case go: False
      then have eq: "CPUExecute b1 b2 m = CPUExecute b1 b2 ?t"
        using True by (auto simp: CPUExecute.simps [of b1 b2 m] step stops_at_def CPURead_def PCTR_def GFXCloseOnDebug_def)
      have "51666 - unat (Cycles ?t) < 51666 - unat (Cycles m)" using c(1) True by simp
      from less(1) [OF this c(2)] obtain n where n: "frame_result b1 b2 ?t n (CPUExecute b1 b2 ?t)" by blast
      then have "frame_result b1 b2 m (Suc n) (CPUExecute b1 b2 ?t)"
        by (rule frame_result_Suc) (use True go in \<open>simp_all add: GFXCloseOnDebug_def CPURead_def PCTR_def\<close>)
      then show ?thesis unfolding eq by blast
    qed
  qed
qed

text \<open>The first state of a run, after its start, at which \<open>CPUExecute\<close> stops: the next opcode is
  0xEA or the address is one of the breakpoints.\<close>

definition first_stop :: "u32 \<Rightarrow> u32 \<Rightarrow> nat \<Rightarrow> cpu \<Rightarrow> bool" where
  "first_stop b1 b2 n s \<longleftrightarrow> 0 < n \<and> stops_at b1 b2 (run n s) \<and> (\<forall>k. 0 < k \<and> k < n \<longrightarrow> \<not> stops_at b1 b2 (run k s))"

lemma first_stop_unique: "first_stop b1 b2 n s \<Longrightarrow> first_stop b1 b2 k s \<Longrightarrow> n = k"
  unfolding first_stop_def by (metis linorder_neqE_nat)

lemma CPUExecute_stops:
  assumes "Cycles m < CYCLES_PER_FRAME"
  shows "fst (CPUExecute b1 b2 m) = 0 \<longleftrightarrow> (\<exists>n. unat (Cycles m) + n < 51666 \<and> first_stop b1 b2 n (proc m))"
    and "unat (Cycles m) + n < 51666 \<Longrightarrow> first_stop b1 b2 n (proc m) \<Longrightarrow> proc (snd (CPUExecute b1 b2 m)) = run n (proc m)"
proof -
  obtain i where "frame_result b1 b2 m i (CPUExecute b1 b2 m)" using CPUExecute_result [OF assms] by blast
  then have i: "0 < i" "unat (Cycles m) + i \<le> 51666" "\<forall>k. 0 < k \<and> k < i \<longrightarrow> \<not> stops_at b1 b2 (run k (proc m))"
    "unat (Cycles m) + i = 51666 \<Longrightarrow> fst (CPUExecute b1 b2 m) = 60"
    "unat (Cycles m) + i \<noteq> 51666 \<Longrightarrow> fst (CPUExecute b1 b2 m) = 0 \<and> proc (snd (CPUExecute b1 b2 m)) = run i (proc m)
       \<and> first_stop b1 b2 i (proc m)"
    by (auto simp: frame_result_def first_stop_def split_beta split: if_splits)
  have eq: "n = i \<and> unat (Cycles m) + i \<noteq> 51666" if "unat (Cycles m) + n < 51666" "first_stop b1 b2 n (proc m)" for n
  proof (cases "unat (Cycles m) + i = 51666")
    case True
    with that i(3) show ?thesis by (auto simp: first_stop_def)
  next
    case False
    with that(2) i(5) show ?thesis by (auto dest: first_stop_unique)
  qed
  show "fst (CPUExecute b1 b2 m) = 0 \<longleftrightarrow> (\<exists>n. unat (Cycles m) + n < 51666 \<and> first_stop b1 b2 n (proc m))"
  proof
    assume "fst (CPUExecute b1 b2 m) = 0"
    then have "unat (Cycles m) + i \<noteq> 51666" using i(4) by auto
    with i(2,5) show "\<exists>n. unat (Cycles m) + n < 51666 \<and> first_stop b1 b2 n (proc m)" by (intro exI [of _ i]) simp
  next
    assume "\<exists>n. unat (Cycles m) + n < 51666 \<and> first_stop b1 b2 n (proc m)"
    with eq i(5) show "fst (CPUExecute b1 b2 m) = 0" by blast
  qed
  show "unat (Cycles m) + n < 51666 \<Longrightarrow> first_stop b1 b2 n (proc m) \<Longrightarrow> proc (snd (CPUExecute b1 b2 m)) = run n (proc m)"
    using eq i(5) by blast
qed

text \<open>C25: \<open>CPUExecute\<close> always returns, after at most one frame of instructions. It returns
  0 in front of the first NOP or breakpoint that the program reaches before the frame ends,
  and otherwise the frame rate, with the cycle counter restarted and the byte at \<open>0xF8000\<close>
  telling whether control and C are held; the processor has run that many instructions.\<close>

theorem CPUExecute_frame:
  "Cycles m < CYCLES_PER_FRAME \<Longrightarrow> \<exists>n. frame_result b1 b2 m n (CPUExecute b1 b2 m)"
  by (rule CPUExecute_result)

definition boot :: "(u32 \<Rightarrow> u8) \<Rightarrow> machine" where
  "boot ram = \<lparr>proc = initial_cpu ram, Cycles = 0, instructionCount = 0,
     keyState = replicate 128 \<lparr>sdlKey = 0, gfxKey = 0, isPressed = 0\<rparr>, isRunning = -1\<rparr>"

theorem CPUExecute_frame_witness:
  "\<exists>n. frame_result 0 0xFFFFFFFF (boot (\<lambda>a. 0xEA)) n (CPUExecute 0 0xFFFFFFFF (boot (\<lambda>a. 0xEA)))"
  by (rule CPUExecute_frame) (simp add: boot_def cycles_per_frame)

text \<open>C27: The break test of BASIC reads the keyboard of the window: at the end of a frame the
  byte at \<open>0xF8000\<close> is 1 exactly when the last events of the left control key and of the C
  key were key-down events.\<close>

theorem break_byte_follows_keys:
  assumes "Cycles m < CYCLES_PER_FRAME" and "keyState m = key_events sdlk es"
    and "fst (CPUExecute b1 b2 m) = 60"
  shows "CPURead 0xF8000 (snd (CPUExecute b1 b2 m)) = of_bool (held (sdlk ''LCTRL'') es \<and> held (sdlk ''c'') es)"
proof -
  obtain n where "frame_result b1 b2 m n (CPUExecute b1 b2 m)"
    using CPUExecute_result [OF assms(1)] by blast
  with assms(3) have "proc (snd (CPUExecute b1 b2 m)) = end_frame m (run n (proc m))"
    by (auto simp: frame_result_def split_beta split: if_splits)
  moreover have "break_key (keyState m) \<longleftrightarrow> held (sdlk ''LCTRL'') es \<and> held (sdlk ''c'') es"
    using key_pressed [of GFXKEY_CONTROL sdlk es] key_pressed [of 67 sdlk es] unfolding assms(2)
    by (simp add: break_key_def key_codes [symmetric] toupper_def gfxkey_defs del: key_codes)
  ultimately show ?thesis by (simp add: CPURead_def end_frame_def)
qed

definition held_c :: "string \<Rightarrow> int" where
  "held_c n = (if n = ''LCTRL'' then 1 else if n = ''c'' then 99 else 2)"

theorem break_byte_follows_keys_witness:
  "CPURead 0xF8000 (snd (CPUExecute 0 0 ((boot (\<lambda>a. 0))
     \<lparr>Cycles := 51665, keyState := key_events held_c [(1, True), (2, True), (99, True), (2, False)]\<rparr>))) = 1"
  using break_byte_follows_keys [of "(boot (\<lambda>a. 0))
      \<lparr>Cycles := 51665, keyState := key_events held_c [(1, True), (2, True), (99, True), (2, False)]\<rparr>"
      held_c "[(1, True), (2, True), (99, True), (2, False)]" 0 0]
  by (simp add: cycles_per_frame CPUExecute.simps CPUExecuteInstruction_eq) (simp add: held_def held_c_def)

section \<open>Step over\<close>

lemma fetch_CPURead: "fetch_opcode (proc m) = ucast (CPURead (PCTR m) m)"
  by (simp add: fetch_opcode_def FETCH_PARAM_def CPURead_def PCTR_def CPU65816GetPC_def CPU65816GetBank_def)

lemma PC_in_bank:
  fixes pc :: u32 and bank :: u8
  assumes "pc \<le> 0xFFFF"
  shows "pc OR push_bit 16 (ucast bank) = pc + push_bit 16 (ucast bank)"
  using or_push16 [OF assms] by simp

lemma same_bank_pc:
  assumes "unat (reg_pc s) + n \<le> 0xFFFF" and "reg_pc t = (reg_pc s + of_nat n) AND 0xFFFF" and "reg_pbr t = reg_pbr s"
  shows "CPU65816GetPC t = CPU65816GetPC s + of_nat n"
proof -
  have u: "unat (reg_pc s + of_nat n) = unat (reg_pc s) + n"
    using assms(1) by (simp add: unat_word_ariths unat_of_nat)
  then have "reg_pc s + of_nat n \<le> 0xFFFF" "reg_pc s \<le> 0xFFFF" using assms(1) by (simp_all add: word_le_nat_alt)
  then show ?thesis
    using assms(2,3) by (simp add: CPU65816GetPC_def PC_in_bank and_mask_id)
qed

text \<open>C28: Stepping over a JSR stops where its RTS returns, as long as the call does not end the
  program bank: the breakpoint that \<open>CPUGetStepOverBreakpoint\<close> sets is the program counter
  after an RTS that runs with the stack as the call left it.\<close>

theorem step_over_JSR:
  assumes "wf_cpu (proc m)" and "CPURead (PCTR m) m = 0x20" and "reg_pc (proc m) \<le> 0xFFFC"
    and "same_stack 2 (CPU65816ExecuteOneInstruction (proc m)) u" and "reg_pbr u = reg_pbr (proc m)"
  shows "CPU65816GetPC (RTS u) = CPUGetStepOverBreakpoint m"
proof -
  let ?s = "(proc m)\<lparr>last_opcode_addr := reg_pc (proc m)\<rparr>"
  have "CPU65816ExecuteOneInstruction (proc m) = JSR ?s"
    using fetch_CPURead [of m] assms(2)
    by (simp add: CPU65816ExecuteOneInstruction_def Let_def opcode_switch_def dispatch_20_def)
  then have "RTS u = u\<lparr>reg_pc := (reg_pc ?s + 3) AND 0xFFFF, reg_sp := reg_sp ?s\<rparr>"
    using assms(1,4) by (intro RTS_after_JSR) (simp_all add: wf_cpu_def)
  then have "CPU65816GetPC (RTS u) = CPU65816GetPC (proc m) + of_nat 3"
    using assms(3,5) by (intro same_bank_pc) (simp_all add: word_le_nat_alt)
  then show ?thesis using assms(2) by (simp add: CPUGetStepOverBreakpoint_def PCTR_def)
qed

theorem step_over_JSR_witness:
  "CPU65816GetPC (RTS (CPU65816ExecuteOneInstruction (initial_cpu (\<lambda>a. 0x20)))) = 3"
proof -
  have "PCTR (boot (\<lambda>a. 0x20)) = 0" by (simp add: PCTR_def boot_def initial_cpu_def CPU65816GetPC_def)
  moreover have "reg_pbr (CPU65816ExecuteOneInstruction (initial_cpu (\<lambda>a. 0x20))) = 0"
    by (simp add: CPU65816ExecuteOneInstruction_def Let_def opcode_switch_def dispatch_20_def fetch_opcode_def
        FETCH_PARAM_def JSR_def initial_cpu_def)
  ultimately show ?thesis
    using step_over_JSR [of "boot (\<lambda>a. 0x20)" "CPU65816ExecuteOneInstruction (initial_cpu (\<lambda>a. 0x20))"]
    by (simp add: boot_def wf_initial CPURead_def CPUGetStepOverBreakpoint_def) (simp add: initial_cpu_def)
qed

text \<open>Stepping over a JSL stops where its RTL returns, under the same conditions.\<close>

theorem step_over_JSL:
  assumes "wf_cpu (proc m)" and "CPURead (PCTR m) m = 0x22" and "reg_pc (proc m) \<le> 0xFFFB"
    and "reg_emul (proc m) \<noteq> 0 \<Longrightarrow> 0x103 \<le> reg_sp (proc m)"
    and "same_stack 3 (CPU65816ExecuteOneInstruction (proc m)) u"
  shows "CPU65816GetPC (RTL u) = CPUGetStepOverBreakpoint m"
proof -
  let ?s = "(proc m)\<lparr>last_opcode_addr := reg_pc (proc m)\<rparr>"
  have "CPU65816ExecuteOneInstruction (proc m) = JSR_LONG ?s"
    using fetch_CPURead [of m] assms(2)
    by (simp add: CPU65816ExecuteOneInstruction_def Let_def opcode_switch_def dispatch_20_def)
  then have "RTL u = u\<lparr>reg_pc := (reg_pc ?s + 4) AND 0xFFFF, reg_pbr := reg_pbr ?s, reg_sp := reg_sp ?s\<rparr>"
    using assms(1,4,5) by (intro RTL_after_JSL) (simp_all add: wf_cpu_def)
  then have "CPU65816GetPC (RTL u) = CPU65816GetPC (proc m) + of_nat 4"
    using assms(3) by (intro same_bank_pc) (simp_all add: word_le_nat_alt)
  then show ?thesis using assms(2) by (simp add: CPUGetStepOverBreakpoint_def PCTR_def)
qed

theorem step_over_JSL_witness:
  "CPU65816GetPC (RTL (CPU65816ExecuteOneInstruction (native_cpu (\<lambda>a. 0x22)))) = 0x28004"
proof -
  let ?m = "(boot (\<lambda>a. 0))\<lparr>proc := native_cpu (\<lambda>a. 0x22)\<rparr>"
  have "PCTR ?m = 0x28000" by (simp add: PCTR_def native_cpu_def CPU65816GetPC_def)
  then show ?thesis
    using step_over_JSL [of ?m "CPU65816ExecuteOneInstruction (native_cpu (\<lambda>a. 0x22))"]
    by (simp add: wf_native CPURead_def CPUGetStepOverBreakpoint_def)
      (simp add: native_cpu_def initial_cpu_def)
qed

section \<open>Loading a program\<close>

lemma set_ram_frame [simp]:
  "Cycles (set_ram a v m) = Cycles m" "instructionCount (set_ram a v m) = instructionCount m"
  "keyState (set_ram a v m) = keyState m" "isRunning (set_ram a v m) = isRunning m"
  "CPURead b (set_ram a v m) = (if b AND RAMMASK = a AND RAMMASK then v else CPURead b m)"
  by (simp_all add: set_ram_def CPURead_def)

text \<open>The memory after loading, as a function of the bytes.\<close>

definition loaded_image :: "u8 list \<Rightarrow> nat \<Rightarrow> (u32 \<Rightarrow> u8) \<Rightarrow> u32 \<Rightarrow> u8" where
  "loaded_image bytes n ram a =
     (if n \<le> unat a \<and> unat a \<le> n + length bytes then (bytes @ [0xFF]) ! (unat a - n) else ram a)"

lemma small_address:
  assumes "n < RAMSIZE"
  shows "(of_nat n :: u32) AND RAMMASK = of_nat n" "unat (of_nat n :: u32) = n"
proof -
  show u: "unat (of_nat n :: u32) = n" using assms by (simp add: RAMSIZE_def unat_of_nat)
  have "(0xFFFFF :: u32) = mask 20" by (simp add: mask_eq_exp_minus_1)
  then have "unat ((of_nat n :: u32) AND RAMMASK) = n"
    using u assms by (simp only: take_bit_eq_mask [symmetric] unsigned_take_bit_eq take_bit_nat_eq_self)
      (simp add: RAMSIZE_def take_bit_nat_eq_self)
  with u show "(of_nat n :: u32) AND RAMMASK = of_nat n" by (simp add: word_unat_eq_iff)
qed

declare load_bytes.simps [simp del]

lemma load_bytes_result:
  "load_bytes bytes n m =
    (if n + length bytes < RAMSIZE
     then Some (m\<lparr>proc := (proc m)\<lparr>ramMemory := loaded_image bytes n (ramMemory (proc m))\<rparr>\<rparr>) else None)"
proof (induction bytes arbitrary: n m)
  case Nil
  have "(ramMemory (proc m))(of_nat n := 0xFF) = loaded_image [] n (ramMemory (proc m))" if "n < RAMSIZE"
    using small_address [OF that] by (auto simp: loaded_image_def fun_eq_iff)
  then show ?case by (simp add: load_bytes.simps set_ram_def small_address)
next
  case (Cons b bytes)
  have "loaded_image bytes (n + 1) (ram(of_nat n := b)) = loaded_image (b # bytes) n ram"
    if "n + length (b # bytes) < RAMSIZE" for ram
  proof
    fix a :: u32
    have u: "unat (of_nat n :: u32) = n" using that by (intro small_address) simp
    have "unat a = n \<longleftrightarrow> a = of_nat n" using u by (metis word_unat_eq_iff)
    then show "loaded_image bytes (n + 1) (ram(of_nat n := b)) a = loaded_image (b # bytes) n ram a"
    proof (cases "n < unat a")
      case True
      then obtain k where "unat a - n = Suc k" "unat a - (n + 1) = k" by (metis Suc_diff_Suc Suc_eq_plus1)
      then show ?thesis using True \<open>unat a = n \<longleftrightarrow> a = of_nat n\<close> by (auto simp: loaded_image_def)
    next
      case False
      then show ?thesis using \<open>unat a = n \<longleftrightarrow> a = of_nat n\<close> by (auto simp: loaded_image_def)
    qed
  qed
  then show ?case
    using Cons [of "n + 1"] by (simp add: load_bytes.simps [of "b # bytes"] set_ram_def small_address)
qed

text \<open>C29: Loading a file of fewer than RAMSIZE bytes writes exactly its bytes from address 0
  on, followed by one byte 0xFF that the end-of-file test comes too late for, and changes
  nothing else; a file of RAMSIZE bytes or more is written past the end of the memory array.\<close>

theorem CPULoadBinary_image:
  "CPULoadBinary (Some bytes) m =
    (if length bytes < RAMSIZE
     then Some (m\<lparr>proc := (proc m)\<lparr>ramMemory := loaded_image bytes 0 (ramMemory (proc m))\<rparr>\<rparr>) else None)"
  by (simp add: CPULoadBinary_def load_bytes_result)

section \<open>What the debugger shows\<close>

lemma snapshot_status:
  fixes p :: u16 and z n :: bool
  defines "q \<equiv> (p AND 0x7D OR (if z then 0x02 else 0)) OR (if n then 0x80 else 0)"
  shows "q AND 0x7D = p AND 0x7D" "q AND 0x02 \<noteq> 0 \<longleftrightarrow> z" "q AND 0x80 \<noteq> 0 \<longleftrightarrow> n"
  by (simp_all add: q_def word_ao_dist and.assoc)

lemma CPUGetStatus_eq:
  "CPUGetStatus m = (let s = proc m in
     (\<lparr>st_pc = ucast (reg_pc s), st_a = reg_c s, st_x = reg_x s, st_y = reg_y s,
       st_emul = ucast (reg_emul s), st_dpr = reg_dpr s, st_pbr = ucast (reg_pbr s),
       st_dbr = ucast (reg_dbr s), st_sp = reg_sp s,
       st_p = (ucast (reg_p s) AND 0x7D OR (if LOCAL_ZERO s then 0x02 else 0))
         OR (if flag_n s \<noteq> 0 then 0x80 else 0)\<rparr>,
      m\<lparr>proc := EXPORT_REGISTERS s\<rparr>))"
proof -
  have up: "(ucast v :: u16) = 0 \<longleftrightarrow> v = 0" for v :: u8
    by (simp add: word_unat_eq_iff unsigned_ucast_eq take_bit_nat_eq_self u8_bound)
  have "ucast (reg_a s) OR push_bit 8 (ucast (reg_b s)) = reg_c s" for s
    unfolding reg_a_def reg_b_def by (rule bit_eqI) (auto simp: bit_simps)
  then show ?thesis
    by (simp add: CPUGetStatus_def CPU65816GetStatus_def EXPORT_REGISTERS_def Let_def LOCAL_ZERO_def up)
qed

text \<open>The register snapshot shows the registers as they are and every status bit but one:
  the N bit is shown whenever \<open>flag_n\<close> is not zero, although the processor takes N from its
  bit 7. Taking the snapshot changes nothing the program can see.\<close>

theorem CPUGetStatus_reads:
  fixes m :: machine
  defines "st \<equiv> fst (CPUGetStatus m)" and "s \<equiv> proc m"
  shows "st_a st = reg_c s \<and> st_pc st = ucast (reg_pc s) \<and> st_x st = reg_x s \<and> st_y st = reg_y s
    \<and> st_sp st = reg_sp s \<and> st_dpr st = reg_dpr s \<and> st_pbr st = ucast (reg_pbr s) \<and> st_dbr st = ucast (reg_dbr s)
    \<and> st_p st AND 0x7D = ucast (reg_p s) AND 0x7D
    \<and> (st_p st AND 0x02 \<noteq> 0 \<longleftrightarrow> LOCAL_ZERO s) \<and> (st_p st AND 0x80 \<noteq> 0 \<longleftrightarrow> flag_n s \<noteq> 0)
    \<and> snd (CPUGetStatus m) = m\<lparr>proc := s\<lparr>exported := exported (EXPORT_REGISTERS s)\<rparr>\<rparr>"
  using snapshot_status [of "ucast (reg_p s)" "LOCAL_ZERO s" "flag_n s \<noteq> 0"]
  by (simp add: st_def s_def CPUGetStatus_eq Let_def) (simp add: EXPORT_REGISTERS_def)?

section \<open>Reset\<close>

text \<open>C30: After a reset the program at address 0 is next, in emulation mode with 8 bit registers and with
  direct page and data bank 0; but a reset does not move
  the stack pointer to page one. If a native program has left it elsewhere, the first byte pushed
  after the reset is lost: it is written where the stack pointer was, and the pull reads page one.\<close>

theorem CPU65816Reset_stack:
  "fetch_opcode (CPU65816Reset s) = ucast (ramMemory s 0) \<and> LOCAL_65816_M (CPU65816Reset s) \<and> LOCAL_65816_X (CPU65816Reset s)
    \<and> reg_dpr (CPU65816Reset s) = 0 \<and> reg_dbr (CPU65816Reset s) = 0
    \<and> fst (PULL (PUSH v (CPU65816Reset s)))
      = (if reg_sp s AND 0xFF00 = 0x100 then v AND 0xFF else ucast (ramMemory s (ucast (0x100 OR (reg_sp s AND 0xFF)))))"
proof -
  let ?t = "CPU65816Reset s" and ?q = "0x100 OR (reg_sp s AND 0xFF)"
  have t: "reg_emul ?t = 1" "reg_sp ?t = reg_sp s" "ramMemory ?t = ramMemory s" by (simp_all add: CPU65816Reset_def)
  have "?q = reg_sp s \<longleftrightarrow> reg_sp s AND 0xFF00 = 0x100"
    using page_one_unat(1) [of "reg_sp s"] by (metis page_one)
  moreover have "peek 0 (PUSH v ?t) = LOAD_LONG (ucast ?q) (STORE_LONG (ucast (reg_sp s)) v ?t)"
    unfolding peek_def PUSH_eq by (simp add: t stack_pos_add) (simp add: stack_pos_def)
  then have "fst (PULL (PUSH v ?t)) = (if ?q = reg_sp s then v AND 0xFF else ucast (ramMemory s (ucast ?q)))"
    by (simp add: PULL_eq LOAD_LONG_def STORE_LONG_def t) (simp add: word_unat_eq_iff unat_ucast_down unat_masks)
  ultimately show ?thesis
    by (simp add: fetch_opcode_def FETCH_PARAM_def CPU65816GetBank_def LOCAL_65816_M_def LOCAL_65816_X_def CPU65816Reset_def)
qed

section \<open>The end of a session\<close>

text \<open>\<open>CPUEndRun\<close> writes two files: 32 blocks of memory and the instruction count, which the
  format \<open>%d\<close> prints as a signed number.\<close>

definition CPUEndRun :: "machine \<Rightarrow> u8 list \<times> int" where
  "CPUEndRun m =
     (concat (map (\<lambda>k. map (\<lambda>i. ramMemory (proc m) (0x24000 + of_nat (1024 * k) + of_nat i)) [0 ..< 1024])
        [0 ..< 32]),
      sint (instructionCount m))"

end
