(* ===== verification/Debugger.thy ===== *)
theory Debugger
  imports Machine
begin

text \<open>
  The debugger front end (\<open>src/emulator/framework/debugger.cpp\<close>) and the main loop
  (\<open>GFXStart\<close> of \<open>gfx.cpp\<close>, \<open>main\<close> of \<open>main.cpp\<close>): a state machine that one call of
  \<open>GFXXRender\<close> per turn drives, with the key events of the window as input.

  Of a call of \<open>DBGXRender\<close>, only what it does to the state (the register snapshot and the
  frame counter) is here; what it draws is in the theory \<open>Display\<close>. \<open>GFXSetFrequency\<close> only concerns sound. Values from
  outside are arguments: \<open>rnd\<close> the numbers of \<open>rand\<close> for a reset, \<open>ticks\<close> the value of
  \<open>SDL_GetTicks\<close> when the wait for the next frame is over. Addresses, \<open>int\<close> in
  \<open>addressSettings\<close> and \<open>stepBreakPoint\<close> but compared as unsigned numbers, are \<open>u32\<close>;
  the \<open>stepBreakPoint\<close> -1 is 0xFFFFFFFF.
\<close>

section \<open>State\<close>

record debugger =
  isInitialised :: int
  addressSettings :: "u32 list"
  keyMapping :: "int list"
  inRunMode :: int
  lastKey :: int
  currentKey :: int
  stepBreakPoint :: u32
  nextFrame :: u32
  renderCount :: int

type_synonym system = "debugger \<times> machine"

definition initial_debugger :: debugger where
  "initial_debugger =
     \<lparr>isInitialised = 0, addressSettings = [0, 0, 0, 0x20FFFF], keyMapping = replicate 16 0,
      inRunMode = 0, lastKey = 0, currentKey = 0, stepBreakPoint = 0, nextFrame = 0, renderCount = 0\<rparr>"

definition DBGKEY_RESET :: nat where "DBGKEY_RESET = 0"
definition DBGKEY_SHOW :: nat where "DBGKEY_SHOW = 1"
definition DBGKEY_STEP :: nat where "DBGKEY_STEP = 2"
definition DBGKEY_STEPOVER :: nat where "DBGKEY_STEPOVER = 3"
definition DBGKEY_RUN :: nat where "DBGKEY_RUN = 4"
definition DBGKEY_BREAK :: nat where "DBGKEY_BREAK = 5"
definition DBGKEY_HOME :: nat where "DBGKEY_HOME = 6"
definition DBGKEY_SETBREAK :: nat where "DBGKEY_SETBREAK = 7"

lemmas dbgkey_defs = DBGKEY_RESET_def DBGKEY_SHOW_def DBGKEY_STEP_def DBGKEY_STEPOVER_def
  DBGKEY_RUN_def DBGKEY_BREAK_def DBGKEY_HOME_def DBGKEY_SETBREAK_def

definition DBGDefineKey :: "nat \<Rightarrow> int \<Rightarrow> debugger \<Rightarrow> debugger" where
  "DBGDefineKey keyID key d = d\<lparr>keyMapping := (keyMapping d)[keyID := key]\<rparr>"

definition set_address :: "nat \<Rightarrow> u32 \<Rightarrow> debugger \<Rightarrow> debugger" where
  "set_address n a d = d\<lparr>addressSettings := (addressSettings d)[n := a]\<rparr>"

definition DEBUG_SHIFT :: "u32 \<Rightarrow> u32 \<Rightarrow> u32" where
  "DEBUG_SHIFT d v = (push_bit 4 d OR v) AND 0xFFFFFF"

text \<open>The state changes of \<open>DBGXRender\<close>.\<close>

definition DBGXRender :: "system \<Rightarrow> system" where
  "DBGXRender = (\<lambda>(d, m).
     let (_, m) = CPUGetStatus m
     in (d\<lparr>renderCount := renderCount d + 1\<rparr>, m))"

section \<open>One turn: GFXXRender\<close>

definition first_time :: "int \<Rightarrow> system \<Rightarrow> system" where
  "first_time autoStart = (\<lambda>(d, m).
     if isInitialised d = 0 then
       let d = d\<lparr>isInitialised := 1\<rparr>;
           d = d\<lparr>inRunMode := autoStart\<rparr>;
           d = set_address 0 (PCTR m) d;
           d = set_address 1 0 d;
           d = set_address 3 0 d;
           d = DBGDefineKey DBGKEY_RESET GFXKEY_F1 d;
           d = DBGDefineKey DBGKEY_SHOW GFXKEY_TAB d;
           d = DBGDefineKey DBGKEY_STEP GFXKEY_F7 d;
           d = DBGDefineKey DBGKEY_STEPOVER GFXKEY_F8 d;
           d = DBGDefineKey DBGKEY_RUN GFXKEY_F5 d;
           d = DBGDefineKey DBGKEY_BREAK GFXKEY_F6 d;
           d = DBGDefineKey DBGKEY_HOME GFXKEY_F2 d;
           d = DBGDefineKey DBGKEY_SETBREAK GFXKEY_F9 d;
           d = d\<lparr>lastKey := -1, currentKey := -1\<rparr>
       in (d, m)
     else (d, m))"

text \<open>The last key in the order of the key numbers that is pressed and no modifier, or -1.\<close>

definition scan_keys :: "key_state \<Rightarrow> int" where
  "scan_keys keys =
     fold (\<lambda>i k. if \<not> GFXISMODIFIERKEY i \<and> GFXIsKeyPressed i keys \<noteq> 0 then i else k) (map int [0 ..< 128]) (-1)"

definition CMDKEY :: "nat \<Rightarrow> system \<Rightarrow> bool" where
  "CMDKEY n = (\<lambda>(d, m). GFXIsKeyPressed (keyMapping d ! n) (keyState m) \<noteq> 0)"

definition isdigit :: "int \<Rightarrow> bool" where
  "isdigit c \<longleftrightarrow> 48 \<le> c \<and> c \<le> 57"

definition isxdigit :: "int \<Rightarrow> bool" where
  "isxdigit c \<longleftrightarrow> isdigit c \<or> 65 \<le> c \<and> c \<le> 70 \<or> 97 \<le> c \<and> c \<le> 102"

definition home :: "system \<Rightarrow> system" where
  "home = (\<lambda>(d, m). (set_address 0 (PCTR m) d, m))"

definition single_step :: "system \<Rightarrow> system" where
  "single_step = (\<lambda>(d, m). let (_, m) = CPUExecuteInstruction m in (d, m))"

definition enter_digit :: "system \<Rightarrow> system" where
  "enter_digit = (\<lambda>(d, m).
     if isxdigit (currentKey d) then
       let digit = (if isdigit (currentKey d) then currentKey d else currentKey d - 65 + 10);
           setting = 0;
           setting = (if GFXIsKeyPressed GFXKEY_SHIFT (keyState m) \<noteq> 0 then 1 else setting);
           setting = (if GFXIsKeyPressed GFXKEY_CONTROL (keyState m) \<noteq> 0 then 2 else setting)
       in (set_address setting (DEBUG_SHIFT (addressSettings d ! setting) (word_of_int (digit AND 0x0F))) d, m)
     else (d, m))"

definition step_over :: "system \<Rightarrow> system" where
  "step_over = (\<lambda>(d, m).
     let d = d\<lparr>stepBreakPoint := CPUGetStepOverBreakpoint m\<rparr>
     in if stepBreakPoint d = 0 then home (single_step (d, m))
        else (d\<lparr>inRunMode := 1\<rparr>, m))"

text \<open>The commands of a stopped debugger, one \<open>if\<close> after the other.\<close>

definition debug_commands :: "system \<Rightarrow> system" where
  "debug_commands s =
     (let s = enter_digit s;
          s = (if CMDKEY DBGKEY_HOME s then home s else s);
          s = (if CMDKEY DBGKEY_RUN s then
                 (case s of (d, m) \<Rightarrow> (d\<lparr>inRunMode := 1, stepBreakPoint := 0xFFFFFFFF\<rparr>, m)) else s);
          s = (if CMDKEY DBGKEY_STEP s then home (single_step s) else s);
          s = (if CMDKEY DBGKEY_STEPOVER s then step_over s else s);
          s = (if CMDKEY DBGKEY_SETBREAK s then
                 (case s of (d, m) \<Rightarrow> (set_address 3 (addressSettings d ! 0) d, m)) else s)
      in s)"

definition key_changed :: "(nat \<Rightarrow> u32) \<Rightarrow> system \<Rightarrow> system" where
  "key_changed rnd = (\<lambda>(d, m).
     let d = d\<lparr>lastKey := currentKey d\<rparr>;
         (key, m) = CPUKeyHandler (currentKey d) (of_bool (inRunMode d \<noteq> 0)) m;
         d = d\<lparr>currentKey := key\<rparr>
     in if currentKey d \<ge> 0 then
          let d = d\<lparr>currentKey := toupper (currentKey d)\<rparr>;
              s = (if CMDKEY DBGKEY_RESET (d, m) then home (d, CPUReset rnd m) else (d, m))
          in if inRunMode d = 0 then debug_commands s
             else if CMDKEY DBGKEY_BREAK s then
               (case s of (d, m) \<Rightarrow> home (d\<lparr>inRunMode := 0\<rparr>, m))
             else s
        else (d, m))"

definition run_frame :: "u32 \<Rightarrow> system \<Rightarrow> system" where
  "run_frame ticks = (\<lambda>(d, m).
     if inRunMode d \<noteq> 0 then
       let (frameRate, m) = CPUExecute (addressSettings d ! 3) (stepBreakPoint d) m;
           d = (if frameRate = 0 then d\<lparr>inRunMode := 0\<rparr>
                else d\<lparr>nextFrame := ticks + ucast (1000 div ucast frameRate :: u32)\<rparr>)
       in home (d, m)
     else (d, m))"

definition GFXXRender :: "int \<Rightarrow> (nat \<Rightarrow> u32) \<Rightarrow> u32 \<Rightarrow> system \<Rightarrow> system" where
  "GFXXRender autoStart rnd ticks s =
     (let s = first_time autoStart s;
          s = DBGXRender s;
          s = (case s of (d, m) \<Rightarrow> (d\<lparr>currentKey := scan_keys (keyState m)\<rparr>, m));
          s = (if currentKey (fst s) \<noteq> lastKey (fst s) then key_changed rnd s else s)
      in run_frame ticks s)"

section \<open>The main loop\<close>

text \<open>A key event: the key symbol and whether the key went down. Other SDL events are not
  handled by the loop.\<close>

definition poll_event :: "(string \<Rightarrow> int) \<Rightarrow> int \<times> bool \<Rightarrow> machine \<Rightarrow> machine" where
  "poll_event sdlk = (\<lambda>(sym, down) m.
     let m = (if down \<and> sym = sdlk ''ESCAPE'' then m\<lparr>isRunning := 0\<rparr> else m)
     in m\<lparr>keyState := GFXUpdateKeyRecord sym down (keyState m)\<rparr>)"

definition main_loop_turn ::
  "(string \<Rightarrow> int) \<Rightarrow> int \<Rightarrow> (nat \<Rightarrow> u32) \<Rightarrow> u32 \<Rightarrow> (int \<times> bool) list \<Rightarrow> system \<Rightarrow> system" where
  "main_loop_turn sdlk autoStart rnd ticks events = (\<lambda>(d, m).
     GFXXRender autoStart rnd ticks (d, fold (poll_event sdlk) events m))"

text \<open>\<open>main\<close>: reset, load the program named on the command line, set up the keys, and turn the
  loop while \<open>isRunning\<close>. \<open>prog\<close> is the first argument, \<open>None\<close> without arguments and
  otherwise the contents of the file, if it can be opened; \<open>autoStart\<close> is 1 when there is a
  second argument and 0 otherwise.\<close>

definition start_machine :: "(string \<Rightarrow> int) \<Rightarrow> (nat \<Rightarrow> u32) \<Rightarrow> u8 list option option \<Rightarrow> machine option" where
  "start_machine sdlk rnd prog =
     (let m = CPUReset rnd \<lparr>proc = initial_cpu (\<lambda>a. 0), Cycles = 0, instructionCount = 0,
                 keyState = replicate 128 \<lparr>sdlKey = 0, gfxKey = 0, isPressed = 0\<rparr>, isRunning = -1\<rparr>
      in map_option (\<lambda>m. m\<lparr>keyState := GFXInitialiseKeyRecord sdlk\<rparr>)
           (case prog of None \<Rightarrow> Some m | Some file \<Rightarrow> CPULoadBinary file m))"

inductive reachable ::
  "(string \<Rightarrow> int) \<Rightarrow> int \<Rightarrow> u8 list option option \<Rightarrow> system \<Rightarrow> (int \<times> bool) list \<Rightarrow> bool"
  for sdlk autoStart prog where
  start: "start_machine sdlk rnd prog = Some m \<Longrightarrow>
    reachable sdlk autoStart prog (initial_debugger, m) []"
| turn: "reachable sdlk autoStart prog (d, m) es \<Longrightarrow> isRunning m \<noteq> 0 \<Longrightarrow>
    reachable sdlk autoStart prog (main_loop_turn sdlk autoStart rnd ticks events (d, m)) (es @ events)"

end
