(* ===== verification/Session.thy ===== *)
theory Session
  imports Debugger
begin

text \<open>
  Invariants of whole sessions. The locale \<open>turn_invariant\<close> reduces a turn of the main loop
  to the operations of the machine; it is interpreted on the safety invariant of the machine
  and debugger and on the end of a session. \<open>reachable\<close> (in \<open>Debugger\<close>) is the set of
  states of the main loop together with the key events so far.
\<close>

section \<open>What a turn preserves\<close>

text \<open>The interface between the turn of the main loop and an invariant: a predicate \<open>D\<close> on
  the debugger and \<open>J\<close> on the machine that the machine operations and the assignments of
  the debugger keep are kept by the whole of \<open>GFXXRender\<close>.\<close>

locale turn_invariant =
  fixes D :: "debugger \<Rightarrow> bool" and J :: "machine \<Rightarrow> bool"
  assumes J_machine: "J m \<Longrightarrow> J (snd (CPUGetStatus m))" "J m \<Longrightarrow> J (snd (CPUKeyHandler k r m))"
      "J m \<Longrightarrow> J (CPUReset rnd m)" "J m \<Longrightarrow> J (snd (CPUExecuteInstruction m))"
      "J m \<Longrightarrow> J (snd (CPUExecute b1 b2 m))"
    and D_home: "J m \<Longrightarrow> D d \<Longrightarrow> D (set_address 0 (PCTR m) d)"
    and D_digit: "D d \<Longrightarrow> D (set_address n (DEBUG_SHIFT a v) d)"
    and D_break: "D d \<Longrightarrow> D (set_address 3 (addressSettings d ! 0) d)"
    and D_first: "J m \<Longrightarrow> D d \<Longrightarrow> D (fst (first_time autoStart (d, m)))"
    and D_fields: "D d \<Longrightarrow> D (d\<lparr>inRunMode := r\<rparr>)" "D d \<Longrightarrow> D (d\<lparr>lastKey := k\<rparr>)"
      "D d \<Longrightarrow> D (d\<lparr>currentKey := k\<rparr>)" "D d \<Longrightarrow> D (d\<lparr>stepBreakPoint := b\<rparr>)"
      "D d \<Longrightarrow> D (d\<lparr>nextFrame := t\<rparr>)" "D d \<Longrightarrow> D (d\<lparr>renderCount := k\<rparr>)"
begin

definition K :: "system \<Rightarrow> bool" where
  "K s \<longleftrightarrow> D (fst s) \<and> J (snd s)"

lemma K_pair [simp]: "K (d, m) \<longleftrightarrow> D d \<and> J m"
  by (simp add: K_def)

lemma K_if: "(c \<Longrightarrow> K a) \<Longrightarrow> K b \<Longrightarrow> K (if c then a else b)"
  by simp

lemma K_home: "K s \<Longrightarrow> K (home s)"
  by (cases s) (simp add: home_def D_home)

lemma K_single_step: "K s \<Longrightarrow> K (single_step s)"
  by (cases s) (simp add: single_step_def split_def J_machine)

lemma K_enter_digit: "K s \<Longrightarrow> K (enter_digit s)"
  by (cases s) (simp add: enter_digit_def Let_def D_digit)

lemma K_step_over: "K s \<Longrightarrow> K (step_over s)"
  by (cases s) (simp add: step_over_def Let_def K_home K_single_step D_fields)

lemma K_commands:
  assumes "K s"
  shows "K (debug_commands s)"
proof -
  have set: "K (case s of (d, m) \<Rightarrow> (d\<lparr>inRunMode := r, stepBreakPoint := b\<rparr>, m))"
    "K (case s of (d, m) \<Rightarrow> (set_address 3 (addressSettings d ! 0) d, m))" if "K s" for s r b
    using that by (cases s; simp add: D_fields D_break)+
  show ?thesis
    unfolding debug_commands_def Let_def
    by (intro K_if set K_step_over K_home K_single_step K_enter_digit assms)
qed

lemma K_key_changed:
  assumes "K s"
  shows "K (key_changed rnd s)"
proof -
  obtain d m where s: "s = (d, m)" by (cases s)
  have stop: "K (case s of (d, m) \<Rightarrow> home (d\<lparr>inRunMode := 0\<rparr>, m))" if "K s" for s
    using that by (cases s) (simp add: K_home D_fields)
  show ?thesis
    unfolding s key_changed_def prod.case Let_def split_def
    by (intro K_if K_commands stop [unfolded split_def] K_home)
      (use assms in \<open>simp_all add: s D_fields J_machine\<close>)
qed

lemma K_run_frame: "K s \<Longrightarrow> K (run_frame ticks s)"
  by (cases s) (auto simp: run_frame_def Let_def split_def J_machine D_fields intro!: K_home)

lemma K_first_time: "K s \<Longrightarrow> K (first_time autoStart s)"
  using D_first by (cases s) (auto simp: K_def, simp add: first_time_def Let_def)

lemma K_GFXXRender: "K s \<Longrightarrow> K (GFXXRender autoStart rnd ticks s)"
proof -
  assume "K s"
  have display: "K (DBGXRender s)" "K (case s of (d, m) \<Rightarrow> (d\<lparr>currentKey := scan_keys (keyState m)\<rparr>, m))"
    if "K s" for s
    using that by (cases s; simp add: DBGXRender_def split_def J_machine D_fields)+
  show ?thesis
    unfolding GFXXRender_def Let_def
    by (intro K_run_frame K_if K_key_changed display K_first_time \<open>K s\<close>)
qed

end

section \<open>Operations of the machine keep its invariant\<close>

definition machine_ok :: "(u32 \<Rightarrow> u8) \<Rightarrow> key_state \<Rightarrow> machine \<Rightarrow> bool" where
  "machine_ok ram keys m \<longleftrightarrow>
     Cycles m < CYCLES_PER_FRAME \<and> within_ram ram (proc m) \<and> keyState m = keys"

lemma within_ram_poke: "within_ram ram s \<Longrightarrow> within_ram ram (s\<lparr>ramMemory := (ramMemory s)(a AND RAMMASK := v)\<rparr>)"
  by (auto simp: within_ram_def sane_cpu_def dest: ram_index_le)

lemma within_ram_run: "within_ram ram s \<Longrightarrow> within_ram ram (run n s)"
  by (rule run_induct) (auto intro: ram.I_ExecuteOneInstruction)

lemma machine_ok_set_ram: "machine_ok ram keys m \<Longrightarrow> machine_ok ram keys (set_ram a v m)"
  by (simp add: machine_ok_def) (simp add: set_ram_def within_ram_poke)

lemma machine_ok_status: "machine_ok ram keys m \<Longrightarrow> machine_ok ram keys (snd (CPUGetStatus m))"
  by (simp add: machine_ok_def CPUGetStatus_eq Let_def ram.I_set_flags)

lemma machine_ok_key: "machine_ok ram keys m \<Longrightarrow> machine_ok ram keys (snd (CPUKeyHandler k r m))"
  by (simp add: CPUKeyHandler_def machine_ok_set_ram)

lemma machine_ok_reset: "machine_ok ram keys m \<Longrightarrow> machine_ok ram keys (CPUReset rnd m)"
proof -
  assume ok: "machine_ok ram keys m"
  have "machine_ok ram keys (m\<lparr>proc := CPU65816Reset (proc m), Cycles := 0\<rparr>)"
    using ok by (auto simp: machine_ok_def within_ram_def sane_cpu_def CPU65816Reset_def cycles_per_frame)
  moreover have "machine_ok ram keys (fold (\<lambda>i. set_ram (f i) (g i)) xs m')" if "machine_ok ram keys m'" for m' f g and xs :: "nat list"
    using that by (induction xs arbitrary: m') (simp_all add: machine_ok_set_ram)
  ultimately show ?thesis by (simp add: CPUReset_def)
qed

lemma within_ram_end_frame: "within_ram ram s \<Longrightarrow> within_ram ram (end_frame m s)"
  using within_ram_poke [of ram s "0xF8000"] by (simp add: end_frame_def)

lemma machine_ok_instruction:
  "machine_ok ram keys m \<Longrightarrow> machine_ok ram keys (snd (CPUExecuteInstruction m))"
  by (auto simp: machine_ok_def CPUExecuteInstruction_eq within_ram_end_frame ram.I_ExecuteOneInstruction
      cycles_per_frame word_less_nat_alt unat_word_ariths)

lemma machine_ok_execute:
  assumes "machine_ok ram keys m"
  shows "machine_ok ram keys (snd (CPUExecute b1 b2 m))"
proof -
  have c: "Cycles m < CYCLES_PER_FRAME" using assms by (simp add: machine_ok_def)
  obtain n where n: "frame_result b1 b2 m n (CPUExecute b1 b2 m)" using CPUExecute_result [OF c] by blast
  have "within_ram ram (run n (proc m))" using assms by (simp add: machine_ok_def within_ram_run)
  moreover have "Cycles m + of_nat n < CYCLES_PER_FRAME" if "unat (Cycles m) + n < 51666"
    using that by (simp add: cycles_per_frame word_less_nat_alt unat_word_ariths unat_of_nat)
  ultimately show ?thesis
    using n assms by (auto simp: machine_ok_def frame_result_def split_beta within_ram_end_frame
        cycles_per_frame split: if_splits)
qed

lemmas machine_ok_ops = machine_ok_status machine_ok_key machine_ok_reset machine_ok_instruction
  machine_ok_execute

section \<open>Every reachable state of a session\<close>

definition default_keys :: "int list" where
  "default_keys = [GFXKEY_F1, GFXKEY_TAB, GFXKEY_F7, GFXKEY_F8, GFXKEY_F5, GFXKEY_F6, GFXKEY_F2, GFXKEY_F9]"

definition debugger_ok :: "debugger \<Rightarrow> bool" where
  "debugger_ok d \<longleftrightarrow> length (addressSettings d) = 4 \<and> (\<forall>a \<in> set (addressSettings d). a \<le> 0xFFFFFF)
     \<and> length (keyMapping d) = 16 \<and> (isInitialised d \<noteq> 0 \<longrightarrow> take 8 (keyMapping d) = default_keys)"

definition system_ok :: "(u32 \<Rightarrow> u8) \<Rightarrow> key_state \<Rightarrow> system \<Rightarrow> bool" where
  "system_ok ram keys = (\<lambda>(d, m). debugger_ok d \<and> machine_ok ram keys m)"

lemma PCTR_le: "machine_ok ram keys m \<Longrightarrow> PCTR m \<le> 0xFFFFFF"
proof -
  assume "machine_ok ram keys m"
  then have pc: "reg_pc (proc m) \<le> 0xFFFF" by (simp add: machine_ok_def within_ram_def sane_cpu_def)
  have "PCTR m = take_bit 24 (PCTR m)"
  proof -
    have "take_bit 16 (reg_pc (proc m)) = reg_pc (proc m)"
      using and_mask_id(1) [OF pc] by (simp add: mask_numerals)
    then have low: "n < 16" if "bit (reg_pc (proc m)) n" for n
      using that by (metis bit_take_bit_iff)
    have "\<not> bit (reg_pc (proc m)) n" if "24 \<le> n" for n
      using that low [of n] by linarith
    moreover have "\<not> bit (push_bit 16 (ucast (reg_pbr (proc m))) :: u32) n" if "24 \<le> n" for n
      using that bit_imp_le_length [of "reg_pbr (proc m)" "n - 16"] by (auto simp: bit_simps)
    ultimately show ?thesis
      unfolding PCTR_def CPU65816GetPC_def by (intro bit_eqI) (auto simp: bit_simps not_le)
  qed
  then have "PCTR m = PCTR m AND 0xFFFFFF" by (simp add: mask_numerals)
  then show ?thesis by (metis and_mask_le(4))
qed

lemma debugger_ok_set_address:
  "debugger_ok d \<Longrightarrow> a \<le> 0xFFFFFF \<Longrightarrow> debugger_ok (set_address n a d)"
  by (auto simp: debugger_ok_def set_address_def dest: set_update_subset_insert [THEN subsetD])

lemma debugger_ok_updates [simp]:
  "debugger_ok (d\<lparr>inRunMode := r\<rparr>) = debugger_ok d" "debugger_ok (d\<lparr>lastKey := k\<rparr>) = debugger_ok d"
  "debugger_ok (d\<lparr>currentKey := k\<rparr>) = debugger_ok d" "debugger_ok (d\<lparr>stepBreakPoint := b\<rparr>) = debugger_ok d"
  "debugger_ok (d\<lparr>nextFrame := n\<rparr>) = debugger_ok d" "debugger_ok (d\<lparr>renderCount := c\<rparr>) = debugger_ok d"
  by (simp_all add: debugger_ok_def)

section \<open>The interpretations\<close>

lemma isRunning_steps:
  assumes "isRunning m = 0"
  shows "isRunning (snd (CPUExecuteInstruction m)) = 0" "isRunning (CPUReset rnd m) = 0"
    "isRunning (snd (CPUKeyHandler k r m)) = 0" "isRunning (snd (CPUGetStatus m)) = 0"
proof -
  have "isRunning (fold (\<lambda>i. set_ram (f i) (g i)) xs m') = isRunning m'" for f g m' and xs :: "nat list"
    by (induction xs arbitrary: m') simp_all
  then show "isRunning (CPUReset rnd m) = 0" using assms by (simp add: CPUReset_def)
qed (use assms in \<open>simp_all add: CPUExecuteInstruction_def CPUKeyHandler_def CPUGetStatus_eq Let_def\<close>)

lemma isRunning_execute: "isRunning m = 0 \<Longrightarrow> isRunning (snd (CPUExecute b1 b2 m)) = 0"
proof (induction b1 b2 m rule: CPUExecute.induct)
  case (1 b1 b2 m)
  obtain rate t where st: "CPUExecuteInstruction m = (rate, t)" by fastforce
  then have t: "isRunning t = 0" using isRunning_steps(1) [OF 1(2)] by simp
  let ?t = "if CPURead (PCTR t) t = 0x02 then GFXCloseOnDebug t else t"
  have "isRunning ?t = 0" using t by (simp add: GFXCloseOnDebug_def)
  with t 1(1) [OF st [symmetric] _ _ refl] show ?case
    by (simp add: CPUExecute.simps [of b1 b2 m] st Let_def)
qed

lemma default_mapping:
  "length km = 16 \<Longrightarrow> take 8 (km[0 := GFXKEY_F1, Suc 0 := GFXKEY_TAB, 2 := GFXKEY_F7, 3 := GFXKEY_F8,
     4 := GFXKEY_F5, 5 := GFXKEY_F6, 6 := GFXKEY_F2, 7 := GFXKEY_F9]) = default_keys"
  by (auto simp: default_keys_def numeral_eq_Suc length_Suc_conv)

lemma first_time_ok:
  assumes "PCTR m \<le> 0xFFFFFF" and "debugger_ok d"
  shows "debugger_ok (fst (first_time autoStart (d, m)))"
  using assms default_mapping
  by (auto simp: debugger_ok_def first_time_def Let_def set_address_def DBGDefineKey_def dbgkey_defs
      dest!: set_update_subset_insert [THEN subsetD])

lemma break_address: "debugger_ok d \<Longrightarrow> addressSettings d ! 0 \<le> 0xFFFFFF"
  by (simp add: debugger_ok_def)

interpretation safe: turn_invariant debugger_ok "machine_ok ram keys" for ram keys
  by unfold_locales
    (auto simp: machine_ok_ops PCTR_le first_time_ok DEBUG_SHIFT_def word_and_le1 break_address
      intro!: debugger_ok_set_address)

interpretation closing: turn_invariant "\<lambda>_. True" "\<lambda>m. isRunning m = 0"
  by unfold_locales (auto simp: isRunning_steps isRunning_execute)

lemma GFXXRender_ok: "system_ok ram keys s \<Longrightarrow> system_ok ram keys (GFXXRender autoStart rnd ticks s)"
  using safe.K_GFXXRender [of ram keys s autoStart rnd ticks] by (simp add: system_ok_def safe.K_def split_def)

section \<open>Sessions\<close>

lemma poll_events:
  assumes "machine_ok ram (key_events sdlk es) m"
  shows "machine_ok ram (key_events sdlk (es @ events)) (fold (poll_event sdlk) events m)"
  using assms
proof (induction events arbitrary: es m)
  case (Cons e events)
  obtain c d where e: "e = (c, d)" by (cases e)
  have "machine_ok ram (key_events sdlk (es @ [(c, d)])) (poll_event sdlk e m)"
    using Cons.prems by (auto simp: e poll_event_def machine_ok_def)
  from Cons.IH [OF this] show ?case by (simp add: e)
qed simp

lemma start_ok:
  assumes "start_machine sdlk rnd prog = Some m"
  shows "machine_ok (\<lambda>a. 0) (key_events sdlk []) m"
proof -
  let ?keys = "replicate 128 \<lparr>sdlKey = 0, gfxKey = 0, isPressed = 0\<rparr>"
  let ?m = "\<lparr>proc = initial_cpu (\<lambda>a. 0), Cycles = 0, instructionCount = 0, keyState = ?keys, isRunning = -1\<rparr>"
  have "machine_ok (\<lambda>a. 0) ?keys ?m"
    by (simp add: machine_ok_def cycles_per_frame within_ram_def wf_imp_sane wf_initial) (simp add: initial_cpu_def)
  then have reset: "machine_ok (\<lambda>a. 0) ?keys (CPUReset rnd ?m)" by (rule machine_ok_reset)
  have load: "machine_ok (\<lambda>a. 0) ?keys m'" if "CPULoadBinary f (CPUReset rnd ?m) = Some m'" for f m'
  proof (cases f)
    case (Some bytes)
    then have m': "length bytes < RAMSIZE"
      "m' = (CPUReset rnd ?m)\<lparr>proc := (proc (CPUReset rnd ?m))\<lparr>ramMemory := loaded_image bytes 0 (ramMemory (proc (CPUReset rnd ?m)))\<rparr>\<rparr>"
      using that by (auto simp: CPULoadBinary_def load_bytes_result split: if_splits)
    have "loaded_image bytes 0 ram a = ram a" if "a > RAMMASK" for ram and a :: u32
      using that m'(1) by (simp add: loaded_image_def word_less_nat_alt RAMSIZE_def)
    with reset show ?thesis by (simp add: m'(2) machine_ok_def within_ram_def sane_cpu_def)
  qed (use that in \<open>simp add: CPULoadBinary_def\<close>)
  from assms reset load show ?thesis
    by (auto simp: start_machine_def Let_def machine_ok_def split: option.splits)
qed

text \<open>C26: In every state the main loop can reach, whatever program is loaded and whatever the
  user types, resets and memory edits included: less than a frame of cycles is counted, the
  debugger addresses are 24 bit addresses, the command keys are the default ones after the
  first turn, the key records are those of the event history, and nothing outside the memory
  array has been written.\<close>

theorem session_invariant:
  "reachable sdlk autoStart prog s es \<Longrightarrow> system_ok (\<lambda>a. 0) (key_events sdlk es) s"
proof (induction rule: reachable.induct)
  case (start rnd m)
  have "debugger_ok initial_debugger" by (simp add: debugger_ok_def initial_debugger_def)
  with start_ok [OF start] show ?case by (simp add: system_ok_def)
next
  case (turn d m es rnd ticks events)
  then have "system_ok (\<lambda>a. 0) (key_events sdlk (es @ events)) (d, fold (poll_event sdlk) events m)"
    by (simp add: system_ok_def poll_events)
  then show ?case by (simp add: main_loop_turn_def GFXXRender_ok)
qed

text \<open>The start of a session is itself reachable, for instance without a program.\<close>

lemma start_reachable:
  "\<exists>m. start_machine sdlk rnd None = Some m \<and> reachable sdlk autoStart None (initial_debugger, m) []"
  using reachable.start [of sdlk rnd None] by (simp add: start_machine_def Let_def)

theorem session_invariant_witness:
  "\<exists>s. reachable held_c 0 None s [] \<and> system_ok (\<lambda>a. 0) (key_events held_c []) s"
  using start_reachable [of held_c "\<lambda>i. 0" 0] session_invariant [of held_c 0 None _ "[]"] by blast

lemma poll_escape:
  "isRunning m = 0 \<or> (sdlk ''ESCAPE'', True) \<in> set events \<Longrightarrow> isRunning (fold (poll_event sdlk) events m) = 0"
  by (induction events arbitrary: m) (auto simp: poll_event_def)

text \<open>C38: Escape ends the session: once a turn has polled the key-down event of the escape key,
  the condition of the main loop is false after the turn, whatever the turn runs.\<close>

theorem escape_ends_session:
  assumes "(sdlk ''ESCAPE'', True) \<in> set events"
  shows "isRunning (snd (main_loop_turn sdlk autoStart rnd ticks events s)) = 0"
  using closing.K_GFXXRender [of "(fst s, fold (poll_event sdlk) events (snd s))" autoStart rnd ticks]
    poll_escape [of "snd s" sdlk events] assms
  by (simp add: main_loop_turn_def closing.K_def split_def)

theorem escape_ends_session_witness:
  "isRunning (snd (main_loop_turn held_c 0 (\<lambda>i. 0) 0 [(99, True), (2, True)] (initial_debugger, boot (\<lambda>a. 0)))) = 0"
  by (rule escape_ends_session) (simp add: held_c_def)


end
