(* ===== verification/Debugger_Keys.thy ===== *)
theory Debugger_Keys
  imports Session
begin

text \<open>
  The debugger as its user sees it: what single keys do in the stopped debugger and in run
  mode.
\<close>

section \<open>What the keys do\<close>

lemma fold_last:
  fixes P :: "int \<Rightarrow> bool"
  shows "(\<And>i. i \<in> set xs \<Longrightarrow> \<not> P i) \<Longrightarrow> fold (\<lambda>i k. if P i then i else k) xs a = a"
    and "(\<And>i. i \<in> set xs \<Longrightarrow> P i \<longleftrightarrow> i = j) \<Longrightarrow> fold (\<lambda>i k. if P i then i else k) xs a = (if j \<in> set xs then j else a)"
  by (induction xs arbitrary: a) auto

text \<open>\<open>only_key k keys\<close>: \<open>k\<close> is the one key that is pressed; -1 stands for no key.\<close>

definition only_key :: "int \<Rightarrow> key_state \<Rightarrow> bool" where
  "only_key k keys \<longleftrightarrow> (\<forall>i. 0 \<le> i \<and> i < 128 \<longrightarrow> (GFXIsKeyPressed i keys \<noteq> 0 \<longleftrightarrow> i = k))"

lemma only_keyD: "only_key k keys \<Longrightarrow> 0 \<le> i \<Longrightarrow> i < 128 \<Longrightarrow> GFXIsKeyPressed i keys \<noteq> 0 \<longleftrightarrow> i = k"
  by (simp add: only_key_def)

lemma scan_only:
  assumes "only_key k keys" and "k < 128" and "\<not> GFXISMODIFIERKEY k"
  shows "scan_keys keys = (if 0 \<le> k then k else -1)"
proof -
  have keys: "\<not> GFXISMODIFIERKEY i \<and> GFXIsKeyPressed i keys \<noteq> 0 \<longleftrightarrow> i = k" if "i \<in> int ` {0 ..< 128}" for i
    using that only_keyD [OF assms(1), of i] assms(3) by auto
  have "k \<in> int ` {0 ..< 128} \<longleftrightarrow> 0 \<le> k"
    using assms(2) by (auto simp: image_iff intro!: bexI [of _ "nat k"])
  then show ?thesis
    unfolding scan_keys_def using keys
    by (subst fold_last(2) [where j = k]) (auto simp del: upt_rec_numeral)
qed

lemma boot_keys: "only_key (-1) (keyState (boot ram))"
  by (auto simp: only_key_def boot_def GFXIsKeyPressed_def Let_def)

text \<open>While the debugger is stopped and no key is newly pressed, a turn leaves the machine
  alone, up to the register snapshot for the display.\<close>

theorem stopped_is_idle:
  assumes "isInitialised d \<noteq> 0" and "inRunMode d = 0" and "scan_keys (keyState m) = lastKey d"
  shows "GFXXRender autoStart rnd ticks (d, m) =
    (d\<lparr>currentKey := lastKey d, renderCount := renderCount d + 1\<rparr>,
     m\<lparr>proc := EXPORT_REGISTERS (proc m)\<rparr>)"
  using assms by (simp add: GFXXRender_def first_time_def DBGXRender_def CPUGetStatus_eq run_frame_def Let_def)

text \<open>A debugger after its first turn, and a machine on which one key is held.\<close>

definition stopped :: debugger where
  "stopped = fst (first_time 0 (initial_debugger, boot (\<lambda>a. 0)))"

lemma stopped_simps [simp]:
  "debugger_ok stopped" "isInitialised stopped = 1" "inRunMode stopped = 0" "lastKey stopped = -1"
  "addressSettings stopped = [0, 0, 0, 0]" "stepBreakPoint stopped = 0"
  by (simp_all add: stopped_def first_time_def initial_debugger_def set_address_def DBGDefineKey_def Let_def
      dbgkey_defs debugger_ok_def default_keys_def eval_nat_numeral PCTR_def boot_def initial_cpu_def CPU65816GetPC_def)

definition holding :: "int \<Rightarrow> machine \<Rightarrow> machine" where
  "holding k m = m\<lparr>keyState := (keyState (boot (\<lambda>a. 0)))[nat k := \<lparr>sdlKey = 1, gfxKey = k, isPressed = 1\<rparr>]\<rparr>"

lemma holding_only: "0 \<le> k \<Longrightarrow> k < 65 \<Longrightarrow> only_key k (keyState (holding k m))"
  by (auto simp: only_key_def holding_def boot_def GFXIsKeyPressed_def Let_def nth_list_update)

theorem stopped_is_idle_witness:
  "snd (GFXXRender 0 (\<lambda>i. 0) 7 (stopped, boot (\<lambda>a. 0xEA))) =
    (boot (\<lambda>a. 0xEA))\<lparr>proc := EXPORT_REGISTERS (initial_cpu (\<lambda>a. 0xEA))\<rparr>"
  using stopped_is_idle [of stopped "boot (\<lambda>a. 0xEA)" 0 "\<lambda>i. 0" 7]
    scan_only [OF boot_keys, of "\<lambda>a. 0xEA"]
  by (simp add: GFXISMODIFIERKEY_def GFXISCONTROLKEY_def GFXISSHIFTKEY_def gfxkey_defs boot_def)

lemma commands:
  assumes "debugger_ok d" and "isInitialised d \<noteq> 0"
  shows "CMDKEY DBGKEY_RESET (d, m) = (GFXIsKeyPressed GFXKEY_F1 (keyState m) \<noteq> 0)"
    "CMDKEY DBGKEY_STEP (d, m) = (GFXIsKeyPressed GFXKEY_F7 (keyState m) \<noteq> 0)"
    "CMDKEY DBGKEY_STEPOVER (d, m) = (GFXIsKeyPressed GFXKEY_F8 (keyState m) \<noteq> 0)"
    "CMDKEY DBGKEY_RUN (d, m) = (GFXIsKeyPressed GFXKEY_F5 (keyState m) \<noteq> 0)"
    "CMDKEY DBGKEY_BREAK (d, m) = (GFXIsKeyPressed GFXKEY_F6 (keyState m) \<noteq> 0)"
    "CMDKEY DBGKEY_HOME (d, m) = (GFXIsKeyPressed GFXKEY_F2 (keyState m) \<noteq> 0)"
    "CMDKEY DBGKEY_SETBREAK (d, m) = (GFXIsKeyPressed GFXKEY_F9 (keyState m) \<noteq> 0)"
proof -
  have k: "take 8 (keyMapping d) = default_keys" using assms by (simp add: debugger_ok_def)
  have "keyMapping d ! n = default_keys ! n" if "n < 8" for n
    using that nth_take [of n 8 "keyMapping d"] k by simp
  then show "CMDKEY DBGKEY_RESET (d, m) = (GFXIsKeyPressed GFXKEY_F1 (keyState m) \<noteq> 0)"
    "CMDKEY DBGKEY_STEP (d, m) = (GFXIsKeyPressed GFXKEY_F7 (keyState m) \<noteq> 0)"
    "CMDKEY DBGKEY_STEPOVER (d, m) = (GFXIsKeyPressed GFXKEY_F8 (keyState m) \<noteq> 0)"
    "CMDKEY DBGKEY_RUN (d, m) = (GFXIsKeyPressed GFXKEY_F5 (keyState m) \<noteq> 0)"
    "CMDKEY DBGKEY_BREAK (d, m) = (GFXIsKeyPressed GFXKEY_F6 (keyState m) \<noteq> 0)"
    "CMDKEY DBGKEY_HOME (d, m) = (GFXIsKeyPressed GFXKEY_F2 (keyState m) \<noteq> 0)"
    "CMDKEY DBGKEY_SETBREAK (d, m) = (GFXIsKeyPressed GFXKEY_F9 (keyState m) \<noteq> 0)"
    by (simp_all add: CMDKEY_def dbgkey_defs default_keys_def)
qed

lemma keyState_execute [simp]: "keyState (snd (CPUExecuteInstruction m)) = keyState m"
  by (simp add: CPUExecuteInstruction_def Let_def)

lemma CMDKEY_steps [simp]:
  "CMDKEY n (home s) = CMDKEY n s" "CMDKEY n (single_step s) = CMDKEY n s"
  "CMDKEY n (d\<lparr>lastKey := k\<rparr>, m) = CMDKEY n (d, m)" "CMDKEY n (d\<lparr>currentKey := k\<rparr>, m) = CMDKEY n (d, m)"
  "CMDKEY n (d\<lparr>inRunMode := r\<rparr>, m) = CMDKEY n (d, m)" "CMDKEY n (d\<lparr>renderCount := c\<rparr>, m) = CMDKEY n (d, m)"
  "CMDKEY n (d\<lparr>stepBreakPoint := b\<rparr>, m) = CMDKEY n (d, m)"
  by (simp_all add: CMDKEY_def home_def single_step_def set_address_def split_def)

lemma function_key:
  assumes "8 \<le> k" and "k \<le> 17"
  shows "k < 128" "\<not> GFXISMODIFIERKEY k" "toupper k = k" "\<not> isxdigit k" "GFXToASCII k (-1) keys = 0"
  using assms by (simp_all add: GFXISMODIFIERKEY_def GFXISCONTROLKEY_def GFXISSHIFTKEY_def toupper_def isxdigit_def
      isdigit_def GFXToASCII_def gfxkey_defs)

lemma function_key_turn:
  assumes "isInitialised d \<noteq> 0" and "only_key k (keyState m)" and "8 \<le> k" "k \<le> 17" and "lastKey d \<noteq> k"
  shows "GFXXRender autoStart rnd ticks (d, m) = run_frame ticks (key_changed rnd
     (d\<lparr>renderCount := renderCount d + 1, currentKey := k\<rparr>, m\<lparr>proc := EXPORT_REGISTERS (proc m)\<rparr>))"
proof -
  have "scan_keys (keyState m) = k"
    using scan_only [OF assms(2)] function_key [OF assms(3,4)] assms(3) by simp
  then show ?thesis
    using assms(1,5) by (simp add: GFXXRender_def first_time_def DBGXRender_def CPUGetStatus_eq Let_def)
qed

lemma only_command_key:
  assumes "only_key k keys"
  shows "GFXIsKeyPressed GFXKEY_F1 keys = 0 \<longleftrightarrow> k \<noteq> GFXKEY_F1" "GFXIsKeyPressed GFXKEY_F2 keys = 0 \<longleftrightarrow> k \<noteq> GFXKEY_F2"
    "GFXIsKeyPressed GFXKEY_F5 keys = 0 \<longleftrightarrow> k \<noteq> GFXKEY_F5" "GFXIsKeyPressed GFXKEY_F6 keys = 0 \<longleftrightarrow> k \<noteq> GFXKEY_F6"
    "GFXIsKeyPressed GFXKEY_F7 keys = 0 \<longleftrightarrow> k \<noteq> GFXKEY_F7" "GFXIsKeyPressed GFXKEY_F8 keys = 0 \<longleftrightarrow> k \<noteq> GFXKEY_F8"
    "GFXIsKeyPressed GFXKEY_F9 keys = 0 \<longleftrightarrow> k \<noteq> GFXKEY_F9"
proof -
  have "GFXIsKeyPressed i keys = 0 \<longleftrightarrow> k \<noteq> i" if "0 \<le> i \<and> i < 128" for i
    using only_keyD [OF assms, of i] that by auto
  then show "GFXIsKeyPressed GFXKEY_F1 keys = 0 \<longleftrightarrow> k \<noteq> GFXKEY_F1" "GFXIsKeyPressed GFXKEY_F2 keys = 0 \<longleftrightarrow> k \<noteq> GFXKEY_F2"
    "GFXIsKeyPressed GFXKEY_F5 keys = 0 \<longleftrightarrow> k \<noteq> GFXKEY_F5" "GFXIsKeyPressed GFXKEY_F6 keys = 0 \<longleftrightarrow> k \<noteq> GFXKEY_F6"
    "GFXIsKeyPressed GFXKEY_F7 keys = 0 \<longleftrightarrow> k \<noteq> GFXKEY_F7" "GFXIsKeyPressed GFXKEY_F8 keys = 0 \<longleftrightarrow> k \<noteq> GFXKEY_F8"
    "GFXIsKeyPressed GFXKEY_F9 keys = 0 \<longleftrightarrow> k \<noteq> GFXKEY_F9"
    by (simp_all add: gfxkey_defs)
qed

lemma function_keys [simp]:
  "8 \<le> GFXKEY_F7" "GFXKEY_F7 \<le> 17" "8 \<le> GFXKEY_F8" "GFXKEY_F8 \<le> 17" "8 \<le> GFXKEY_F6" "GFXKEY_F6 \<le> 17"
  "0 \<le> GFXKEY_F6" "0 \<le> GFXKEY_F7" "0 \<le> GFXKEY_F8"
  "GFXKEY_F7 \<noteq> GFXKEY_F1" "GFXKEY_F7 \<noteq> GFXKEY_F2" "GFXKEY_F7 \<noteq> GFXKEY_F5" "GFXKEY_F7 \<noteq> GFXKEY_F8" "GFXKEY_F7 \<noteq> GFXKEY_F9"
  "GFXKEY_F8 \<noteq> GFXKEY_F1" "GFXKEY_F8 \<noteq> GFXKEY_F2" "GFXKEY_F8 \<noteq> GFXKEY_F5" "GFXKEY_F8 \<noteq> GFXKEY_F7" "GFXKEY_F8 \<noteq> GFXKEY_F9"
  "GFXKEY_F6 \<noteq> GFXKEY_F1"
  by (simp_all add: gfxkey_defs)

definition snapshot :: "machine \<Rightarrow> machine" where
  "snapshot m = m\<lparr>proc := EXPORT_REGISTERS (proc m)\<rparr>"

lemma snapshot_simps [simp]:
  "keyState (snapshot m) = keyState m" "Cycles (snapshot m) = Cycles m" "isRunning (snapshot m) = isRunning m"
  "PCTR (snapshot m) = PCTR m" "CPURead a (snapshot m) = CPURead a m"
  by (simp_all add: snapshot_def PCTR_def CPURead_def CPU65816GetPC_def)

lemma step_over_snapshot [simp]: "CPUGetStepOverBreakpoint (snapshot m) = CPUGetStepOverBreakpoint m"
  by (simp add: CPUGetStepOverBreakpoint_def Let_def)

text \<open>C35: F7 in the stopped debugger executes exactly one instruction, moves the code address
  to the new program counter and stays stopped.\<close>

theorem F7_single_steps:
  fixes d :: debugger and m :: machine and autoStart :: int and rnd :: "nat \<Rightarrow> u32" and ticks :: u32
  assumes "debugger_ok d" and "isInitialised d \<noteq> 0" and "inRunMode d = 0"
    and "only_key GFXKEY_F7 (keyState m)" and "lastKey d \<noteq> GFXKEY_F7"
  defines "s \<equiv> GFXXRender autoStart rnd ticks (d, m)"
  shows "snd s = snd (CPUExecuteInstruction (snapshot m)) \<and> inRunMode (fst s) = 0
    \<and> addressSettings (fst s) = (addressSettings d)[0 := PCTR (snd s)] \<and> lastKey (fst s) = GFXKEY_F7"
proof -
  note fk = function_key [OF function_keys(1,2)] and keys = only_command_key [OF assms(4)]
  have "s = run_frame ticks (home (single_step
      (d\<lparr>renderCount := renderCount d + 1, lastKey := GFXKEY_F7, currentKey := GFXKEY_F7\<rparr>, snapshot m)))"
    unfolding s_def function_key_turn [OF assms(2,4) _ _ assms(5), simplified]
    using assms(1-3) fk keys
    by (simp add: key_changed_def debug_commands_def enter_digit_def CPUKeyHandler_def commands Let_def
        snapshot_def [symmetric])
  then show ?thesis
    using assms(3) by (simp add: run_frame_def home_def single_step_def set_address_def split_def)
qed

theorem F7_single_steps_witness:
  "snd (GFXXRender 0 (\<lambda>i. 0) 9 (stopped, holding GFXKEY_F7 (boot (\<lambda>a. 0xEA)))) =
     snd (CPUExecuteInstruction (snapshot (holding GFXKEY_F7 (boot (\<lambda>a. 0xEA)))))"
  using F7_single_steps [of stopped "holding GFXKEY_F7 (boot (\<lambda>a. 0xEA))" 0 "\<lambda>i. 0" 9] holding_only [of GFXKEY_F7]
  by (simp add: gfxkey_defs)

text \<open>C36: F8 in front of a call in the stopped debugger sets the breakpoint behind the call,
  goes to run mode and runs in the same turn. If the program comes to that breakpoint in the
  rest of the frame, with no NOP and no breakpoint of the user on the way, then the turn ends there:
  the processor has run just to the breakpoint and the debugger is stopped. In general the turn is one call of
  \<open>CPUExecute\<close>, which may also stop at a NOP or at the user's breakpoint; run mode goes on exactly if
  nothing stops the program before the frame ends.\<close>

theorem F8_runs_over_call:
  fixes d :: debugger and m :: machine and autoStart :: int and rnd :: "nat \<Rightarrow> u32" and ticks :: u32
  assumes "debugger_ok d" and "isInitialised d \<noteq> 0" and "inRunMode d = 0" and "Cycles m < CYCLES_PER_FRAME"
    and "only_key GFXKEY_F8 (keyState m)" and "lastKey d \<noteq> GFXKEY_F8" and "CPUGetStepOverBreakpoint m \<noteq> 0"
  defines "s \<equiv> GFXXRender autoStart rnd ticks (d, m)"
    and "b1 \<equiv> addressSettings d ! 3" and "b2 \<equiv> CPUGetStepOverBreakpoint m" and "p \<equiv> proc (snapshot m)"
  shows "snd s = snd (CPUExecute b1 b2 (snapshot m)) \<and> stepBreakPoint (fst s) = b2
    \<and> (inRunMode (fst s) = 0 \<longleftrightarrow> (\<exists>n. unat (Cycles m) + n < 51666 \<and> first_stop b1 b2 n p))
    \<and> (\<forall>n. unat (Cycles m) + n < 51666 \<and> first_stop b1 b2 n p \<and> CPU65816GetPC (run n p) = b2
         \<longrightarrow> proc (snd s) = run n p \<and> PCTR (snd s) = b2 \<and> inRunMode (fst s) = 0)
    \<and> addressSettings (fst s) = (addressSettings d)[0 := PCTR (snd s)]"
proof -
  note fk = function_key [OF function_keys(3,4)] and keys = only_command_key [OF assms(5)]
  have s: "s = run_frame ticks (d\<lparr>renderCount := renderCount d + 1, lastKey := GFXKEY_F8,
      currentKey := GFXKEY_F8, stepBreakPoint := b2, inRunMode := 1\<rparr>, snapshot m)"
    unfolding s_def function_key_turn [OF assms(2,5) _ _ assms(6), simplified]
    using assms(1-3,7) fk keys
    by (simp add: key_changed_def debug_commands_def enter_digit_def step_over_def CPUKeyHandler_def commands Let_def
        snapshot_def [symmetric] b2_def)
  have r: "snd s = snd (CPUExecute b1 b2 (snapshot m))" "stepBreakPoint (fst s) = b2"
    "inRunMode (fst s) = 0 \<longleftrightarrow> fst (CPUExecute b1 b2 (snapshot m)) = 0"
    "addressSettings (fst s) = (addressSettings d)[0 := PCTR (snd s)]"
    by (simp_all add: s b1_def run_frame_def home_def set_address_def split_def Let_def)
  have c: "Cycles (snapshot m) < CYCLES_PER_FRAME" using assms(4) by simp
  show ?thesis
    using r CPUExecute_stops [OF c, where ?b1.0 = b1 and ?b2.0 = b2, folded p_def] by (auto simp: PCTR_def)
qed

text \<open>A call at address 0 of a routine at address 16 that returns at once.\<close>

definition calls :: "u32 \<Rightarrow> u8" where
  "calls = (\<lambda>a. 0)(0 := 0x20, 1 := 0x10, 0x10 := 0x60)"

lemma calls_run:
  fixes k :: int
  defines "s \<equiv> proc (snapshot (holding k (boot calls)))"
  shows "CPU65816GetPC (run 1 s) = 0x10" "CPU65816GetPC (run 2 s) = 3" "ramMemory (run 1 s) 0x10 = 0x60"
proof -
  have s: "reg_pc s = 0" "reg_pbr s = 0" "reg_sp s = 0x100" "reg_emul s = 1" "ramMemory s = calls" "interrupt65816 s = 0"
    by (simp_all add: s_def snapshot_def holding_def boot_def initial_cpu_def)
  have m: "calls 0 = 0x20" "calls 1 = 0x10" "calls 2 = 0" "calls 0x10 = 0x60" by (simp_all add: calls_def)
  define t where "t = JSR (s\<lparr>last_opcode_addr := reg_pc s\<rparr>)"
  have "fetch_opcode s = 0x20" by (simp add: fetch_opcode_def FETCH_PARAM_def CPU65816GetBank_def s m)
  then have 1: "run 1 s = t"
    by (simp add: t_def CPU65816ExecuteOneInstruction_def Let_def opcode_switch_def dispatch_20_def)
  have t: "reg_pc t = 0x10" "reg_pbr t = 0" "ramMemory t 0x10 = 0x60"
    by (simp_all add: t_def JSR_def Let_def FETCH_PARAM_def CPU65816GetBank_def s m) (simp add: PUSH_def Let_def STORE_LONG_def INC_PC_def s m)?
  then show "CPU65816GetPC (run 1 s) = 0x10" "ramMemory (run 1 s) 0x10 = 0x60"
    unfolding 1 by (simp_all add: CPU65816GetPC_def)
  have "fetch_opcode t = 0x60" by (simp add: fetch_opcode_def FETCH_PARAM_def CPU65816GetBank_def t)
  have 2: "run 2 s = CPU65816ExecuteOneInstruction t"
    using run_simps(2) [of 1 s] 1 by (simp only: numeral_2_eq_2 One_nat_def)
  from \<open>fetch_opcode t = 0x60\<close> have 3: "run 2 s = RTS (t\<lparr>last_opcode_addr := reg_pc t\<rparr>)"
    unfolding 2 by (simp add: CPU65816ExecuteOneInstruction_def Let_def opcode_switch_def dispatch_60_def)
  have "wf_cpu (s\<lparr>last_opcode_addr := reg_pc s\<rparr>)"
    by (simp add: s_def snapshot_def holding_def boot_def wf_cpu_def mode_ok_def initial_cpu_def)
  moreover have "same_stack 2 t (t\<lparr>last_opcode_addr := reg_pc t\<rparr>)" by (simp add: same_stack_def peek_def LOAD_LONG_def)
  ultimately have "RTS (t\<lparr>last_opcode_addr := reg_pc t\<rparr>) = t\<lparr>last_opcode_addr := reg_pc t,
      reg_pc := (reg_pc (s\<lparr>last_opcode_addr := reg_pc s\<rparr>) + 3) AND 0xFFFF, reg_sp := reg_sp (s\<lparr>last_opcode_addr := reg_pc s\<rparr>)\<rparr>"
    unfolding t_def by (rule RTS_after_JSR)
  then show "CPU65816GetPC (run 2 s) = 3" unfolding 3 by (simp add: CPU65816GetPC_def t s)
qed

lemma calls_stop: "first_stop 0 3 2 (proc (snapshot (holding k (boot calls))))"
proof -
  have "\<not> stops_at 0 3 (run i (proc (snapshot (holding k (boot calls)))))" if "0 < i \<and> i < 2" for i
  proof -
    have "i = 1" using that by auto
    then show ?thesis unfolding stops_at_def using calls_run [of k] by (simp del: run_simps add: \<open>i = 1\<close> flip: One_nat_def)
  qed
  then show ?thesis unfolding first_stop_def stops_at_def [of _ _ "run 2 _"] by (simp add: calls_run(2) del: run_simps)
qed

theorem F8_runs_over_call_witness:
  "PCTR (snd (GFXXRender 0 (\<lambda>i. 0) 9 (stopped, holding GFXKEY_F8 (boot calls)))) = 3
   \<and> inRunMode (fst (GFXXRender 0 (\<lambda>i. 0) 9 (stopped, holding GFXKEY_F8 (boot calls)))) = 0"
proof -
  have "CPUGetStepOverBreakpoint (holding GFXKEY_F8 (boot calls)) = 3" "Cycles (holding GFXKEY_F8 (boot calls)) < CYCLES_PER_FRAME"
    "unat (Cycles (holding GFXKEY_F8 (boot calls))) + 2 < 51666"
    by (simp_all add: CPUGetStepOverBreakpoint_def CPURead_def PCTR_def holding_def boot_def initial_cpu_def CPU65816GetPC_def
        cycles_per_frame calls_def)
  then show ?thesis
    using F8_runs_over_call [of stopped "holding GFXKEY_F8 (boot calls)" 0 "\<lambda>i. 0" 9] holding_only [of GFXKEY_F8]
      calls_stop [of GFXKEY_F8] calls_run(2) [of GFXKEY_F8]
    by (fastforce simp: gfxkey_defs simp del: run_simps)
qed

text \<open>C37: A turn in run mode in which the pressed key has not changed runs the machine from where it
  is to the end of the frame, or to the first state before it whose next opcode is 0xEA (NOP) or whose address is
  the breakpoint of the user or that of a step over. Run mode ends exactly in the second case, with the processor in
  that state; if such a state is reached only with the last instruction of the frame, run mode goes on. The
  code address follows the program counter.\<close>

theorem run_mode_turn:
  fixes d :: debugger and m :: machine and autoStart :: int and rnd :: "nat \<Rightarrow> u32" and ticks :: u32
  assumes "isInitialised d \<noteq> 0" and "inRunMode d \<noteq> 0" and "scan_keys (keyState m) = lastKey d" and "Cycles m < CYCLES_PER_FRAME"
  defines "s \<equiv> GFXXRender autoStart rnd ticks (d, m)"
    and "b1 \<equiv> addressSettings d ! 3" and "b2 \<equiv> stepBreakPoint d" and "p \<equiv> proc (snapshot m)"
  shows "snd s = snd (CPUExecute b1 b2 (snapshot m))
    \<and> (inRunMode (fst s) = 0 \<longleftrightarrow> (\<exists>n. unat (Cycles m) + n < 51666 \<and> first_stop b1 b2 n p))
    \<and> (\<forall>n. unat (Cycles m) + n < 51666 \<and> first_stop b1 b2 n p \<longrightarrow> proc (snd s) = run n p)
    \<and> addressSettings (fst s) = (addressSettings d)[0 := PCTR (snd s)]"
proof -
  have r: "snd s = snd (CPUExecute b1 b2 (snapshot m))" "inRunMode (fst s) = 0 \<longleftrightarrow> fst (CPUExecute b1 b2 (snapshot m)) = 0"
    "addressSettings (fst s) = (addressSettings d)[0 := PCTR (snd s)]"
    using assms(1-3)
    by (simp_all add: s_def b1_def b2_def GFXXRender_def first_time_def DBGXRender_def CPUGetStatus_eq run_frame_def home_def
        set_address_def split_def Let_def snapshot_def)
  have c: "Cycles (snapshot m) < CYCLES_PER_FRAME" using assms(4) by simp
  show ?thesis
    using r CPUExecute_stops [OF c, where ?b1.0 = b1 and ?b2.0 = b2, folded p_def] by auto
qed

theorem run_mode_turn_witness:
  "inRunMode (fst (GFXXRender 0 (\<lambda>i. 0) 9 (stopped\<lparr>inRunMode := 1\<rparr>, boot (\<lambda>a. 0xEA)))) = 0"
proof -
  have "first_stop 0 0 1 (proc (snapshot (boot (\<lambda>a. 0xEA))))"
    by (simp add: first_stop_def stops_at_def) (simp add: snapshot_def boot_def initial_cpu_def CPU65816ExecuteOneInstruction_def Let_def
        fetch_opcode_def FETCH_PARAM_def opcode_switch_def dispatch_E0_def NOP_def INC_PC_def)
  moreover have "unat (Cycles (boot (\<lambda>a. 0xEA))) + 1 < 51666" "Cycles (boot (\<lambda>a. 0xEA)) < CYCLES_PER_FRAME"
    by (simp_all add: boot_def cycles_per_frame)
  ultimately show ?thesis
    using run_mode_turn [of "stopped\<lparr>inRunMode := 1\<rparr>" "boot (\<lambda>a. 0xEA)" 0 "\<lambda>i. 0" 9] scan_only [OF boot_keys, of "\<lambda>a. 0xEA"]
    by (auto simp: GFXISMODIFIERKEY_def GFXISCONTROLKEY_def GFXISSHIFTKEY_def gfxkey_defs)
qed

text \<open>F6 stops a running program before the next instruction: the turn only clears the key
  byte of the machine.\<close>

theorem F6_stops:
  fixes d :: debugger and m :: machine and autoStart :: int and rnd :: "nat \<Rightarrow> u32" and ticks :: u32
  assumes "debugger_ok d" and "isInitialised d \<noteq> 0" and "inRunMode d \<noteq> 0"
    and "only_key GFXKEY_F6 (keyState m)" and "lastKey d \<noteq> GFXKEY_F6"
  defines "s \<equiv> GFXXRender autoStart rnd ticks (d, m)"
  shows "snd s = set_ram 0xF8010 0 (snapshot m) \<and> inRunMode (fst s) = 0"
proof -
  note fk = function_key [OF function_keys(5,6)] and keys = only_command_key [OF assms(4)]
  show ?thesis
    unfolding s_def function_key_turn [OF assms(2,4) _ _ assms(5), simplified]
    using assms(1-3) fk keys
    by (simp add: key_changed_def CPUKeyHandler_def commands Let_def snapshot_def [symmetric] run_frame_def home_def
        set_address_def)
qed

theorem F6_stops_witness:
  "inRunMode (fst (GFXXRender 0 (\<lambda>i. 0) 9 (stopped\<lparr>inRunMode := 1\<rparr>, holding GFXKEY_F6 (boot (\<lambda>a. 0xEA))))) = 0"
  using F6_stops [of "stopped\<lparr>inRunMode := 1\<rparr>" "holding GFXKEY_F6 (boot (\<lambda>a. 0xEA))" 0 "\<lambda>i. 0" 9] holding_only [of GFXKEY_F6]
  by (simp add: gfxkey_defs)

end
