(* ===== verification/Block_Move.thy ===== *)
theory Block_Move
  imports Safety
begin

text \<open>
  The block moves MVN and MVP. An execution moves one byte and leaves the program counter on
  the instruction until the accumulator runs out; the theorem here is about the whole loop:
  \<open>reg_c + 1\<close> executions of the opcode at the program counter.
\<close>

section \<open>The reference: moving bytes one after the other\<close>

text \<open>The address of the byte with index \<open>x\<close> in a bank, and the memory after moving \<open>n\<close> bytes
  from index \<open>x\<close> of bank \<open>b\<close> to index \<open>y\<close> of bank \<open>d\<close> in steps of \<open>delta\<close>. The indices
  wrap at the end of the bank, or of its first 256 bytes if the index registers are \<open>narrow\<close>.\<close>

definition bank_addr :: "u8 \<Rightarrow> u16 \<Rightarrow> u32" where
  "bank_addr b x = (ucast x + push_bit 16 (ucast b)) AND RAMMASK"

definition narrowed :: "bool \<Rightarrow> u16 \<Rightarrow> u16" where
  "narrowed narrow x = (if narrow then x AND 0xFF else x)"

lemma narrowed_simps [simp]:
  "narrowed False x = x" "narrowed n (narrowed n x) = narrowed n x" "narrowed n (narrowed n x + y) = narrowed n (x + y)"
proof -
  have "(x AND 0xFF) + y AND 0xFF = x + y AND 0xFF"
    by (simp add: word_unat_eq_iff unat_and_ff16 unat_word_ariths mod_simps mod_mod_cancel)
  then show "narrowed n (narrowed n x + y) = narrowed n (x + y)" by (simp add: narrowed_def)
qed (simp_all add: narrowed_def and.assoc)

fun move_bytes :: "bool \<Rightarrow> u16 \<Rightarrow> u8 \<Rightarrow> u8 \<Rightarrow> u16 \<Rightarrow> u16 \<Rightarrow> nat \<Rightarrow> (u32 \<Rightarrow> u8) \<Rightarrow> u32 \<Rightarrow> u8" where
  "move_bytes narrow delta b d x y 0 ram = ram"
| "move_bytes narrow delta b d x y (Suc n) ram =
     move_bytes narrow delta b d (narrowed narrow (x + delta)) (narrowed narrow (y + delta)) n (ram(bank_addr d y := ram (bank_addr b x)))"

section \<open>One execution\<close>

definition code_addr :: "cpu \<Rightarrow> u32 \<Rightarrow> u32" where
  "code_addr s k = ((reg_pc s + k) OR pbr16 s) AND RAMMASK"

text \<open>\<open>move_at delta d b s\<close>: the program counter is at a block move with destination bank \<open>d\<close> and
  source bank \<open>b\<close> that does not cross the end of the program bank.\<close>

definition move_at :: "u16 \<Rightarrow> u8 \<Rightarrow> u8 \<Rightarrow> cpu \<Rightarrow> bool" where
  "move_at delta d b s \<longleftrightarrow> reg_pc s \<le> 0xFFFD
     \<and> (ramMemory s (code_addr s 0) = 0x54 \<and> delta = 1 \<or> ramMemory s (code_addr s 0) = 0x44 \<and> delta = -1)
     \<and> ramMemory s (code_addr s 1) = d \<and> ramMemory s (code_addr s 2) = b"

definition move_one :: "u16 \<Rightarrow> u8 \<Rightarrow> u8 \<Rightarrow> cpu \<Rightarrow> cpu" where
  "move_one delta d b s = s\<lparr>last_opcode_addr := reg_pc s, reg_dbr := d,
     reg_x := narrowed (LOCAL_65816_X s) (reg_x s + delta), reg_y := narrowed (LOCAL_65816_X s) (reg_y s + delta), reg_c := reg_c s - 1,
     ramMemory := (ramMemory s)(bank_addr d (reg_y s) := ramMemory s (bank_addr b (reg_x s)))\<rparr>"

lemma small_pc:
  assumes "pc \<le> (0xFFFD :: u32)"
  shows "(pc + 1) AND 0xFFFF = pc + 1" "(pc + 2) AND 0xFFFF = pc + 2"
proof -
  have "unat pc \<le> 0xFFFD" using assms by (simp add: word_le_nat_alt)
  then show "(pc + 1) AND 0xFFFF = pc + 1" "(pc + 2) AND 0xFFFF = pc + 2"
    by (simp_all add: word_unat_eq_iff unat_masks unat_word_ariths)
qed

lemma move_execute:
  assumes "move_at delta d b s"
  shows "CPU65816ExecuteOneInstruction s = (if reg_c s = 0
    then (move_one delta d b s)\<lparr>reg_pc := (reg_pc s + 3) AND 0xFFFF\<rparr> else move_one delta d b s)"
proof -
  let ?s = "s\<lparr>last_opcode_addr := reg_pc s\<rparr>"
  have f: "fetch_opcode s = ucast (ramMemory s (code_addr s 0))"
    by (simp add: fetch_opcode_def FETCH_PARAM_def code_addr_def CPU65816GetBank_def)
  have "fetch_opcode s = 0x54 \<and> delta = 1 \<or> fetch_opcode s = 0x44 \<and> delta = -1"
    unfolding f using assms by (auto simp: move_at_def)
  then have m: "CPU65816ExecuteOneInstruction s = MOVE (\<lambda>r. r + delta) ?s"
  proof
    assume "fetch_opcode s = 0x54 \<and> delta = 1"
    then show ?thesis
      by (simp add: CPU65816ExecuteOneInstruction_def Let_def opcode_switch_def dispatch_40_def MVN_def)
  next
    assume "fetch_opcode s = 0x44 \<and> delta = -1"
    then show ?thesis
      by (simp add: CPU65816ExecuteOneInstruction_def Let_def opcode_switch_def dispatch_40_def MVP_def)
  qed
  have pc: "reg_pc s \<le> 0xFFFD" using assms by (simp add: move_at_def)
  have ops: "ramMemory s ((reg_pc s + 1 OR pbr16 s) AND RAMMASK) = d"
    "ramMemory s ((reg_pc s + 2 OR pbr16 s) AND RAMMASK) = b"
    using assms by (simp_all add: move_at_def code_addr_def)
  show ?thesis
    unfolding m using ops small_pc [OF pc]
    by (cases "LOCAL_65816_X s"; cases "reg_c s = 0")
      (simp_all add: MOVE_def Let_def FETCH_PARAM_def CPU65816GetBank_def move_one_def bank_addr_def LOAD_LONG_def
        STORE_LONG_def LOCAL_65816_X_def INC_PC_def add.assoc narrowed_def)
qed

section \<open>The whole move\<close>

text \<open>\<open>spares_code delta d n s\<close>: none of the first \<open>n\<close> destination bytes is a byte of the
  instruction.\<close>

definition spares_code :: "u16 \<Rightarrow> u8 \<Rightarrow> nat \<Rightarrow> cpu \<Rightarrow> bool" where
  "spares_code delta d n s \<longleftrightarrow>
     (\<forall>i < n. bank_addr d (((\<lambda>y. narrowed (LOCAL_65816_X s) (y + delta)) ^^ i) (reg_y s)) \<notin> {code_addr s 0, code_addr s 1, code_addr s 2})"

lemma move_one_simps [simp]:
  "reg_pc (move_one delta d b s) = reg_pc s" "reg_x (move_one delta d b s) = narrowed (LOCAL_65816_X s) (reg_x s + delta)"
  "reg_y (move_one delta d b s) = narrowed (LOCAL_65816_X s) (reg_y s + delta)" "reg_c (move_one delta d b s) = reg_c s - 1"
  "code_addr (move_one delta d b s) k = code_addr s k"
  "LOCAL_65816_X (move_one delta d b s) = LOCAL_65816_X s"
  "ramMemory (move_one delta d b s) =
     (ramMemory s)(bank_addr d (reg_y s) := ramMemory s (bank_addr b (reg_x s)))"
  by (simp_all add: move_one_def code_addr_def LOCAL_65816_X_def)

lemma move_again:
  assumes "move_at delta d b s" and "spares_code delta d (Suc n) s"
  shows "move_at delta d b (move_one delta d b s)" and "spares_code delta d n (move_one delta d b s)"
proof -
  have "bank_addr d (reg_y s) \<notin> {code_addr s 0, code_addr s 1, code_addr s 2}"
    using assms(2) [unfolded spares_code_def, rule_format, of 0] by simp
  then show "move_at delta d b (move_one delta d b s)" using assms(1) by (auto simp: move_at_def)
  have "bank_addr d (((\<lambda>y. narrowed (LOCAL_65816_X s) (y + delta)) ^^ i) (narrowed (LOCAL_65816_X s) (reg_y s + delta)))
      \<notin> {code_addr s 0, code_addr s 1, code_addr s 2}" if "i < n" for i
    using assms(2) [unfolded spares_code_def, rule_format, of "Suc i"] that by (simp add: funpow_Suc_right del: funpow.simps(2))
  then show "spares_code delta d n (move_one delta d b s)" by (simp add: spares_code_def)
qed

definition moved :: "u16 \<Rightarrow> u8 \<Rightarrow> u8 \<Rightarrow> nat \<Rightarrow> cpu \<Rightarrow> cpu" where
  "moved delta d b n s = s\<lparr>last_opcode_addr := reg_pc s, reg_dbr := d,
     reg_x := narrowed (LOCAL_65816_X s) (reg_x s + of_nat n * delta),
     reg_y := narrowed (LOCAL_65816_X s) (reg_y s + of_nat n * delta), reg_c := 0xFFFF,
     ramMemory := move_bytes (LOCAL_65816_X s) delta b d (reg_x s) (reg_y s) n (ramMemory s),
     reg_pc := (reg_pc s + 3) AND 0xFFFF\<rparr>"

lemma moved_move_one: "moved delta d b (Suc n) (move_one delta d b s) = moved delta d b (Suc (Suc n)) s"
proof -
  have i: "narrowed w (narrowed w (x + delta) + of_nat (Suc n) * delta) = narrowed w (x + of_nat (Suc (Suc n)) * delta)" for w x
    by (simp only: narrowed_simps) (simp add: algebra_simps)
  have "moved delta d b (Suc n) (move_one delta d b s) = (move_one delta d b s)\<lparr>last_opcode_addr := reg_pc s, reg_dbr := d,
     reg_x := narrowed (LOCAL_65816_X s) (reg_x s + of_nat (Suc (Suc n)) * delta),
     reg_y := narrowed (LOCAL_65816_X s) (reg_y s + of_nat (Suc (Suc n)) * delta), reg_c := 0xFFFF,
     ramMemory := move_bytes (LOCAL_65816_X s) delta b d (reg_x s) (reg_y s) (Suc (Suc n)) (ramMemory s),
     reg_pc := (reg_pc s + 3) AND 0xFFFF\<rparr>"
    unfolding moved_def by (simp only: move_one_simps i move_bytes.simps)
  also have "\<dots> = moved delta d b (Suc (Suc n)) s"
    unfolding moved_def by (simp add: move_one_def del: move_bytes.simps of_nat_Suc)
  finally show ?thesis .
qed

lemma block_move_run:
  "move_at delta d b s \<Longrightarrow> spares_code delta d n s \<Longrightarrow> reg_c s = of_nat n \<Longrightarrow> n \<le> 0xFFFF \<Longrightarrow>
    run (Suc n) s = moved delta d b (Suc n) s"
proof (induction n arbitrary: s)
  case 0
  then have c: "reg_c s = 0" by simp
  then have "run (Suc 0) s = (move_one delta d b s)\<lparr>reg_pc := (reg_pc s + 3) AND 0xFFFF\<rparr>"
    using move_execute [OF 0(1)] by (simp only: run_simps if_True simp_thms)
  moreover have "(0 :: u16) - 1 = 0xFFFF" by simp
  ultimately show ?case unfolding moved_def move_one_def c by (simp del: run_simps fun_upd_apply)
next
  case (Suc n)
  let ?t = "move_one delta d b s"
  have "unat (of_nat (Suc n) :: u16) = Suc n"
    using Suc.prems(4) by (simp add: unat_of_nat del: of_nat_Suc)
  then have "reg_c s \<noteq> 0" using Suc.prems(3) by (metis unat_0 nat.distinct(1))
  then have step: "CPU65816ExecuteOneInstruction s = ?t" using move_execute [OF Suc.prems(1)] by simp
  have "reg_c ?t = of_nat n" using Suc.prems(3) by simp
  moreover note move_again [OF Suc.prems(1,2)]
  ultimately have "run (Suc n) ?t = moved delta d b (Suc n) ?t"
    using Suc.prems(4) by (intro Suc.IH) simp_all
  moreover have "run (Suc (Suc n)) s = run (Suc n) ?t"
    unfolding step [symmetric] by (rule run_Suc_first)
  ultimately show ?case by (simp only: moved_move_one)
qed

text \<open>C13: Executing a block move until it is done is moving the bytes one after the other, in
  either mode and with index registers of either width:
  \<open>reg_c + 1\<close> executions of the MVN or MVP at the program counter, whatever the overlap of
  source and destination, give the memory of \<open>move_bytes\<close>, index registers that have moved by
  the same number of bytes within their 64K banks or, at 8 bits, within 256 bytes, the data bank of
  the destination, an accumulator of \<open>0xFFFF\<close> and the program counter behind the instruction. Two
  things are required: the instruction lies within its bank, because the core reads the operands of
  one that does not from a wrong place, and the destination must not overwrite the instruction before its last
  byte is moved.\<close>

theorem block_move:
  "move_at delta d b s \<Longrightarrow> spares_code delta d (unat (reg_c s)) s \<Longrightarrow>
    run (Suc (unat (reg_c s))) s = s\<lparr>last_opcode_addr := reg_pc s, reg_dbr := d,
      reg_x := narrowed (LOCAL_65816_X s) (reg_x s + of_nat (Suc (unat (reg_c s))) * delta),
      reg_y := narrowed (LOCAL_65816_X s) (reg_y s + of_nat (Suc (unat (reg_c s))) * delta), reg_c := 0xFFFF,
      ramMemory := move_bytes (LOCAL_65816_X s) delta b d (reg_x s) (reg_y s) (Suc (unat (reg_c s))) (ramMemory s),
      reg_pc := (reg_pc s + 3) AND 0xFFFF\<rparr>"
  unfolding moved_def [symmetric] using unsigned_less [of "reg_c s", where ?'a = nat] by (intro block_move_run) simp_all

definition move_example :: cpu where
  "move_example = (native_cpu ((\<lambda>a. ucast a)(0x28000 := 0x54, 0x28001 := 5, 0x28002 := 4)))\<lparr>reg_c := 2\<rparr>"

lemma move_example_sel [simp]:
  "reg_pc move_example = 0x8000" "reg_c move_example = 2" "reg_x move_example = 0x5678"
  "reg_y move_example = 0x9ABC" "code_addr move_example k = ((0x8000 + k) OR 0x20000) AND RAMMASK"
  "LOCAL_65816_X move_example = False"
  "ramMemory move_example = (\<lambda>a. ucast a)(0x28000 := 0x54, 0x28001 := 5, 0x28002 := 4)"
  by (simp_all add: move_example_def native_cpu_def initial_cpu_def code_addr_def LOCAL_65816_X_def)

lemma move_example_at: "move_at 1 5 4 move_example"
  by (simp add: move_at_def)

lemma move_example_spares: "spares_code 1 5 2 move_example"
  unfolding spares_code_def
proof (intro allI impI)
  fix i :: nat
  assume "i < 2"
  then have "i = 0 \<or> i = 1" by auto
  then show "bank_addr 5 (((\<lambda>y. narrowed (LOCAL_65816_X move_example) (y + 1)) ^^ i) (reg_y move_example))
    \<notin> {code_addr move_example 0, code_addr move_example 1, code_addr move_example 2}"
    by (elim disjE) (simp_all add: bank_addr_def)
qed

theorem block_move_witness:
  "ramMemory (run 3 move_example) 0x59ABD = 0x79 \<and> reg_pc (run 3 move_example) = 0x8003"
proof -
  have n: "unat (reg_c move_example) = 2" "Suc 2 = 3" by simp_all
  have "run 3 move_example = move_example\<lparr>last_opcode_addr := 0x8000, reg_dbr := 5, reg_x := 0x5678 + 3,
      reg_y := 0x9ABC + 3, reg_c := 0xFFFF,
      ramMemory := move_bytes False 1 4 5 0x5678 0x9ABC 3 (ramMemory move_example), reg_pc := 0x8003\<rparr>"
    using block_move [OF move_example_at, unfolded n, OF move_example_spares] by (simp del: run_simps)
  then show ?thesis by (simp add: bank_addr_def numeral_3_eq_3 del: run_simps)
qed

end
