(* ===== verification/Advance.thy ===== *)
theory Advance
  imports Decode Modes
begin

text \<open>
  How far each instruction routine advances the program counter. The routines take their
  operand bytes one \<open>INC_PC\<close> at a time and in different orders; here each addressing mode
  gets its length, and each instruction the length of its addressing mode.
\<close>

section \<open>Addressing modes\<close>

definition advanced :: "u32 \<Rightarrow> cpu \<Rightarrow> cpu \<Rightarrow> bool" where
  "advanced n s t \<longleftrightarrow> reg_pc t = (reg_pc s + n) AND 0xFFFF \<and> reg_pbr t = reg_pbr s"

definition load_len :: "load_func \<Rightarrow> (bool \<Rightarrow> u32) \<Rightarrow> bool" where
  "load_len l n \<longleftrightarrow> (\<forall>b s. advanced (n b) s (snd (l b s)))"

definition store_len :: "store_func \<Rightarrow> u32 \<Rightarrow> bool" where
  "store_len st n \<longleftrightarrow> (\<forall>v b s. advanced n s (st v b s))"

definition load_rrw_len :: "load_rrw \<Rightarrow> u32 \<Rightarrow> bool" where
  "load_rrw_len l n \<longleftrightarrow> (\<forall>b s. advanced n s (snd (l b s)))"

definition store_rrw_len :: "store_rrw \<Rightarrow> bool" where
  "store_rrw_len st \<longleftrightarrow> (\<forall>ea v b s. reg_pc (st ea v b s) = reg_pc s \<and> reg_pbr (st ea v b s) = reg_pbr s)"

lemma access_frame [simp]:
  "reg_pc (snd (access ea ea2 v b w s)) = reg_pc s" "reg_pbr (snd (access ea ea2 v b w s)) = reg_pbr s"
  by (simp_all add: access_def)

lemmas len_simps = load_len_def store_len_def load_rrw_len_def store_rrw_len_def advanced_def
  Let_def split_def add.assoc

text \<open>The modes that both load and store.\<close>

lemma mode_advanced:
  "advanced 2 s (snd (DIRECT_PAGE_FUNC v b w s))"
  "advanced 2 s (snd (DIRECT_PAGE_R_FUNC v b r w s))"
  "advanced 2 s (snd (INDIRECT_FUNC v b w s))"
  "advanced 2 s (snd (INDIRECT_X_FUNC v b w s))"
  "advanced 2 s (snd (INDIRECT_Y_FUNC v b w s))"
  "advanced 2 s (snd (INDIRECT_LONG_FUNC v b w s))"
  "advanced 2 s (snd (INDIRECT_LONG_Y_FUNC v b w s))"
  "advanced 3 s (snd (ABS_FUNC v b w s))"
  "advanced 3 s (snd (ABS2_FUNC v b w s))"
  "advanced 3 s (snd (ABS_R_FUNC v b r w s))"
  "advanced 4 s (snd (ABS_LONG_FUNC v b w s))"
  "advanced 4 s (snd (ABS_LONG_X_FUNC v b w s))"
  "advanced 2 s (snd (STACK_REL_FUNC v b w s))"
  "advanced 2 s (snd (STACK_REL_Y_FUNC v b w s))"
  unfolding DIRECT_PAGE_FUNC_def DIRECT_PAGE_R_FUNC_def INDIRECT_FUNC_def INDIRECT_X_FUNC_def
    INDIRECT_Y_FUNC_def INDIRECT_LONG_FUNC_def INDIRECT_LONG_Y_FUNC_def ABS_FUNC_def ABS2_FUNC_def
    ABS_R_FUNC_def ABS_LONG_FUNC_def ABS_LONG_X_FUNC_def STACK_REL_FUNC_def STACK_REL_Y_FUNC_def
  by (simp_all add: len_simps STORE_BANK0_def)

lemma load_len_modes:
  "load_len LOAD_DIRECT_PAGE_FUNC (\<lambda>_. 2)" "load_len LOAD_DIRECT_PAGE_X_FUNC (\<lambda>_. 2)"
  "load_len LOAD_DIRECT_PAGE_Y_FUNC (\<lambda>_. 2)" "load_len LOAD_INDIRECT_FUNC (\<lambda>_. 2)"
  "load_len LOAD_INDIRECT_X_FUNC (\<lambda>_. 2)" "load_len LOAD_INDIRECT_Y_FUNC (\<lambda>_. 2)"
  "load_len LOAD_INDIRECT_LONG_FUNC (\<lambda>_. 2)" "load_len LOAD_INDIRECT_LONG_Y_FUNC (\<lambda>_. 2)"
  "load_len LOAD_ABS_FUNC (\<lambda>_. 3)" "load_len LOAD_ABS_X_FUNC (\<lambda>_. 3)"
  "load_len LOAD_ABS_Y_FUNC (\<lambda>_. 3)" "load_len LOAD_ABS_LONG_FUNC (\<lambda>_. 4)"
  "load_len LOAD_ABS_LONG_X_FUNC (\<lambda>_. 4)" "load_len LOAD_STACK_REL_FUNC (\<lambda>_. 2)"
  "load_len LOAD_STACK_REL_Y_FUNC (\<lambda>_. 2)" "load_len LOAD_IMMEDIATE_FUNC (\<lambda>b. if b then 2 else 3)"
  "load_len LOAD_STACK (\<lambda>_. 1)"
  unfolding load_defs
  by (simp_all add: mode_advanced [unfolded advanced_def] len_simps LOAD_IMMEDIATE_FUNC_def LOAD_STACK_def)

lemma STORE_STACK_advanced: "advanced 1 s (STORE_STACK v b s)"
  by (simp add: advanced_def STORE_STACK_def Let_def)

lemma store_len_modes:
  "store_len STORE_DIRECT_PAGE 2" "store_len STORE_DIRECT_PAGE_X 2" "store_len STORE_DIRECT_PAGE_Y 2"
  "store_len STORE_INDIRECT 2" "store_len STORE_INDIRECT_X 2" "store_len STORE_INDIRECT_Y 2"
  "store_len STORE_INDIRECT_LONG 2" "store_len STORE_INDIRECT_LONG_Y 2" "store_len STORE_ABS 3"
  "store_len STORE_ABS_X 3" "store_len STORE_ABS_Y 3" "store_len STORE_ABS_LONG 4"
  "store_len STORE_ABS_LONG_X 4" "store_len STORE_STACK_REL 2" "store_len STORE_STACK_REL_Y 2"
  "store_len STORE_STACK 1"
  unfolding store_defs
  by (simp_all add: mode_advanced [unfolded advanced_def] STORE_STACK_advanced [unfolded advanced_def] len_simps)

lemma load_rrw_len_modes:
  "load_rrw_len LOAD_ACCU_RRW 1" "load_rrw_len LOAD_DIRECT_PAGE_FUNC_RRW 2"
  "load_rrw_len LOAD_DIRECT_PAGE_X_FUNC_RRW 2" "load_rrw_len LOAD_ABS_FUNC_RRW 3"
  "load_rrw_len LOAD_ABS_X_FUNC_RRW 3"
  unfolding LOAD_ACCU_RRW_def LOAD_DIRECT_PAGE_FUNC_RRW_def LOAD_DIRECT_PAGE_X_FUNC_RRW_def
    LOAD_ABS_FUNC_RRW_def LOAD_ABS_X_FUNC_RRW_def
  by (simp_all add: len_simps)

lemma store_rrw_len_modes:
  "store_rrw_len STORE_ACCU_RRW" "store_rrw_len STORE_DIRECT_PAGE_RRW"
  "store_rrw_len STORE_DIRECT_PAGE_X_RRW" "store_rrw_len STORE_ABS_RRW" "store_rrw_len STORE_ABS_X_RRW"
  by (simp_all add: store_rrw_len_def STORE_ACCU_RRW_def STORE_DIRECT_PAGE_RRW_def
      STORE_DIRECT_PAGE_X_RRW_def STORE_ABS_RRW_def STORE_ABS_X_RRW_def STORE_BANK0_def Let_def)

section \<open>Instructions\<close>

lemma index_update_frame:
  assumes "f \<in> {reg_x_update, reg_y_update}"
  shows "reg_pc (f g s) = reg_pc s" "reg_pbr (f g s) = reg_pbr s"
  using assms by auto

lemma loading_advanced:
  assumes "load_len l n"
  shows "advanced (n (LOCAL_65816_M s)) s (ADC l s)"
    "advanced (n (LOCAL_65816_M s)) s (SBC l s)"
    "advanced (n (LOCAL_65816_M s)) s (LOGICAL l f s)"
    "advanced (n (LOCAL_65816_M s)) s (CMP l s)"
    "advanced (n (LOCAL_65816_M s)) s (BIT l s)"
    "advanced (n (LOCAL_65816_M s)) s (BIT_IMM l s)"
    "advanced (n (LOCAL_65816_M s)) s (PLA l s)"
    "advanced (n (LOCAL_65816_X s)) s (CMPI l r s)"
    "advanced (n True) s (PLB l s)"
    "advanced (n True) s (PLP l s)"
  using assms unfolding load_len_def advanced_def
  by (simp_all add: advanced_def Let_def split_def ADC_def SBC_def LOGICAL_def CMP_def BIT_def BIT_IMM_def PLA_def
      CMPI_def PLB_def PLP_def)

lemma index_loading_advanced:
  assumes "load_len l n" and "f \<in> {reg_x_update, reg_y_update}"
  shows "advanced (n (LOCAL_65816_X s)) s (LDI l r f s)"
    "advanced (n (LOCAL_65816_X s)) s (PLI l r f s)"
  using assms(1) unfolding load_len_def advanced_def
  by (simp_all add: advanced_def Let_def split_def LDI_def PLI_def index_update_frame [OF assms(2)])

lemma storing_advanced:
  assumes "store_len st n"
  shows "advanced n s (STA st s)" "advanced n s (STX st s)"
    "advanced n s (STY st s)" "advanced n s (STZ st s)"
    "advanced n s (PHA st s)" "advanced n s (PHB st s)"
    "advanced n s (PHK st s)" "advanced n s (PHP st s)"
    "advanced n s (PHX st s)" "advanced n s (PHY st s)"
  using assms unfolding store_len_def advanced_def
  by (simp_all add: STA_def STX_def STY_def STZ_def PHA_def PHB_def PHK_def PHP_def PHX_def PHY_def)

lemma modifying_advanced:
  assumes "load_rrw_len l n" and "store_rrw_len st"
  shows "advanced n s (ASLROL l st c s)"
    "advanced n s (LSRROR l st c s)"
    "advanced n s (TRBTSB l st f s)"
    "advanced n s (INCDEC l st g s)"
  using assms unfolding load_rrw_len_def store_rrw_len_def advanced_def
  by (simp_all add: advanced_def Let_def split_def ASLROL_def LSRROR_def TRBTSB_def INCDEC_def)

lemma register_advanced:
  assumes "f \<in> {reg_x_update, reg_y_update}"
  shows "advanced 1 s (INCDECI r f g s)"
    "advanced 1 s (TRANSI q r f s)"
  by (simp_all add: advanced_def Let_def INCDECI_def TRANSI_def index_update_frame [OF assms])

lemma simple_advanced:
  "advanced 1 s (TRANSA r s)"
  "advanced 1 s (TCD s)" "advanced 1 s (TCS s)"
  "advanced 1 s (TDC s)" "advanced 1 s (TSC s)"
  "advanced 1 s (TXS s)" "advanced 1 s (TXY s)"
  "advanced 1 s (TYX s)" "advanced 1 s (XBA s)"
  "advanced 1 s (CLC s)" "advanced 1 s (CLD s)"
  "advanced 1 s (CLI s)" "advanced 1 s (CLV s)"
  "advanced 1 s (SEC s)" "advanced 1 s (SED s)"
  "advanced 1 s (SEI s)" "advanced 1 s (NOP s)"
  "advanced 2 s (WDM s)" "advanced 2 s (REPSEP v s)"
  "advanced 1 s (XCE s)" "advanced 3 s (PEA s)"
  "advanced 2 s (PEI s)" "advanced 3 s (PER s)"
  "advanced 1 s (PHD s)" "advanced 1 s (PLD s)"
  by (simp_all add: advanced_def Let_def split_def TCD_def TCS_def TDC_def TSC_def TXS_def TXY_def TYX_def XBA_def
      CLC_def CLD_def CLI_def CLV_def SEC_def SED_def SEI_def NOP_def WDM_def REPSEP_def XCE_def
      PEA_def PEI_def PER_def PHD_def PLD_def TRANSA_def PUSH_nowrap_def PULL_nowrap_def add.assoc)

section \<open>The opcode switch\<close>

text \<open>The length of every instruction, given whether the accumulator and the index registers
  hold 8 bits, and the opcodes that do not simply continue behind themselves: BRK, COP,
  branches, jumps, calls, returns, block moves, WAI and STP.\<close>

definition instruction_lengths :: "bool \<Rightarrow> bool \<Rightarrow> nat list" where
  "instruction_lengths m x =
     (let im = (if m then 2 else 3); ix = (if x then 2 else 3) in
     [
      1, 2, im, 2, 2, 2, 2, 2, 1, im, 1, 1, 3, 3, 3, 4,
      2, 2, 2, 2, 2, 2, 2, 2, 1, 3, 1, 1, 3, 3, 3, 4,
      3, 2, 4, 2, 2, 2, 2, 2, 1, im, 1, 1, 3, 3, 3, 4,
      2, 2, 2, 2, 2, 2, 2, 2, 1, 3, 1, 1, 3, 3, 3, 4,
      1, 2, 2, 2, 3, 2, 2, 2, 1, im, 1, 1, 3, 3, 3, 4,
      2, 2, 2, 2, 3, 2, 2, 2, 1, 3, 1, 1, 4, 3, 3, 4,
      1, 2, 3, 2, 2, 2, 2, 2, 1, im, 1, 1, 3, 3, 3, 4,
      2, 2, 2, 2, 2, 2, 2, 2, 1, 3, 1, 1, 3, 3, 3, 4,
      2, 2, 3, 2, 2, 2, 2, 2, 1, im, 1, 1, 3, 3, 3, 4,
      2, 2, 2, 2, 2, 2, 2, 2, 1, 3, 1, 1, 3, 3, 3, 4,
      ix, 2, ix, 2, 2, 2, 2, 2, 1, im, 1, 1, 3, 3, 3, 4,
      2, 2, 2, 2, 2, 2, 2, 2, 1, 3, 1, 1, 3, 3, 3, 4,
      ix, 2, 2, 2, 2, 2, 2, 2, 1, im, 1, 1, 3, 3, 3, 4,
      2, 2, 2, 2, 2, 2, 2, 2, 1, 3, 1, 1, 3, 3, 3, 4,
      ix, 2, 2, 2, 2, 2, 2, 2, 1, im, 1, 1, 3, 3, 3, 4,
      2, 2, 2, 2, 3, 2, 2, 2, 1, 3, 1, 1, 3, 3, 3, 4])"

text \<open>The opcodes that do not go on to the next instruction: those that load the program counter, with the block
  moves, which stay on themselves, and the three that do nothing in this build, so that the
  program counter does not move at all (COP, WAI, STP).\<close>

definition transfer_opcodes :: "nat list" where
  "transfer_opcodes =
     [0x00, 0x10, 0x20, 0x22, 0x30, 0x40, 0x44, 0x4C, 0x50, 0x54, 0x5C, 0x60, 0x6B, 0x6C, 0x70, 0x7C,
      0x80, 0x82, 0x90, 0xB0, 0xD0, 0xDC, 0xF0, 0xFC]"

definition idle_opcodes :: "nat list" where
  "idle_opcodes = [0x02, 0xCB, 0xDB]"

definition control_opcodes :: "nat list" where
  "control_opcodes = transfer_opcodes @ idle_opcodes"

text \<open>The lengths as conditional equations, for every pair of instruction and addressing mode.\<close>

lemma loading_at:
  assumes "load_len l n"
  shows "k = n (LOCAL_65816_M s) \<Longrightarrow> advanced k s (ADC l s)"
    "k = n (LOCAL_65816_M s) \<Longrightarrow> advanced k s (SBC l s)"
    "k = n (LOCAL_65816_M s) \<Longrightarrow> advanced k s (LOGICAL l f s)"
    "k = n (LOCAL_65816_M s) \<Longrightarrow> advanced k s (CMP l s)"
    "k = n (LOCAL_65816_M s) \<Longrightarrow> advanced k s (BIT l s)"
    "k = n (LOCAL_65816_M s) \<Longrightarrow> advanced k s (BIT_IMM l s)"
    "k = n (LOCAL_65816_M s) \<Longrightarrow> advanced k s (PLA l s)"
    "k = n (LOCAL_65816_X s) \<Longrightarrow> advanced k s (CMPI l r s)"
    "k = n True \<Longrightarrow> advanced k s (PLB l s)"
    "k = n True \<Longrightarrow> advanced k s (PLP l s)"
    "k = n (LOCAL_65816_X s) \<Longrightarrow> advanced k s (LDI l r reg_x_update s)"
    "k = n (LOCAL_65816_X s) \<Longrightarrow> advanced k s (LDI l r reg_y_update s)"
    "k = n (LOCAL_65816_X s) \<Longrightarrow> advanced k s (PLI l r reg_x_update s)"
    "k = n (LOCAL_65816_X s) \<Longrightarrow> advanced k s (PLI l r reg_y_update s)"
  by (simp_all add: loading_advanced [OF assms] index_loading_advanced [OF assms])

lemmas loads_at = load_len_modes [THEN loading_at(1)] load_len_modes [THEN loading_at(2)]
  load_len_modes [THEN loading_at(3)] load_len_modes [THEN loading_at(4)]
  load_len_modes [THEN loading_at(5)] load_len_modes [THEN loading_at(6)]
  load_len_modes [THEN loading_at(7)] load_len_modes [THEN loading_at(8)]
  load_len_modes [THEN loading_at(9)] load_len_modes [THEN loading_at(10)]
  load_len_modes [THEN loading_at(11)] load_len_modes [THEN loading_at(12)]
  load_len_modes [THEN loading_at(13)] load_len_modes [THEN loading_at(14)]

lemmas stores_at = store_len_modes [THEN storing_advanced(1)] store_len_modes [THEN storing_advanced(2)]
  store_len_modes [THEN storing_advanced(3)] store_len_modes [THEN storing_advanced(4)]
  store_len_modes [THEN storing_advanced(5)] store_len_modes [THEN storing_advanced(6)]
  store_len_modes [THEN storing_advanced(7)] store_len_modes [THEN storing_advanced(8)]
  store_len_modes [THEN storing_advanced(9)] store_len_modes [THEN storing_advanced(10)]

lemmas modifies_at =
  load_rrw_len_modes [THEN modifying_advanced(1)] load_rrw_len_modes [THEN modifying_advanced(2)]
  load_rrw_len_modes [THEN modifying_advanced(3)] load_rrw_len_modes [THEN modifying_advanced(4)]

lemmas instructions_at = loads_at stores_at modifies_at store_rrw_len_modes register_advanced simple_advanced
  AND_op_def EOR_def ORA_def LDA_def CPX_def CPY_def LDX_def LDY_def PLX_def PLY_def
  ASL_def ROL_def LSR_def ROR_def TRB_def TSB_def INC_def DEC_def DEX_def DEY_def INX_def INY_def
  TAX_def TAY_def TSX_def TXA_def TYA_def REP_def SEP_def

definition continues :: "(u32 \<Rightarrow> cpu \<Rightarrow> cpu) \<Rightarrow> cpu \<Rightarrow> nat \<Rightarrow> bool" where
  "continues f s k \<longleftrightarrow> k \<in> set control_opcodes
     \<or> advanced (of_nat (instruction_lengths (LOCAL_65816_M s) (LOCAL_65816_X s) ! k)) s (f (of_nat k) s)"

lemmas continues_simps = continues_def instructions_at instruction_lengths_def control_opcodes_def transfer_opcodes_def idle_opcodes_def

lemma upt_0_32: "[0 ..< 32] = 0 # 1 # [2 ..< 32 :: nat]"
  by (simp add: upt_conv_Cons numeral_2_eq_2)

lemma upt_range: "list_all P [a ..< b] \<Longrightarrow> a \<le> k \<Longrightarrow> k < b \<Longrightarrow> P k"
  by (simp only: list_all_iff set_upt atLeastLessThan_iff)

lemma dispatch_00_continues: "list_all (continues dispatch_00 s) [0 ..< 32]"
  by (cases "LOCAL_65816_M s"; cases "LOCAL_65816_X s"; simp add: upt_0_32 continues_simps dispatch_00_def)

lemma dispatch_20_continues: "list_all (continues dispatch_20 s) [32 ..< 64]"
  by (cases "LOCAL_65816_M s"; cases "LOCAL_65816_X s"; simp add: continues_simps dispatch_20_def)

lemma dispatch_40_continues: "list_all (continues dispatch_40 s) [64 ..< 96]"
  by (cases "LOCAL_65816_M s"; cases "LOCAL_65816_X s"; simp add: continues_simps dispatch_40_def)

lemma dispatch_60_continues: "list_all (continues dispatch_60 s) [96 ..< 128]"
  by (cases "LOCAL_65816_M s"; cases "LOCAL_65816_X s"; simp add: continues_simps dispatch_60_def)

lemma dispatch_80_continues: "list_all (continues dispatch_80 s) [128 ..< 160]"
  by (cases "LOCAL_65816_M s"; cases "LOCAL_65816_X s"; simp add: continues_simps dispatch_80_def)

lemma dispatch_A0_continues: "list_all (continues dispatch_A0 s) [160 ..< 192]"
  by (cases "LOCAL_65816_M s"; cases "LOCAL_65816_X s"; simp add: continues_simps dispatch_A0_def)

lemma dispatch_C0_continues: "list_all (continues dispatch_C0 s) [192 ..< 224]"
  by (cases "LOCAL_65816_M s"; cases "LOCAL_65816_X s"; simp add: continues_simps dispatch_C0_def)

lemma dispatch_E0_continues: "list_all (continues dispatch_E0 s) [224 ..< 256]"
  by (cases "LOCAL_65816_M s"; cases "LOCAL_65816_X s"; simp add: continues_simps dispatch_E0_def)

lemmas dispatch_continues =
  dispatch_00_continues [THEN upt_range]
  dispatch_20_continues [THEN upt_range]
  dispatch_40_continues [THEN upt_range]
  dispatch_60_continues [THEN upt_range]
  dispatch_80_continues [THEN upt_range]
  dispatch_A0_continues [THEN upt_range]
  dispatch_C0_continues [THEN upt_range]
  dispatch_E0_continues [THEN upt_range]

lemma less_of_nat: "k < 256 \<Longrightarrow> (of_nat k :: u32) < of_nat n \<longleftrightarrow> k < n" if "n < 256"
  using that by (simp add: word_less_nat_alt unat_of_nat)

lemma opcode_switch_continues:
  assumes "k < 256"
  shows "continues opcode_switch s k"
proof -
  have below: "(of_nat k :: u32) < numeral n \<longleftrightarrow> k < numeral n" if "(numeral n :: nat) < 256" for n
    using less_of_nat [OF that assms] by simp
  have "continues opcode_switch s k \<longleftrightarrow> continues
    (if k < 0x20 then dispatch_00 else if k < 0x40 then dispatch_20 else if k < 0x60 then dispatch_40
     else if k < 0x80 then dispatch_60 else if k < 0xA0 then dispatch_80 else if k < 0xC0 then dispatch_A0
     else if k < 0xE0 then dispatch_C0 else dispatch_E0) s k"
    by (simp add: continues_def opcode_switch_def below)
  with assms show ?thesis by (simp add: dispatch_continues split del: if_split split: if_split_asm)
qed

lemma fetch_opcode_read:
  assumes "ramMemory s (CPU65816GetPC s AND RAMMASK) = op"
  shows "fetch_opcode s = of_nat (unat op)"
  using assms by (simp add: fetch_opcode_def FETCH_PARAM_def CPU65816GetPC_def CPU65816GetBank_def)

theorem execute_advances:
  assumes "ramMemory s (CPU65816GetPC s AND RAMMASK) = op" and "unat op \<notin> set control_opcodes"
  defines "n \<equiv> instruction_lengths (LOCAL_65816_M s) (LOCAL_65816_X s) ! unat op"
  shows "advanced (of_nat n) s (CPU65816ExecuteOneInstruction s)"
proof -
  have "continues opcode_switch (s\<lparr>last_opcode_addr := reg_pc s\<rparr>) (unat op)"
    using u8_bound by (rule opcode_switch_continues)
  then show ?thesis
    using assms(2) fetch_opcode_read [OF assms(1)]
    by (simp add: continues_def CPU65816ExecuteOneInstruction_def n_def advanced_def LOCAL_65816_M_def LOCAL_65816_X_def)
qed

lemma execute_idle:
  assumes "ramMemory s (CPU65816GetPC s AND RAMMASK) = op" and "unat op \<in> set idle_opcodes"
  shows "CPU65816GetPC (CPU65816ExecuteOneInstruction s) = CPU65816GetPC s"
proof -
  have "op \<in> {0x02, 0xCB, 0xDB}" using assms(2) by (auto simp: idle_opcodes_def word_unat_eq_iff)
  then have "fetch_opcode s \<in> {0x02, 0xCB, 0xDB}" using fetch_opcode_read [OF assms(1)] by auto
  then show ?thesis
    by (elim insertE emptyE) (simp_all add: CPU65816ExecuteOneInstruction_def Let_def opcode_switch_def dispatch_00_def
        dispatch_C0_def COP_02_def WAI_65816_def STP_65816_def CPU65816GetPC_def)
qed

end
