(* ===== verification/Disassembler.thy ===== *)
theory Disassembler
  imports Machine Advance
begin

text \<open>
  The disassembler of the debugger screen: the table \<open>opcodes\<close> of \<open>src/emulator/dasm65816.h\<close>
  and the loop of \<open>DBGXRender\<close> (\<open>src/emulator/sys_debug_65816.cpp\<close>) that expands an entry of
  the table into a line of text. The theorems relate the listing to the processor: how long it
  takes an instruction to be against how far the instruction moves the program counter, and the
  operand it prints against the operand bytes in memory.
\<close>

section \<open>The table\<close>

definition opcodes :: "string list" where
  "opcodes = [
    ''brk'', ''ora (%1,x)'', ''cop #%m'', ''ora %1,s'', ''tsb %1'', ''ora %1'', ''asl %1'', ''ora [%1]'',
    ''php'', ''ora #%m'', ''asl a'', ''phd'', ''tsb %2'', ''ora %2'', ''asl %2'', ''ora %3'',
    ''bpl %1'', ''ora (%1),y'', ''ora (%1)'', ''ora (%1,s),y'', ''trb %1'', ''ora %1,x'', ''asl %1,x'', ''ora [%1],y'',
    ''clc'', ''ora %2,y'', ''inc a'', ''tas'', ''trb %2'', ''ora %2,x'', ''asl %2,x'', ''ora %3,x'',
    ''jsr %2'', ''and (%1,x)'', ''jsr %3'', ''and %1,s'', ''bit %1'', ''and %1'', ''rol %1'', ''and [%1]'',
    ''plp'', ''and #%m'', ''rol a'', ''pld'', ''bit %2'', ''and %2'', ''rol %2'', ''and %3'',
    ''bmi %1'', ''and (%1),y'', ''and (%1)'', ''and (%1,s),y'', ''bit %1,x'', ''and %1,x'', ''rol %1,x'', ''and [%1],y'',
    ''sec'', ''and %2,y'', ''dec a'', ''tsa'', ''bit %2,x'', ''and %2,x'', ''rol %2,x'', ''and %3,x'',
    ''rti'', ''eor (%1,x)'', ''wdm %1'', ''eor %1,s'', ''mvp %2'', ''eor %1'', ''lsr %1'', ''eor [%1]'',
    ''pha'', ''eor #%m'', ''lsr a'', ''phk'', ''jmp %2'', ''eor %2'', ''lsr %2'', ''eor %3'',
    ''bvc %1'', ''eor (%1),y'', ''eor (%1)'', ''eor (%1,s),y'', ''mvn %2'', ''eor %1,x'', ''lsr %1,x'', ''eor [%1],y'',
    ''cli'', ''eor %2,y'', ''phy'', ''tad'', ''jmp %3'', ''eor %2,x'', ''lsr %2,x'', ''eor %3,x'',
    ''rts'', ''adc (%1,x)'', ''per %2'', ''adc %1,s'', ''stz %1'', ''adc %1'', ''ror %1'', ''adc [%1]'',
    ''pla'', ''adc #%m'', ''ror a'', ''rtl'', ''jmp (%2)'', ''adc %2'', ''ror %2'', ''adc %3'',
    ''bvs %1'', ''adc (%1),y'', ''adc (%1)'', ''adc (%1,s),y'', ''stz %1,x'', ''adc %1,x'', ''ror %1,x'', ''adc [%1],y'',
    ''sei'', ''adc %2,y'', ''ply'', ''tda'', ''jmp (%2,x)'', ''adc %2,x'', ''ror %2,x'', ''adc %3,x'',
    ''bra %1'', ''sta (%1,x)'', ''brl %2'', ''sta %1,s'', ''sty %1'', ''sta %1'', ''stx %1'', ''sta [%1]'',
    ''dey'', ''bit #%m'', ''txa'', ''phb'', ''sty %2'', ''sta %2'', ''stx %2'', ''sta %3'',
    ''blt %1'', ''sta (%1),y'', ''sta (%1)'', ''sta (%1,s),y'', ''sty %1,x'', ''sta %1,x'', ''stx %1,y'', ''sta [%1],y'',
    ''tya'', ''sta %2,y'', ''txs'', ''txy'', ''stz %2'', ''sta %2,x'', ''stz %2,x'', ''sta %3,x'',
    ''ldy #%x'', ''lda (%1,x)'', ''ldx #%x'', ''lda %1,s'', ''ldy %1'', ''lda %1'', ''ldx %1'', ''lda [%1]'',
    ''tay'', ''lda #%m'', ''tax'', ''plb'', ''ldy %2'', ''lda %2'', ''ldx %2'', ''lda %3'',
    ''bge %1'', ''lda (%1),y'', ''lda (%1)'', ''lda (%1,s),y'', ''ldy %1,x'', ''lda %1,x'', ''ldx %1,y'', ''lda [%1],y'',
    ''clv'', ''lda %2,y'', ''tsx'', ''tyx'', ''ldy %2,x'', ''lda %2,x'', ''ldx %2,y'', ''lda %3,x'',
    ''cpy #%x'', ''cmp (%1,x)'', ''rep %1'', ''cmp %1,s'', ''cpy %1'', ''cmp %1'', ''dec %1'', ''cmp [%1]'',
    ''iny'', ''cmp #%m'', ''dex'', ''wai'', ''cpy %2'', ''cmp %2'', ''dec %2'', ''cmp %3'',
    ''bne %1'', ''cmp (%1),y'', ''cmp (%1)'', ''cmp (%1,s),y'', ''pei (%1)'', ''cmp %1,x'', ''dec %1,x'', ''cmp [%1],y'',
    ''cld'', ''cmp %2,y'', ''phx'', ''stp'', ''jmp [%2]'', ''cmp %2,x'', ''dec %2,x'', ''cmp %3,x'',
    ''cpx #%x'', ''sbc (%1,x)'', ''sep %1'', ''sbc %1,s'', ''cpx %1'', ''sbc %1'', ''inc %1'', ''sbc [%1]'',
    ''inx'', ''sbc #%m'', ''nop'', ''xba'', ''cpx %2'', ''sbc %2'', ''inc %2'', ''sbc %3'',
    ''beq %1'', ''sbc (%1),y'', ''sbc (%1)'', ''sbc (%1,s),y'', ''pea %2'', ''sbc %1,x'', ''inc %1,x'', ''sbc [%1],y'',
    ''sed'', ''sbc %2,y'', ''plx'', ''xce'', ''jsr (%2,x)'', ''sbc %2,x'', ''inc %2,x'', ''sbc %3,x'']"

section \<open>One line\<close>

text \<open>\<open>sprintf(q, "%02x", b)\<close> for a byte.\<close>

definition hex_digit :: "nat \<Rightarrow> char" where
  "hex_digit n = ''0123456789abcdef'' ! n"

definition sprintf_02x :: "u8 \<Rightarrow> string" where
  "sprintf_02x b = [hex_digit (unat b div 16), hex_digit (unat b mod 16)]"

text \<open>The number of operand bytes for the character behind a percent sign; \<open>p\<close> is the status
  byte of the register snapshot.\<close>

definition operand_count :: "u16 \<Rightarrow> char \<Rightarrow> int" where
  "operand_count p d =
     (let c = of_char d - 48;
          c = (if d = CHR ''m'' then if p AND 0x20 \<noteq> 0 then 1 else 2 else c)
      in if d = CHR ''x'' then if p AND 0x10 \<noteq> 0 then 1 else 2 else c)"

text \<open>\<open>while (c-- > 0)\<close>: the bytes behind \<open>pc\<close> from the last to the first.\<close>

fun hex_bytes :: "machine \<Rightarrow> u32 \<Rightarrow> nat \<Rightarrow> string" where
  "hex_bytes m pc 0 = []"
| "hex_bytes m pc (Suc c) = sprintf_02x (CPURead (pc + of_nat c) m) @ hex_bytes m pc c"

text \<open>The loop over an entry of the table, with the text it writes to \<open>buffer\<close> and the value it
  leaves in \<open>pc\<close>; \<open>None\<close> if it ran past the end of the entry, which a percent sign at the very
  end would make it do.\<close>

fun disassemble :: "u16 \<Rightarrow> machine \<Rightarrow> string \<Rightarrow> u32 \<Rightarrow> (string \<times> u32) option" where
  "disassemble p m [] pc = Some ([], pc)"
| "disassemble p m (c # cs) pc =
     (if c = CHR ''%'' then
        (case cs of
           [] \<Rightarrow> None
         | d # ds \<Rightarrow>
             let n = nat (operand_count p d)
             in map_option (\<lambda>(text, pc'). (hex_bytes m pc n @ text, pc'))
                  (disassemble p m ds (pc + of_nat n)))
      else map_option (\<lambda>(text, pc'). (c # text, pc')) (disassemble p m cs pc))"

definition code_line :: "u16 \<Rightarrow> machine \<Rightarrow> u32 \<Rightarrow> (string \<times> u32) option" where
  "code_line p m pc = disassemble p m (opcodes ! unat (CPURead pc m)) (pc + 1)"

text \<open>The 18 lines of the screen, each starting where the one before it ended.\<close>

fun code_lines :: "u16 \<Rightarrow> machine \<Rightarrow> nat \<Rightarrow> u32 \<Rightarrow> (u32 \<times> string) list option" where
  "code_lines p m 0 pc = Some []"
| "code_lines p m (Suc n) pc =
     (case code_line p m pc of
        None \<Rightarrow> None
      | Some (text, pc') \<Rightarrow> map_option (\<lambda>ls. (pc, text) # ls) (code_lines p m n pc'))"

section \<open>Entries of the table\<close>

fun operand_bytes :: "u16 \<Rightarrow> string \<Rightarrow> nat" where
  "operand_bytes p [] = 0"
| "operand_bytes p (c # cs) =
     (if c = CHR ''%'' then (case cs of [] \<Rightarrow> 0 | d # ds \<Rightarrow> nat (operand_count p d) + operand_bytes p ds)
      else operand_bytes p cs)"

lemma length_opcodes [simp]: "length opcodes = 256"
  by (simp add: opcodes_def)

text \<open>Every entry has at most one percent sign, and not at the end.\<close>

lemma entries_ok:
  "list_all (\<lambda>t. count_list t (CHR ''%'') \<le> 1 \<and> t \<noteq> [] \<and> last t \<noteq> CHR ''%'') opcodes"
  by (simp add: opcodes_def)

lemma entry_ok:
  fixes op :: u8
  defines "t \<equiv> opcodes ! unat op"
  shows "count_list t (CHR ''%'') \<le> 1" "t \<noteq> []" "last t \<noteq> CHR ''%''"
  using entries_ok u8_bound [of op] by (simp_all add: list_all_length t_def)

lemma operand_bytes_table:
  "map (\<lambda>t. 1 + operand_bytes p t) opcodes = instruction_lengths (p AND 0x20 \<noteq> 0) (p AND 0x10 \<noteq> 0)"
  by (cases "p AND 0x20 = 0"; cases "p AND 0x10 = 0";
      simp add: opcodes_def operand_count_def instruction_lengths_def)

lemma operand_bytes_entry:
  fixes op :: u8
  shows "1 + operand_bytes p (opcodes ! unat op)
    = instruction_lengths (p AND 0x20 \<noteq> 0) (p AND 0x10 \<noteq> 0) ! unat op"
  using u8_bound [of op] unfolding operand_bytes_table [symmetric] by simp

lemma operand_bytes_le:
  fixes op :: u8
  shows "1 + operand_bytes p (opcodes ! unat op) \<le> 4"
proof -
  have "list_all (\<lambda>n. n \<le> 4) (instruction_lengths m x)" for m x
    by (simp add: instruction_lengths_def)
  moreover have "length (instruction_lengths m x) = 256" for m x
    by (simp add: instruction_lengths_def)
  ultimately show ?thesis
    unfolding operand_bytes_entry using u8_bound [of op] by (simp add: list_all_length)
qed

lemma entries_fit: "list_all (\<lambda>t. length t + 2 * operand_bytes p t \<le> 14) opcodes"
  by (cases "p AND 0x20 = 0"; cases "p AND 0x10 = 0"; simp add: opcodes_def operand_count_def)

lemma entry_fits:
  fixes op :: u8
  shows "length (opcodes ! unat op) + 2 * operand_bytes p (opcodes ! unat op) \<le> 14"
  using entries_fit u8_bound [of op] by (simp add: list_all_length)

section \<open>Lines\<close>

lemma disassemble_plain:
  "CHR ''%'' \<notin> set t \<Longrightarrow> disassemble p m t pc = Some (t, pc)"
  by (induction t) auto

lemma disassemble_operand:
  assumes "CHR ''%'' \<notin> set pre" and "CHR ''%'' \<notin> set suf"
  shows "disassemble p m (pre @ CHR ''%'' # d # suf) pc =
    (let n = nat (operand_count p d) in Some (pre @ hex_bytes m pc n @ suf, pc + of_nat n))"
  using assms by (induction pre) (auto simp: disassemble_plain Let_def)

lemma operand_bytes_plain: "CHR ''%'' \<notin> set t \<Longrightarrow> operand_bytes p t = 0"
  by (induction t) auto

lemma operand_bytes_operand:
  assumes "CHR ''%'' \<notin> set pre" and "CHR ''%'' \<notin> set suf"
  shows "operand_bytes p (pre @ CHR ''%'' # d # suf) = nat (operand_count p d)"
  using assms by (induction pre) (auto simp: operand_bytes_plain)

lemma entry_cases:
  fixes op :: u8
  obtains (plain) "CHR ''%'' \<notin> set (opcodes ! unat op)"
  | (operand) pre d suf where "opcodes ! unat op = pre @ CHR ''%'' # d # suf"
      "CHR ''%'' \<notin> set pre" "CHR ''%'' \<notin> set suf"
proof (cases "CHR ''%'' \<in> set (opcodes ! unat op)")
  case True
  then obtain pre rest where t: "opcodes ! unat op = pre @ CHR ''%'' # rest"
    by (meson split_list)
  with entry_ok(3) [of op] obtain d suf where rest: "rest = d # suf" by (cases rest) auto
  have "count_list pre (CHR ''%'') = 0 \<and> count_list suf (CHR ''%'') = 0"
    using entry_ok(1) [of op] unfolding t rest by (simp split: if_splits)
  then show ?thesis by (intro operand [of pre d suf]) (simp_all add: t rest count_list_0_iff)
qed (use plain in blast)

lemma length_hex_bytes [simp]: "length (hex_bytes m pc n) = 2 * n"
  by (induction n) (simp_all add: sprintf_02x_def)

lemma code_line_end:
  obtains line where
    "code_line p m pc = Some (line, pc + 1 + of_nat (operand_bytes p (opcodes ! unat (CPURead pc m))))"
    "length line \<le> 14"
proof (cases rule: entry_cases [of "CPURead pc m"])
  case plain
  then show ?thesis
    using entry_fits [of "CPURead pc m" p]
    by (intro that [of "opcodes ! unat (CPURead pc m)"])
      (simp_all add: code_line_def disassemble_plain operand_bytes_plain)
next
  case (operand pre d suf)
  then show ?thesis
    using entry_fits [of "CPURead pc m" p]
    by (intro that [of "pre @ hex_bytes m (pc + 1) (nat (operand_count p d)) @ suf"])
      (simp_all add: code_line_def disassemble_operand operand_bytes_operand Let_def)
qed

lemma code_lines_fit:
  "\<exists>ls. code_lines p m n pc = Some ls \<and> length ls = n \<and> list_all (\<lambda>(_, line). length line \<le> 14) ls"
proof (induction n arbitrary: pc)
  case (Suc n)
  obtain line pc' where "code_line p m pc = Some (line, pc')" "length line \<le> 14"
    by (rule code_line_end [of p m pc])
  with Suc [of pc'] show ?case by auto
qed simp

section \<open>The listing and the processor\<close>

text \<open>The status byte of the register snapshot that \<open>DBGXRender\<close> looks at.\<close>

definition shown_status :: "machine \<Rightarrow> u16" where
  "shown_status m = st_p (fst (CPUGetStatus m))"

lemma shown_widths:
  "shown_status m AND 0x20 \<noteq> 0 \<longleftrightarrow> reg_p (proc m) AND P_65816_M \<noteq> 0"
  "shown_status m AND 0x10 \<noteq> 0 \<longleftrightarrow> reg_p (proc m) AND P_65816_X \<noteq> 0"
proof -
  have up: "(ucast v :: u16) = 0 \<longleftrightarrow> v = 0" for v :: u8
    by (simp add: word_unat_eq_iff)
  have "(ucast v :: u16) AND 0x20 = ucast (v AND 0x20)" "(ucast v :: u16) AND 0x10 = ucast (v AND 0x10)" for v :: u8
    by (simp_all add: unsigned_and_eq)
  then show "shown_status m AND 0x20 \<noteq> 0 \<longleftrightarrow> reg_p (proc m) AND P_65816_M \<noteq> 0"
    "shown_status m AND 0x10 \<noteq> 0 \<longleftrightarrow> reg_p (proc m) AND P_65816_X \<noteq> 0"
    by (simp_all add: shown_status_def CPUGetStatus_eq Let_def word_ao_dist and.assoc up)
qed

lemma PCTR_sum:
  assumes "reg_pc (proc m) \<le> 0xFFFF"
  shows "PCTR m = reg_pc (proc m) + pbr16 (proc m)"
  using assms by (simp add: PCTR_def CPU65816GetPC_def or_push16)

lemma advanced_PCTR:
  assumes "advanced (of_nat n) s t" and "reg_pc s \<le> 0xFFFB" and "n \<le> 4"
  shows "CPU65816GetPC t = CPU65816GetPC s + of_nat n"
proof -
  have "unat (reg_pc s) \<le> 0xFFFB" using assms(2) by (simp add: word_le_nat_alt)
  then have le: "reg_pc s + of_nat n \<le> 0xFFFF" and "reg_pc s \<le> 0xFFFF"
    using assms(3) by (simp_all add: word_le_nat_alt unat_word_ariths unat_of_nat)
  then show ?thesis
    using assms(1) by (simp add: advanced_def CPU65816GetPC_def and_mask_id or_push16)
qed

text \<open>C14: The listing of the debugger follows the processor. In native mode, for any opcode that
  does not load the program counter (branches, jumps, calls, returns, BRK and block moves do),
  the line of the listing that starts at the program counter
  ends exactly where the program counter is after the instruction: the lengths in the table of
  the disassembler, with the immediate operands of 8 or 16 bits, are the numbers of bytes
  that the addressing modes of the processor consume. The exceptions are COP, WAI and STP, which
  do nothing in this build: the processor stays on them for ever, and the listing goes on behind them, by
  one byte for WAI and STP and by the width of an accumulator immediate for COP. The instruction must not start in the
  last four bytes of its bank.\<close>

theorem listing_follows_execution:
  assumes "reg_emul (proc m) = 0" and "reg_pc (proc m) \<le> 0xFFFB"
    and "unat (CPURead (PCTR m) m) \<notin> set transfer_opcodes"
  defines "pc \<equiv> CPU65816GetPC (CPU65816ExecuteOneInstruction (proc m))"
  shows "\<exists>line next. code_line (shown_status m) m (PCTR m) = Some (line, next)
    \<and> (if unat (CPURead (PCTR m) m) \<in> set idle_opcodes
       then pc = PCTR m \<and> next = PCTR m + (if CPURead (PCTR m) m \<noteq> 0x02 then 1 else if LOCAL_65816_M (proc m) then 2 else 3)
       else next = pc)"
proof -
  let ?op = "CPURead (PCTR m) m" and ?p = "shown_status m"
  define n where "n = 1 + operand_bytes ?p (opcodes ! unat ?op)"
  have len: "n = instruction_lengths (LOCAL_65816_M (proc m)) (LOCAL_65816_X (proc m)) ! unat ?op"
    unfolding n_def operand_bytes_entry using assms(1)
    by (simp only: shown_widths LOCAL_65816_M_def LOCAL_65816_X_def simp_thms)
  obtain line where line: "code_line ?p m (PCTR m) = Some (line, PCTR m + of_nat n)"
    using code_line_end [of ?p m "PCTR m"] by (auto simp: n_def add.assoc)
  have op: "ramMemory (proc m) (CPU65816GetPC (proc m) AND RAMMASK) = ?op" by (simp add: CPURead_def PCTR_def)
  show ?thesis
  proof (cases "unat ?op \<in> set idle_opcodes")
    case True
    have "pc = PCTR m"
      unfolding pc_def execute_idle [OF op True] by (simp add: PCTR_def)
    moreover have "?op = 0x02 \<or> ?op = 0xCB \<or> ?op = 0xDB" using True by (auto simp: idle_opcodes_def word_unat_eq_iff)
    then have "n = (if ?op \<noteq> 0x02 then 1 else if LOCAL_65816_M (proc m) then 2 else 3)"
      unfolding len by (auto simp: instruction_lengths_def)
    ultimately show ?thesis using True line by auto
  next
    case False
    then have "advanced (of_nat n) (proc m) (CPU65816ExecuteOneInstruction (proc m))"
      using execute_advances [OF op] assms(3) by (simp add: len control_opcodes_def)
    moreover have "n \<le> 4" unfolding n_def by (rule operand_bytes_le)
    ultimately have "pc = PCTR m + of_nat n"
      unfolding pc_def PCTR_def using assms(2) by (intro advanced_PCTR)
    then show ?thesis using False line by auto
  qed
qed

definition native_machine :: "(u32 \<Rightarrow> u8) \<Rightarrow> machine" where
  "native_machine ram = (boot ram)\<lparr>proc := native_cpu ram\<rparr>"

theorem listing_follows_execution_witness:
  "(\<exists>line. code_line (shown_status (native_machine (\<lambda>a. 0xA9))) (native_machine (\<lambda>a. 0xA9)) 0x28000
      = Some (line, CPU65816GetPC (CPU65816ExecuteOneInstruction (native_cpu (\<lambda>a. 0xA9)))))
    \<and> (\<exists>line. code_line (shown_status (native_machine (\<lambda>a. 0x02))) (native_machine (\<lambda>a. 0x02)) 0x28000 = Some (line, 0x28003))"
  using listing_follows_execution [of "native_machine (\<lambda>a. 0xA9)"] listing_follows_execution [of "native_machine (\<lambda>a. 0x02)"]
  by (auto simp: native_machine_def boot_def native_cpu_def initial_cpu_def PCTR_def CPU65816GetPC_def
      CPURead_def transfer_opcodes_def idle_opcodes_def LOCAL_65816_M_def)

text \<open>The accumulator instructions with an immediate operand.\<close>

definition accumulator_immediate :: "nat list" where
  "accumulator_immediate = [0x09, 0x29, 0x49, 0x69, 0x89, 0xA9, 0xC9, 0xE9]"

lemma accumulator_immediate_length:
  assumes "k \<in> set accumulator_immediate"
  shows "k \<notin> set control_opcodes" "instruction_lengths m x ! k = (if m then 2 else 3)"
proof -
  have "list_all (\<lambda>k. k \<notin> set control_opcodes \<and> instruction_lengths m x ! k = (if m then 2 else 3)) accumulator_immediate"
    by (cases m; cases x; simp only:; code_simp)
  then show "k \<notin> set control_opcodes" "instruction_lengths m x ! k = (if m then 2 else 3)"
    using assms by (simp_all add: list_all_iff)
qed

text \<open>C23: In emulation mode the listing goes wrong. The disassembler takes the width of an
  immediate operand from the M bit of the status byte, which the emulation mode ignores: with
  the bit clear, as it is when the emulator starts, the line of an accumulator instruction with
  an immediate operand shows two operand bytes and ends three bytes further on, whereas the
  instruction takes one operand byte and moves the program counter by two.\<close>

theorem emulation_listing_wrong:
  assumes "reg_emul (proc m) \<noteq> 0" and "reg_p (proc m) AND P_65816_M = 0"
    and "interrupt65816 (proc m) = 0" and "reg_pc (proc m) \<le> 0xFFFB"
    and "unat (CPURead (PCTR m) m) \<in> set accumulator_immediate"
  shows "CPU65816GetPC (CPU65816ExecuteOneInstruction (proc m)) = PCTR m + 2
    \<and> (\<exists>line. code_line (shown_status m) m (PCTR m) = Some (line, PCTR m + 3))"
proof
  let ?op = "CPURead (PCTR m) m" and ?p = "shown_status m"
  note op = accumulator_immediate_length [OF assms(5)]
  have "LOCAL_65816_M (proc m)" using assms(1) by (simp add: LOCAL_65816_M_def)
  then have "advanced (of_nat 2) (proc m) (CPU65816ExecuteOneInstruction (proc m))"
    using execute_advances [of "proc m" ?op] op by (simp add: CPURead_def PCTR_def)
  then show "CPU65816GetPC (CPU65816ExecuteOneInstruction (proc m)) = PCTR m + 2"
    unfolding PCTR_def using advanced_PCTR assms(4) by fastforce
  have "operand_bytes ?p (opcodes ! unat ?op) = 2"
    using operand_bytes_entry [of ?p ?op] op shown_widths(1) [of m] assms(2) by simp
  then show "\<exists>line. code_line ?p m (PCTR m) = Some (line, PCTR m + 3)"
    using code_line_end [of ?p m "PCTR m"] by (auto simp: add.assoc)
qed

theorem emulation_listing_wrong_witness:
  "CPU65816GetPC (CPU65816ExecuteOneInstruction (initial_cpu (\<lambda>a. 0xA9))) = 2
    \<and> (\<exists>line. code_line (shown_status (boot (\<lambda>a. 0xA9))) (boot (\<lambda>a. 0xA9)) 0 = Some (line, 3))"
  using emulation_listing_wrong [of "boot (\<lambda>a. 0xA9)"]
  by (simp add: boot_def initial_cpu_def PCTR_def CPU65816GetPC_def CPURead_def accumulator_immediate_def)

section \<open>The operand\<close>

definition digit_value :: "char \<Rightarrow> nat" where
  "digit_value c = (if of_char c < (58 :: nat) then of_char c - 48 else of_char c - 87)"

definition hex_value :: "string \<Rightarrow> nat" where
  "hex_value ds = foldl (\<lambda>v c. 16 * v + digit_value c) 0 ds"

lemma digit_value_hex_digit:
  assumes "n < 16"
  shows "digit_value (hex_digit n) = n"
proof -
  have "list_all (\<lambda>n. digit_value (hex_digit n) = n) [0 ..< 16]" by code_simp
  then show ?thesis using assms by (simp only: list_all_iff set_upt atLeastLessThan_iff) simp
qed

lemma hex_value_Cons: "hex_value (c # ds) = foldl (\<lambda>v c. 16 * v + digit_value c) (digit_value c) ds"
  by (simp add: hex_value_def)

lemma hex_value_from: "foldl (\<lambda>v c. 16 * v + digit_value c) v ds = v * 16 ^ length ds + hex_value ds"
proof (induction ds arbitrary: v)
  case (Cons c ds)
  show ?case unfolding hex_value_Cons foldl_Cons Cons.IH by (simp add: algebra_simps)
qed (simp add: hex_value_def)

lemma hex_value_append: "hex_value (xs @ ys) = hex_value xs * 16 ^ length ys + hex_value ys"
  using hex_value_from [of "hex_value xs" ys] by (simp add: hex_value_def)

lemma hex_value_sprintf: "hex_value (sprintf_02x b) = unat b"
  using u8_bound [of b] by (simp add: hex_value_def sprintf_02x_def digit_value_hex_digit)

lemma hex_value_hex_bytes:
  "hex_value (hex_bytes m pc n) = (\<Sum>i<n. unat (CPURead (pc + of_nat i) m) * 256 ^ i)"
  by (induction n) (simp_all add: hex_value_append hex_value_sprintf power_mult, simp add: hex_value_def)

text \<open>C24: The operand of a line reads back as the operand of the instruction. Where an entry of the
  table has a percent sign and a width, the line has the width in hexadecimal digits, and
  their value is the little-endian number in the bytes behind the opcode; around them the line
  has the characters of the entry.\<close>

theorem operand_reads_back:
  fixes p :: u16
  assumes "opcodes ! unat (CPURead pc m) = pre @ CHR ''%'' # d # suf"
  defines "n \<equiv> nat (operand_count p d)"
  shows "\<exists>hex. code_line p m pc = Some (pre @ hex @ suf, pc + 1 + of_nat n) \<and> length hex = 2 * n
    \<and> hex_value hex = (\<Sum>i<n. unat (CPURead (pc + 1 + of_nat i) m) * 256 ^ i)"
proof -
  have "count_list pre (CHR ''%'') = 0 \<and> count_list suf (CHR ''%'') = 0"
    using entry_ok(1) [of "CPURead pc m"] unfolding assms(1) by (simp split: if_splits)
  then have "CHR ''%'' \<notin> set pre" "CHR ''%'' \<notin> set suf" by (simp_all add: count_list_0_iff)
  then show ?thesis
    by (intro exI [of _ "hex_bytes m (pc + 1) n"])
      (simp add: code_line_def assms(1) disassemble_operand n_def Let_def hex_value_hex_bytes)
qed

theorem operand_reads_back_witness:
  "\<exists>hex. code_line 0 (boot (\<lambda>a. 0xBF)) 5 = Some (''lda '' @ hex @ '',x'', 9) \<and> length hex = 6
    \<and> hex_value hex = 0xBFBFBF"
proof -
  have read: "CPURead a (boot (\<lambda>a. 0xBF)) = 0xBF" for a
    by (simp add: CPURead_def boot_def initial_cpu_def)
  have "nat (operand_count 0 (CHR ''3'')) = 3" and "{..<3} = {0, 1, 2 :: nat}"
    by (auto simp: operand_count_def)
  then show ?thesis
    using operand_reads_back [of 5 "boot (\<lambda>a. 0xBF)" "''lda ''" "CHR ''3''" "'',x''" 0]
    unfolding read by (simp add: opcodes_def)
qed

end
