(* ===== verification/Drawing.thy ===== *)
theory Drawing
  imports Prelude "HOL-Library.Signed_Division"
begin

text \<open>
  The drawing routines of \<open>src/emulator/framework/gfx.cpp\<close>: characters, strings, numbers, and
  the character grid. A drawing is the list of calls \<open>SDL_FillRect(mainSurface, rc, colour)\<close> that
  the C code makes, in their order. Coordinates are C \<open>int\<close>s and modelled as integers: they
  stay far below the bounds of the type. \<open>fontdata\<close> and the grid, variables of the C file, are
  arguments. \<open>sdiv\<close> and \<open>smod\<close> are the C division and remainder.
\<close>

record SDL_Rect =
  rect_x :: int
  rect_y :: int
  rect_w :: int
  rect_h :: int

type_synonym rgb = "int \<times> int \<times> int"
type_synonym fill = "SDL_Rect \<times> rgb"

section \<open>Colours and rectangles\<close>

definition RED :: "int \<Rightarrow> int" where "RED x = (drop_bit 8 x AND 0xF) * 17"
definition GREEN :: "int \<Rightarrow> int" where "GREEN x = (drop_bit 4 x AND 0xF) * 17"
definition BLUE :: "int \<Rightarrow> int" where "BLUE x = (drop_bit 0 x AND 0xF) * 17"

definition colour_of :: "int \<Rightarrow> rgb" where
  "colour_of colour = (RED colour, GREEN colour, BLUE colour)"

definition GFXRectangle :: "SDL_Rect \<Rightarrow> int \<Rightarrow> fill list" where
  "GFXRectangle rc colour = [(rc, colour_of colour)]"

section \<open>Characters and strings\<close>

text \<open>The pixels of a character, column by column.\<close>

definition pixels :: "u8 list \<Rightarrow> int \<Rightarrow> int \<Rightarrow> int \<Rightarrow> int \<Rightarrow> rgb \<Rightarrow> fill list" where
  "pixels fontdata character xc yc sz col =
     concat (map (\<lambda>x. concat (map (\<lambda>y.
       if fontdata ! nat (character * 5 + x) AND push_bit (nat y) 1 \<noteq> 0
       then [(\<lparr>rect_x = xc + x * sz, rect_y = yc + y * sz, rect_w = sz, rect_h = sz\<rparr>, col)]
       else []) [0 .. 6])) [0 .. 4])"

definition GFXCharacter :: "u8 list \<Rightarrow> int \<Rightarrow> int \<Rightarrow> int \<Rightarrow> int \<Rightarrow> int \<Rightarrow> int \<Rightarrow> fill list" where
  "GFXCharacter fontdata xc yc character sz colour back =
     (let col = colour_of colour;
          background = (if back \<ge> 0
            then [(\<lparr>rect_x = xc - sz sdiv 2, rect_y = yc - sz sdiv 2, rect_w = 6 * sz, rect_h = 8 * sz\<rparr>,
                   colour_of back)]
            else []);
          character = (if character < 32 \<or> character \<ge> 128 then 63 else character);
          character = character - 32
      in background @ pixels fontdata character xc yc sz col)"

definition GFXDefineCharacter :: "int \<Rightarrow> int \<Rightarrow> int \<Rightarrow> int \<Rightarrow> int \<Rightarrow> int \<Rightarrow> u8 list \<Rightarrow> u8 list" where
  "GFXDefineCharacter nChar b1 b2 b3 b4 b5 fontdata =
     (if nChar \<ge> 32 \<and> nChar < 128 then
        let n = nat ((nChar - 32) * 5)
        in fontdata[n := word_of_int b1, n + 1 := word_of_int b2, n + 2 := word_of_int b3,
             n + 3 := word_of_int b4, n + 4 := word_of_int b5]
      else fontdata)"

text \<open>A \<open>char\<close> as a number; the type is signed on the platforms the makefiles target.\<close>

definition char_code :: "char \<Rightarrow> int" where
  "char_code c = (let n = of_char c in if n < 128 then n else n - 256)"

fun GFXString :: "u8 list \<Rightarrow> int \<Rightarrow> int \<Rightarrow> string \<Rightarrow> int \<Rightarrow> int \<Rightarrow> int \<Rightarrow> fill list" where
  "GFXString fontdata xc yc [] sz colour back = []"
| "GFXString fontdata xc yc (c # text) sz colour back =
     GFXCharacter fontdata xc yc (char_code c) sz colour back
     @ GFXString fontdata (xc + 6 * sz) yc text sz colour back"

definition digit_char :: "int \<Rightarrow> char" where
  "digit_char n = ''0123456789ABCDEF'' ! nat n"

text \<open>The recursion draws the digits from the left. The numbers the debugger draws are not
  negative; the remainder of a negative one would index the digits before their start.\<close>

function GFXNumber :: "u8 list \<Rightarrow> int \<Rightarrow> int \<Rightarrow> int \<Rightarrow> int \<Rightarrow> int \<Rightarrow> int \<Rightarrow> int \<Rightarrow> int \<Rightarrow> fill list" where
  "GFXNumber fontdata xc yc number base width sz colour back =
     (if width > 0 then
        GFXNumber fontdata xc yc (number sdiv base) base (width - 1) sz colour back
        @ GFXCharacter fontdata (xc + sz * 6 * (width - 1)) yc (char_code (digit_char (number smod base)))
            sz colour back
      else [])"
  by pat_completeness auto
termination
  by (relation "measure (\<lambda>(_, _, _, _, _, width, _). nat width)") auto

declare GFXNumber.simps [simp del]

section \<open>The character grid\<close>

text \<open>\<open>GFXSetCharacterSize\<close> for a surface of \<open>w\<close> by \<open>h\<close> pixels.\<close>

definition GFXSetCharacterSize :: "int \<Rightarrow> int \<Rightarrow> int \<Rightarrow> int \<Rightarrow> SDL_Rect" where
  "GFXSetCharacterSize w h xSize ySize =
     (let gw = w sdiv xSize sdiv 6;
          gh = h sdiv ySize sdiv 8;
          gw = (if gw < gh then gw else gh);
          gh = gw;
          gx = w sdiv 2 - gw * xSize * 6 sdiv 2;
          gy = h sdiv 2 - gh * ySize * 8 sdiv 2
      in \<lparr>rect_x = gx, rect_y = gy, rect_w = gw, rect_h = gh\<rparr>)"

definition GFXX :: "SDL_Rect \<Rightarrow> int \<Rightarrow> int" where
  "GFXX gridInfo x = rect_x gridInfo + rect_w gridInfo * 6 * x"

definition GFXY :: "SDL_Rect \<Rightarrow> int \<Rightarrow> int" where
  "GFXY gridInfo y = rect_y gridInfo + rect_h gridInfo * 8 * y"

definition GFXS :: "SDL_Rect \<Rightarrow> int" where
  "GFXS gridInfo = rect_w gridInfo"

section \<open>The table of characters\<close>

text \<open>Whatever the character, the columns that \<open>GFXCharacter\<close> reads are in the table, and
  redefining a character keeps the size of the table.\<close>

lemma GFXCharacter_in_table:
  assumes "0 \<le> x" and "x < 5"
  defines "ch \<equiv> \<lambda>c. (if c < 32 \<or> c \<ge> 128 then 63 else c) - 32 :: int"
  shows "0 \<le> ch c * 5 + x \<and> nat (ch c * 5 + x) < 480"
  using assms by auto

lemma length_GFXDefineCharacter [simp]:
  "length (GFXDefineCharacter nChar b1 b2 b3 b4 b5 fontdata) = length fontdata"
  by (simp add: GFXDefineCharacter_def Let_def)

section \<open>Where the drawings are\<close>

definition inside :: "int \<Rightarrow> int \<Rightarrow> int \<Rightarrow> int \<Rightarrow> fill \<Rightarrow> bool" where
  "inside x0 y0 x1 y1 = (\<lambda>(rc, _). x0 \<le> rect_x rc \<and> y0 \<le> rect_y rc
     \<and> rect_x rc + rect_w rc \<le> x1 \<and> rect_y rc + rect_h rc \<le> y1)"

lemma inside_mono:
  "inside x0 y0 x1 y1 f \<Longrightarrow> x0' \<le> x0 \<Longrightarrow> y0' \<le> y0 \<Longrightarrow> x1 \<le> x1' \<Longrightarrow> y1 \<le> y1' \<Longrightarrow> inside x0' y0' x1' y1' f"
  by (auto simp: inside_def)

lemma inside_list_mono:
  "list_all (inside x0 y0 x1 y1) fs \<Longrightarrow> x0' \<le> x0 \<Longrightarrow> y0' \<le> y0 \<Longrightarrow> x1 \<le> x1' \<Longrightarrow> y1 \<le> y1' \<Longrightarrow>
    list_all (inside x0' y0' x1' y1') fs"
  by (auto simp: list_all_iff intro: inside_mono)

lemma pixels_inside:
  assumes "0 \<le> sz"
  shows "list_all (inside xc yc (xc + 5 * sz) (yc + 7 * sz)) (pixels fontdata ch xc yc sz col)"
proof -
  have "xc + x * sz + sz \<le> xc + 5 * sz" "0 \<le> x * sz" if "0 \<le> x" "x \<le> 4" for x
    using that assms mult_right_mono [of x 4 sz] by (simp_all add: algebra_simps)
  moreover have "yc + y * sz + sz \<le> yc + 7 * sz" "0 \<le> y * sz" if "0 \<le> y" "y \<le> 6" for y
    using that assms mult_right_mono [of y 6 sz] by (simp_all add: algebra_simps)
  ultimately show ?thesis
    by (auto simp: pixels_def list_all_iff inside_def split: if_splits)
qed

lemma GFXCharacter_inside:
  assumes "0 \<le> sz" and "back < 0"
  shows "list_all (inside xc yc (xc + 6 * sz) (yc + 7 * sz)) (GFXCharacter fontdata xc yc ch sz colour back)"
proof -
  have "list_all (inside xc yc (xc + 6 * sz) (yc + 7 * sz)) (pixels fontdata ch xc yc sz col)" for ch col
    by (rule inside_list_mono [OF pixels_inside [OF assms(1)]]) (use assms(1) in simp_all)
  then show ?thesis using assms(2) by (simp add: GFXCharacter_def Let_def)
qed

lemma GFXString_inside:
  assumes "0 \<le> sz" and "back < 0"
  shows "list_all (inside xc yc (xc + 6 * sz * int (length s)) (yc + 7 * sz)) (GFXString fontdata xc yc s sz colour back)"
proof (induction s arbitrary: xc)
  case (Cons c s)
  have le: "0 \<le> 6 * sz * int (length s)" using assms(1) by simp
  show ?case
    unfolding GFXString.simps list_all_append
    by (intro conjI inside_list_mono [OF Cons] inside_list_mono [OF GFXCharacter_inside [OF assms]])
      (use assms(1) le in \<open>simp_all add: algebra_simps\<close>)
qed simp

lemma GFXNumber_inside:
  assumes "0 \<le> sz" and "back < 0"
  shows "list_all (inside xc yc (xc + 6 * sz * int w) (yc + 7 * sz))
    (GFXNumber fontdata xc yc number base (int w) sz colour back)"
proof (induction w arbitrary: number)
  case (Suc w)
  have le: "0 \<le> 6 * sz * int w" using assms(1) by simp
  have step: "GFXNumber fontdata xc yc number base (int (Suc w)) sz colour back =
      GFXNumber fontdata xc yc (number sdiv base) base (int w) sz colour back
      @ GFXCharacter fontdata (xc + sz * 6 * int w) yc (char_code (digit_char (number smod base))) sz colour back"
    by (simp add: GFXNumber.simps [of _ _ _ _ _ "1 + int w"])
  show ?case
    unfolding step list_all_append
    by (intro conjI inside_list_mono [OF Suc] inside_list_mono [OF GFXCharacter_inside [OF assms]])
      (use assms(1) le in \<open>simp_all add: algebra_simps\<close>)
qed (simp add: GFXNumber.simps)

section \<open>Numbers\<close>

fun number_text :: "int \<Rightarrow> int \<Rightarrow> nat \<Rightarrow> string" where
  "number_text base number 0 = []"
| "number_text base number (Suc w) = number_text base (number div base) w @ [digit_char (number mod base)]"

lemma length_number_text [simp]: "length (number_text base number w) = w"
  by (induction w arbitrary: number) simp_all

lemma GFXString_append:
  "GFXString fontdata xc yc (s @ t) sz colour back =
     GFXString fontdata xc yc s sz colour back @ GFXString fontdata (xc + 6 * sz * int (length s)) yc t sz colour back"
  by (induction s arbitrary: xc) (simp_all add: algebra_simps)

lemma C_division:
  fixes n b :: int
  assumes "0 \<le> n" and "0 < b"
  shows "n sdiv b = n div b" "n smod b = n mod b"
  using assms by (cases "n = 0"; simp add: signed_divide_int_def signed_modulo_int_def sgn_if)+

lemma GFXNumber_text:
  assumes "0 \<le> number" and "0 < base"
  shows "GFXNumber fontdata xc yc number base (int w) sz colour back
    = GFXString fontdata xc yc (number_text base number w) sz colour back"
  using assms(1)
proof (induction w arbitrary: number)
  case (Suc w)
  then have "0 \<le> number div base" using assms(2) by (simp add: pos_imp_zdiv_nonneg_iff)
  from Suc.IH [OF this] show ?case
    using Suc.prems assms(2)
    by (simp add: GFXNumber.simps [of _ _ _ _ _ "1 + int w"] C_division GFXString_append algebra_simps)
qed (simp add: GFXNumber.simps)

definition number_digit :: "char \<Rightarrow> int" where
  "number_digit c = (if char_code c < 58 then char_code c - 48 else char_code c - 55)"

definition number_value :: "int \<Rightarrow> string \<Rightarrow> int" where
  "number_value base text = foldl (\<lambda>v c. base * v + number_digit c) 0 text"

lemma number_digit_char:
  assumes "0 \<le> n" and "n < 16"
  shows "number_digit (digit_char n) = n"
proof -
  have "list_all (\<lambda>n. number_digit (digit_char (int n)) = int n) [0 ..< 16]" by code_simp
  moreover obtain k where "n = int k" "k < 16" using assms by (metis nonneg_int_cases of_nat_less_numeral_iff)
  ultimately show ?thesis by (simp only: list_all_iff set_upt atLeastLessThan_iff le0 simp_thms ball_simps Ball_def)
qed

lemma number_value_text:
  assumes "1 < base" and "base \<le> 16"
  shows "number_value base (number_text base number w) = number mod base ^ w"
proof (induction w arbitrary: number)
  case (Suc w)
  have "number_digit (digit_char (number mod base)) = number mod base"
    using assms by (intro number_digit_char pos_mod_sign) (auto intro: less_le_trans [OF pos_mod_bound])
  moreover have "number mod (base * base ^ w) = base * (number div base mod base ^ w) + number mod base"
    using assms(1) by (simp add: zmod_zmult2_eq)
  ultimately show ?case using Suc.IH [of "number div base"] by (simp add: number_value_def)
qed (simp add: number_value_def)

text \<open>C40: \<open>GFXNumber\<close> draws a number: for any base up to 16 and any width, what it draws is a string
  of that many characters, and read as digits of the base they are the number modulo the power
  of the base that fits the width.\<close>

theorem GFXNumber_shows:
  assumes "0 \<le> number" and "1 < base" and "base \<le> 16"
  shows "\<exists>s. length s = w \<and> number_value base s = number mod base ^ w
    \<and> GFXNumber fontdata xc yc number base (int w) sz colour back = GFXString fontdata xc yc s sz colour back"
  using assms
  by (intro exI [of _ "number_text base number w"]) (simp add: number_value_text GFXNumber_text)

theorem GFXNumber_shows_witness:
  "\<exists>s. length s = 4 \<and> number_value 16 s = 0x2345
    \<and> GFXNumber [] 10 20 0x12345 16 4 3 0xFF (-1) = GFXString [] 10 20 s 3 0xFF (-1)"
  using GFXNumber_shows [of "0x12345" 16 4] by simp

end
