(* ===== verification/Fonts.thy ===== *)
theory Fonts
  imports Prelude
begin

text \<open>
  The two character generators: \<open>fontdata\<close> of \<open>src/emulator/framework/font.h\<close>, five columns of
  seven pixels for each of the characters 32 to 127, and \<open>font\<close> of
  \<open>src/emulator/c64font.h\<close>, eight rows of eight pixels for each of 256 characters. The first
  is the initial value of a variable, which \<open>GFXDefineCharacter\<close> changes.
\<close>

definition initial_fontdata :: "u8 list" where
  "initial_fontdata =
    [0x00, 0x00, 0x00, 0x00, 0x00, 0x00, 0x00, 0x5F, 0x00, 0x00, 0x00, 0x07, 0x00, 0x07, 0x00,
     0x14, 0x7F, 0x14, 0x7F, 0x14, 0x24, 0x2A, 0x7F, 0x2A, 0x12, 0x23, 0x13, 0x08, 0x64, 0x62,
     0x36, 0x49, 0x55, 0x22, 0x50, 0x00, 0x05, 0x03, 0x00, 0x00, 0x00, 0x1C, 0x22, 0x41, 0x00,
     0x00, 0x41, 0x22, 0x1C, 0x00, 0x08, 0x2A, 0x1C, 0x2A, 0x08, 0x08, 0x08, 0x3E, 0x08, 0x08,
     0x00, 0x50, 0x30, 0x00, 0x00, 0x08, 0x08, 0x08, 0x08, 0x08, 0x00, 0x60, 0x60, 0x00, 0x00,
     0x20, 0x10, 0x08, 0x04, 0x02, 0x3E, 0x51, 0x49, 0x45, 0x3E, 0x00, 0x42, 0x7F, 0x40, 0x00,
     0x42, 0x61, 0x51, 0x49, 0x46, 0x21, 0x41, 0x45, 0x4B, 0x31, 0x18, 0x14, 0x12, 0x7F, 0x10,
     0x27, 0x45, 0x45, 0x45, 0x39, 0x3C, 0x4A, 0x49, 0x49, 0x30, 0x01, 0x71, 0x09, 0x05, 0x03,
     0x36, 0x49, 0x49, 0x49, 0x36, 0x06, 0x49, 0x49, 0x29, 0x1E, 0x00, 0x36, 0x36, 0x00, 0x00,
     0x00, 0x56, 0x36, 0x00, 0x00, 0x00, 0x08, 0x14, 0x22, 0x41, 0x14, 0x14, 0x14, 0x14, 0x14,
     0x41, 0x22, 0x14, 0x08, 0x00, 0x02, 0x01, 0x51, 0x09, 0x06, 0x32, 0x49, 0x79, 0x41, 0x3E,
     0x7E, 0x11, 0x11, 0x11, 0x7E, 0x7F, 0x49, 0x49, 0x49, 0x36, 0x3E, 0x41, 0x41, 0x41, 0x22,
     0x7F, 0x41, 0x41, 0x22, 0x1C, 0x7F, 0x49, 0x49, 0x49, 0x41, 0x7F, 0x09, 0x09, 0x01, 0x01,
     0x3E, 0x41, 0x41, 0x51, 0x32, 0x7F, 0x08, 0x08, 0x08, 0x7F, 0x00, 0x41, 0x7F, 0x41, 0x00,
     0x20, 0x40, 0x41, 0x3F, 0x01, 0x7F, 0x08, 0x14, 0x22, 0x41, 0x7F, 0x40, 0x40, 0x40, 0x40,
     0x7F, 0x02, 0x04, 0x02, 0x7F, 0x7F, 0x04, 0x08, 0x10, 0x7F, 0x3E, 0x41, 0x41, 0x41, 0x3E,
     0x7F, 0x09, 0x09, 0x09, 0x06, 0x3E, 0x41, 0x51, 0x21, 0x5E, 0x7F, 0x09, 0x19, 0x29, 0x46,
     0x46, 0x49, 0x49, 0x49, 0x31, 0x01, 0x01, 0x7F, 0x01, 0x01, 0x3F, 0x40, 0x40, 0x40, 0x3F,
     0x1F, 0x20, 0x40, 0x20, 0x1F, 0x7F, 0x20, 0x18, 0x20, 0x7F, 0x63, 0x14, 0x08, 0x14, 0x63,
     0x03, 0x04, 0x78, 0x04, 0x03, 0x61, 0x51, 0x49, 0x45, 0x43, 0x00, 0x00, 0x7F, 0x41, 0x41,
     0x02, 0x04, 0x08, 0x10, 0x20, 0x41, 0x41, 0x7F, 0x00, 0x00, 0x04, 0x02, 0x01, 0x02, 0x04,
     0x40, 0x40, 0x40, 0x40, 0x40, 0x00, 0x01, 0x02, 0x04, 0x00, 0x20, 0x54, 0x54, 0x54, 0x78,
     0x7F, 0x48, 0x44, 0x44, 0x38, 0x38, 0x44, 0x44, 0x44, 0x20, 0x38, 0x44, 0x44, 0x48, 0x7F,
     0x38, 0x54, 0x54, 0x54, 0x18, 0x08, 0x7E, 0x09, 0x01, 0x02, 0x08, 0x14, 0x54, 0x54, 0x3C,
     0x7F, 0x08, 0x04, 0x04, 0x78, 0x00, 0x44, 0x7D, 0x40, 0x00, 0x20, 0x40, 0x44, 0x3D, 0x00,
     0x00, 0x7F, 0x10, 0x28, 0x44, 0x00, 0x41, 0x7F, 0x40, 0x00, 0x7C, 0x04, 0x18, 0x04, 0x78,
     0x7C, 0x08, 0x04, 0x04, 0x78, 0x38, 0x44, 0x44, 0x44, 0x38, 0x7C, 0x14, 0x14, 0x14, 0x08,
     0x08, 0x14, 0x14, 0x18, 0x7C, 0x7C, 0x08, 0x04, 0x04, 0x08, 0x48, 0x54, 0x54, 0x54, 0x20,
     0x04, 0x3F, 0x44, 0x40, 0x20, 0x3C, 0x40, 0x40, 0x20, 0x7C, 0x1C, 0x20, 0x40, 0x20, 0x1C,
     0x3C, 0x40, 0x30, 0x40, 0x3C, 0x44, 0x28, 0x10, 0x28, 0x44, 0x0C, 0x50, 0x50, 0x50, 0x3C,
     0x44, 0x64, 0x54, 0x4C, 0x44, 0x00, 0x08, 0x36, 0x41, 0x00, 0x00, 0x00, 0x7F, 0x00, 0x00,
     0x00, 0x41, 0x36, 0x08, 0x00, 0x08, 0x08, 0x2A, 0x1C, 0x08, 0x08, 0x1C, 0x2A, 0x08, 0x08]"

definition font :: "u8 list" where
  "font =
    [90, 126, 90, 24, 24, 90, 126, 90, 66, 126, 90, 24, 24, 90, 126, 66, 129, 66, 36, 36, 36, 36, 66, 129,
     129, 66, 60, 0, 0, 60, 66, 129, 0, 0, 0, 36, 153, 90, 255, 0, 128, 0, 0, 192, 192, 252, 254, 252,
     1, 1, 1, 3, 199, 255, 255, 127, 128, 128, 128, 192, 227, 255, 255, 254, 1, 0, 0, 3, 3, 63, 127, 63,
     0, 0, 254, 32, 32, 248, 224, 0, 0, 0, 24, 254, 7, 31, 31, 0, 0, 0, 24, 127, 224, 248, 248, 0,
     0, 0, 127, 4, 4, 31, 7, 0, 24, 60, 126, 254, 126, 60, 16, 16, 0, 0, 24, 60, 126, 126, 106, 122,
     24, 188, 254, 255, 181, 255, 181, 253, 24, 60, 90, 24, 24, 24, 24, 60, 240, 224, 240, 184, 29, 14, 4, 8,
     0, 32, 65, 255, 255, 65, 32, 0, 8, 4, 14, 29, 184, 240, 224, 240, 60, 24, 24, 24, 24, 90, 60, 24,
     16, 32, 112, 184, 29, 15, 7, 15, 0, 4, 130, 255, 255, 130, 4, 0, 15, 7, 15, 29, 184, 112, 32, 16,
     0, 124, 82, 124, 80, 80, 80, 0, 0, 0, 0, 64, 126, 2, 0, 0, 0, 28, 20, 20, 62, 20, 28, 0,
     0, 28, 20, 20, 20, 20, 28, 0, 0, 126, 64, 72, 76, 78, 12, 8, 24, 36, 66, 129, 24, 36, 66, 129,
     0, 126, 66, 36, 24, 24, 24, 24, 129, 66, 36, 24, 129, 66, 36, 24, 0, 0, 0, 0, 0, 0, 0, 0,
     8, 8, 8, 8, 8, 0, 8, 0, 20, 20, 20, 0, 0, 0, 0, 0, 20, 20, 62, 20, 62, 20, 20, 0,
     8, 60, 10, 28, 40, 30, 8, 0, 6, 38, 16, 8, 4, 50, 48, 0, 4, 10, 10, 4, 42, 18, 44, 0,
     8, 8, 8, 0, 0, 0, 0, 0, 8, 4, 2, 2, 2, 4, 8, 0, 8, 16, 32, 32, 32, 16, 8, 0,
     8, 42, 28, 8, 28, 42, 8, 0, 0, 8, 8, 62, 8, 8, 0, 0, 0, 0, 0, 0, 8, 8, 4, 0,
     0, 0, 0, 62, 0, 0, 0, 0, 0, 0, 0, 0, 0, 0, 8, 0, 0, 32, 16, 8, 4, 2, 0, 0,
     28, 34, 50, 42, 38, 34, 28, 0, 8, 12, 8, 8, 8, 8, 28, 0, 28, 34, 32, 24, 4, 2, 62, 0,
     62, 32, 16, 24, 32, 34, 28, 0, 16, 24, 20, 18, 62, 16, 16, 0, 62, 2, 30, 32, 32, 34, 28, 0,
     56, 4, 2, 30, 34, 34, 28, 0, 62, 32, 16, 8, 4, 4, 4, 0, 28, 34, 34, 28, 34, 34, 28, 0,
     28, 34, 34, 60, 32, 16, 14, 0, 0, 0, 8, 0, 8, 0, 0, 0, 0, 0, 8, 0, 8, 8, 4, 0,
     16, 8, 4, 2, 4, 8, 16, 0, 0, 0, 62, 0, 62, 0, 0, 0, 4, 8, 16, 32, 16, 8, 4, 0,
     28, 34, 16, 8, 8, 0, 8, 0, 28, 34, 42, 58, 26, 2, 60, 0, 8, 20, 34, 34, 62, 34, 34, 0,
     30, 34, 34, 30, 34, 34, 30, 0, 28, 34, 2, 2, 2, 34, 28, 0, 30, 34, 34, 34, 34, 34, 30, 0,
     62, 2, 2, 30, 2, 2, 62, 0, 62, 2, 2, 30, 2, 2, 2, 0, 60, 2, 2, 2, 50, 34, 60, 0,
     34, 34, 34, 62, 34, 34, 34, 0, 28, 8, 8, 8, 8, 8, 28, 0, 32, 32, 32, 32, 32, 34, 28, 0,
     34, 18, 10, 6, 10, 18, 34, 0, 2, 2, 2, 2, 2, 2, 62, 0, 34, 54, 42, 42, 34, 34, 34, 0,
     34, 34, 38, 42, 50, 34, 34, 0, 28, 34, 34, 34, 34, 34, 28, 0, 30, 34, 34, 30, 2, 2, 2, 0,
     28, 34, 34, 34, 42, 18, 44, 0, 30, 34, 34, 30, 10, 18, 34, 0, 28, 34, 2, 28, 32, 34, 28, 0,
     62, 8, 8, 8, 8, 8, 8, 0, 34, 34, 34, 34, 34, 34, 28, 0, 34, 34, 34, 34, 34, 20, 8, 0,
     34, 34, 34, 42, 42, 54, 34, 0, 34, 34, 20, 8, 20, 34, 34, 0, 34, 34, 20, 8, 8, 8, 8, 0,
     62, 32, 16, 8, 4, 2, 62, 0, 62, 6, 6, 6, 6, 6, 62, 0, 0, 2, 4, 8, 16, 32, 0, 0,
     62, 48, 48, 48, 48, 48, 62, 0, 0, 0, 8, 20, 34, 0, 0, 0, 0, 0, 0, 0, 0, 0, 62, 0,
     0, 0, 0, 0, 0, 0, 0, 0, 0, 0, 44, 50, 34, 50, 44, 0, 2, 2, 26, 38, 34, 38, 26, 0,
     0, 0, 60, 2, 2, 2, 60, 0, 32, 32, 44, 50, 34, 50, 44, 0, 0, 0, 28, 34, 62, 2, 28, 0,
     16, 8, 8, 28, 8, 8, 8, 0, 0, 44, 50, 34, 50, 44, 32, 28, 2, 2, 30, 34, 34, 34, 34, 0,
     0, 8, 0, 12, 8, 8, 28, 0, 0, 16, 0, 16, 16, 16, 16, 12, 2, 34, 18, 10, 14, 18, 34, 0,
     12, 8, 8, 8, 8, 8, 28, 0, 0, 0, 22, 42, 42, 42, 42, 0, 0, 0, 30, 34, 34, 34, 34, 0,
     0, 0, 28, 34, 34, 34, 28, 0, 0, 26, 38, 34, 38, 26, 2, 2, 0, 44, 50, 34, 50, 44, 32, 32,
     0, 0, 26, 6, 2, 2, 2, 0, 0, 0, 60, 2, 28, 32, 30, 0, 0, 8, 62, 8, 8, 8, 8, 0,
     0, 0, 34, 34, 34, 34, 60, 0, 0, 0, 34, 34, 20, 20, 8, 0, 0, 0, 34, 34, 34, 42, 20, 0,
     0, 0, 34, 20, 8, 20, 34, 0, 0, 0, 36, 36, 36, 60, 32, 28, 0, 0, 62, 16, 8, 4, 62, 0,
     48, 8, 8, 4, 8, 8, 48, 0, 6, 8, 8, 16, 8, 8, 6, 0, 8, 8, 8, 0, 8, 8, 8, 0,
     0, 8, 0, 62, 0, 8, 0, 0, 0, 0, 32, 28, 2, 0, 0, 0, 0, 0, 0, 0, 0, 0, 0, 255,
     0, 0, 0, 0, 0, 0, 255, 0, 0, 0, 0, 0, 0, 255, 0, 0, 0, 0, 0, 0, 255, 0, 0, 0,
     0, 0, 0, 255, 0, 0, 0, 0, 0, 0, 255, 0, 0, 0, 0, 0, 0, 255, 0, 0, 0, 0, 0, 0,
     255, 0, 0, 0, 0, 0, 0, 0, 1, 1, 1, 1, 1, 1, 1, 1, 2, 2, 2, 2, 2, 2, 2, 2,
     4, 4, 4, 4, 4, 4, 4, 4, 8, 8, 8, 8, 8, 8, 8, 8, 16, 16, 16, 16, 16, 16, 16, 16,
     32, 32, 32, 32, 32, 32, 32, 32, 64, 64, 64, 64, 64, 64, 64, 64, 128, 128, 128, 128, 128, 128, 128, 128,
     0, 0, 0, 0, 0, 0, 255, 255, 255, 255, 0, 0, 0, 0, 0, 0, 3, 3, 3, 3, 3, 3, 3, 3,
     192, 192, 192, 192, 192, 192, 192, 192, 0, 0, 0, 255, 255, 0, 0, 0, 24, 24, 24, 24, 24, 24, 24, 24,
     0, 0, 0, 0, 0, 255, 255, 255, 255, 255, 255, 0, 0, 0, 0, 0, 7, 7, 7, 7, 7, 7, 7, 7,
     224, 224, 224, 224, 224, 224, 224, 224, 0, 0, 0, 0, 255, 255, 255, 255, 255, 255, 255, 255, 0, 0, 0, 0,
     15, 15, 15, 15, 15, 15, 15, 15, 240, 240, 240, 240, 240, 240, 240, 240, 0, 0, 0, 255, 255, 255, 255, 255,
     0, 0, 255, 255, 255, 255, 255, 255, 0, 255, 255, 255, 255, 255, 255, 255, 255, 255, 255, 255, 255, 255, 255, 255,
     255, 255, 255, 255, 255, 0, 0, 0, 255, 255, 255, 255, 255, 255, 0, 0, 255, 255, 255, 255, 255, 255, 255, 0,
     0, 0, 0, 0, 240, 240, 240, 240, 240, 240, 240, 240, 0, 0, 0, 0, 0, 0, 0, 0, 15, 15, 15, 15,
     15, 15, 15, 15, 0, 0, 0, 0, 15, 15, 15, 15, 240, 240, 240, 240, 240, 240, 240, 240, 15, 15, 15, 15,
     0, 0, 0, 0, 60, 60, 60, 60, 60, 60, 60, 60, 0, 0, 0, 0, 0, 0, 240, 240, 240, 240, 0, 0,
     0, 0, 15, 15, 15, 15, 0, 0, 255, 127, 63, 31, 15, 7, 3, 1, 128, 192, 224, 240, 248, 252, 254, 255,
     255, 254, 252, 248, 240, 224, 192, 128, 1, 3, 7, 15, 31, 63, 127, 255, 0, 0, 128, 194, 236, 255, 255, 255,
     2, 2, 7, 71, 55, 255, 127, 63, 64, 64, 224, 226, 236, 255, 254, 252, 0, 0, 1, 67, 55, 255, 255, 255,
     85, 170, 85, 170, 0, 0, 0, 0, 0, 0, 0, 0, 85, 170, 85, 170, 5, 10, 5, 10, 5, 10, 5, 10,
     80, 160, 80, 160, 80, 160, 80, 160, 85, 170, 85, 170, 85, 170, 85, 170, 129, 66, 36, 24, 24, 36, 66, 129,
     128, 64, 32, 16, 8, 4, 2, 1, 1, 2, 4, 8, 16, 32, 64, 128, 129, 66, 36, 24, 0, 0, 0, 0,
     128, 64, 32, 16, 16, 32, 64, 128, 0, 0, 0, 0, 24, 36, 66, 129, 1, 2, 4, 8, 8, 4, 2, 1,
     192, 48, 12, 3, 0, 0, 0, 0, 0, 0, 0, 0, 192, 48, 12, 3, 3, 12, 48, 192, 0, 0, 0, 0,
     0, 0, 0, 0, 3, 12, 48, 192, 16, 16, 32, 32, 64, 64, 128, 128, 1, 1, 2, 2, 4, 4, 8, 8,
     128, 128, 64, 64, 32, 32, 16, 16, 8, 8, 4, 4, 2, 2, 1, 1, 16, 16, 16, 240, 0, 0, 0, 0,
     0, 0, 0, 0, 240, 16, 16, 16, 0, 0, 0, 0, 15, 8, 8, 8, 8, 8, 8, 15, 0, 0, 0, 0,
     255, 128, 128, 128, 128, 128, 128, 128, 128, 128, 128, 128, 128, 128, 128, 255, 1, 1, 1, 1, 1, 1, 1, 255,
     255, 1, 1, 1, 1, 1, 1, 1, 2, 7, 143, 255, 249, 255, 0, 0, 0, 135, 143, 255, 240, 255, 128, 128,
     0, 225, 241, 255, 15, 255, 1, 1, 64, 224, 241, 255, 159, 255, 0, 0, 24, 24, 24, 255, 255, 0, 0, 0,
     24, 24, 24, 248, 248, 24, 24, 24, 0, 0, 0, 255, 255, 24, 24, 24, 24, 24, 24, 31, 31, 24, 24, 24,
     24, 24, 24, 255, 255, 24, 24, 24, 16, 16, 32, 192, 0, 0, 0, 0, 0, 0, 0, 0, 192, 32, 16, 16,
     0, 0, 0, 0, 3, 4, 8, 8, 8, 8, 4, 3, 0, 0, 0, 0, 192, 32, 16, 16, 16, 16, 32, 192,
     3, 4, 8, 8, 8, 8, 4, 3, 60, 66, 129, 129, 129, 129, 66, 60, 240, 12, 3, 3, 3, 3, 12, 240,
     15, 48, 192, 192, 192, 192, 48, 15, 102, 255, 255, 255, 126, 60, 24, 24, 60, 60, 24, 66, 231, 231, 24, 60,
     24, 60, 126, 255, 255, 90, 24, 60, 24, 60, 126, 255, 255, 126, 60, 24, 231, 195, 129, 0, 0, 129, 195, 231,
     192, 240, 252, 255, 255, 252, 240, 192, 3, 15, 63, 255, 255, 63, 15, 3, 24, 24, 60, 126, 255, 219, 24, 60,
     12, 28, 57, 255, 255, 57, 28, 12, 60, 24, 219, 255, 126, 60, 24, 24, 48, 56, 156, 255, 255, 156, 56, 48,
     0, 0, 0, 8, 28, 42, 8, 20, 0, 0, 64, 72, 60, 42, 24, 20, 16, 16, 16, 144, 240, 240, 248, 248,
     0, 2, 4, 200, 240, 240, 248, 248, 0, 0, 0, 192, 255, 240, 248, 248, 8, 8, 8, 9, 15, 15, 31, 31,
     0, 64, 32, 19, 15, 15, 31, 31, 0, 0, 0, 3, 255, 15, 31, 31, 0, 16, 16, 84, 124, 124, 124, 68,
     0, 128, 80, 56, 124, 62, 24, 8, 0, 31, 14, 126, 14, 31, 0, 0, 8, 24, 62, 124, 56, 80, 128, 0,
     68, 124, 124, 124, 84, 16, 16, 0, 32, 48, 248, 124, 56, 20, 2, 0, 0, 248, 112, 126, 112, 248, 0, 0,
     0, 1, 10, 28, 62, 124, 24, 16]"

lemma length_initial_fontdata [simp]: "length initial_fontdata = 480"
  by (simp add: initial_fontdata_def)

lemma length_font [simp]: "length font = 2048"
  by (simp add: font_def)

end
