(* ===== verification/Display.thy ===== *)
theory Display
  imports Disassembler Drawing Fonts
begin

text \<open>
  What \<open>DBGXRender\<close> (\<open>src/emulator/sys_debug_65816.cpp\<close>) draws: the register panel, the
  disassembly and the memory dump of the debugger screen, and the text screen of the emulated
  machine in front of them while a program runs. The drawing is the list of filled
  rectangles; the surface has the size of the window that \<open>main.cpp\<close> opens.
\<close>

definition WIN_WIDTH :: int where "WIN_WIDTH = 60 * 6 * 3"
definition WIN_HEIGHT :: int where "WIN_HEIGHT = 28 * 8 * 3 + 32"

definition DBGC_ADDRESS :: int where "DBGC_ADDRESS = 0x0F0"
definition DBGC_DATA :: int where "DBGC_DATA = 0x0FF"
definition DBGC_HIGHLIGHT :: int where "DBGC_HIGHLIGHT = 0xFF0"

section \<open>Strings, numbers and characters on the grid\<close>

definition str_at :: "SDL_Rect \<Rightarrow> u8 list \<Rightarrow> int \<Rightarrow> int \<Rightarrow> string \<Rightarrow> int \<Rightarrow> fill list" where
  "str_at g fontdata x y s colour = GFXString fontdata (GFXX g x) (GFXY g y) s (GFXS g) colour (-1)"

definition num_at :: "SDL_Rect \<Rightarrow> u8 list \<Rightarrow> int \<Rightarrow> int \<Rightarrow> int \<Rightarrow> int \<Rightarrow> int \<Rightarrow> fill list" where
  "num_at g fontdata x y number width colour =
     GFXNumber fontdata (GFXX g x) (GFXY g y) number 16 width (GFXS g) colour (-1)"

definition chr_at :: "SDL_Rect \<Rightarrow> u8 list \<Rightarrow> int \<Rightarrow> int \<Rightarrow> int \<Rightarrow> int \<Rightarrow> fill list" where
  "chr_at g fontdata x y ch colour = GFXCharacter fontdata (GFXX g x) (GFXY g y) ch (GFXS g) colour (-1)"

section \<open>The debugger screen\<close>

definition register_labels :: "string list" where
  "register_labels =
     [''PCTR'', ''A'', ''X'', ''Y'', ''SP'', ''SIGN'', ''OVERF'', ''AMODE'', ''XMODE'', ''DEC'', ''IEN'',
      ''ZERO'', ''CARRY'', ''CPU'', ''PBANK'', ''DBANK'', ''DPAGE'', ''BREAK'']"

definition flag_shown :: "CPUSTATUS \<Rightarrow> u16 \<Rightarrow> int" where
  "flag_shown s fl = (if st_p s AND fl \<noteq> 0 then 1 else 0)"

definition register_panel :: "SDL_Rect \<Rightarrow> u8 list \<Rightarrow> CPUSTATUS \<Rightarrow> u32 list \<Rightarrow> fill list" where
  "register_panel g fontdata s address =
     (let num = (\<lambda>x n number width. num_at g fontdata x n number width DBGC_DATA);
          str = (\<lambda>x n text. str_at g fontdata x n text DBGC_DATA);
          brk = uint (address ! 3)
      in concat (map (\<lambda>n. str_at g fontdata 23 (int n) (register_labels ! n) DBGC_ADDRESS) [0 ..< 18])
       @ num 32 0 (uint (st_pbr s)) 2 @ str 34 0 '':'' @ num 35 0 (uint (st_pc s)) 4
       @ num 32 1 (uint (st_a s)) 4
       @ num 32 2 (uint (st_x s)) 4
       @ num 32 3 (uint (st_y s)) 4
       @ num 32 4 (uint (st_sp s)) 4
       @ num 32 5 (flag_shown s 0x80) 1
       @ num 32 6 (flag_shown s 0x40) 1
       @ str 32 7 (if st_p s AND 0x20 \<noteq> 0 then ''8'' else ''16'')
       @ str 32 8 (if st_p s AND 0x10 \<noteq> 0 then ''8'' else ''16'')
       @ num 32 9 (flag_shown s 0x08) 1
       @ num 32 10 (flag_shown s 0x04) 1
       @ num 32 11 (flag_shown s 0x02) 1
       @ num 32 12 (flag_shown s 0x01) 1
       @ str 32 13 (if st_emul s \<noteq> 0 then ''6502'' else ''65816'')
       @ num 32 14 (uint (st_pbr s)) 2
       @ num 32 15 (uint (st_dbr s)) 2
       @ num 32 16 (uint (st_dpr s)) 4
       @ num 32 17 (drop_bit 16 brk) 2 @ str 34 17 '':'' @ num 35 17 (brk AND 0xFFFF) 4)"

definition code_row :: "SDL_Rect \<Rightarrow> u8 list \<Rightarrow> u32 list \<Rightarrow> int \<Rightarrow> u32 \<times> string \<Rightarrow> fill list" where
  "code_row g fontdata address y = (\<lambda>(pc, line).
     num_at g fontdata 1 y (drop_bit 16 (uint pc)) 2 DBGC_ADDRESS
     @ str_at g fontdata 3 y '':'' DBGC_ADDRESS
     @ num_at g fontdata 4 y (uint pc AND 0xFFFF) 4 DBGC_ADDRESS
     @ str_at g fontdata 9 y line (if pc = address ! 3 then DBGC_HIGHLIGHT else DBGC_DATA))"

definition code_panel :: "SDL_Rect \<Rightarrow> u8 list \<Rightarrow> CPUSTATUS \<Rightarrow> u32 list \<Rightarrow> machine \<Rightarrow> fill list option" where
  "code_panel g fontdata s address m =
     map_option (\<lambda>ls. concat (map (\<lambda>(y, l). code_row g fontdata address (int y) l) (enumerate 0 ls)))
       (code_lines (st_p s) m 18 (address ! 0))"

definition memory_row :: "SDL_Rect \<Rightarrow> u8 list \<Rightarrow> u32 list \<Rightarrow> machine \<Rightarrow> nat \<Rightarrow> fill list" where
  "memory_row g fontdata address m y =
     (let base = address ! 1 + of_nat (y - 20) * 8;
          x = 1
      in num_at g fontdata x (int y) (drop_bit 16 (uint base)) 2 DBGC_ADDRESS
       @ str_at g fontdata (x + 2) (int y) '':'' DBGC_ADDRESS
       @ num_at g fontdata (x + 3) (int y) (uint base AND 0xFFFF) 4 DBGC_ADDRESS
       @ concat (map (\<lambda>n.
           let b = uint (CPURead (base + of_nat n) m);
               c = (if b AND 0x7F < 32 then 46 else b AND 0x7F)
           in num_at g fontdata (x + 9 + int n * 3) (int y) b 2 DBGC_DATA
            @ chr_at g fontdata (x + 34 + int n) (int y) c DBGC_DATA) [0 ..< 8]))"

definition memory_panel :: "SDL_Rect \<Rightarrow> u8 list \<Rightarrow> u32 list \<Rightarrow> machine \<Rightarrow> fill list" where
  "memory_panel g fontdata address m = concat (map (memory_row g fontdata address m) [20 ..< 28])"

section \<open>The text screen of the machine\<close>

text \<open>64 by 32 characters of 8 by 8 double-size pixels, read from \<open>0xF0000\<close>; the cell of the
  cursor is inverted while bit 5 of the frame counter is clear.\<close>

definition vdu_character :: "int \<Rightarrow> int \<Rightarrow> int \<Rightarrow> u8 \<Rightarrow> int \<Rightarrow> fill list" where
  "vdu_character xc yc sz ch rvs =
     (let cp = uint ch * 8
      in concat (map (\<lambda>x. concat (map (\<lambda>y.
           let f = uint (font ! nat (cp + y)) XOR rvs
           in if f AND push_bit (nat x) 1 \<noteq> 0
              then GFXRectangle \<lparr>rect_x = xc + x * sz, rect_y = yc + y * sz, rect_w = sz, rect_h = sz\<rparr>
                     (if rvs \<noteq> 0 then 0x0FF else 0x0F0)
              else []) [0 .. 7])) [0 .. 7]))"

definition vdu_screen :: "int \<Rightarrow> machine \<Rightarrow> fill list" where
  "vdu_screen renderCount m =
     (let xs = 64; ys = 32; sz = 2;
          x1 = WIN_WIDTH sdiv 2 - xs * sz * 8 sdiv 2;
          y1 = WIN_HEIGHT sdiv 2 - ys * sz * 8 sdiv 2;
          cursorPos = uint (CPURead 0xF8020 m) + uint (CPURead 0xF8021 m) * 256;
          frame = (\<lambda>b. \<lparr>rect_x = x1 - b, rect_y = y1 - b, rect_w = xs * sz * 8 + b * 2,
            rect_h = ys * sz * 8 + b * 2\<rparr>)
      in GFXRectangle (frame 16) 0xFFFF
       @ GFXRectangle (frame (16 - 4)) 0
       @ concat (map (\<lambda>x. concat (map (\<lambda>y.
           let ch = CPURead (word_of_int (0xF0000 + x + y * xs)) m;
               rvs = (if x + y * xs = cursorPos then 0xFF else 0);
               rvs = (if renderCount AND 32 \<noteq> 0 then 0 else rvs)
           in vdu_character (x1 + x * 8 * sz) (y1 + y * 8 * sz) sz ch rvs) [0 .. 31])) [0 .. 63]))"

section \<open>The whole screen\<close>

definition DBGXRender_draws ::
    "int \<Rightarrow> int \<Rightarrow> u8 list \<Rightarrow> u32 list \<Rightarrow> int \<Rightarrow> int \<Rightarrow> machine \<Rightarrow> fill list option" where
  "DBGXRender_draws w h fontdata address showDisplay renderCount m =
     (let g = GFXSetCharacterSize w h 44 28;
          (s, m) = CPUGetStatus m
      in map_option (\<lambda>code.
           register_panel g fontdata s address @ code @ memory_panel g fontdata address m
           @ (if showDisplay \<noteq> 0 then vdu_screen (renderCount + 1) m else []))
         (code_panel g fontdata s address m))"

section \<open>Where the panels are\<close>

text \<open>The drawings between the grid positions \<open>(x0, y0)\<close> and \<open>(x1, y1)\<close>.\<close>

definition in_cells :: "SDL_Rect \<Rightarrow> int \<Rightarrow> int \<Rightarrow> int \<Rightarrow> int \<Rightarrow> fill \<Rightarrow> bool" where
  "in_cells g x0 y0 x1 y1 = inside (GFXX g x0) (GFXY g y0) (GFXX g x1) (GFXY g y1)"

definition square_grid :: "SDL_Rect \<Rightarrow> bool" where
  "square_grid g \<longleftrightarrow> 0 \<le> rect_w g \<and> rect_h g = rect_w g"

lemma in_cells_mono:
  assumes "square_grid g" and "list_all (in_cells g x0 y0 x1 y1) fs"
    and "x0' \<le> x0" "y0' \<le> y0" "x1 \<le> x1'" "y1 \<le> y1'"
  shows "list_all (in_cells g x0' y0' x1' y1') fs"
  using assms(2) unfolding in_cells_def
  by (rule inside_list_mono)
    (use assms(1,3-6) in \<open>auto simp: square_grid_def GFXX_def GFXY_def intro: mult_right_mono\<close>)

lemma cell_bounds:
  assumes "square_grid g"
  shows "0 \<le> GFXS g" "GFXX g x + 6 * GFXS g * n = GFXX g (x + n)" "GFXY g y + 7 * GFXS g \<le> GFXY g (y + 1)"
  using assms by (simp_all add: square_grid_def GFXX_def GFXY_def GFXS_def algebra_simps)

lemma str_at_cells:
  assumes "square_grid g"
  shows "list_all (in_cells g x y (x + int (length s)) (y + 1)) (str_at g fontdata x y s colour)"
  unfolding str_at_def in_cells_def cell_bounds(2) [OF assms, symmetric]
  by (rule inside_list_mono [OF GFXString_inside]) (use cell_bounds [OF assms] in simp_all)

lemma num_at_cells:
  assumes "square_grid g"
  shows "list_all (in_cells g x y (x + int n) (y + 1)) (num_at g fontdata x y number (int n) colour)"
  unfolding num_at_def in_cells_def cell_bounds(2) [OF assms, symmetric]
  by (rule inside_list_mono [OF GFXNumber_inside]) (use cell_bounds [OF assms] in simp_all)

lemma chr_at_cells:
  assumes "square_grid g"
  shows "list_all (in_cells g x y (x + 1) (y + 1)) (chr_at g fontdata x y ch colour)"
  unfolding chr_at_def in_cells_def cell_bounds(2) [OF assms, symmetric]
  by (rule inside_list_mono [OF GFXCharacter_inside]) (use cell_bounds [OF assms] in simp_all)

text \<open>A drawing that starts at \<open>(x, y)\<close> stays in a panel when its last cell does.\<close>

lemma in_panel:
  assumes "square_grid g" and "x0 \<le> x" "y0 \<le> y" "y + 1 \<le> y1"
  shows "x + int (length s) \<le> x1 \<Longrightarrow> list_all (in_cells g x0 y0 x1 y1) (str_at g fontdata x y s colour)"
    "0 \<le> n \<Longrightarrow> x + n \<le> x1 \<Longrightarrow> list_all (in_cells g x0 y0 x1 y1) (num_at g fontdata x y number n colour)"
    "x + 1 \<le> x1 \<Longrightarrow> list_all (in_cells g x0 y0 x1 y1) (chr_at g fontdata x y ch colour)"
  using in_cells_mono [OF assms(1) str_at_cells [OF assms(1)]]
    in_cells_mono [OF assms(1) num_at_cells [OF assms(1), of x y "nat n"]]
    in_cells_mono [OF assms(1) chr_at_cells [OF assms(1)]] assms(2-4)
  by auto

lemma list_all_concat: "list_all P (concat (map f xs)) \<longleftrightarrow> (\<forall>x \<in> set xs. list_all P (f x))"
  by (auto simp: list_all_iff)

lemma labels_fit: "n < 18 \<Longrightarrow> length (register_labels ! n) \<le> 6"
proof -
  have "list_all (\<lambda>s. length s \<le> 6) register_labels" "length register_labels = 18"
    by (simp_all add: register_labels_def)
  then show "n < 18 \<Longrightarrow> length (register_labels ! n) \<le> 6" by (simp add: list_all_length)
qed

lemma register_panel_cells:
  assumes "square_grid g"
  shows "list_all (in_cells g 23 0 44 18) (register_panel g fontdata s address)"
  unfolding register_panel_def Let_def list_all_append list_all_concat
  by (intro conjI ballI in_panel [OF assms]) (use labels_fit in \<open>force+\<close>)

lemma memory_panel_cells:
  assumes "square_grid g"
  shows "list_all (in_cells g 1 20 44 28) (memory_panel g fontdata address m)"
  unfolding memory_panel_def memory_row_def Let_def list_all_append list_all_concat
  by (intro conjI ballI in_panel [OF assms]) auto

lemma code_panel_cells:
  assumes "square_grid g"
  shows "\<exists>code. code_panel g fontdata s address m = Some code \<and> list_all (in_cells g 1 0 23 18) code"
proof -
  obtain ls where ls: "code_lines (st_p s) m 18 (address ! 0) = Some ls" "length ls = 18"
      "list_all (\<lambda>(_, line). length line \<le> 14) ls"
    using code_lines_fit by blast
  have "list_all (in_cells g 1 0 23 18) (code_row g fontdata address (int y) (ls ! y))" if "y < 18" for y
  proof -
    obtain pc line where l: "ls ! y = (pc, line)" by fastforce
    with ls(2,3) that have "length line \<le> 14" by (auto simp: list_all_length)
    then show ?thesis
      unfolding l code_row_def prod.case list_all_append
      by (intro conjI in_panel [OF assms]) (use that in auto)
  qed
  with ls(2) have "list_all (in_cells g 1 0 23 18)
      (concat (map (\<lambda>(y, l). code_row g fontdata address (int y) l) (enumerate 0 ls)))"
    unfolding list_all_concat by (auto simp: in_set_enumerate_eq) metis
  with ls(1) show ?thesis by (simp add: code_panel_def)
qed

section \<open>The text screen\<close>

lemma vdu_character_inside:
  "list_all (inside xc yc (xc + 16) (yc + 16)) (vdu_character xc yc 2 ch rvs)"
  unfolding vdu_character_def Let_def list_all_concat by (auto simp: inside_def GFXRectangle_def)

lemma vdu_screen_inside:
  "list_all (inside 0 0 WIN_WIDTH WIN_HEIGHT) (vdu_screen renderCount m)"
proof -
  have "list_all (inside 0 0 WIN_WIDTH WIN_HEIGHT) (vdu_character (28 + x * 8 * 2) (96 + y * 8 * 2) 2 ch rvs)"
    if "x \<in> {0 .. 63}" "y \<in> {0 .. 31}" for x y ch rvs
    by (rule inside_list_mono [OF vdu_character_inside]) (use that in \<open>auto simp: WIN_WIDTH_def WIN_HEIGHT_def\<close>)
  then show ?thesis
    unfolding vdu_screen_def Let_def list_all_append list_all_concat
    by (auto simp: GFXRectangle_def inside_def WIN_WIDTH_def WIN_HEIGHT_def)
qed

section \<open>The screen in its window\<close>

lemma window_grid: "GFXSetCharacterSize WIN_WIDTH WIN_HEIGHT 44 28 = \<lparr>rect_x = 144, rect_y = 16, rect_w = 3, rect_h = 3\<rparr>"
  by (simp add: GFXSetCharacterSize_def WIN_WIDTH_def WIN_HEIGHT_def)

lemma window_cells:
  assumes "list_all (in_cells (GFXSetCharacterSize WIN_WIDTH WIN_HEIGHT 44 28) x0 y0 x1 y1) fs"
    and "0 \<le> x0" "0 \<le> y0" "x1 \<le> 44" "y1 \<le> 28"
  shows "list_all (inside 0 0 WIN_WIDTH WIN_HEIGHT) fs"
  using assms(1) unfolding in_cells_def window_grid
  by (rule inside_list_mono) (use assms(2-5) in \<open>simp_all add: GFXX_def GFXY_def WIN_WIDTH_def WIN_HEIGHT_def\<close>)

text \<open>C39: Everything that \<open>DBGXRender\<close> draws is inside the window: whatever the registers, the
  memory and the addresses of the debugger are, in both display modes, the drawing exists, no
  entry of the disassembler table being read past its end, and every rectangle lies within
  the surface of \<open>WIN_WIDTH\<close> by \<open>WIN_HEIGHT\<close> pixels.\<close>

theorem screen_in_window:
  "\<exists>draws. DBGXRender_draws WIN_WIDTH WIN_HEIGHT fontdata address showDisplay renderCount m = Some draws
    \<and> list_all (inside 0 0 WIN_WIDTH WIN_HEIGHT) draws"
proof -
  let ?g = "GFXSetCharacterSize WIN_WIDTH WIN_HEIGHT 44 28"
  obtain s m' where st: "CPUGetStatus m = (s, m')" by fastforce
  have g: "square_grid ?g" by (simp add: square_grid_def window_grid)
  obtain code where "code_panel ?g fontdata s address m' = Some code" "list_all (in_cells ?g 1 0 23 18) code"
    using code_panel_cells [OF g] by blast
  with st show ?thesis
    using window_cells [OF register_panel_cells [OF g]] window_cells [OF memory_panel_cells [OF g]]
      window_cells [of 1 0 23 18 code] vdu_screen_inside
    by (simp add: DBGXRender_draws_def Let_def)
qed

text \<open>The panels of the debugger screen do not cover each other: on a grid of square cells the
  disassembly stays left of column 23, where the register panel starts, and both end above row
  20, where the memory dump starts. No line of the disassembly is too long.\<close>

theorem panels_disjoint:
  assumes "0 \<le> rect_w g" and "rect_h g = rect_w g"
  shows "\<exists>code. code_panel g fontdata s address m = Some code
    \<and> list_all (\<lambda>(rc, _). rect_x rc + rect_w rc \<le> GFXX g 23 \<and> rect_y rc + rect_h rc \<le> GFXY g 18) code
    \<and> list_all (\<lambda>(rc, _). GFXX g 23 \<le> rect_x rc \<and> rect_y rc + rect_h rc \<le> GFXY g 18)
        (register_panel g fontdata s address)
    \<and> list_all (\<lambda>(rc, _). GFXY g 20 \<le> rect_y rc) (memory_panel g fontdata address m)"
proof -
  have g: "square_grid g" using assms by (simp add: square_grid_def)
  show ?thesis
    using code_panel_cells [OF g, of fontdata s address m] register_panel_cells [OF g, of fontdata s address]
      memory_panel_cells [OF g, of fontdata address m]
    by (fastforce simp: in_cells_def inside_def list_all_iff)
qed

theorem panels_disjoint_witness:
  "list_all (\<lambda>(rc, _). GFXY \<lparr>rect_x = 144, rect_y = 16, rect_w = 3, rect_h = 3\<rparr> 20 \<le> rect_y rc)
    (memory_panel \<lparr>rect_x = 144, rect_y = 16, rect_w = 3, rect_h = 3\<rparr> initial_fontdata [0, 0, 0, 0] (boot (\<lambda>a. 0)))"
  using panels_disjoint [of "\<lparr>rect_x = 144, rect_y = 16, rect_w = 3, rect_h = 3\<rparr>" initial_fontdata
      "fst (CPUGetStatus (boot (\<lambda>a. 0)))" "[0, 0, 0, 0]" "boot (\<lambda>a. 0)"]
  by (simp del: One_nat_def) blast

end
