(* ===== verification/Arithmetic.thy ===== *)
theory Arithmetic
  imports Calls
begin

text \<open>
  Binary addition and subtraction. The macros compute on 32 bit temporaries with masks and a
  bit test for the overflow; the lemmas here state them on numbers: \<open>acc\<close> is the value of
  the accumulator at the width the M flag selects, \<open>signed_of\<close> its two's complement reading,
  \<open>flags_show\<close> what the N and Z bytes must say. \<open>write_back\<close> is the common tail of
  \<open>ADC\<close> and \<open>SBC\<close>.
\<close>

section \<open>Numbers behind the registers\<close>

definition width :: "bool \<Rightarrow> nat" where
  "width b = (if b then 8 else 16)"

definition modulus :: "bool \<Rightarrow> nat" where
  "modulus b = 2 ^ width b"

definition acc :: "bool \<Rightarrow> cpu \<Rightarrow> nat" where
  "acc b s = (if b then unat (reg_a s) else unat (reg_c s))"

definition signed_of :: "bool \<Rightarrow> nat \<Rightarrow> int" where
  "signed_of b n = (if n < modulus b div 2 then int n else int n - int (modulus b))"

definition carry_in :: "cpu \<Rightarrow> nat" where
  "carry_in s = of_bool (LOCAL_CARRY s \<noteq> 0)"

definition flags_show :: "bool \<Rightarrow> nat \<Rightarrow> cpu \<Rightarrow> bool" where
  "flags_show b r s \<longleftrightarrow> (LOCAL_SIGN s \<noteq> 0 \<longleftrightarrow> signed_of b r < 0) \<and> (LOCAL_ZERO s \<longleftrightarrow> r = 0)"

text \<open>Registers of the example state, and immediate operands, for the concrete cases.\<close>

lemmas native_eval = native_cpu_def initial_cpu_def LOCAL_65816_M_def LOCAL_65816_X_def LOCAL_CARRY_def
  LOCAL_DECIMAL_def acc_def carry_in_def modulus_def width_def reg_a_def

lemmas operand_eval = LOAD_IMMEDIATE_FUNC_def INC_PC_def FETCH_PARAM_def Let_def

lemma bit_unat: "bit (w :: u32) n \<longleftrightarrow> odd (unat w div 2 ^ n)"
proof -
  have "bit w n \<longleftrightarrow> bit (unat w) n" by (simp add: bit_unsigned_iff)
  then show ?thesis by (simp add: bit_iff_odd)
qed

lemma msb_test:
  fixes w :: u32
  shows "w AND 0x80 \<noteq> 0 \<longleftrightarrow> odd (unat w div 128)" "w AND 0x8000 \<noteq> 0 \<longleftrightarrow> odd (unat w div 32768)"
    "w AND 0x80 = 0 \<longleftrightarrow> even (unat w div 128)" "w AND 0x8000 = 0 \<longleftrightarrow> even (unat w div 32768)"
  using and_exp_eq_0_iff_not_bit [of w 7] and_exp_eq_0_iff_not_bit [of w 15]
  by (simp_all add: bit_unat)

lemma odd_div_iff:
  fixes n m :: nat
  assumes "0 < m"
  shows "odd (n div m) \<longleftrightarrow> m \<le> n mod (m * 2)"
  using assms mod_less_divisor [OF assms, of n]
  by (cases "odd (n div m)") (simp_all add: mod_mult2_eq odd_iff_mod_2_eq_one not_le)

lemma odd_div_msb:
  fixes n :: nat
  shows "odd (n div 128) \<longleftrightarrow> 128 \<le> n mod 256" "odd (n div 32768) \<longleftrightarrow> 32768 \<le> n mod 65536"
  using odd_div_iff [of 128 n] odd_div_iff [of 32768 n] by simp_all

lemma overflow_bits:
  fixes a v r :: u32
  shows "NOT (a XOR v) AND (a XOR r) AND 0x80 \<noteq> 0 \<longleftrightarrow>
      bit a 7 = bit v 7 \<and> bit a 7 \<noteq> bit r 7"
    "NOT (a XOR v) AND (a XOR r) AND 0x8000 \<noteq> 0 \<longleftrightarrow>
      bit a 15 = bit v 15 \<and> bit a 15 \<noteq> bit r 15"
    "(a XOR v) AND (a XOR r) AND 0x80 \<noteq> 0 \<longleftrightarrow> bit a 7 \<noteq> bit v 7 \<and> bit a 7 \<noteq> bit r 7"
    "(a XOR v) AND (a XOR r) AND 0x8000 \<noteq> 0 \<longleftrightarrow> bit a 15 \<noteq> bit v 15 \<and> bit a 15 \<noteq> bit r 15"
proof -
  have t: "w AND 0x80 \<noteq> 0 \<longleftrightarrow> bit w 7" "w AND 0x8000 \<noteq> 0 \<longleftrightarrow> bit w 15" for w :: u32
    using and_exp_eq_0_iff_not_bit [of w 7] and_exp_eq_0_iff_not_bit [of w 15] by simp_all
  show "NOT (a XOR v) AND (a XOR r) AND 0x80 \<noteq> 0 \<longleftrightarrow> bit a 7 = bit v 7 \<and> bit a 7 \<noteq> bit r 7"
    "NOT (a XOR v) AND (a XOR r) AND 0x8000 \<noteq> 0 \<longleftrightarrow> bit a 15 = bit v 15 \<and> bit a 15 \<noteq> bit r 15"
    "(a XOR v) AND (a XOR r) AND 0x80 \<noteq> 0 \<longleftrightarrow> bit a 7 \<noteq> bit v 7 \<and> bit a 7 \<noteq> bit r 7"
    "(a XOR v) AND (a XOR r) AND 0x8000 \<noteq> 0 \<longleftrightarrow> bit a 15 \<noteq> bit v 15 \<and> bit a 15 \<noteq> bit r 15"
    unfolding and.assoc [symmetric] t by (auto simp: bit_simps)
qed

text \<open>Addition and subtraction of the binary mode, on numbers.\<close>

lemma signed_sum_range:
  fixes a v c h s :: nat
  assumes "a < 2 * h" and "v < 2 * h" and "c \<le> 1" and s: "s = a + v + c"
  shows "((h \<le> a) = (h \<le> v) \<and> (h \<le> a) \<noteq> (h \<le> (if s < 2 * h then s else s - 2 * h))) \<longleftrightarrow>
    (if a < h then int a else int a - 2 * int h) + (if v < h then int v else int v - 2 * int h) + int c
      \<notin> {- int h ..< int h}"
proof (cases "h \<le> a")
  case True
  then show ?thesis
  proof (cases "h \<le> v")
    case True
    with \<open>h \<le> a\<close> assms show ?thesis by simp linarith
  next
    case False
    with \<open>h \<le> a\<close> assms show ?thesis by simp
  qed
next
  case False
  then show ?thesis
  proof (cases "h \<le> v")
    case True
    with \<open>\<not> h \<le> a\<close> assms show ?thesis by simp
  next
    case False
    with \<open>\<not> h \<le> a\<close> assms show ?thesis by simp linarith
  qed
qed

lemma adc_binary_result:
  assumes "unat a < modulus b" and "unat v < modulus b" and "unat c \<le> 1"
  defines "r \<equiv> adc_binary (if b then 0x80 else 0x8000) a v c"
  shows "unat (fst r) = unat a + unat v + unat c"
    and "snd r \<longleftrightarrow> signed_of b (unat a) + signed_of b (unat v) + int (unat c)
      \<notin> {- int (modulus b div 2) ..< int (modulus b div 2)}"
proof -
  define s h where "s = unat a + unat v + unat c" and "h = modulus b div 2"
  have m: "modulus b = 2 * h" by (simp add: h_def modulus_def width_def)
  have s: "unat (fst r) = s"
    using assms(1-3) by (cases b) (simp_all add: r_def s_def adc_binary_def Let_def unat_word_ariths
        modulus_def width_def)
  then show "unat (fst r) = unat a + unat v + unat c" by (simp add: s_def)
  have "snd r \<longleftrightarrow> ((h \<le> unat a) = (h \<le> unat v)) \<and> (h \<le> unat a) \<noteq> (h \<le> s mod (2 * h))"
    using s assms(1,2)
    by (cases b) (simp_all add: r_def adc_binary_def Let_def overflow_bits bit_unat odd_div_msb
        h_def modulus_def width_def)
  moreover have "s mod (2 * h) = (if s < 2 * h then s else s - 2 * h)"
    using assms(1-3) by (auto simp: mod_if m s_def)
  ultimately have "snd r \<longleftrightarrow> signed_of b (unat a) + signed_of b (unat v) + int (unat c) \<notin> {- int h ..< int h}"
    using signed_sum_range [of "unat a" h "unat v" "unat c" s] assms(1-3) s_def
    unfolding signed_of_def m by simp
  then show "snd r \<longleftrightarrow> signed_of b (unat a) + signed_of b (unat v) + int (unat c)
      \<notin> {- int (modulus b div 2) ..< int (modulus b div 2)}"
    by (simp only: h_def)
qed

lemma xor_mask_complement:
  fixes v m :: u32
  assumes "v AND m = v"
  shows "v XOR m = m - v"
proof -
  have sub: "bit m n" if "bit v n" for n
    using assms that by (metis bit_and_iff)
  have "v AND (v XOR m) = 0"
    by (rule bit_eqI) (auto simp: bit_and_iff bit_xor_iff dest: sub)
  then have "v + (v XOR m) = v OR (v XOR m)" by (simp add: disjunctive_add_eq_or)
  also have "\<dots> = m"
    by (rule bit_eqI) (auto simp: bit_or_iff bit_xor_iff dest: sub)
  finally show ?thesis by (simp add: eq_diff_eq add.commute)
qed

lemma xor_ones:
  fixes v :: u32
  assumes "v \<le> (if b then 0xFF else 0xFFFF)"
  shows "unat (v XOR (if b then 0xFF else 0xFFFF)) = modulus b - 1 - unat v"
proof -
  let ?m = "if b then 0xFF else 0xFFFF :: u32"
  have "v AND ?m = v" using assms by (simp add: and_mask_id split: if_splits)
  then have "v XOR ?m = ?m - v" by (rule xor_mask_complement)
  moreover have "unat (?m - v) = unat ?m - unat v" using assms by (simp add: unat_sub)
  ultimately show ?thesis by (simp add: modulus_def width_def)
qed

lemma sbc_as_adc:
  assumes "v \<le> (if b then 0xFF else 0xFFFF)"
  defines "ones \<equiv> (if b then 0xFF else 0xFFFF)" and "msb \<equiv> (if b then 0x80 else 0x8000)"
  shows "sbc_binary ones msb a v c = adc_binary msb a (v XOR ones) c"
  by (cases b) (auto simp: sbc_binary_def adc_binary_def Let_def ones_def msb_def overflow_bits bit_simps)

lemma sbc_binary_result:
  assumes a: "unat a < modulus b" and v: "unat v < modulus b" and c: "unat c \<le> 1"
  defines "r \<equiv> sbc_binary (if b then 0xFF else 0xFFFF) (if b then 0x80 else 0x8000) a v c"
  shows "unat (fst r) = unat a + (modulus b - 1 - unat v) + unat c"
    and "snd r \<longleftrightarrow> signed_of b (unat a) - signed_of b (unat v) - (1 - int (unat c))
      \<notin> {- int (modulus b div 2) ..< int (modulus b div 2)}"
proof -
  let ?m = "if b then 0xFF else 0xFFFF :: u32"
  have le: "v \<le> ?m" using v by (auto simp: word_le_nat_alt modulus_def width_def)
  note x = xor_ones [OF le]
  have v': "unat (v XOR ?m) < modulus b" using x v by simp
  have r: "r = adc_binary (if b then 0x80 else 0x8000) a (v XOR ?m) c"
    using sbc_as_adc [OF le] by (simp add: r_def)
  have sv: "signed_of b (modulus b - 1 - unat v) = - 1 - signed_of b (unat v)"
    using v by (cases b) (auto simp: signed_of_def modulus_def width_def)
  show "unat (fst r) = unat a + (modulus b - 1 - unat v) + unat c"
    using adc_binary_result(1) [OF a v' c] by (simp add: r x)
  show "snd r \<longleftrightarrow> signed_of b (unat a) - signed_of b (unat v) - (1 - int (unat c))
      \<notin> {- int (modulus b div 2) ..< int (modulus b div 2)}"
    using adc_binary_result(2) [OF a v' c] unfolding r x sv
    by (simp only: diff_conv_add_uminus minus_add_distrib minus_minus ac_simps)
qed

lemma flag_bits [simp]:
  "LOCAL_CARRY (LOCAL_SET_CARRY c s) \<noteq> 0 \<longleftrightarrow> c" "LOCAL_CARRY (LOCAL_SET_CARRY c s) = 0 \<longleftrightarrow> \<not> c"
  "LOCAL_OVERFLOW (LOCAL_SET_OVERFLOW c s) \<noteq> 0 \<longleftrightarrow> c"
  "LOCAL_OVERFLOW (LOCAL_SET_OVERFLOW c s) = 0 \<longleftrightarrow> \<not> c"
  "LOCAL_OVERFLOW (LOCAL_SET_CARRY c s) = LOCAL_OVERFLOW s"
  "LOCAL_CARRY (LOCAL_SET_OVERFLOW c s) = LOCAL_CARRY s"
  "LOCAL_DECIMAL (LOCAL_SET_OVERFLOW c s) = LOCAL_DECIMAL s"
  by (simp_all add: LOCAL_CARRY_def LOCAL_OVERFLOW_def LOCAL_DECIMAL_def LOCAL_SET_CARRY_def
      LOCAL_SET_OVERFLOW_def mask_simps)

lemma flag_cong:
  "reg_p s = reg_p t \<Longrightarrow> LOCAL_CARRY s = LOCAL_CARRY t"
  "reg_p s = reg_p t \<Longrightarrow> LOCAL_OVERFLOW s = LOCAL_OVERFLOW t"
  "reg_p s = reg_p t \<Longrightarrow> LOCAL_DECIMAL s = LOCAL_DECIMAL t"
  "flag_n s = flag_n t \<Longrightarrow> flag_z s = flag_z t \<Longrightarrow> flags_show b r s = flags_show b r t"
  by (simp_all add: LOCAL_CARRY_def LOCAL_OVERFLOW_def LOCAL_DECIMAL_def flags_show_def LOCAL_SIGN_def
      LOCAL_ZERO_def)

lemma sign_test: "(v :: u8) AND 0x80 \<noteq> 0 \<longleftrightarrow> 128 \<le> unat v"
proof -
  have "v AND 0x80 \<noteq> 0 \<longleftrightarrow> bit (unat v) 7"
    using and_exp_eq_0_iff_not_bit [of v 7] by (simp add: bit_unsigned_iff)
  also have "\<dots> \<longleftrightarrow> odd (unat v div 128)" by (simp add: bit_iff_odd)
  also have "\<dots> \<longleftrightarrow> 128 \<le> unat v" using odd_div_msb(1) [of "unat v"] u8_bound [of v] by simp
  finally show ?thesis .
qed

lemma SET_NZ_flags: "flags_show b (unat v mod modulus b) (LOCAL_SET_NZ v b s)"
proof (cases b)
  case True
  have "unat (ucast v :: u8) = unat v mod 256" by (rule unat_ucast_down)
  moreover have "(ucast v :: u8) = 0 \<longleftrightarrow> unat v mod 256 = 0"
    by (simp add: word_unat_eq_iff unat_ucast_down)
  ultimately show ?thesis using True
    by (simp add: flags_show_def LOCAL_SIGN_def LOCAL_ZERO_def LOCAL_SET_NZ_def sign_test signed_of_def
        modulus_def width_def)
next
  case False
  have hi: "unat (ucast (drop_bit 8 v) :: u8) = unat v div 256 mod 256"
    by (simp add: unat_ucast_down unat_drop8)
  have sign: "128 \<le> unat v div 256 mod 256 \<longleftrightarrow> 32768 \<le> unat v mod 65536" 
    using mod_mult2_eq [of "unat v" 256 256] by (simp add: algebra_simps) linarith
  have "(ucast (v OR ucast (ucast (drop_bit 8 v) :: u8)) :: u8) = 0 \<longleftrightarrow> unat v mod 65536 = 0"
  proof -
    have "(ucast (v OR ucast (ucast (drop_bit 8 v) :: u8)) :: u8) = ucast v OR ucast (drop_bit 8 v)"
      by (rule bit_eqI) (auto simp: bit_simps)
    also have "\<dots> = 0 \<longleftrightarrow> (ucast v :: u8) = 0 \<and> (ucast (drop_bit 8 v) :: u8) = 0"
      by (simp add: or_eq_0_iff)
    also have "\<dots> \<longleftrightarrow> unat v mod 65536 = 0"
      using mod_mult2_eq [of "unat v" 256 256]
      by (auto simp: word_unat_eq_iff unat_ucast_down unat_drop8)
    finally show ?thesis .
  qed
  with hi sign False show ?thesis
    by (simp add: flags_show_def LOCAL_SIGN_def LOCAL_ZERO_def LOCAL_SET_NZ_def sign_test signed_of_def
        modulus_def width_def Let_def)
qed

section \<open>The accumulator after an arithmetic instruction\<close>

definition write_back :: "bool \<Rightarrow> u32 \<Rightarrow> bool \<Rightarrow> bool \<Rightarrow> cpu \<Rightarrow> cpu" where
  "write_back b tmp v c s =
     (let s = LOCAL_SET_NZ tmp b (LOCAL_SET_CARRY c (LOCAL_SET_OVERFLOW v s))
      in if b then set_reg_a (ucast tmp) s else s\<lparr>reg_c := ucast tmp\<rparr>)"

lemma write_back_result:
  "acc b (write_back b tmp v c s) = unat tmp mod modulus b"
  "LOCAL_CARRY (write_back b tmp v c s) \<noteq> 0 \<longleftrightarrow> c"
  "LOCAL_OVERFLOW (write_back b tmp v c s) \<noteq> 0 \<longleftrightarrow> v"
  "flags_show b (unat tmp mod modulus b) (write_back b tmp v c s)"
  "b \<Longrightarrow> reg_b (write_back b tmp v c s) = reg_b s"
proof -
  let ?u = "LOCAL_SET_NZ tmp b (LOCAL_SET_CARRY c (LOCAL_SET_OVERFLOW v s))"
  have p: "reg_p (write_back b tmp v c s) = reg_p (LOCAL_SET_CARRY c (LOCAL_SET_OVERFLOW v s))"
    and n: "flag_n (write_back b tmp v c s) = flag_n ?u" "flag_z (write_back b tmp v c s) = flag_z ?u"
    by (simp_all add: write_back_def Let_def)
  show "LOCAL_CARRY (write_back b tmp v c s) \<noteq> 0 \<longleftrightarrow> c"
    unfolding flag_cong(1) [OF p] by simp
  show "LOCAL_OVERFLOW (write_back b tmp v c s) \<noteq> 0 \<longleftrightarrow> v"
    unfolding flag_cong(2) [OF p] by simp
  show "flags_show b (unat tmp mod modulus b) (write_back b tmp v c s)"
    unfolding flag_cong(4) [OF n] by (rule SET_NZ_flags)
  show "acc b (write_back b tmp v c s) = unat tmp mod modulus b"
    by (simp add: acc_def write_back_def unat_ucast_down modulus_def width_def)
  show "reg_b (write_back b tmp v c s) = reg_b s" if b
    using that by (simp add: write_back_def) (simp add: reg_b_def)
qed

lemma ADC_eq:
  "ADC l s = (let b = LOCAL_65816_M s; c = ucast (LOCAL_CARRY s); (v, t) = l b s;
      (tmp, ov) = (if LOCAL_DECIMAL t \<noteq> 0
         then if b then adc8_decimal (ucast (reg_a t)) v c
              else adc16_decimal (ucast (reg_c t)) (ucast (reg_a t)) v c
         else adc_binary (if b then 0x80 else 0x8000) (if b then ucast (reg_a t) else ucast (reg_c t)) v c)
     in write_back b tmp ov (tmp > (if b then 0xFF else 0xFFFF)) t)"
  by (simp add: ADC_def write_back_def Let_def split_def)

lemma unat_carry: "unat (ucast (LOCAL_CARRY s) :: u32) = carry_in s" "carry_in s \<le> 1"
proof -
  have "LOCAL_CARRY s = 0 \<or> LOCAL_CARRY s = 1"
    by (simp add: LOCAL_CARRY_def and_one_eq mod2_eq_if)
  then show "unat (ucast (LOCAL_CARRY s) :: u32) = carry_in s" by (auto simp: carry_in_def)
qed (simp add: carry_in_def)

lemma load_result:
  assumes "is_load l" and "LOCAL_65816_M s = b"
  obtains w len where "l b s = (w, INC_PC len s)" and "unat w < modulus b"
proof -
  have "reg_emul s \<noteq> 0 \<longrightarrow> b" using assms(2) by (auto simp: LOCAL_65816_M_def)
  then obtain v len where "l b s = (v, INC_PC len s)" "b \<longrightarrow> v \<le> 0xFF" "v \<le> 0xFFFF"
    using assms(1) unfolding is_load_def by blast
  then show ?thesis by (intro that [of v len]) (auto simp: modulus_def width_def word_le_nat_alt)
qed

lemma acc_INC_PC [simp]: "acc b (INC_PC n s) = acc b s"
  by (simp add: acc_def)

lemma acc_bound: "acc b s < modulus b"
  using u8_bound u16_bound by (simp add: acc_def modulus_def width_def)

text \<open>C9: In binary mode ADC, with any addressing mode, leaves \<open>A + v + C\<close> in the
  accumulator modulo the width that the M flag selects, sets the carry exactly when the sum
  does not fit, sets the overflow flag exactly when the sum of the signed values does not fit,
  and sets N and Z from the result.\<close>

theorem ADC_binary:
  assumes "is_load l" and "LOCAL_DECIMAL s = 0"
  defines "b \<equiv> LOCAL_65816_M s"
  defines "v \<equiv> unat (fst (l b s))"
  shows "acc b (ADC l s) = (acc b s + v + carry_in s) mod modulus b
    \<and> (LOCAL_CARRY (ADC l s) \<noteq> 0 \<longleftrightarrow> modulus b \<le> acc b s + v + carry_in s)
    \<and> (LOCAL_OVERFLOW (ADC l s) \<noteq> 0 \<longleftrightarrow> signed_of b (acc b s) + signed_of b v + int (carry_in s)
        \<notin> {- int (modulus b div 2) ..< int (modulus b div 2)})
    \<and> flags_show b (acc b (ADC l s)) (ADC l s)"
proof -
  obtain w len where l: "l b s = (w, INC_PC len s)" and bound: "unat w < modulus b"
    using load_result [OF assms(1)] b_def by blast
  define a :: u32 where "a = (if b then ucast (reg_a s) else ucast (reg_c s))"
  define c :: u32 where "c = ucast (LOCAL_CARRY s)"
  have "unat a = acc b s" by (simp add: a_def acc_def)
  then have a: "unat a = acc b s" "unat a < modulus b" by (simp_all add: acc_bound)
  have c: "unat c = carry_in s" "unat c \<le> 1" using unat_carry [of s] by (simp_all add: c_def)
  define r where "r = adc_binary (if b then 0x80 else 0x8000) a w c"
  note r = adc_binary_result [OF a(2) bound c(2), folded r_def, unfolded a(1) c(1)]
  have "ADC l s = write_back b (fst r) (snd r) (fst r > (if b then 0xFF else 0xFFFF)) (INC_PC len s)"
    using assms(2) l
    by (cases b) (simp_all add: ADC_eq Let_def b_def [symmetric] r_def a_def c_def split_def)
  moreover have "fst r > (if b then 0xFF else 0xFFFF) \<longleftrightarrow> modulus b \<le> unat (fst r)"
    by (auto simp: word_less_nat_alt modulus_def width_def)
  ultimately show ?thesis
    using r write_back_result(4) [where b = b and tmp = "fst r"] by (simp add: write_back_result v_def l)
qed

theorem ADC_binary_witness:
  "acc False (ADC LOAD_IMMEDIATE_FUNC (native_cpu (\<lambda>a. 0x22))) = 0x1234 + 0x2222 + 1"
  using ADC_binary [OF is_load_immediate, of "native_cpu (\<lambda>a. 0x22)"]
  by (simp add: native_eval operand_eval)

lemma SBC_binary_eq:
  assumes "LOCAL_DECIMAL s = 0" and "l (LOCAL_65816_M s) s = (w, INC_PC len s)"
  defines "b \<equiv> LOCAL_65816_M s"
  defines "r \<equiv> sbc_binary (if b then 0xFF else 0xFFFF) (if b then 0x80 else 0x8000)
     (if b then ucast (reg_a s) else ucast (reg_c s)) w (ucast (LOCAL_CARRY s))"
  shows "SBC l s = write_back b (fst r) (snd r) (fst r > (if b then 0xFF else 0xFFFF)) (INC_PC len s)"
  using assms(1,2)
  by (cases b) (simp_all add: SBC_def Let_def b_def [symmetric] r_def split_def write_back_def)

text \<open>C10: In binary mode SBC, with any addressing mode, leaves \<open>A - v - (1 - C)\<close> in the
  accumulator modulo the width, sets the carry exactly when no borrow is needed, the overflow
  flag exactly when the signed difference does not fit, and N and Z from the result. The code
  computes it as an addition of the complement.\<close>

theorem SBC_binary:
  assumes "is_load l" and "LOCAL_DECIMAL s = 0"
  defines "b \<equiv> LOCAL_65816_M s"
  defines "v \<equiv> unat (fst (l b s))"
  shows "acc b (SBC l s) = (acc b s + modulus b - v - (1 - carry_in s)) mod modulus b
    \<and> (LOCAL_CARRY (SBC l s) \<noteq> 0 \<longleftrightarrow> v + (1 - carry_in s) \<le> acc b s)
    \<and> (LOCAL_OVERFLOW (SBC l s) \<noteq> 0 \<longleftrightarrow> signed_of b (acc b s) - signed_of b v - (1 - int (carry_in s))
        \<notin> {- int (modulus b div 2) ..< int (modulus b div 2)})
    \<and> flags_show b (acc b (SBC l s)) (SBC l s)"
proof -
  obtain w len where l: "l b s = (w, INC_PC len s)" and bound: "unat w < modulus b"
    using load_result [OF assms(1)] b_def by blast
  define a :: u32 where "a = (if b then ucast (reg_a s) else ucast (reg_c s))"
  define c :: u32 where "c = ucast (LOCAL_CARRY s)"
  have "unat a = acc b s" by (simp add: a_def acc_def)
  then have a: "unat a = acc b s" "unat a < modulus b" by (simp_all add: acc_bound)
  have c: "unat c = carry_in s" "unat c \<le> 1" using unat_carry [of s] by (simp_all add: c_def)
  define r where "r = sbc_binary (if b then 0xFF else 0xFFFF) (if b then 0x80 else 0x8000) a w c"
  note r = sbc_binary_result [OF a(2) bound c(2), folded r_def, unfolded a(1) c(1)]
  have eq: "SBC l s = write_back b (fst r) (snd r) (fst r > (if b then 0xFF else 0xFFFF)) (INC_PC len s)"
    using SBC_binary_eq [OF assms(2), of l w len] l unfolding b_def [symmetric] r_def a_def c_def by simp
  have "fst r > (if b then 0xFF else 0xFFFF) \<longleftrightarrow> modulus b \<le> unat (fst r)"
    by (auto simp: word_less_nat_alt modulus_def width_def)
  moreover have "modulus b \<le> unat (fst r) \<longleftrightarrow> unat w + (1 - carry_in s) \<le> acc b s"
    "unat (fst r) = acc b s + modulus b - unat w - (1 - carry_in s)"
    using r(1) bound unat_carry(2) [of s] by auto
  ultimately show ?thesis
    using r(2) l write_back_result(4) [where b = b and tmp = "fst r"]
    by (simp add: eq write_back_result v_def)
qed

theorem SBC_binary_witness:
  "acc False (SBC LOAD_IMMEDIATE_FUNC (native_cpu (\<lambda>a. 0x22))) = 0x10000 + 0x1234 - 0x2222"
  using SBC_binary [OF is_load_immediate, of "native_cpu (\<lambda>a. 0x22)"]
  by (simp add: native_eval operand_eval)

end
