(* ===== verification/Status.thy ===== *)
theory Status
  imports Calls
begin

text \<open>
  The status byte as an abstraction. The core keeps the processor status in four places: the
  bits of \<open>reg_p\<close>, the byte \<open>flag_n\<close> whose top bit is N, the byte \<open>flag_z\<close> which is zero
  when Z is set, and \<open>reg_emul\<close>. A program sees one status byte, \<open>LOCAL_65816_STATUS\<close>, and
  instructions that set and clear its bits. The theorem here is that the flag instructions of
  the core implement those of the programmer's model.
\<close>

section \<open>Single bits\<close>

text \<open>\<open>put_bits v m p\<close>: the status byte \<open>p\<close> with the bits of \<open>m\<close> set or cleared.\<close>

definition put_bits :: "bool \<Rightarrow> u8 \<Rightarrow> u8 \<Rightarrow> u8" where
  "put_bits v m p = (if v then p OR m else p AND NOT m)"

definition status_ok :: "cpu \<Rightarrow> bool" where
  "status_ok s \<longleftrightarrow> reg_p s AND 0x82 = 0"

lemma byte_eqI:
  fixes x y :: u8
  assumes "bit x 0 = bit y 0" "bit x (Suc 0) = bit y (Suc 0)" "bit x 2 = bit y 2" "bit x 3 = bit y 3"
    "bit x 4 = bit y 4" "bit x 5 = bit y 5" "bit x 6 = bit y 6" "bit x 7 = bit y 7"
  shows "x = y"
proof (rule bit_eqI)
  fix n
  assume "possible_bit TYPE(u8) n"
  then have "n < 8" by simp
  then have "n = 0 \<or> n = 1 \<or> n = 2 \<or> n = 3 \<or> n = 4 \<or> n = 5 \<or> n = 6 \<or> n = 7" by linarith
  then show "bit x n = bit y n" using assms by (elim disjE) simp_all
qed

lemma and_bit_eq_0:
  fixes x :: u8
  shows "x AND 0x01 = 0 \<longleftrightarrow> \<not> bit x 0" "x AND 0x02 = 0 \<longleftrightarrow> \<not> bit x (Suc 0)" "x AND 0x04 = 0 \<longleftrightarrow> \<not> bit x 2"
    "x AND 0x08 = 0 \<longleftrightarrow> \<not> bit x 3" "x AND 0x10 = 0 \<longleftrightarrow> \<not> bit x 4" "x AND 0x20 = 0 \<longleftrightarrow> \<not> bit x 5"
    "x AND 0x40 = 0 \<longleftrightarrow> \<not> bit x 6" "x AND 0x80 = 0 \<longleftrightarrow> \<not> bit x 7" "x AND 0x82 = 0 \<longleftrightarrow> \<not> bit x (Suc 0) \<and> \<not> bit x 7"
  by (auto simp: bit_simps dest: arg_cong [where f = "\<lambda>w. bit w 0"] arg_cong [where f = "\<lambda>w. bit w (Suc 0)"]
      arg_cong [where f = "\<lambda>w. bit w 2"] arg_cong [where f = "\<lambda>w. bit w 3"] arg_cong [where f = "\<lambda>w. bit w 4"]
      arg_cong [where f = "\<lambda>w. bit w 5"] arg_cong [where f = "\<lambda>w. bit w 6"] arg_cong [where f = "\<lambda>w. bit w 7"]
      intro!: byte_eqI)

lemma status_ok_bits: "status_ok s \<longleftrightarrow> \<not> bit (reg_p s) (Suc 0) \<and> \<not> bit (reg_p s) 7"
  by (simp add: status_ok_def and_bit_eq_0)

lemma status_bits:
  assumes "status_ok s"
  shows "bit (LOCAL_65816_STATUS s) 0 \<longleftrightarrow> bit (reg_p s) 0" "bit (LOCAL_65816_STATUS s) (Suc 0) \<longleftrightarrow> flag_z s = 0"
    "bit (LOCAL_65816_STATUS s) 2 \<longleftrightarrow> bit (reg_p s) 2" "bit (LOCAL_65816_STATUS s) 3 \<longleftrightarrow> bit (reg_p s) 3"
    "bit (LOCAL_65816_STATUS s) 4 \<longleftrightarrow> bit (reg_p s) 4" "bit (LOCAL_65816_STATUS s) 5 \<longleftrightarrow> bit (reg_p s) 5"
    "bit (LOCAL_65816_STATUS s) 6 \<longleftrightarrow> bit (reg_p s) 6" "bit (LOCAL_65816_STATUS s) 7 \<longleftrightarrow> bit (flag_n s) 7"
  using assms by (simp_all add: LOCAL_65816_STATUS_def LOCAL_ZERO_def status_ok_bits bit_simps)

section \<open>The flag macros\<close>

lemmas status_update_defs = LOCAL_SET_SIGN_def LOCAL_SET_OVERFLOW_def LOCAL_SET_65816_M_def LOCAL_SET_65816_X_def
  LOCAL_SET_BREAK_def LOCAL_SET_DECIMAL_def LOCAL_SET_INTERRUPT_def LOCAL_SET_ZERO_def LOCAL_SET_CARRY_def

lemma setters_ok:
  assumes "status_ok s"
  shows "status_ok (LOCAL_SET_SIGN v s)" "status_ok (LOCAL_SET_OVERFLOW v s)" "status_ok (LOCAL_SET_65816_M v s)"
    "status_ok (LOCAL_SET_65816_X v s)" "status_ok (LOCAL_SET_BREAK v s)" "status_ok (LOCAL_SET_DECIMAL v s)"
    "status_ok (LOCAL_SET_INTERRUPT v s)" "status_ok (LOCAL_SET_ZERO v s)" "status_ok (LOCAL_SET_CARRY v s)"
  using assms by (simp_all add: status_update_defs status_ok_bits bit_simps)

lemma setters:
  assumes "status_ok s"
  shows "LOCAL_65816_STATUS (LOCAL_SET_SIGN v s) = put_bits v 0x80 (LOCAL_65816_STATUS s)"
    "LOCAL_65816_STATUS (LOCAL_SET_OVERFLOW v s) = put_bits v 0x40 (LOCAL_65816_STATUS s)"
    "LOCAL_65816_STATUS (LOCAL_SET_65816_M v s) = put_bits v 0x20 (LOCAL_65816_STATUS s)"
    "LOCAL_65816_STATUS (LOCAL_SET_65816_X v s) = put_bits v 0x10 (LOCAL_65816_STATUS s)"
    "LOCAL_65816_STATUS (LOCAL_SET_BREAK v s) = put_bits v 0x10 (LOCAL_65816_STATUS s)"
    "LOCAL_65816_STATUS (LOCAL_SET_DECIMAL v s) = put_bits v 0x08 (LOCAL_65816_STATUS s)"
    "LOCAL_65816_STATUS (LOCAL_SET_INTERRUPT v s) = put_bits v 0x04 (LOCAL_65816_STATUS s)"
    "LOCAL_65816_STATUS (LOCAL_SET_ZERO v s) = put_bits v 0x02 (LOCAL_65816_STATUS s)"
    "LOCAL_65816_STATUS (LOCAL_SET_CARRY v s) = put_bits v 0x01 (LOCAL_65816_STATUS s)"
  by (rule byte_eqI; simp add: LOCAL_65816_STATUS_def LOCAL_ZERO_def status_update_defs put_bits_def
      bit_simps assms [unfolded status_ok_bits])+

lemma status_index [simp]:
  "LOCAL_65816_STATUS (s\<lparr>reg_x := x, reg_y := y\<rparr>) = LOCAL_65816_STATUS s"
  "status_ok (s\<lparr>reg_x := x, reg_y := y\<rparr>) = status_ok s"
  by (simp_all add: LOCAL_65816_STATUS_def LOCAL_ZERO_def status_ok_def)

lemma status_INC_PC [simp]:
  "LOCAL_65816_STATUS (INC_PC n s) = LOCAL_65816_STATUS s" "status_ok (INC_PC n s) = status_ok s"
  by (simp_all add: LOCAL_65816_STATUS_def LOCAL_ZERO_def status_ok_def)

text \<open>The steps of REP and SEP: a bit that is changed if the operand has it.\<close>

definition if_bit :: "bool \<Rightarrow> (cpu \<Rightarrow> cpu) \<Rightarrow> cpu \<Rightarrow> cpu" where
  "if_bit c f s = (if c then f s else s)"

definition puts :: "(cpu \<Rightarrow> cpu) \<Rightarrow> bool \<Rightarrow> u8 \<Rightarrow> bool" where
  "puts f v m \<longleftrightarrow> (\<forall>s. status_ok s \<longrightarrow> status_ok (f s) \<and> reg_emul (f s) = reg_emul s
     \<and> LOCAL_65816_STATUS (f s) = put_bits v m (LOCAL_65816_STATUS s))"

lemma puts_if_bit: "puts f v m \<Longrightarrow> puts (if_bit c f) v (if c then m else 0)"
  by (simp add: puts_def if_bit_def put_bits_def)

lemma puts_comp:
  assumes "puts f v m" and "puts g v n"
  shows "puts (\<lambda>s. g (f s)) v (m OR n)"
proof -
  have "put_bits v n (put_bits v m p) = put_bits v (m OR n) p" for p
    by (rule bit_eqI) (auto simp: put_bits_def bit_simps)
  with assms show ?thesis by (simp add: puts_def)
qed

lemma setters_put:
  "puts (LOCAL_SET_SIGN v) v 0x80" "puts (LOCAL_SET_OVERFLOW v) v 0x40" "puts (LOCAL_SET_65816_M v) v 0x20"
  "puts (\<lambda>s. if v then (LOCAL_SET_65816_X v s)\<lparr>reg_x := reg_x (LOCAL_SET_65816_X v s) AND 0xFF,
      reg_y := reg_y (LOCAL_SET_65816_X v s) AND 0xFF\<rparr> else LOCAL_SET_65816_X v s) v 0x10"
  "puts (LOCAL_SET_DECIMAL v) v 0x08" "puts (LOCAL_SET_INTERRUPT v) v 0x04" "puts (LOCAL_SET_ZERO v) v 0x02"
  "puts (LOCAL_SET_CARRY v) v 0x01"
  by (simp_all add: puts_def setters setters_ok)

text \<open>The bits that REP and SEP change: all of the operand in native mode, all but M and X in
  emulation mode.\<close>

definition changeable :: "bool \<Rightarrow> u8" where
  "changeable emul = (if emul then 0xCF else 0xFF)"

lemma operand_bits:
  fixes x :: u32
  shows "x AND 0x01 \<noteq> 0 \<longleftrightarrow> bit x 0" "x AND 0x02 \<noteq> 0 \<longleftrightarrow> bit x (Suc 0)" "x AND 0x04 \<noteq> 0 \<longleftrightarrow> bit x 2"
    "x AND 0x08 \<noteq> 0 \<longleftrightarrow> bit x 3" "x AND 0x10 \<noteq> 0 \<longleftrightarrow> bit x 4" "x AND 0x20 \<noteq> 0 \<longleftrightarrow> bit x 5"
    "x AND 0x40 \<noteq> 0 \<longleftrightarrow> bit x 6" "x AND 0x80 \<noteq> 0 \<longleftrightarrow> bit x 7"
  using and_exp_eq_0_iff_not_bit [of x 0] and_exp_eq_0_iff_not_bit [of x "Suc 0"]
    and_exp_eq_0_iff_not_bit [of x 2] and_exp_eq_0_iff_not_bit [of x 3] and_exp_eq_0_iff_not_bit [of x 4]
    and_exp_eq_0_iff_not_bit [of x 5] and_exp_eq_0_iff_not_bit [of x 6] and_exp_eq_0_iff_not_bit [of x 7]
  by simp_all

lemma REPSEP_status:
  assumes "status_ok s" and "value = FETCH_PARAM ((reg_pc s + 1) AND 0xFFFF) s"
  shows "LOCAL_65816_STATUS (REPSEP v s) =
    put_bits v (ucast value AND changeable (reg_emul s \<noteq> 0)) (LOCAL_65816_STATUS s)"
proof -
  let ?e = "reg_emul s = 0"
  let ?b = "\<lambda>m. value AND m \<noteq> 0"
  let ?X = "\<lambda>s. if v then (LOCAL_SET_65816_X v s)\<lparr>reg_x := reg_x (LOCAL_SET_65816_X v s) AND 0xFF,
      reg_y := reg_y (LOCAL_SET_65816_X v s) AND 0xFF\<rparr> else LOCAL_SET_65816_X v s"
  let ?f = "\<lambda>s. if_bit (?b 0x01) (LOCAL_SET_CARRY v) (if_bit (?b 0x02) (LOCAL_SET_ZERO v)
    (if_bit (?b 0x04) (LOCAL_SET_INTERRUPT v) (if_bit (?b 0x08) (LOCAL_SET_DECIMAL v)
    (if_bit (?b 0x10 \<and> ?e) ?X (if_bit (?b 0x20 \<and> ?e) (LOCAL_SET_65816_M v)
    (if_bit (?b 0x40) (LOCAL_SET_OVERFLOW v) (if_bit (?b 0x80) (LOCAL_SET_SIGN v) s)))))))"
  let ?m = "\<lambda>c m. if c then m else (0 :: u8)"
  have "puts ?f v (((((((?m (?b 0x80) 0x80 OR ?m (?b 0x40) 0x40) OR ?m (?b 0x20 \<and> ?e) 0x20)
      OR ?m (?b 0x10 \<and> ?e) 0x10) OR ?m (?b 0x08) 0x08) OR ?m (?b 0x04) 0x04)
      OR ?m (?b 0x02) 0x02) OR ?m (?b 0x01) 0x01)"
    by (intro puts_comp [where f = "if_bit _ _"] puts_comp puts_if_bit setters_put)
  moreover have "((((((?m (?b 0x80) 0x80 OR ?m (?b 0x40) 0x40) OR ?m (?b 0x20 \<and> ?e) 0x20)
      OR ?m (?b 0x10 \<and> ?e) 0x10) OR ?m (?b 0x08) 0x08) OR ?m (?b 0x04) 0x04)
      OR ?m (?b 0x02) 0x02) OR ?m (?b 0x01) 0x01 = ucast value AND changeable (\<not> ?e)"
    by (rule byte_eqI; simp add: operand_bits changeable_def bit_simps)
  moreover have "LOCAL_65816_STATUS (REPSEP v s) = LOCAL_65816_STATUS (?f (INC_PC 2 s))"
    unfolding REPSEP_def if_bit_def assms(2) by (simp add: Let_def)
  ultimately show ?thesis using assms(1) by (simp add: puts_def)
qed

section \<open>The flag instructions\<close>

text \<open>The programmer's model: a status byte and the emulation flag. \<open>model\<close> is the effect of an
  instruction with operand \<open>v\<close>. XCE exchanges the carry and the emulation flag; on leaving
  the emulation mode it selects 8 bits for accumulator and index registers, on entering it
  clears the bit that is then B.\<close>

datatype flag_op = Clear u8 | Set u8 | Rep | Sep | Plp | Xce

definition model :: "flag_op \<Rightarrow> u8 \<Rightarrow> u8 \<times> bool \<Rightarrow> u8 \<times> bool" where
  "model i v = (\<lambda>(p, e). case i of
     Clear m \<Rightarrow> (put_bits False m p, e)
   | Set m \<Rightarrow> (put_bits True m p, e)
   | Rep \<Rightarrow> (put_bits False (v AND changeable e) p, e)
   | Sep \<Rightarrow> (put_bits True (v AND changeable e) p, e)
   | Plp \<Rightarrow> (v, e)
   | Xce \<Rightarrow> (let c = p AND 1 \<noteq> 0; q = put_bits e 1 p
       in (if c = e then q else if c then put_bits False 0x10 q else put_bits True 0x30 q, c)))"

text \<open>The instructions of the core that implement them, and their operands.\<close>

definition implements :: "flag_op \<Rightarrow> (cpu \<Rightarrow> cpu) \<Rightarrow> bool" where
  "implements i f \<longleftrightarrow> (i, f) \<in> {(Clear 0x01, CLC), (Set 0x01, SEC), (Clear 0x04, CLI), (Set 0x04, SEI),
     (Clear 0x08, CLD), (Set 0x08, SED), (Clear 0x40, CLV), (Rep, REP), (Sep, SEP),
     (Plp, PLP LOAD_STACK), (Xce, XCE)}"

definition flag_operand :: "flag_op \<Rightarrow> cpu \<Rightarrow> u8" where
  "flag_operand i s = (if i = Plp then ucast (fst (LOAD_STACK True s)) else ucast (opb 1 s))"

definition status_of :: "cpu \<Rightarrow> u8 \<times> bool" where
  "status_of s = (LOCAL_65816_STATUS s, reg_emul s \<noteq> 0)"

lemma status_of_REPSEP:
  assumes "status_ok s"
  shows "status_of (REPSEP v s) =
    (put_bits v (ucast (opb 1 s) AND changeable (reg_emul s \<noteq> 0)) (LOCAL_65816_STATUS s), reg_emul s \<noteq> 0)"
  using REPSEP_status [OF assms refl, of v] by (simp add: status_of_def opb_def REPSEP_def Let_def)

lemma status_byte_parts:
  fixes st :: u8
  assumes "reg_p t = st AND NOT 0x82" "flag_z t = of_bool (st AND 0x02 = 0)" "flag_n t = st"
  shows "LOCAL_65816_STATUS t = st"
  by (rule byte_eqI; simp add: LOCAL_65816_STATUS_def LOCAL_ZERO_def assms bit_simps and_bit_eq_0)

lemma status_of_PLP:
  "status_of (PLP LOAD_STACK s) = (ucast (fst (LOAD_STACK True s)), reg_emul s \<noteq> 0)"
proof -
  obtain st t where st: "LOAD_STACK True s = (ucast (st :: u8), t)" "reg_emul t = reg_emul s"
    by (simp add: LOAD_STACK_def PULL_def LOAD_LONG_def Let_def)
  have "LOCAL_65816_STATUS (LOCAL_SET_STATUS (ucast st) t) = st"
    by (rule status_byte_parts) (simp_all add: LOCAL_SET_STATUS_byte)
  with st show ?thesis by (simp add: PLP_def status_of_def Let_def)
qed

lemma wf_status_ok: "wf_cpu s \<Longrightarrow> status_ok s"
  by (simp add: wf_status status_ok_def)

lemma status_carry: "status_ok s \<Longrightarrow> LOCAL_65816_STATUS s AND 1 \<noteq> 0 \<longleftrightarrow> LOCAL_CARRY s \<noteq> 0"
  by (simp add: LOCAL_CARRY_def and_bit_eq_0 status_bits)

lemma status_emul [simp]:
  "LOCAL_65816_STATUS (s\<lparr>reg_emul := e\<rparr>) = LOCAL_65816_STATUS s" "status_ok (s\<lparr>reg_emul := e\<rparr>) = status_ok s"
  "LOCAL_65816_STATUS (s\<lparr>reg_x := x, reg_y := y, reg_sp := sp\<rparr>) = LOCAL_65816_STATUS s"
  by (simp_all add: LOCAL_65816_STATUS_def LOCAL_ZERO_def status_ok_def)

lemma put_same_bit: "put_bits (p AND 1 \<noteq> 0) 1 p = p"
  by (rule byte_eqI; simp add: put_bits_def and_bit_eq_0 bit_simps)

lemma status_of_XCE:
  assumes "wf_cpu s"
  shows "status_of (XCE s) = model Xce v (status_of s)"
proof -
  note ok = wf_status_ok [OF assms]
  have "reg_emul s \<le> 1" using assms by (simp add: wf_cpu_def mode_ok_def)
  then have e: "reg_emul s = 0 \<or> reg_emul s = 1" by (auto simp: word_le_nat_alt word_unat_eq_iff)
  have "LOCAL_CARRY s = of_bool (bit (reg_p s) 0)"
    by (rule byte_eqI; simp add: LOCAL_CARRY_def bit_simps)
  then have c: "LOCAL_CARRY s = 0 \<or> LOCAL_CARRY s = 1" by simp
  have q: "put_bits True 0x10 (put_bits True 0x20 p) = put_bits True 0x30 p" for p
    by (rule byte_eqI; simp add: put_bits_def bit_simps)
  from e c show ?thesis
    using status_carry [OF ok] put_same_bit [of "LOCAL_65816_STATUS s"] ok
    by (elim disjE; simp add: XCE_def Let_def status_of_def model_def setters setters_ok LOCAL_CARRY_def q)
qed

text \<open>The flag instructions refine the programmer's model of the status. The state that the
  core keeps in four variables, seen through \<open>LOCAL_65816_STATUS\<close> and the emulation flag,
  changes by CLC, SEC, CLI, SEI, CLD, SED, CLV, REP, SEP, PLP and XCE exactly as the status
  byte and the emulation flag of the model: the instructions touch the bits they name and no
  other, REP and SEP leave M and X alone in emulation mode, PLP loads the whole byte, and XCE
  exchanges the carry with the emulation flag.\<close>

theorem status_refinement:
  assumes "wf_cpu s" and "implements i f"
  shows "status_of (f s) = model i (flag_operand i s) (status_of s)"
proof -
  note ok = wf_status_ok [OF assms(1)]
  have "status_of (CLC s) = model (Clear 0x01) v (status_of s)" "status_of (SEC s) = model (Set 0x01) v (status_of s)"
    "status_of (CLI s) = model (Clear 0x04) v (status_of s)" "status_of (SEI s) = model (Set 0x04) v (status_of s)"
    "status_of (CLD s) = model (Clear 0x08) v (status_of s)" "status_of (SED s) = model (Set 0x08) v (status_of s)"
    "status_of (CLV s) = model (Clear 0x40) v (status_of s)" for v
    using ok by (simp_all add: status_of_def model_def setters CLC_def SEC_def CLI_def SEI_def CLD_def SED_def CLV_def)
  moreover have "status_of (REP s) = model Rep (ucast (opb 1 s)) (status_of s)"
    "status_of (SEP s) = model Sep (ucast (opb 1 s)) (status_of s)"
    unfolding REP_def SEP_def status_of_REPSEP [OF ok] by (simp_all add: model_def status_of_def)
  moreover have "status_of (PLP LOAD_STACK s) = model Plp (ucast (fst (LOAD_STACK True s))) (status_of s)"
    unfolding status_of_PLP by (simp add: model_def status_of_def)
  ultimately show ?thesis
    using assms(2) status_of_XCE [OF assms(1)] by (auto simp: implements_def flag_operand_def)
qed

theorem status_refinement_witness:
  "status_of (REP (native_cpu (\<lambda>a. 0x31))) = (put_bits False 0x31 (LOCAL_65816_STATUS (native_cpu (\<lambda>a. 0x31))), False)"
  using status_refinement [OF wf_native, of Rep REP "\<lambda>a. 0x31"]
  by (simp add: implements_def model_def status_of_def flag_operand_def changeable_def opb_def FETCH_PARAM_def)
    (simp add: native_cpu_def initial_cpu_def)

end
