(* ===== verification/Isa.thy ===== *)
theory Isa
  imports Arithmetic Status
begin

text \<open>
  The 65816 as a programmer's manual describes it: a specification to compare the emulator
  with. The state has the registers at their width, one status byte, the emulation flag and a
  memory of one megabyte; addresses are words of 16, 20 and 24 bits, so that every wrap-around
  is the arithmetic of a word and no mask is needed. An instruction is an operation with an
  addressing mode (\<open>opcode_table\<close>), the operand of a mode is a place that can be read and
  written at 8 or 16 bits, and each operation is defined once for all modes and widths.

  Two things are taken from the machine that the repository builds, not from the manual: the
  B bit is kept in the status byte (the core sets it there on BRK), and COP, WAI and STP, which
  are empty in this build, have no effect.
\<close>

section \<open>The state\<close>

type_synonym u20 = "20 word"
type_synonym u24 = "24 word"

record isa =
  rA :: u16
  rX :: u16
  rY :: u16
  rD :: u16
  rS :: u16
  rPC :: u16
  rDB :: u8
  rPB :: u8
  rP :: u8
  rE :: bool
  mem :: "u20 \<Rightarrow> u8"

text \<open>Whether the accumulator and memory, and the index registers, work on 8 bits.\<close>

definition m8 :: "isa \<Rightarrow> bool" where
  "m8 t \<longleftrightarrow> rE t \<or> bit (rP t) 5"

definition x8 :: "isa \<Rightarrow> bool" where
  "x8 t \<longleftrightarrow> rE t \<or> bit (rP t) 4"

section \<open>Memory and operand bytes\<close>

definition rd :: "u24 \<Rightarrow> isa \<Rightarrow> u8" where
  "rd a t = mem t (ucast a)"

definition wr :: "u24 \<Rightarrow> u8 \<Rightarrow> isa \<Rightarrow> isa" where
  "wr a v t = t\<lparr>mem := (mem t)(ucast a := v)\<rparr>"

text \<open>The address of a bank and an offset, the word of two bytes, and a byte of bank 0.\<close>

definition bank :: "u8 \<Rightarrow> u16 \<Rightarrow> u24" where
  "bank b a = push_bit 16 (ucast b) + ucast a"

definition pair :: "u8 \<Rightarrow> u8 \<Rightarrow> u16" where
  "pair lo hi = ucast lo + push_bit 8 (ucast hi)"

definition rd0 :: "u16 \<Rightarrow> isa \<Rightarrow> u8" where
  "rd0 a t = rd (ucast a) t"

definition wr0 :: "u16 \<Rightarrow> u8 \<Rightarrow> isa \<Rightarrow> isa" where
  "wr0 a v t = wr (ucast a) v t"

text \<open>\<open>code n t\<close>: the byte \<open>n\<close> behind the opcode; the program bank wraps.\<close>

definition code :: "u16 \<Rightarrow> isa \<Rightarrow> u8" where
  "code n t = rd (bank (rPB t) (rPC t + n)) t"

definition code16 :: "isa \<Rightarrow> u16" where
  "code16 t = pair (code 1 t) (code 2 t)"

definition advance :: "u16 \<Rightarrow> isa \<Rightarrow> isa" where
  "advance n t = t\<lparr>rPC := rPC t + n\<rparr>"

section \<open>Values of both widths\<close>

text \<open>A value is a word of 16 bits; \<open>low b\<close> cuts it to the width, \<open>merge\<close> writes it into a
  register whose high byte an 8 bit operation keeps.\<close>

definition low :: "bool \<Rightarrow> u16 \<Rightarrow> u16" where
  "low b v = (if b then v AND 0xFF else v)"

definition merge :: "bool \<Rightarrow> u16 \<Rightarrow> u16 \<Rightarrow> u16" where
  "merge b v r = (if b then (r AND 0xFF00) OR (v AND 0xFF) else v)"

definition msb_of :: "bool \<Rightarrow> u16" where
  "msb_of b = (if b then 0x80 else 0x8000)"

definition set_flag :: "bool \<Rightarrow> u8 \<Rightarrow> isa \<Rightarrow> isa" where
  "set_flag c m t = t\<lparr>rP := put_bits c m (rP t)\<rparr>"

definition set_nz :: "bool \<Rightarrow> u16 \<Rightarrow> isa \<Rightarrow> isa" where
  "set_nz b v t = set_flag (low b v = 0) 0x02 (set_flag (v AND msb_of b \<noteq> 0) 0x80 t)"

definition load_A :: "bool \<Rightarrow> u16 \<Rightarrow> isa \<Rightarrow> isa" where
  "load_A b v t = set_nz b v (t\<lparr>rA := merge b v (rA t)\<rparr>)"

section \<open>Addressing modes\<close>

datatype mode = Immediate | Accumulator | Direct | DirectX | DirectY | Ind | IndX | IndY
  | IndLong | IndLongY | Absolute | AbsX | AbsY | AbsLong | AbsLongX | StackRel | StackRelY

text \<open>Where an operand is: behind the opcode, in the accumulator, in bank 0, where the second
  byte wraps in the bank, or anywhere in the memory, where it does not.\<close>

datatype place = Operand | Accu | Bank0 u16 | Linear u24

text \<open>The address of an offset into the direct page. In emulation mode a page-aligned direct
  page wraps at its end.\<close>

definition dp :: "isa \<Rightarrow> u16 \<Rightarrow> u16" where
  "dp t off = rD t + (if rE t \<and> rD t AND 0xFF = 0 then off AND 0xFF else off)"

definition op1 :: "isa \<Rightarrow> u16" where
  "op1 t = ucast (code 1 t)"

definition dp_pointer :: "u16 \<Rightarrow> isa \<Rightarrow> u16" where
  "dp_pointer off t = pair (rd0 (dp t off) t) (rd0 (dp t (off + 1)) t)"

definition long_pointer :: "isa \<Rightarrow> u24" where
  "long_pointer t = (let a = rD t + op1 t in bank (rd0 (a + 2) t) (pair (rd0 a t) (rd0 (a + 1) t)))"

definition stack_pointer :: "isa \<Rightarrow> u16" where
  "stack_pointer t = (let a = rS t + op1 t in pair (rd0 a t) (rd0 (a + 1) t))"

fun place_of :: "mode \<Rightarrow> isa \<Rightarrow> place" where
  "place_of Immediate t = Operand"
| "place_of Accumulator t = Accu"
| "place_of Direct t = Bank0 (dp t (op1 t))"
| "place_of DirectX t = Bank0 (dp t (op1 t + rX t))"
| "place_of DirectY t = Bank0 (dp t (op1 t + rY t))"
| "place_of Ind t = Linear (bank (rDB t) (dp_pointer (op1 t) t))"
| "place_of IndX t = Linear (bank (rDB t) (dp_pointer (op1 t + rX t) t))"
| "place_of IndY t = Linear (bank (rDB t) (dp_pointer (op1 t) t) + ucast (rY t))"
| "place_of IndLong t = Linear (long_pointer t)"
| "place_of IndLongY t = Linear (long_pointer t + ucast (rY t))"
| "place_of Absolute t = Linear (bank (rDB t) (code16 t))"
| "place_of AbsX t = Linear (bank (rDB t) (code16 t) + ucast (rX t))"
| "place_of AbsY t = Linear (bank (rDB t) (code16 t) + ucast (rY t))"
| "place_of AbsLong t = Linear (bank (code 3 t) (code16 t))"
| "place_of AbsLongX t = Linear (bank (code 3 t) (code16 t) + ucast (rX t))"
| "place_of StackRel t = Bank0 (rS t + op1 t)"
| "place_of StackRelY t = Linear (bank (rDB t) (stack_pointer t) + ucast (rY t))"

text \<open>The length of an instruction with a mode.\<close>

definition len :: "mode \<Rightarrow> bool \<Rightarrow> u16" where
  "len m b = (if m = Accumulator then 1
     else if m = Immediate then if b then 2 else 3
     else if m \<in> {Absolute, AbsX, AbsY} then 3
     else if m \<in> {AbsLong, AbsLongX} then 4 else 2)"

fun fetch :: "place \<Rightarrow> bool \<Rightarrow> isa \<Rightarrow> u16" where
  "fetch Operand b t = (if b then op1 t else code16 t)"
| "fetch Accu b t = low b (rA t)"
| "fetch (Bank0 a) b t = (if b then ucast (rd0 a t) else pair (rd0 a t) (rd0 (a + 1) t))"
| "fetch (Linear a) b t = (if b then ucast (rd a t) else pair (rd a t) (rd (a + 1) t))"

fun put :: "place \<Rightarrow> bool \<Rightarrow> u16 \<Rightarrow> isa \<Rightarrow> isa" where
  "put Operand b v t = t"
| "put Accu b v t = t\<lparr>rA := merge b v (rA t)\<rparr>"
| "put (Bank0 a) b v t =
     (let t = wr0 a (ucast v) t in if b then t else wr0 (a + 1) (ucast (drop_bit 8 v)) t)"
| "put (Linear a) b v t =
     (let t = wr a (ucast v) t in if b then t else wr (a + 1) (ucast (drop_bit 8 v)) t)"

section \<open>Operations\<close>

datatype acc_op = Ora | And | Eor | Lda | Adc | Sbc | Cmp

datatype rmw_op = Asl | Rol | Lsr | Ror | Inc | Dec | Trb | Tsb

datatype index = IX | IY

datatype reg = RA | RX | RY | RD | RS | RP | RDB | RPB

text \<open>\<open>Branch m v\<close> branches if some bit of \<open>m\<close> is set, or, with \<open>v\<close> false, if none is;
  \<open>Count r True\<close> is INX or INY; \<open>Move True\<close> is MVN; \<open>Skip n\<close> has no effect and \<open>n\<close> bytes.\<close>

datatype instr = Acc acc_op mode | BitTest mode | Rmw rmw_op mode | Sta mode | Stz mode
  | Stx index mode | Ldx index mode | Cpx index mode | Count index bool
  | Transfer reg reg | Xba | Push reg | Pull reg | Pea | Pei | Per | Flag flag_op | Skip u16
  | Branch u8 bool | BranchLong | Jmp | JmpInd | JmpIndLong | JmpIndX | JmpLong
  | Jsr | JsrIndX | JsrLong | Rts | Rtl | Rti | Brk | Move bool | Unimplemented

definition carry :: "isa \<Rightarrow> nat" where
  "carry t = of_bool (bit (rP t) 0)"

text \<open>Addition and subtraction on numbers; the overflow is that of the signed numbers.\<close>

definition add :: "bool \<Rightarrow> u16 \<Rightarrow> isa \<Rightarrow> isa" where
  "add b v t =
     (let a = unat (low b (rA t)); s = a + unat v + carry t;
          signed = signed_of b a + signed_of b (unat v) + int (carry t)
      in load_A b (of_nat s) (set_flag (modulus b \<le> s) 0x01
           (set_flag (signed \<notin> {- int (modulus b div 2) ..< int (modulus b div 2)}) 0x40 t)))"

definition subtract :: "bool \<Rightarrow> u16 \<Rightarrow> isa \<Rightarrow> isa" where
  "subtract b v t =
     (let a = unat (low b (rA t)); borrow = 1 - carry t;
          signed = signed_of b a - signed_of b (unat v) - int borrow
      in load_A b (rA t - v - of_nat borrow) (set_flag (unat v + borrow \<le> a) 0x01
           (set_flag (signed \<notin> {- int (modulus b div 2) ..< int (modulus b div 2)}) 0x40 t)))"

definition compare :: "bool \<Rightarrow> u16 \<Rightarrow> u16 \<Rightarrow> isa \<Rightarrow> isa" where
  "compare b r v t = set_nz b (r - v) (set_flag (v \<le> low b r) 0x01 t)"

fun operate :: "acc_op \<Rightarrow> bool \<Rightarrow> u16 \<Rightarrow> isa \<Rightarrow> isa" where
  "operate Ora b v t = load_A b (rA t OR v) t"
| "operate And b v t = load_A b (rA t AND v) t"
| "operate Eor b v t = load_A b (rA t XOR v) t"
| "operate Lda b v t = load_A b v t"
| "operate Adc b v t = add b v t"
| "operate Sbc b v t = subtract b v t"
| "operate Cmp b v t = compare b (rA t) v t"

text \<open>The value a read-modify-write operation stores, and the flags it sets.\<close>

fun modified :: "rmw_op \<Rightarrow> bool \<Rightarrow> u16 \<Rightarrow> isa \<Rightarrow> u16" where
  "modified Asl b v t = push_bit 1 v"
| "modified Rol b v t = push_bit 1 v OR of_nat (carry t)"
| "modified Lsr b v t = drop_bit 1 v"
| "modified Ror b v t = drop_bit 1 v OR (if carry t = 1 then msb_of b else 0)"
| "modified Inc b v t = v + 1"
| "modified Dec b v t = v - 1"
| "modified Trb b v t = v AND NOT (rA t)"
| "modified Tsb b v t = v OR rA t"

definition modify_flags :: "rmw_op \<Rightarrow> bool \<Rightarrow> u16 \<Rightarrow> isa \<Rightarrow> isa" where
  "modify_flags i b v t =
     (if i \<in> {Trb, Tsb} then set_flag (low b (v AND rA t) = 0) 0x02 t
      else set_nz b (modified i b v t)
        (if i \<in> {Asl, Rol} then set_flag (v AND msb_of b \<noteq> 0) 0x01 t
         else if i \<in> {Lsr, Ror} then set_flag (odd v) 0x01 t else t))"

fun index_value :: "index \<Rightarrow> isa \<Rightarrow> u16" where
  "index_value IX t = rX t"
| "index_value IY t = rY t"

fun set_index :: "index \<Rightarrow> u16 \<Rightarrow> isa \<Rightarrow> isa" where
  "set_index IX v t = set_nz (x8 t) v (t\<lparr>rX := low (x8 t) v\<rparr>)"
| "set_index IY v t = set_nz (x8 t) v (t\<lparr>rY := low (x8 t) v\<rparr>)"

text \<open>The rules between modes and registers: in emulation mode the stack is page one, and
  8 bit index registers have no high byte.\<close>

definition page1 :: "isa \<Rightarrow> isa" where
  "page1 t = (if rE t then t\<lparr>rS := 0x100 OR (rS t AND 0xFF)\<rparr> else t)"

definition limit_index :: "isa \<Rightarrow> isa" where
  "limit_index t = t\<lparr>rX := low (x8 t) (rX t), rY := low (x8 t) (rY t)\<rparr>"

text \<open>The stack. \<open>stack v\<close> and \<open>unstack\<close> move the pointer over all of bank 0; the instructions
  of the 6502 wrap it in page one after every byte, those of the 65816 after the last.\<close>

definition stack :: "u8 \<Rightarrow> isa \<Rightarrow> isa" where
  "stack v t = (wr0 (rS t) v t)\<lparr>rS := rS t - 1\<rparr>"

definition unstack :: "isa \<Rightarrow> isa" where
  "unstack t = t\<lparr>rS := rS t + 1\<rparr>"

definition stack_top :: "isa \<Rightarrow> u8" where
  "stack_top t = rd0 (rS t) t"

definition push8 :: "u8 \<Rightarrow> isa \<Rightarrow> isa" where
  "push8 v t = page1 (stack v t)"

definition push16 :: "u16 \<Rightarrow> isa \<Rightarrow> isa" where
  "push16 v t = push8 (ucast v) (push8 (ucast (drop_bit 8 v)) t)"

definition push16_new :: "u16 \<Rightarrow> isa \<Rightarrow> isa" where
  "push16_new v t = page1 (stack (ucast v) (stack (ucast (drop_bit 8 v)) t))"

definition pull8 :: "isa \<Rightarrow> u8 \<times> isa" where
  "pull8 t = (let t = page1 (unstack t) in (stack_top t, t))"

definition pull16 :: "isa \<Rightarrow> u16 \<times> isa" where
  "pull16 t = (let (lo, t) = pull8 t; (hi, t) = pull8 t in (pair lo hi, t))"

definition pull16_new :: "isa \<Rightarrow> u16 \<times> isa" where
  "pull16_new t = (let t1 = unstack t; t2 = unstack t1 in (pair (stack_top t1) (stack_top t2), t2))"

text \<open>The width at which a register is pushed and pulled, what is pushed for it, and what
  pulling it does.\<close>

fun reg8 :: "reg \<Rightarrow> isa \<Rightarrow> bool" where
  "reg8 RA t = m8 t" | "reg8 RX t = x8 t" | "reg8 RY t = x8 t"
| "reg8 RD t = False" | "reg8 RS t = False" | "reg8 RP t = True" | "reg8 RDB t = True" | "reg8 RPB t = True"

fun reg_value :: "reg \<Rightarrow> isa \<Rightarrow> u16" where
  "reg_value RA t = rA t" | "reg_value RX t = rX t" | "reg_value RY t = rY t"
| "reg_value RD t = rD t" | "reg_value RS t = rS t" | "reg_value RP t = ucast (rP t OR (if rE t then 0x30 else 0))"
| "reg_value RDB t = ucast (rDB t)" | "reg_value RPB t = ucast (rPB t)"

fun set_reg :: "reg \<Rightarrow> bool \<Rightarrow> u16 \<Rightarrow> isa \<Rightarrow> isa" where
  "set_reg RA b v t = load_A b v t"
| "set_reg RX b v t = set_index IX v t"
| "set_reg RY b v t = set_index IY v t"
| "set_reg RD b v t = set_nz False v (t\<lparr>rD := v\<rparr>)"
| "set_reg RS b v t = page1 (t\<lparr>rS := v\<rparr>)"
| "set_reg RP b v t = limit_index (t\<lparr>rP := ucast v\<rparr>)"
| "set_reg RDB b v t = set_nz True v (t\<lparr>rDB := ucast v\<rparr>)"
| "set_reg RPB b v t = t\<lparr>rPB := ucast v\<rparr>"

section \<open>Execution\<close>

definition block_move :: "bool \<Rightarrow> isa \<Rightarrow> isa" where
  "block_move up t =
     (let dst = code 1 t; src = code 2 t; step = (if up then 1 else - 1);
          t' = wr (bank dst (rY t)) (rd (bank src (rX t)) t) t
      in limit_index (t'\<lparr>rDB := dst, rX := rX t + step, rY := rY t + step, rA := rA t - 1,
           rPC := (if rA t = 0 then rPC t + 3 else rPC t)\<rparr>))"

text \<open>The entry of an interrupt, with the B flag and the vectors of the two modes. In emulation
  mode the program bank is not saved.\<close>

definition enter :: "bool \<Rightarrow> u16 \<Rightarrow> u16 \<Rightarrow> isa \<Rightarrow> isa" where
  "enter b ve vn t =
     (let t = (if rE t then set_flag b 0x10 t else push8 (rPB t) t);
          t = push16 (rPC t) t;
          t = push8 (rP t OR (if rE t then 0x20 else 0)) t;
          t = set_flag True 0x04 (set_flag False 0x08 t);
          v = (if rE t then ve else vn)
      in t\<lparr>rPC := pair (rd0 v t) (rd0 (v + 1) t), rPB := 0\<rparr>)"

fun jump :: "instr \<Rightarrow> isa \<Rightarrow> isa" where
  "jump Jmp t = t\<lparr>rPC := code16 t\<rparr>"
| "jump JmpInd t = t\<lparr>rPC := pair (rd0 (code16 t) t) (rd0 (code16 t + 1) t)\<rparr>"
| "jump JmpIndLong t = t\<lparr>rPC := pair (rd0 (code16 t) t) (rd0 (code16 t + 1) t), rPB := rd0 (code16 t + 2) t\<rparr>"
| "jump JmpIndX t = (let a = code16 t + rX t
     in t\<lparr>rPC := pair (rd (bank (rPB t) a) t) (rd (bank (rPB t) (a + 1)) t)\<rparr>)"
| "jump JmpLong t = t\<lparr>rPC := code16 t, rPB := code 3 t\<rparr>"
| "jump Jsr t = (push16 (rPC t + 2) t)\<lparr>rPC := code16 t\<rparr>"
| "jump JsrIndX t =
     (let u = push16_new (rPC t + 2) t;
          a = pair (code 1 t) (code 2 u) + rX t
      in u\<lparr>rPC := pair (rd (bank (rPB u) a) u) (rd (bank (rPB u) (a + 1)) u)\<rparr>)"
| "jump JsrLong t =
     (let u = stack (rPB t) t
      in (push16_new (rPC t + 3) u)\<lparr>rPC := code16 t, rPB := code 3 u\<rparr>)"
| "jump Rts t = (let (a, t) = pull16 t in t\<lparr>rPC := a + 1\<rparr>)"
| "jump Rtl t = (let (a, t) = pull16_new t; t = unstack t; b = stack_top t in page1 (t\<lparr>rPC := a + 1, rPB := b\<rparr>))"
| "jump Rti t =
     (let (p, t) = pull8 t; t = limit_index (t\<lparr>rP := p\<rparr>); (a, t) = pull16 t; t = t\<lparr>rPC := a\<rparr>
      in if rE t then t else (let (b, t) = pull8 t in t\<lparr>rPB := b\<rparr>))"
| "jump _ t = t"

fun exec :: "instr \<Rightarrow> isa \<Rightarrow> isa" where
  "exec (Acc i m) t = advance (len m (m8 t)) (operate i (m8 t) (fetch (place_of m t) (m8 t) t) t)"
| "exec (BitTest m) t =
     (let b = m8 t; v = fetch (place_of m t) b t;
          t' = (if m = Immediate then t
            else set_flag (v AND drop_bit 1 (msb_of b) \<noteq> 0) 0x40 (set_flag (v AND msb_of b \<noteq> 0) 0x80 t))
      in advance (len m b) (set_flag (low b (v AND rA t) = 0) 0x02 t'))"
| "exec (Rmw i m) t =
     (let b = m8 t; p = place_of m t; v = fetch p b t
      in advance (len m b) (put p b (modified i b v t) (modify_flags i b v t)))"
| "exec (Sta m) t = advance (len m (m8 t)) (put (place_of m t) (m8 t) (rA t) t)"
| "exec (Stz m) t = advance (len m (m8 t)) (put (place_of m t) (m8 t) 0 t)"
| "exec (Stx r m) t = advance (len m (x8 t)) (put (place_of m t) (x8 t) (index_value r t) t)"
| "exec (Ldx r m) t = advance (len m (x8 t)) (set_index r (fetch (place_of m t) (x8 t) t) t)"
| "exec (Cpx r m) t = advance (len m (x8 t)) (compare (x8 t) (index_value r t) (fetch (place_of m t) (x8 t) t) t)"
| "exec (Count r up) t = advance 1 (set_index r (if up then index_value r t + 1 else index_value r t - 1) t)"
| "exec (Transfer q r) t = advance 1 (set_reg r (q \<in> {RX, RY} \<and> m8 t) (reg_value q t) t)"
| "exec Xba t = advance 1 (t\<lparr>rA := push_bit 8 (rA t) OR drop_bit 8 (rA t)\<rparr>)"
| "exec (Push r) t =
     (let v = reg_value r t; t = advance 1 t
      in if reg8 r t then push8 (ucast v) t else if r = RD then push16_new v t else push16 v t)"
| "exec (Pull r) t =
     (let t = advance 1 t
      in if reg8 r t then (let (v, t) = pull8 t in set_reg r True (ucast v) t)
         else (let (v, t) = (if r = RD then map_prod id page1 (pull16_new t) else pull16 t) in set_reg r False v t))"
| "exec Pea t = push16_new (code16 t) (advance 3 t)"
| "exec Pei t = (let a = rD t + op1 t in push16_new (pair (rd0 a t) (rd0 (a + 1) t)) (advance 2 t))"
| "exec Per t = push16_new (rPC t + 3 + code16 t) (advance 3 t)"
| "exec (Flag i) t =
     (let (p, e) = model i (code 1 t) (rP t, rE t)
      in limit_index (page1 ((advance (if i \<in> {Rep, Sep} then 2 else 1) t)\<lparr>rP := p, rE := e\<rparr>)))"
| "exec (Skip n) t = advance n t"
| "exec (Branch m v) t =
     advance (if (rP t AND m \<noteq> 0) = v then 2 + scast (code 1 t) else 2) t"
| "exec BranchLong t = advance (3 + code16 t) t"
| "exec (Move up) t = block_move up t"
| "exec Brk t = enter True 0xFFFE 0xFFE6 (advance 2 t)"
| "exec Unimplemented t = t"
| "exec i t = jump i t"

section \<open>The instruction set\<close>

definition opcode_table :: "instr list" where
  "opcode_table =
   [
    Brk, Acc Ora IndX, Unimplemented, Acc Ora StackRel, Rmw Tsb Direct, Acc Ora Direct,
    Rmw Asl Direct, Acc Ora IndLong, Push RP, Acc Ora Immediate, Rmw Asl Accumulator, Push RD,
    Rmw Tsb Absolute, Acc Ora Absolute, Rmw Asl Absolute, Acc Ora AbsLong,
    Branch 0x80 False, Acc Ora IndY, Acc Ora Ind, Acc Ora StackRelY, Rmw Trb Direct,
    Acc Ora DirectX, Rmw Asl DirectX, Acc Ora IndLongY, Flag (Clear 0x01), Acc Ora AbsY,
    Rmw Inc Accumulator, Transfer RA RS, Rmw Trb Absolute, Acc Ora AbsX, Rmw Asl AbsX,
    Acc Ora AbsLongX,
    Jsr, Acc And IndX, JsrLong, Acc And StackRel, BitTest Direct, Acc And Direct, Rmw Rol Direct,
    Acc And IndLong, Pull RP, Acc And Immediate, Rmw Rol Accumulator, Pull RD, BitTest Absolute,
    Acc And Absolute, Rmw Rol Absolute, Acc And AbsLong,
    Branch 0x80 True, Acc And IndY, Acc And Ind, Acc And StackRelY, BitTest DirectX,
    Acc And DirectX, Rmw Rol DirectX, Acc And IndLongY, Flag (Set 0x01), Acc And AbsY,
    Rmw Dec Accumulator, Transfer RS RA, BitTest AbsX, Acc And AbsX, Rmw Rol AbsX,
    Acc And AbsLongX,
    Rti, Acc Eor IndX, Skip 2, Acc Eor StackRel, Move False, Acc Eor Direct, Rmw Lsr Direct,
    Acc Eor IndLong, Push RA, Acc Eor Immediate, Rmw Lsr Accumulator, Push RPB, Jmp,
    Acc Eor Absolute, Rmw Lsr Absolute, Acc Eor AbsLong,
    Branch 0x40 False, Acc Eor IndY, Acc Eor Ind, Acc Eor StackRelY, Move True, Acc Eor DirectX,
    Rmw Lsr DirectX, Acc Eor IndLongY, Flag (Clear 0x04), Acc Eor AbsY, Push RY, Transfer RA RD,
    JmpLong, Acc Eor AbsX, Rmw Lsr AbsX, Acc Eor AbsLongX,
    Rts, Acc Adc IndX, Per, Acc Adc StackRel, Stz Direct, Acc Adc Direct, Rmw Ror Direct,
    Acc Adc IndLong, Pull RA, Acc Adc Immediate, Rmw Ror Accumulator, Rtl, JmpInd,
    Acc Adc Absolute, Rmw Ror Absolute, Acc Adc AbsLong,
    Branch 0x40 True, Acc Adc IndY, Acc Adc Ind, Acc Adc StackRelY, Stz DirectX, Acc Adc DirectX,
    Rmw Ror DirectX, Acc Adc IndLongY, Flag (Set 0x04), Acc Adc AbsY, Pull RY, Transfer RD RA,
    JmpIndX, Acc Adc AbsX, Rmw Ror AbsX, Acc Adc AbsLongX,
    Branch 0 False, Sta IndX, BranchLong, Sta StackRel, Stx IY Direct, Sta Direct, Stx IX Direct,
    Sta IndLong, Count IY False, BitTest Immediate, Transfer RX RA, Push RDB, Stx IY Absolute,
    Sta Absolute, Stx IX Absolute, Sta AbsLong,
    Branch 0x01 False, Sta IndY, Sta Ind, Sta StackRelY, Stx IY DirectX, Sta DirectX,
    Stx IX DirectY, Sta IndLongY, Transfer RY RA, Sta AbsY, Transfer RX RS, Transfer RX RY,
    Stz Absolute, Sta AbsX, Stz AbsX, Sta AbsLongX,
    Ldx IY Immediate, Acc Lda IndX, Ldx IX Immediate, Acc Lda StackRel, Ldx IY Direct,
    Acc Lda Direct, Ldx IX Direct, Acc Lda IndLong, Transfer RA RY, Acc Lda Immediate,
    Transfer RA RX, Pull RDB, Ldx IY Absolute, Acc Lda Absolute, Ldx IX Absolute, Acc Lda AbsLong,
    Branch 0x01 True, Acc Lda IndY, Acc Lda Ind, Acc Lda StackRelY, Ldx IY DirectX,
    Acc Lda DirectX, Ldx IX DirectY, Acc Lda IndLongY, Flag (Clear 0x40), Acc Lda AbsY,
    Transfer RS RX, Transfer RY RX, Ldx IY AbsX, Acc Lda AbsX, Ldx IX AbsY, Acc Lda AbsLongX,
    Cpx IY Immediate, Acc Cmp IndX, Flag Rep, Acc Cmp StackRel, Cpx IY Direct, Acc Cmp Direct,
    Rmw Dec Direct, Acc Cmp IndLong, Count IY True, Acc Cmp Immediate, Count IX False,
    Unimplemented, Cpx IY Absolute, Acc Cmp Absolute, Rmw Dec Absolute, Acc Cmp AbsLong,
    Branch 0x02 False, Acc Cmp IndY, Acc Cmp Ind, Acc Cmp StackRelY, Pei, Acc Cmp DirectX,
    Rmw Dec DirectX, Acc Cmp IndLongY, Flag (Clear 0x08), Acc Cmp AbsY, Push RX, Unimplemented,
    JmpIndLong, Acc Cmp AbsX, Rmw Dec AbsX, Acc Cmp AbsLongX,
    Cpx IX Immediate, Acc Sbc IndX, Flag Sep, Acc Sbc StackRel, Cpx IX Direct, Acc Sbc Direct,
    Rmw Inc Direct, Acc Sbc IndLong, Count IX True, Acc Sbc Immediate, Skip 1, Xba,
    Cpx IX Absolute, Acc Sbc Absolute, Rmw Inc Absolute, Acc Sbc AbsLong,
    Branch 0x02 True, Acc Sbc IndY, Acc Sbc Ind, Acc Sbc StackRelY, Pea, Acc Sbc DirectX,
    Rmw Inc DirectX, Acc Sbc IndLongY, Flag (Set 0x08), Acc Sbc AbsY, Pull RX, Flag Xce, JsrIndX,
    Acc Sbc AbsX, Rmw Inc AbsX, Acc Sbc AbsLongX]"

definition current :: "isa \<Rightarrow> instr" where
  "current t = opcode_table ! unat (code 0 t)"

definition isa_step :: "isa \<Rightarrow> isa" where
  "isa_step t = exec (current t) t"

text \<open>The cases that the specification leaves open: ADC and SBC in decimal mode, and block
  moves whose operands are not all in front of the end of the bank.\<close>

definition settled :: "instr \<Rightarrow> isa \<Rightarrow> bool" where
  "settled i t = (case i of
     Acc j m \<Rightarrow> j \<in> {Adc, Sbc} \<longrightarrow> \<not> bit (rP t) 3
   | Move up \<Rightarrow> rPC t \<le> 0xFFFD
   | _ \<Rightarrow> True)"

definition specified :: "isa \<Rightarrow> bool" where
  "specified t = settled (current t) t"

end
