(* ===== verification/Isa_Abs.thy ===== *)
theory Isa_Abs
  imports Isa
begin

text \<open>
  The abstraction from the emulator's processor to the specified one, and what it does to the
  primitive macros: every update of the core's variables is an update of the abstract state.
  The equations are oriented from the code to the specification, so that an instruction is
  compared by rewriting.
\<close>

definition abs_cpu :: "cpu \<Rightarrow> isa" where
  "abs_cpu s = \<lparr>rA = reg_c s, rX = reg_x s, rY = reg_y s, rD = reg_dpr s, rS = reg_sp s,
     rPC = ucast (reg_pc s), rDB = reg_dbr s, rPB = reg_pbr s, rP = LOCAL_65816_STATUS s,
     rE = (reg_emul s \<noteq> 0), mem = (\<lambda>a. ramMemory s (ucast a))\<rparr>"

section \<open>Truncation is a homomorphism\<close>

lemma unat_ucast_wide:
  "unat (ucast (x :: u32) :: u24) = unat x mod 16777216" "unat (ucast (x :: u32) :: u20) = unat x mod 1048576"
  "unat (ucast (a :: u24) :: u20) = unat a mod 1048576" "unat (ucast (b :: u8) :: u24) = unat b"
  "unat (ucast (v :: u16) :: u24) = unat v" "unat (ucast (c :: u20) :: u32) = unat c"
  using u8_bound [of b] u16_bound [of v] unsigned_less [of c, where ?'a = nat]
  by (simp_all add: unsigned_ucast_eq take_bit_eq_mod)

lemma ucast_plus:
  fixes x y :: u32
  shows "(ucast (x + y) :: u16) = ucast x + ucast y" "(ucast (x + y) :: u24) = ucast x + ucast y"
    "(ucast (x + y) :: u8) = ucast x + ucast y"
  by (simp_all add: word_unat_eq_iff unat_ucast_wide unat_ucast_down unat_word_ariths mod_simps mod_mod_cancel)

lemma ucast_and:
  fixes x :: u32
  shows "(ucast (x AND 0xFFFF) :: u16) = ucast x" "(ucast (x AND 0xFFFFFF) :: u24) = ucast x"
    "(ucast (x AND 0xFFFF) :: u24) = ucast (ucast x :: u16)" "(ucast (x AND 0xFF) :: u16) = ucast x AND 0xFF"
  by (rule bit_eqI; auto simp: mask_numerals bit_simps)+

lemma ucast_ucast_down [simp]:
  "(ucast (ucast (b :: u8) :: u32) :: u16) = ucast b" "(ucast (ucast (b :: u8) :: u32) :: u24) = ucast b"
  "(ucast (ucast (v :: u16) :: u32) :: u24) = ucast v" "(ucast (ucast (v :: u16) :: u32) :: u8) = ucast v"
  "(ucast (ucast (b :: u8) :: u16) :: u24) = ucast b" "(ucast (ucast (x :: u32) :: u24) :: u20) = ucast x"
  "(ucast (ucast (x :: u32) :: u16) :: u8) = ucast x"
  using u8_bound [of b] u16_bound [of v]
  by (simp_all add: word_unat_eq_iff unat_ucast_wide unat_ucast_down mod_mod_cancel)

lemma ucast_push:
  fixes x :: u32
  shows "(ucast (push_bit n x) :: u16) = push_bit n (ucast x)" "(ucast (push_bit n x) :: u24) = push_bit n (ucast x)"
  by (rule bit_eqI; auto simp: bit_simps)+

lemma ucast_high:
  fixes x :: u32
  shows "(ucast (drop_bit 8 (ucast x :: u16)) :: u8) = ucast (drop_bit 8 x)"
  by (rule bit_eqI) (auto simp: bit_simps)

lemma ucast_pair: "(ucast (pair lo hi) :: u24) = ucast lo + push_bit 8 (ucast hi)"
  "(ucast (pair lo hi) :: u32) = ucast lo + push_bit 8 (ucast hi)"
proof -
  have "unat lo < 256" "unat hi < 256" by (rule u8_bound)+
  then show "(ucast (pair lo hi) :: u24) = ucast lo + push_bit 8 (ucast hi)"
    "(ucast (pair lo hi) :: u32) = ucast lo + push_bit 8 (ucast hi)"
    by (simp_all add: word_unat_eq_iff unat_ucast_wide unat_word_ariths pair_def push_bit_eq_mult)
qed

lemma pair_le: "(ucast lo + push_bit 8 (ucast hi) :: u32) = ucast (pair lo hi)" for lo hi :: u8
  by (simp add: ucast_pair)

section \<open>Registers\<close>

lemma abs_select [simp]:
  "rA (abs_cpu s) = reg_c s" "rX (abs_cpu s) = reg_x s" "rY (abs_cpu s) = reg_y s" "rD (abs_cpu s) = reg_dpr s"
  "rS (abs_cpu s) = reg_sp s" "rPC (abs_cpu s) = ucast (reg_pc s)" "rDB (abs_cpu s) = reg_dbr s"
  "rPB (abs_cpu s) = reg_pbr s" "rP (abs_cpu s) = LOCAL_65816_STATUS s" "rE (abs_cpu s) \<longleftrightarrow> reg_emul s \<noteq> 0"
  by (simp_all add: abs_cpu_def)

lemma abs_update [simp]:
  "abs_cpu (reg_c_update f s) = (abs_cpu s)\<lparr>rA := f (reg_c s)\<rparr>"
  "abs_cpu (reg_x_update f s) = (abs_cpu s)\<lparr>rX := f (reg_x s)\<rparr>"
  "abs_cpu (reg_y_update f s) = (abs_cpu s)\<lparr>rY := f (reg_y s)\<rparr>"
  "abs_cpu (reg_dpr_update f s) = (abs_cpu s)\<lparr>rD := f (reg_dpr s)\<rparr>"
  "abs_cpu (reg_sp_update f s) = (abs_cpu s)\<lparr>rS := f (reg_sp s)\<rparr>"
  "abs_cpu (reg_pc_update g s) = (abs_cpu s)\<lparr>rPC := ucast (g (reg_pc s))\<rparr>"
  "abs_cpu (reg_dbr_update h s) = (abs_cpu s)\<lparr>rDB := h (reg_dbr s)\<rparr>"
  "abs_cpu (reg_pbr_update h s) = (abs_cpu s)\<lparr>rPB := h (reg_pbr s)\<rparr>"
  "abs_cpu (reg_emul_update h s) = (abs_cpu s)\<lparr>rE := h (reg_emul s) \<noteq> 0\<rparr>"
  "abs_cpu (last_opcode_addr_update g s) = abs_cpu s"
  "abs_cpu (exported_update k s) = abs_cpu s"
  by (simp_all add: abs_cpu_def LOCAL_65816_STATUS_def LOCAL_ZERO_def)

lemma abs_INC_PC [simp]: "abs_cpu (INC_PC n s) = (abs_cpu s)\<lparr>rPC := ucast (reg_pc s) + ucast n\<rparr>"
  by (simp add: INC_PC_def ucast_and ucast_plus)

lemma abs_EXPORT [simp]: "abs_cpu (EXPORT_REGISTERS s) = abs_cpu s"
  by (simp add: EXPORT_REGISTERS_def)

lemma abs_set_a [simp]:
  "abs_cpu (set_reg_a v s) = (abs_cpu s)\<lparr>rA := merge True (ucast v) (reg_c s)\<rparr>"
proof -
  have "(ucast v :: u16) AND 0xFF = ucast v"
    by (rule bit_eqI) (auto simp: mask_numerals bit_simps dest: bit_imp_le_length)
  then show ?thesis by (simp add: set_reg_a_def merge_def)
qed

section \<open>Memory\<close>

lemma ram_index: "(ucast (ucast a :: u20) :: u32) = a AND RAMMASK"
  by (rule bit_eqI) (auto simp: mask_numerals bit_simps)

lemma LOAD_LONG_abs: "LOAD_LONG a s = ucast (rd (ucast a) (abs_cpu s))"
  by (simp add: LOAD_LONG_def rd_def abs_cpu_def ram_index)

lemma ram_index_eq: "ucast c = a AND RAMMASK \<longleftrightarrow> c = (ucast a :: u20)"
  using ram_index [of a] by (metis unat_ucast_wide(6) word_unat_eq_iff)

lemma abs_STORE_LONG [simp]: "abs_cpu (STORE_LONG a v s) = wr (ucast a) (ucast v) (abs_cpu s)"
proof -
  have "(\<lambda>c :: u20. ((ramMemory s)(a AND RAMMASK := ucast v)) (ucast c)) = (\<lambda>c. ramMemory s (ucast c))(ucast a := ucast v)"
    by (rule ext) (simp only: fun_upd_apply ram_index_eq)
  then show ?thesis
    by (simp add: abs_cpu_def STORE_LONG_def wr_def LOCAL_65816_STATUS_def LOCAL_ZERO_def)
qed

lemma FETCH_PARAM_abs:
  assumes "a \<le> 0xFFFF"
  shows "FETCH_PARAM a s = ucast (rd (bank (reg_pbr s) (ucast a)) (abs_cpu s))"
proof -
  have "a OR CPU65816GetBank s = a + push_bit 16 (ucast (reg_pbr s))"
    using assms by (simp add: CPU65816GetBank_def or_push16)
  moreover have "(ucast a :: u24) = ucast (ucast a :: u16)"
    using ucast_and(3) [of a] and_mask_id(1) [OF assms] by simp
  ultimately have "(ucast (a OR CPU65816GetBank s) :: u24) = bank (reg_pbr s) (ucast a)"
    by (simp add: ucast_plus ucast_push bank_def add.commute)
  then show ?thesis
    using LOAD_LONG_abs [of "a OR CPU65816GetBank s" s] by (simp add: LOAD_LONG_def FETCH_PARAM_def)
qed

lemma opb_abs: "opb n s = ucast (code (ucast n) (abs_cpu s))"
  by (simp add: opb_def FETCH_PARAM_abs code_def ucast_and ucast_plus)

section \<open>Status\<close>

lemma m8_abs: "status_ok s \<Longrightarrow> m8 (abs_cpu s) = LOCAL_65816_M s"
  and x8_abs: "status_ok s \<Longrightarrow> x8 (abs_cpu s) = LOCAL_65816_X s"
  by (simp_all add: m8_def x8_def status_bits LOCAL_65816_M_def LOCAL_65816_X_def and_bit_eq_0)

lemma abs_flags [simp]:
  assumes "status_ok s"
  shows "abs_cpu (LOCAL_SET_SIGN v s) = set_flag v 0x80 (abs_cpu s)"
    "abs_cpu (LOCAL_SET_OVERFLOW v s) = set_flag v 0x40 (abs_cpu s)"
    "abs_cpu (LOCAL_SET_65816_M v s) = set_flag v 0x20 (abs_cpu s)"
    "abs_cpu (LOCAL_SET_65816_X v s) = set_flag v 0x10 (abs_cpu s)"
    "abs_cpu (LOCAL_SET_BREAK v s) = set_flag v 0x10 (abs_cpu s)"
    "abs_cpu (LOCAL_SET_DECIMAL v s) = set_flag v 0x08 (abs_cpu s)"
    "abs_cpu (LOCAL_SET_INTERRUPT v s) = set_flag v 0x04 (abs_cpu s)"
    "abs_cpu (LOCAL_SET_ZERO v s) = set_flag v 0x02 (abs_cpu s)"
    "abs_cpu (LOCAL_SET_CARRY v s) = set_flag v 0x01 (abs_cpu s)"
  by (simp_all add: abs_cpu_def set_flag_def setters [OF assms])

lemma status_ok_frame [simp]:
  "status_ok (reg_c_update f s) = status_ok s" "status_ok (reg_x_update f s) = status_ok s"
  "status_ok (reg_y_update f s) = status_ok s" "status_ok (reg_dpr_update f s) = status_ok s"
  "status_ok (reg_sp_update f s) = status_ok s" "status_ok (reg_pc_update g s) = status_ok s"
  "status_ok (reg_dbr_update h s) = status_ok s" "status_ok (reg_pbr_update h s) = status_ok s"
  "status_ok (reg_emul_update h s) = status_ok s" "status_ok (last_opcode_addr_update g s) = status_ok s"
  "status_ok (STORE_LONG a v s) = status_ok s" "status_ok (set_reg_a b s) = status_ok s"
  "status_ok (set_reg_b b s) = status_ok s" "status_ok (LOCAL_SET_NZ v c s) = status_ok s"
  "status_ok (LOCAL_SET_SIGN c s) = status_ok s" "status_ok (LOCAL_SET_ZERO c s) = status_ok s"
  "status_ok (PUSH v s) = status_ok s" "status_ok (snd (PULL s)) = status_ok s"
  "status_ok (EXPORT_REGISTERS s) = status_ok s" "status_ok (LOAD_INT_ADDR v s) = status_ok s"
  by (simp_all add: status_ok_def)

declare setters_ok [simp]

lemma unat_low: "unat (low b (ucast (v :: u32))) = unat v mod modulus b"
  by (simp add: low_def unat_and_ff16 unat_ucast_down modulus_def width_def mod_mod_cancel)

lemma and_msb: "(v :: u16) AND msb_of b \<noteq> 0 \<longleftrightarrow> bit v (if b then 7 else 15)"
  using and_exp_eq_0_iff_not_bit [of v 7] and_exp_eq_0_iff_not_bit [of v 15] by (simp add: msb_of_def)

lemma abs_SET_NZ [simp]:
  assumes "status_ok s"
  shows "abs_cpu (LOCAL_SET_NZ v b s) = set_nz b (ucast v) (abs_cpu s)"
proof -
  let ?t = "LOCAL_SET_NZ v b s"
  have "flag_z ?t = 0 \<longleftrightarrow> unat v mod modulus b = 0"
    using SET_NZ_flags [of b v s] by (simp add: flags_show_def LOCAL_ZERO_def)
  then have z: "flag_z ?t = 0 \<longleftrightarrow> low b (ucast v) = 0"
    by (simp add: word_unat_eq_iff unat_low)
  have n: "bit (flag_n ?t) 7 \<longleftrightarrow> ucast v AND msb_of b \<noteq> 0"
    unfolding and_msb by (simp add: LOCAL_SET_NZ_def Let_def bit_simps)
  have "LOCAL_65816_STATUS ?t = put_bits (low b (ucast v) = 0) 0x02
      (put_bits (ucast v AND msb_of b \<noteq> 0) 0x80 (LOCAL_65816_STATUS s))"
    using assms unfolding z [symmetric] n [symmetric]
    by (intro byte_eqI) (simp_all add: status_bits put_bits_def bit_simps)
  then show ?thesis by (simp add: abs_cpu_def set_nz_def set_flag_def)
qed

lemma carry_abs:
  assumes "status_ok s"
  shows "carry (abs_cpu s) = carry_in s" "ucast (LOCAL_CARRY s) = (of_nat (carry_in s) :: u32)"
    "LOCAL_CARRY s \<noteq> 0 \<longleftrightarrow> carry_in s = 1" "carry_in s \<le> 1"
proof -
  have "LOCAL_CARRY s = of_bool (bit (reg_p s) 0)"
    by (rule byte_eqI; simp add: LOCAL_CARRY_def bit_simps)
  then show "carry (abs_cpu s) = carry_in s" "ucast (LOCAL_CARRY s) = (of_nat (carry_in s) :: u32)"
    "LOCAL_CARRY s \<noteq> 0 \<longleftrightarrow> carry_in s = 1" "carry_in s \<le> 1"
    using assms by (simp_all add: carry_def carry_in_def status_bits)
qed

lemma abs_SET_STATUS: "abs_cpu (LOCAL_SET_STATUS (ucast p) s) = (abs_cpu s)\<lparr>rP := p\<rparr>"
proof -
  have "LOCAL_65816_STATUS (LOCAL_SET_STATUS (ucast p) s) = p"
    by (rule status_byte_parts) (simp_all add: LOCAL_SET_STATUS_byte)
  then show ?thesis by (simp add: abs_cpu_def)
qed

section \<open>The stack\<close>

lemmas stack_simps = stack_def unstack_def stack_top_def page1_def wr0_def rd0_def wr_def rd_def

lemma wr_frame [simp]:
  "rA (wr a v t) = rA t" "rX (wr a v t) = rX t" "rY (wr a v t) = rY t" "rD (wr a v t) = rD t"
  "rS (wr a v t) = rS t" "rPC (wr a v t) = rPC t" "rDB (wr a v t) = rDB t" "rPB (wr a v t) = rPB t"
  "rP (wr a v t) = rP t" "rE (wr a v t) = rE t"
  by (simp_all add: wr_def)

lemma abs_PUSH [simp]: "abs_cpu (PUSH v s) = push8 (ucast v) (abs_cpu s)"
  by (simp add: PUSH_def Let_def push8_def stack_def page1_def wr0_def)

lemma abs_PUSH_nowrap [simp]: "abs_cpu (PUSH_nowrap v s) = stack (ucast v) (abs_cpu s)"
  by (simp add: PUSH_nowrap_def Let_def stack_def wr0_def)

lemma PULL_abs:
  "fst (PULL s) = ucast (fst (pull8 (abs_cpu s)))" "abs_cpu (snd (PULL s)) = snd (pull8 (abs_cpu s))"
  by (simp_all add: PULL_def Let_def pull8_def LOAD_LONG_abs stack_simps)

lemma PULL_nowrap_abs:
  "fst (PULL_nowrap s) = ucast (stack_top (unstack (abs_cpu s)))"
  "abs_cpu (snd (PULL_nowrap s)) = unstack (abs_cpu s)"
  by (simp_all add: PULL_nowrap_def Let_def LOAD_LONG_abs stack_simps)

end
