(* ===== verification/Isa_Operands.thy ===== *)
theory Isa_Operands
  imports Isa_Abs
begin

text \<open>
  The addressing mode macros compute the places of the specification: each effective address
  of theory \<open>Modes\<close> is the place of its mode, and the loaders, storers and read-modify-write
  pairs of the core fetch from it and put into it.
\<close>

section \<open>Effective addresses\<close>

definition spot :: "place \<Rightarrow> u32 \<Rightarrow> u32 \<Rightarrow> bool" where
  "spot p ea ea2 \<longleftrightarrow> (case p of Operand \<Rightarrow> False | Accu \<Rightarrow> False
     | Bank0 a \<Rightarrow> ucast ea = (ucast a :: u24) \<and> ucast ea2 = (ucast (a + 1) :: u24)
     | Linear a \<Rightarrow> ucast ea = a \<and> ucast ea2 = a + 1)"

lemma spot_bank0: "ucast x = a \<Longrightarrow> spot (Bank0 a) (x AND 0xFFFF) (bank0_next (x AND 0xFFFF))"
  by (simp add: spot_def bank0_next_def ucast_and ucast_plus)

lemma spot_linear: "ucast ea = a \<Longrightarrow> spot (Linear a) ea (linear_next ea)"
  by (simp add: spot_def linear_next_def ucast_and ucast_plus)

lemma load_bank0: "LOAD_LONG (x AND 0xFFFF) s = ucast (rd0 (ucast x) (abs_cpu s))"
  by (simp add: LOAD_LONG_abs rd0_def ucast_and)

lemma byte_offset:
  fixes b :: u8
  shows "(ucast b :: u16) AND 0xFF = ucast b"
    "((ucast b :: u16) + 1) AND 0xFF = (if b = 0xFF then 0 else ucast b + 1)"
  using u8_bound [of b] by (auto simp: word_unat_eq_iff unat_and_ff16 unat_word_ariths)

lemma op1_abs: "opb 1 s = ucast (code 1 (abs_cpu s))" "op1 (abs_cpu s) = ucast (code 1 (abs_cpu s))"
  by (simp_all add: opb_abs op1_def)

lemma code16_abs: "opb 1 s + push_bit 8 (opb 2 s) = ucast (code16 (abs_cpu s))"
  by (simp add: opb_abs code16_def pair_le)

lemma dp_low:
  "ea_direct s = (opb 1 s + ucast (reg_dpr s)) AND 0xFFFF"
  "ucast (opb 1 s + ucast (reg_dpr s)) = dp (abs_cpu s) (op1 (abs_cpu s))"
  by (simp_all add: ea_direct_def ucast_plus op1_abs dp_def byte_offset add.commute)

lemma load_dp: "LOAD_LONG (ea_direct s) s = ucast (rd0 (dp (abs_cpu s) (op1 (abs_cpu s))) (abs_cpu s))"
  unfolding dp_low(1) load_bank0 dp_low(2) by (rule refl)

lemma load_dp_next: "LOAD_LONG (ptr_hi s) s = ucast (rd0 (dp (abs_cpu s) (op1 (abs_cpu s) + 1)) (abs_cpu s))"
proof (cases "reg_emul s = 0 \<or> reg_dpr s AND 0xFF \<noteq> 0")
  case True
  then have "ptr_hi s = (opb 1 s + ucast (reg_dpr s) + 1) AND 0xFFFF" by (auto simp: ptr_hi_def)
  moreover have "ucast (opb 1 s + ucast (reg_dpr s) + 1) = dp (abs_cpu s) (op1 (abs_cpu s) + 1)"
    using True by (auto simp: dp_def ucast_plus op1_abs)
  ultimately show ?thesis by (simp only: load_bank0)
next
  case False
  have c: "opb 1 s = 0xFF \<longleftrightarrow> code 1 (abs_cpu s) = 0xFF" by (simp add: op1_abs(1) word_unat_eq_iff)
  show ?thesis
  proof (cases "code 1 (abs_cpu s) = 0xFF")
    case True
    have "LOAD_LONG (ucast (reg_dpr s)) s = ucast (rd0 (reg_dpr s) (abs_cpu s))"
      by (simp add: LOAD_LONG_abs rd0_def)
    then show ?thesis using False True c by (simp add: ptr_hi_def dp_def op1_abs(2) byte_offset)
  next
    case no_wrap: False
    then have "ptr_hi s = (opb 1 s + ucast (reg_dpr s) + 1) AND 0xFFFF" using c by (simp add: ptr_hi_def)
    moreover have "ucast (opb 1 s + ucast (reg_dpr s) + 1) = dp (abs_cpu s) (op1 (abs_cpu s) + 1)"
      using False no_wrap by (simp add: dp_def ucast_plus op1_abs byte_offset)
    ultimately show ?thesis by (simp only: load_bank0)
  qed
qed

lemma ind_abs: "ucast (ea_ind s) = bank (reg_dbr s) (dp_pointer (op1 (abs_cpu s)) (abs_cpu s))"
  by (simp add: ea_ind_def load_dp load_dp_next pair_le ucast_plus ucast_push bank_def dp_pointer_def add.commute)

lemma long_abs: "ucast (ea_long s) = long_pointer (abs_cpu s)"
  by (simp add: ea_long_def dp_low(1) load_bank0 ucast_plus ucast_push bank_def long_pointer_def op1_abs Let_def
      ucast_pair ac_simps)

lemma ind_x_abs: "ucast (ea_ind_x s) = bank (reg_dbr s) (dp_pointer (op1 (abs_cpu s) + reg_x s) (abs_cpu s))"
proof (cases "reg_emul s = 0 \<or> reg_dpr s AND 0xFF \<noteq> 0")
  case True
  then show ?thesis
    by (auto simp: ea_ind_x_def load_bank0 pair_le ucast_plus ucast_push bank_def dp_pointer_def dp_def op1_abs
        Let_def add.assoc add.commute add.left_commute)
next
  case False
  have "LOAD_LONG ((x AND 0xFF) + ucast (reg_dpr s)) s = ucast (rd0 (reg_dpr s + (ucast x AND 0xFF)) (abs_cpu s))" for x
    using load_bank0 [of "(x AND 0xFF) + ucast (reg_dpr s)" s] False
    by (simp add: page_offset_le ucast_plus ucast_and add.commute)
  with False show ?thesis
    by (simp add: ea_ind_x_def pair_le ucast_plus ucast_push bank_def dp_pointer_def dp_def op1_abs Let_def add.commute)
qed

lemma sr_y_abs: "ucast (ea_sr_y s) = bank (reg_dbr s) (stack_pointer (abs_cpu s)) + ucast (reg_y s)"
  by (simp add: ea_sr_y_def ea_sr_def load_bank0 ucast_plus ucast_and ucast_push bank_def stack_pointer_def op1_abs Let_def
      ucast_pair add.commute add.left_commute add.assoc)

lemma op3_abs: "opb 3 s = ucast (code 3 (abs_cpu s))"
  using opb_abs [of 3 s] by simp

lemma abs_abs: "ucast (ea_abs s) = bank (reg_dbr s) (code16 (abs_cpu s))"
  "ucast (ea_abs_long s) = bank (code 3 (abs_cpu s)) (code16 (abs_cpu s))"
  unfolding ea_abs_def ea_abs_long_def code16_abs op3_abs ucast_plus ucast_push bank_def ucast_ucast_down
  by (rule add.commute)+

lemma indexed_abs:
  "ucast (ea_abs_r r s) = bank (reg_dbr s) (code16 (abs_cpu s)) + ucast (r s)"
  "ucast (ea_abs_long_x s) = bank (code 3 (abs_cpu s)) (code16 (abs_cpu s)) + ucast (reg_x s)"
  "ucast (ea_ind_y s) = bank (reg_dbr s) (dp_pointer (op1 (abs_cpu s)) (abs_cpu s)) + ucast (reg_y s)"
  "ucast (ea_long_y s) = long_pointer (abs_cpu s) + ucast (reg_y s)"
  by (simp_all add: ea_abs_r_def ea_abs_long_x_def ea_ind_y_def ea_long_y_def ucast_and ucast_plus abs_abs ind_abs long_abs)

lemma spots:
  "spot (place_of Direct (abs_cpu s)) (ea_direct s) (bank0_next (ea_direct s))"
  "spot (place_of DirectX (abs_cpu s)) (ea_direct_r reg_x s) (bank0_next (ea_direct_r reg_x s))"
  "spot (place_of DirectY (abs_cpu s)) (ea_direct_r reg_y s) (bank0_next (ea_direct_r reg_y s))"
  "spot (place_of StackRel (abs_cpu s)) (ea_sr s) (bank0_next (ea_sr s))"
  "spot (place_of Absolute (abs_cpu s)) (ea_abs s) (linear_next (ea_abs s))"
  "spot (place_of AbsX (abs_cpu s)) (ea_abs_r reg_x s) (linear_next (ea_abs_r reg_x s))"
  "spot (place_of AbsY (abs_cpu s)) (ea_abs_r reg_y s) (linear_next (ea_abs_r reg_y s))"
  "spot (place_of AbsLong (abs_cpu s)) (ea_abs_long s) (linear_next (ea_abs_long s))"
  "spot (place_of AbsLongX (abs_cpu s)) (ea_abs_long_x s) (linear_next (ea_abs_long_x s))"
  "spot (place_of Ind (abs_cpu s)) (ea_ind s) (linear_next (ea_ind s))"
  "spot (place_of IndY (abs_cpu s)) (ea_ind_y s) (linear_next (ea_ind_y s))"
  "spot (place_of IndX (abs_cpu s)) (ea_ind_x s) (linear_next (ea_ind_x s))"
  "spot (place_of IndLong (abs_cpu s)) (ea_long s) (linear_next (ea_long s))"
  "spot (place_of IndLongY (abs_cpu s)) (ea_long_y s) (linear_next (ea_long_y s))"
  "spot (place_of StackRelY (abs_cpu s)) (ea_sr_y s) (linear_next (ea_sr_y s))"
  unfolding place_of.simps abs_select
  subgoal unfolding dp_low by (rule spot_bank0) (rule dp_low)
  subgoal by (auto simp: ea_direct_r_def dp_def op1_abs ucast_plus ucast_and add.commute intro!: spot_bank0)
  subgoal by (auto simp: ea_direct_r_def dp_def op1_abs ucast_plus ucast_and add.commute intro!: spot_bank0)
  subgoal unfolding ea_sr_def by (rule spot_bank0) (simp add: ucast_plus op1_abs add.commute)
  by (rule spot_linear, rule abs_abs indexed_abs ind_abs ind_x_abs long_abs sr_y_abs)+

section \<open>Loads and stores\<close>

lemma mode_access_fetch:
  assumes "spot p ea ea2"
  shows "mode_access n ea ea2 v b False s = (ucast (fetch p b (abs_cpu s)), INC_PC n s)"
  using assms
  by (cases p) (auto simp: spot_def mode_access_load LOAD_LONG_abs rd0_def or_push8 ucast_pair)

lemma mode_access_put:
  assumes "spot p ea ea2"
  shows "abs_cpu (snd (mode_access n ea ea2 v b True s)) = advance (ucast n) (put p b (ucast v) (abs_cpu s))"
  using assms
  by (cases p) (auto simp: spot_def mode_access_store advance_def Let_def wr0_def ucast_high)

lemma wr_wr:
  fixes t :: isa
  assumes "(ucast a :: u20) \<noteq> ucast c"
  shows "wr a v (wr c w t) = wr c w (wr a v t)"
  using assms by (simp add: wr_def fun_upd_twist)

lemma next_cell:
  "(ucast (a + 1 :: u24) :: u20) \<noteq> ucast a" "(ucast (ucast (c + 1 :: u16) :: u24) :: u20) \<noteq> ucast (ucast c :: u24)"
proof -
  have suc: "Suc n mod k \<noteq> n mod k" if "1 < k" for n k :: nat
    using that by (simp add: mod_Suc)
  have "unat (ucast (a + 1) :: u20) = Suc (unat a) mod 1048576"
    by (simp add: unat_ucast_wide unat_word_ariths mod_mod_cancel)
  then show "(ucast (a + 1 :: u24) :: u20) \<noteq> ucast a"
    using suc [of 1048576 "unat a"] unat_ucast_wide(3) [of a] by (metis less_numeral_extra(1) one_less_numeral_iff semiring_norm(76))
  have "unat (ucast (ucast (d :: u16) :: u24) :: u20) = unat d" for d
    using u16_bound [of d] by (simp add: unat_ucast_wide)
  moreover have "unat (c + 1) \<noteq> unat c"
    using suc [of 65536 "unat c"] u16_bound [of c] by (simp add: unat_word_ariths)
  ultimately show "(ucast (ucast (c + 1 :: u16) :: u24) :: u20) \<noteq> ucast (ucast c :: u24)"
    by metis
qed

lemma put_reversed:
  "put (Bank0 c) False v t = wr0 c (ucast v) (wr0 (c + 1) (ucast (drop_bit 8 v)) t)"
  "put (Linear a) False v t = wr a (ucast v) (wr (a + 1) (ucast (drop_bit 8 v)) t)"
  by (simp_all add: Let_def wr0_def wr_wr [OF next_cell(1)] wr_wr [OF next_cell(2)])

section \<open>The operands of the opcodes\<close>

definition loads :: "load_func \<Rightarrow> mode \<Rightarrow> bool" where
  "loads l m \<longleftrightarrow> (\<forall>b s. (reg_emul s \<noteq> 0 \<longrightarrow> b) \<longrightarrow> (\<exists>n. ucast n = len m b
     \<and> l b s = (ucast (fetch (place_of m (abs_cpu s)) b (abs_cpu s)), INC_PC n s)))"

definition stores :: "store_func \<Rightarrow> mode \<Rightarrow> bool" where
  "stores st m \<longleftrightarrow> (\<forall>v b s. (reg_emul s \<noteq> 0 \<longrightarrow> b) \<longrightarrow>
     abs_cpu (st v b s) = advance (len m b) (put (place_of m (abs_cpu s)) b (ucast v) (abs_cpu s)))"

definition modifies :: "load_rrw \<Rightarrow> store_rrw \<Rightarrow> mode \<Rightarrow> bool" where
  "modifies l st m \<longleftrightarrow> (\<forall>b s. (reg_emul s \<noteq> 0 \<longrightarrow> b) \<longrightarrow> (\<exists>ea n. ucast n = len m b
     \<and> l b s = ((ucast (fetch (place_of m (abs_cpu s)) b (abs_cpu s)), ea), INC_PC n s)
     \<and> (\<forall>v u. abs_cpu (st ea v b u) = put (place_of m (abs_cpu s)) b (ucast v) (abs_cpu u))))"

lemma loadsI:
  assumes "\<And>b s. reg_emul s \<noteq> 0 \<longrightarrow> b \<Longrightarrow> l b s = mode_access n (ea s) (ea2 s) 0 b False s"
    and "\<And>s. spot (place_of m (abs_cpu s)) (ea s) (ea2 s)" and "\<And>b. ucast n = len m b"
  shows "loads l m"
  unfolding loads_def using assms(1,3) mode_access_fetch [OF assms(2)] by auto

lemma storesI:
  assumes "\<And>v b s. reg_emul s \<noteq> 0 \<longrightarrow> b \<Longrightarrow> st v b s = snd (mode_access n (ea s) (ea2 s) v b True s)"
    and "\<And>s. spot (place_of m (abs_cpu s)) (ea s) (ea2 s)" and "\<And>b. ucast n = len m b"
  shows "stores st m"
  unfolding stores_def using assms(1,3) mode_access_put [OF assms(2)] by simp

lemma loads_modes:
  "loads LOAD_DIRECT_PAGE_FUNC Direct" "loads LOAD_DIRECT_PAGE_X_FUNC DirectX" "loads LOAD_DIRECT_PAGE_Y_FUNC DirectY"
  "loads LOAD_INDIRECT_FUNC Ind" "loads LOAD_INDIRECT_X_FUNC IndX" "loads LOAD_INDIRECT_Y_FUNC IndY"
  "loads LOAD_INDIRECT_LONG_FUNC IndLong" "loads LOAD_INDIRECT_LONG_Y_FUNC IndLongY"
  "loads LOAD_ABS_FUNC Absolute" "loads LOAD_ABS_X_FUNC AbsX" "loads LOAD_ABS_Y_FUNC AbsY"
  "loads LOAD_ABS_LONG_FUNC AbsLong" "loads LOAD_ABS_LONG_X_FUNC AbsLongX"
  "loads LOAD_STACK_REL_FUNC StackRel" "loads LOAD_STACK_REL_Y_FUNC StackRelY"
  unfolding load_defs by (rule loadsI, (rule mode_spec; assumption), rule spots, simp add: len_def)+

lemma loads_immediate: "loads LOAD_IMMEDIATE_FUNC Immediate"
  unfolding loads_def
proof (intro allI impI)
  fix b and s :: cpu
  show "\<exists>n. ucast n = len Immediate b
      \<and> LOAD_IMMEDIATE_FUNC b s = (ucast (fetch (place_of Immediate (abs_cpu s)) b (abs_cpu s)), INC_PC n s)"
    by (rule exI [where x = "if b then 2 else 3"])
      (simp add: mode_spec code16_abs len_def del: One_nat_def, simp add: op1_abs)
qed

lemma stores_modes:
  "stores STORE_DIRECT_PAGE Direct" "stores STORE_DIRECT_PAGE_X DirectX" "stores STORE_DIRECT_PAGE_Y DirectY"
  "stores STORE_INDIRECT Ind" "stores STORE_INDIRECT_X IndX" "stores STORE_INDIRECT_Y IndY"
  "stores STORE_INDIRECT_LONG IndLong" "stores STORE_INDIRECT_LONG_Y IndLongY"
  "stores STORE_ABS Absolute" "stores STORE_ABS_X AbsX" "stores STORE_ABS_Y AbsY"
  "stores STORE_ABS_LONG AbsLong" "stores STORE_ABS_LONG_X AbsLongX"
  "stores STORE_STACK_REL StackRel" "stores STORE_STACK_REL_Y StackRelY"
  unfolding store_defs
  by (rule storesI, rule arg_cong [where f = snd], (rule mode_spec; assumption), rule spots, simp add: len_def)+

text \<open>In emulation mode a loader writes the byte it has read back, which changes nothing.\<close>

lemma rewrite_byte: "STORE_LONG a (LOAD_LONG a s) s = s"
  by (simp add: STORE_LONG_def LOAD_LONG_def)

lemma rmw_load_fetch:
  assumes "spot p ea ea2" and "reg_emul s \<noteq> 0 \<longrightarrow> b"
  shows "rmw_load n ea ea2 b s = ((ucast (fetch p b (abs_cpu s)), if b then ea else ea2), INC_PC n s)"
  using assms unfolding rmw_load_def rewrite_byte
  by (cases p) (auto simp: spot_def LOAD_LONG_abs rd0_def or_push8 ucast_pair)

lemma minus_one:
  fixes x :: u32
  shows "(((x + 1) AND 0xFFFF) - 1) AND 0xFFFF = x AND 0xFFFF"
    "(((x + 1) AND 0xFFFFFF) - 1) AND 0xFFFFFF = x AND 0xFFFFFF"
  using and_ffff_add_left [of "x + 1" "- 1"] and_ffffff_add_left [of "x + 1" "- 1"] by simp_all

lemma direct_store:
  assumes "spot (Bank0 a) ea (bank0_next ea)" and "ea AND 0xFFFF = ea"
  shows "abs_cpu (STORE_DIRECT_PAGE_RRW (if b then ea else bank0_next ea) v b u) = put (Bank0 a) b (ucast v) (abs_cpu u)"
proof -
  have "ucast ea = (ucast a :: u24)" "ucast (bank0_next ea) = (ucast (a + 1) :: u24)"
    "(bank0_next ea - 1) AND 0xFFFF = ea"
    using assms minus_one(1) [of ea] by (simp_all add: spot_def bank0_next_def)
  then show ?thesis
    by (cases b) (simp_all add: STORE_DIRECT_PAGE_RRW_def STORE_BANK0_def put_reversed wr0_def ucast_high del: put.simps(3),
        simp add: wr0_def)
qed

lemma absolute_store:
  assumes "spot (Linear a) ea (linear_next ea)"
  shows "abs_cpu (STORE_ABS_RRW (if b then ea else linear_next ea) v b u) = put (Linear a) b (ucast v) (abs_cpu u)"
proof -
  have "ucast ea = a" "ucast (linear_next ea) = a + 1" "ucast ((linear_next ea - 1) AND 0xFFFFFF) = a"
    using assms minus_one(2) [of ea] by (simp_all add: spot_def linear_next_def ucast_and)
  then show ?thesis
    by (cases b) (simp_all add: STORE_ABS_RRW_def put_reversed ucast_high del: put.simps(4), simp)
qed

lemma modifiesI:
  assumes "\<And>b s. l b s = rmw_load n (ea s) (ea2 s) b s" and "\<And>s. spot (place_of m (abs_cpu s)) (ea s) (ea2 s)"
    and "\<And>b. ucast n = len m b"
    and "\<And>b s v u. abs_cpu (st (if b then ea s else ea2 s) v b u) = put (place_of m (abs_cpu s)) b (ucast v) (abs_cpu u)"
  shows "modifies l st m"
  unfolding modifies_def using assms(1,3,4) rmw_load_fetch [OF assms(2)] by (auto simp del: put.simps)

lemma modifies_bank0:
  assumes "\<And>b s. l b s = rmw_load 2 (ea s) (bank0_next (ea s)) b s" and "\<And>s. place_of m (abs_cpu s) = Bank0 (a s)"
    and "\<And>s. spot (Bank0 (a s)) (ea s) (bank0_next (ea s))" and "\<And>s. ea s AND 0xFFFF = ea s" and "\<And>b. len m b = 2"
  shows "modifies l STORE_DIRECT_PAGE_RRW m"
  by (rule modifiesI, rule assms, simp only: assms(2,3), simp add: assms(5))
    (simp only: assms(2) direct_store [OF assms(3,4)])

lemma modifies_linear:
  assumes "\<And>b s. l b s = rmw_load 3 (ea s) (linear_next (ea s)) b s" and "\<And>s. place_of m (abs_cpu s) = Linear (a s)"
    and "\<And>s. spot (Linear (a s)) (ea s) (linear_next (ea s))" and "\<And>b. len m b = 3"
  shows "modifies l STORE_ABS_RRW m"
  by (rule modifiesI, rule assms, simp only: assms(2,3), simp add: assms(4))
    (simp only: assms(2) absolute_store [OF assms(3)])

lemma ea_bank0: "ea_direct s AND 0xFFFF = ea_direct s" "ea_direct_r r s AND 0xFFFF = ea_direct_r r s"
  by (simp_all add: ea_direct_def ea_direct_r_def and.assoc)

lemma modifies_modes:
  "modifies LOAD_DIRECT_PAGE_FUNC_RRW STORE_DIRECT_PAGE_RRW Direct"
  "modifies LOAD_DIRECT_PAGE_X_FUNC_RRW STORE_DIRECT_PAGE_X_RRW DirectX"
  "modifies LOAD_ABS_FUNC_RRW STORE_ABS_RRW Absolute"
  "modifies LOAD_ABS_X_FUNC_RRW STORE_ABS_X_RRW AbsX"
  unfolding STORE_DIRECT_PAGE_X_RRW_def STORE_ABS_X_RRW_def
  by (rule modifies_bank0 modifies_linear, rule mode_spec, rule place_of.simps, rule spots [unfolded place_of.simps],
      (rule ea_bank0)?, simp add: len_def)+

lemma modifies_accumulator: "modifies LOAD_ACCU_RRW STORE_ACCU_RRW Accumulator"
  unfolding modifies_def
proof (intro allI impI)
  fix b and s :: cpu
  have a: "(ucast (reg_a s) :: u32) = ucast (low True (reg_c s))"
    by (rule bit_eqI) (auto simp: low_def reg_a_def mask_numerals bit_simps)
  have m: "merge True (ucast (ucast v :: u8)) r = merge True (ucast v) r" for v :: u32 and r :: u16
    unfolding merge_def by (rule bit_eqI) (auto simp: mask_numerals bit_simps)
  show "\<exists>ea n. ucast n = len Accumulator b
      \<and> LOAD_ACCU_RRW b s = ((ucast (fetch (place_of Accumulator (abs_cpu s)) b (abs_cpu s)), ea), INC_PC n s)
      \<and> (\<forall>v u. abs_cpu (STORE_ACCU_RRW ea v b u) = put (place_of Accumulator (abs_cpu s)) b (ucast v) (abs_cpu u))"
    by (rule exI [where x = 0], rule exI [where x = 1])
      (cases b; simp add: LOAD_ACCU_RRW_def STORE_ACCU_RRW_def len_def a m; simp add: merge_def low_def)
qed

end
