(* ===== verification/Decimal.thy ===== *)
theory Decimal
  imports Arithmetic
begin

text \<open>
  Decimal addition and subtraction. \<open>digit\<close>, \<open>is_bcd\<close> and \<open>bcd\<close> read packed decimal
  numbers; the adjustment of one digit is \<open>digit_step\<close>, and the unrolled code of \<open>ADC\<close> is
  a sequence of them.
\<close>

section \<open>Decimal digits\<close>

lemma or_disjoint:
  fixes x y :: u32
  assumes "unat x mod 2 ^ k = 0" and "unat y < 2 ^ k"
  shows "unat (x OR y) = unat x + unat y"
proof -
  have "\<not> bit x n" if "n < k" for n
  proof -
    have "2 ^ k dvd unat x" using assms(1) by (simp add: dvd_eq_mod_eq_0)
    moreover have "(2 :: nat) ^ Suc n dvd 2 ^ k" using that by (intro le_imp_power_dvd) simp
    ultimately have "2 ^ Suc n dvd unat x" by (metis dvd_trans)
    then show ?thesis by (auto simp: bit_unat elim!: dvdE)
  qed
  moreover have "\<not> bit y n" if "k \<le> n" for n
  proof -
    have "(2 :: nat) ^ k \<le> 2 ^ n" using that by simp
    with assms(2) have "unat y < 2 ^ n" by linarith
    then show ?thesis by (simp add: bit_unat)
  qed
  ultimately have "x AND y = 0" by (intro bit_eqI) (metis bit_and_iff bit_0_eq bot_apply bot_bool_def not_le)
  then have "unat x AND unat y = 0" by (metis unsigned_and_eq unsigned_0)
  then show ?thesis by (simp add: unsigned_or_eq disjunctive_add_eq_or)
qed

definition digit :: "nat \<Rightarrow> nat \<Rightarrow> nat" where
  "digit i n = n div 16 ^ i mod 16"

lemma and_digits:
  fixes x :: u32
  shows "unat (x AND 0xF) = digit 0 (unat x)" "unat (x AND 0xF0) = 16 * digit 1 (unat x)"
    "unat (x AND 0xF00) = 256 * digit 2 (unat x)" "unat (x AND 0xF000) = 4096 * digit 3 (unat x)"
proof -
  have m: "x AND push_bit k (mask 4) = push_bit k (take_bit 4 (drop_bit k x))" for k
    by (rule bit_eqI) (auto simp: bit_simps)
  have u: "unat (push_bit k (take_bit 4 (drop_bit k x))) = 2 ^ k * (unat x div 2 ^ k mod 16)" if "k \<le> 12" for k
  proof -
    have "unat (take_bit 4 (drop_bit k x)) = unat x div 2 ^ k mod 16"
      using unsigned_less [of x, where ?'a = nat]
      by (simp add: unsigned_take_bit_eq unsigned_drop_bit_eq take_bit_eq_mod [where ?'a = nat]
          drop_bit_eq_div [where ?'a = nat])
    moreover have "2 ^ k * (unat x div 2 ^ k mod 16) < 2 ^ 32"
    proof -
      have "(2 :: nat) ^ k \<le> 2 ^ 12" using that by (simp only: power_increasing_iff)
      moreover have "unat x div 2 ^ k mod 16 < 16" by simp
      ultimately have "2 ^ k * (unat x div 2 ^ k mod 16) \<le> 2 ^ 12 * 16" by (intro mult_mono) simp_all
      then show ?thesis by simp
    qed
    ultimately show ?thesis
      by (simp add: unsigned_push_bit_eq take_bit_eq_mod [where ?'a = nat]
          push_bit_eq_mult [where ?'a = nat] mult.commute)
  qed
  have c: "push_bit 0 (mask 4) = (0xF :: u32)" "push_bit 4 (mask 4) = (0xF0 :: u32)"
    "push_bit 8 (mask 4) = (0xF00 :: u32)" "push_bit 12 (mask 4) = (0xF000 :: u32)"
    by (simp_all add: mask_eq_exp_minus_1 push_bit_eq_mult)
  show "unat (x AND 0xF) = digit 0 (unat x)"
    using u [of 0] unfolding m [of 0, unfolded c] by (simp add: digit_def)
  show "unat (x AND 0xF0) = 16 * digit 1 (unat x)"
    using u [of 4] unfolding m [of 4, unfolded c] by (simp add: digit_def)
  show "unat (x AND 0xF00) = 256 * digit 2 (unat x)"
    using u [of 8] unfolding m [of 8, unfolded c] by (simp add: digit_def)
  show "unat (x AND 0xF000) = 4096 * digit 3 (unat x)"
    using u [of 12] unfolding m [of 12, unfolded c] by (simp add: digit_def)
qed

definition is_bcd :: "nat \<Rightarrow> bool" where
  "is_bcd n \<longleftrightarrow> digit 0 n \<le> 9 \<and> digit 1 n \<le> 9 \<and> digit 2 n \<le> 9 \<and> digit 3 n \<le> 9"

definition bcd :: "nat \<Rightarrow> nat" where
  "bcd n = digit 0 n + 10 * digit 1 n + 100 * digit 2 n + 1000 * digit 3 n"

text \<open>One digit of a decimal addition: \<open>lo\<close> holds the sum of a digit above the result
  digits so far; the step adjusts it and carries into \<open>hi\<close>.\<close>

definition digit_step :: "u32 \<Rightarrow> u32 \<Rightarrow> u32 \<Rightarrow> u32" where
  "digit_step m lo hi =
     (if lo > 10 * m - 1 then (hi + 16 * m) OR ((lo + 6 * m) AND (16 * m - 1))
      else hi OR (lo AND (16 * m - 1)))"

lemma digit_step_result:
  assumes m: "m \<in> {1, 16, 256}" and lo: "unat lo = unat m * k + r" and r: "r < unat m" and k: "k \<le> 19"
    and hi: "unat hi mod (16 * unat m) = 0" "unat hi < 1000000"
  shows "unat (digit_step m lo hi) = unat hi + unat m * (if 10 \<le> k then k + 6 else k) + r"
proof -
  obtain i where i: "unat m = 2 ^ i" "i \<le> 8" "16 * m - 1 = mask (i + 4)"
  proof -
    have "unat m = 2 ^ 0 \<and> 16 * m - 1 = mask (0 + 4) \<or> unat m = 2 ^ 4 \<and> 16 * m - 1 = mask (4 + 4)
        \<or> unat m = 2 ^ 8 \<and> 16 * m - 1 = mask (8 + 4)"
      using m by (auto simp: mask_eq_exp_minus_1)
    then show ?thesis using that by fastforce
  qed
  let ?M = "unat m"
  have M: "?M \<le> 256" "0 < ?M" using m by auto
  have mask: "unat (w AND (16 * m - 1)) = unat w mod (16 * ?M)" for w :: u32
    using i(2) unfolding i
    by (simp add: take_bit_eq_mask [symmetric] unsigned_take_bit_eq take_bit_eq_mod [where ?'a = nat] power_add mult.commute)
  have or: "unat (h OR (w AND (16 * m - 1))) = unat h + unat w mod (16 * ?M)" 
    if "unat h mod (16 * ?M) = 0" for h w :: u32
    using or_disjoint [of h "i + 4" "w AND (16 * m - 1)"] that i(2) mask [of w]
    by (simp add: i(1) power_add mult.commute)
  have big: "lo > 10 * m - 1 \<longleftrightarrow> 10 \<le> k"
  proof -
    have "unat (10 * m - 1) = 10 * ?M - 1" using m by auto
    then have "lo > 10 * m - 1 \<longleftrightarrow> 10 * ?M \<le> ?M * k + r" using M lo by (auto simp: word_less_nat_alt)
    also have "\<dots> \<longleftrightarrow> 10 \<le> k"
      using r M m by auto
    finally show ?thesis .
  qed
  show ?thesis
  proof (cases "10 \<le> k")
    case False
    then have "?M * k + r < 16 * ?M" using r M m by auto
    with False hi(1) lo show ?thesis by (simp add: digit_step_def big or)
  next
    case True
    then obtain j where j: "k = 10 + j" by (metis le_iff_add)
    have lo6: "unat (lo + 6 * m) = ?M * (k + 6) + r" using m lo r k by (auto simp: unat_word_ariths)
    have "?M * (k + 6) + r = 16 * ?M + (?M * j + r)"
      by (simp add: j algebra_simps)
    moreover have "?M * j + r < 16 * ?M" using j k r m by auto
    ultimately have lo_mod: "unat (lo + 6 * m) mod (16 * ?M) = ?M * j + r"
      unfolding lo6 by (simp only: mod_add_self1 mod_less)
    have hi16: "unat (hi + 16 * m) = unat hi + 16 * ?M" using m hi(2) by (auto simp: unat_word_ariths)
    then have "unat (hi + 16 * m) mod (16 * ?M) = 0" using hi(1) by simp
    then have "unat (digit_step m lo hi) = unat hi + 16 * ?M + (?M * j + r)"
      using True by (simp add: digit_step_def big or hi16 lo_mod)
    then show ?thesis by (simp add: j algebra_simps)
  qed
qed

lemma digit_step_carry:
  assumes "m \<in> {1, 16, 256}" and "unat lo = unat m * k + r" and "r < unat m" and "k \<le> 19"
    and "unat hi = 16 * unat m * h" and "h \<le> 18"
  shows "unat (digit_step m lo hi) = 16 * unat m * (h + k div 10) + (unat m * (k mod 10) + r)"
proof -
  have "unat m \<le> 256" using assms(1) by auto
  then have "16 * unat m * h \<le> 16 * 256 * 18" using assms(6) by (intro mult_mono) simp_all
  then have hi: "unat hi mod (16 * unat m) = 0" "unat hi < 1000000" using assms(5) by simp_all
  show ?thesis
  proof (cases "10 \<le> k")
    case True
    then obtain j where j: "k = 10 + j" by (metis le_iff_add)
    then have "j < 10" using assms(4) by simp
    then have "k div 10 = 1" "k mod 10 = j" by (simp_all add: j)
    then show ?thesis
      using digit_step_result [OF assms(1-4) hi] assms(5) by (simp add: j algebra_simps)
  next
    case False
    then show ?thesis
      using digit_step_result [OF assms(1-4) hi] assms(5) by (simp add: algebra_simps)
  qed
qed

lemma adc8_decimal_steps:
  "fst (adc8_decimal a v c) =
     (let t = digit_step 1 ((a AND 0x0F) + (v AND 0x0F) + c) ((a AND 0xF0) + (v AND 0xF0))
      in if t > 0x9F then t + 0x60 else t)"
  by (simp add: adc8_decimal_def digit_step_def Let_def)

lemma adc16_decimal_steps:
  "fst (adc16_decimal a x v c) =
     (let t1 = digit_step 1 ((a AND 0x0F) + (v AND 0x0F) + c) ((a AND 0xF0) + (v AND 0xF0));
          t2 = digit_step 16 t1 ((a AND 0xF00) + (v AND 0xF00));
          t3 = digit_step 256 t2 ((a AND 0xF000) + (v AND 0xF000))
      in if t3 > 0x9FFF then t3 + 0x6000 else t3)"
  by (simp add: adc16_decimal_def digit_step_def Let_def)

text \<open>The carries of a decimal addition, digit by digit.\<close>

fun dsum :: "nat \<Rightarrow> nat \<Rightarrow> nat \<Rightarrow> nat \<Rightarrow> nat" where
  "dsum a v c 0 = digit 0 a + digit 0 v + c"
| "dsum a v c (Suc i) = digit (Suc i) a + digit (Suc i) v + dsum a v c i div 10"

declare dsum.simps [simp del]

lemma digit_bcd: "is_bcd n \<Longrightarrow> i < 4 \<Longrightarrow> digit i n \<le> 9"
  by (auto simp: is_bcd_def less_Suc_eq eval_nat_numeral)

lemma dsum_le:
  assumes "is_bcd a" and "is_bcd v" and "c \<le> 1" and "i < 4"
  shows "dsum a v c i \<le> 19"
  using assms(4)
proof (induction i)
  case 0
  show ?case using digit_bcd [OF assms(1), of 0] digit_bcd [OF assms(2), of 0] assms(3)
    by (simp add: dsum.simps)
next
  case (Suc i)
  then have "dsum a v c i div 10 \<le> 1" by simp
  then show ?case
    using digit_bcd [OF assms(1) Suc.prems] digit_bcd [OF assms(2) Suc.prems]
    by (simp add: dsum.simps)
qed

lemma unat_add_digits:
  fixes a v :: u32
  assumes "is_bcd (unat a)" and "is_bcd (unat v)"
  shows "unat ((a AND 0xF0) + (v AND 0xF0)) = 16 * (digit 1 (unat a) + digit 1 (unat v))"
    "unat ((a AND 0xF00) + (v AND 0xF00)) = 256 * (digit 2 (unat a) + digit 2 (unat v))"
    "unat ((a AND 0xF000) + (v AND 0xF000)) = 4096 * (digit 3 (unat a) + digit 3 (unat v))"
    "unat c \<le> 1 \<Longrightarrow> unat ((a AND 0x0F) + (v AND 0x0F) + c) = dsum (unat a) (unat v) (unat c) 0"
  using assms by (simp_all add: unat_word_ariths and_digits is_bcd_def dsum.simps)

lemma adc_steps:
  fixes a v c :: u32
  assumes a: "is_bcd (unat a)" and v: "is_bcd (unat v)" and c: "unat c \<le> 1"
  defines "s \<equiv> dsum (unat a) (unat v) (unat c)"
  defines "t1 \<equiv> digit_step 1 ((a AND 0x0F) + (v AND 0x0F) + c) ((a AND 0xF0) + (v AND 0xF0))"
  defines "t2 \<equiv> digit_step 16 t1 ((a AND 0xF00) + (v AND 0xF00))"
  defines "t3 \<equiv> digit_step 256 t2 ((a AND 0xF000) + (v AND 0xF000))"
  shows "unat t1 = 16 * s 1 + s 0 mod 10"
    and "unat t2 = 256 * s 2 + (16 * (s 1 mod 10) + s 0 mod 10)"
    and "unat t3 = 4096 * s 3 + (256 * (s 2 mod 10) + (16 * (s 1 mod 10) + s 0 mod 10))"
proof -
  note d = digit_bcd [OF a] digit_bcd [OF v] and sum = unat_add_digits [OF a v]
  have s: "s i \<le> 19" if "i < 4" for i using dsum_le [OF a v c that] by (simp add: s_def)
  have rec: "s 1 = digit 1 (unat a) + digit 1 (unat v) + s 0 div 10"
    "s 2 = digit 2 (unat a) + digit 2 (unat v) + s 1 div 10"
    "s 3 = digit 3 (unat a) + digit 3 (unat v) + s 2 div 10"
    using dsum.simps(2) [of "unat a" "unat v" "unat c" 0] dsum.simps(2) [of "unat a" "unat v" "unat c" 1]
      dsum.simps(2) [of "unat a" "unat v" "unat c" 2]
    by (simp_all only: s_def Suc_numeral Suc_1 One_nat_def [symmetric] BitM.simps add_num_simps)
  have "unat t1 = 16 * unat (1 :: u32) * ((digit 1 (unat a) + digit 1 (unat v)) + s 0 div 10)
      + (unat (1 :: u32) * (s 0 mod 10) + 0)"
    unfolding t1_def
    by (rule digit_step_carry) (use s [of 0] d(1) [of 1] d(2) [of 1] c in \<open>simp_all add: sum s_def\<close>)
  then show t1: "unat t1 = 16 * s 1 + s 0 mod 10" unfolding rec(1) by simp
  have "unat t2 = 16 * unat (16 :: u32) * ((digit 2 (unat a) + digit 2 (unat v)) + s 1 div 10)
      + (unat (16 :: u32) * (s 1 mod 10) + s 0 mod 10)"
    unfolding t2_def
    by (rule digit_step_carry) (use s [of 1] d(1) [of 2] d(2) [of 2] in \<open>simp_all add: sum t1\<close>)
  then show t2: "unat t2 = 256 * s 2 + (16 * (s 1 mod 10) + s 0 mod 10)" unfolding rec(2) by simp
  have "unat t3 = 16 * unat (256 :: u32) * ((digit 3 (unat a) + digit 3 (unat v)) + s 2 div 10)
      + (unat (256 :: u32) * (s 2 mod 10) + (16 * (s 1 mod 10) + s 0 mod 10))"
    unfolding t3_def
    by (rule digit_step_carry) (use s [of 2] d(1) [of 3] d(2) [of 3] in \<open>simp_all add: sum t2\<close>)
  then show "unat t3 = 4096 * s 3 + (256 * (s 2 mod 10) + (16 * (s 1 mod 10) + s 0 mod 10))"
    unfolding rec(3) by simp
qed

lemma final_adjust:
  fixes t :: u32
  assumes "m = 16 \<or> m = 4096" and "unat t = unat m * k + r" and "r < unat m" and "k \<le> 19"
  defines "res \<equiv> (if t > 10 * m - 1 then t + 6 * m else t)"
  shows "unat res mod (16 * unat m) = unat m * (k mod 10) + r"
    and "res > 16 * m - 1 \<longleftrightarrow> 10 \<le> k"
proof -
  have "unat (10 * m - 1) = 10 * unat m - 1" using assms(1) by auto
  then have big: "t > 10 * m - 1 \<longleftrightarrow> 10 \<le> k" using assms by (auto simp: word_less_nat_alt)
  have lim: "res > 16 * m - 1 \<longleftrightarrow> 16 * unat m \<le> unat res"
    using assms(1) by (auto simp: word_less_nat_alt)
  have "unat res mod (16 * unat m) = unat m * (k mod 10) + r \<and> (16 * unat m \<le> unat res \<longleftrightarrow> 10 \<le> k)"
  proof (cases "10 \<le> k")
    case True
    then obtain j where j: "k = 10 + j" by (metis le_iff_add)
    have "unat res = 16 * unat m + (unat m * j + r)"
      using True big assms(1-4) j by (auto simp: res_def unat_word_ariths)
    moreover have "j < 10" using assms(4) j by simp
    moreover have "unat m * j + r < 16 * unat m" using j assms(1,3,4) by auto
    ultimately show ?thesis using True by (simp only: mod_add_self1 mod_less) (simp add: j)
  next
    case False
    have "unat res = unat m * k + r" using False big assms(2) by (simp add: res_def)
    moreover have "unat m * k + r < 16 * unat m" using False assms(1,3) by auto
    ultimately show ?thesis using False by simp
  qed
  then show "unat res mod (16 * unat m) = unat m * (k mod 10) + r" "res > 16 * m - 1 \<longleftrightarrow> 10 \<le> k"
    using lim by simp_all
qed

definition decimal_modulus :: "bool \<Rightarrow> nat" where
  "decimal_modulus b = (if b then 100 else 10000)"

lemma digit_cons:
  assumes "e \<le> 9"
  shows "digit 0 (16 * n + e) = e" "digit (Suc i) (16 * n + e) = digit i n"
proof -
  have q: "(16 * n + e) mod 16 = e" "(16 * n + e) div 16 = n" using assms by simp_all
  show "digit 0 (16 * n + e) = e" using q(1) by (simp add: digit_def)
  show "digit (Suc i) (16 * n + e) = digit i n" using q(2) by (simp add: digit_def div_mult2_eq)
qed

lemmas bcd_eval = is_bcd_def bcd_def digit_def decimal_modulus_def

lemma digits_of:
  fixes e0 e1 e2 e3 :: nat
  assumes "e0 \<le> 9" "e1 \<le> 9" "e2 \<le> 9" "e3 \<le> 9"
  defines "n \<equiv> 4096 * e3 + (256 * e2 + (16 * e1 + e0))"
  shows "is_bcd n" and "bcd n = e0 + 10 * e1 + 100 * e2 + 1000 * e3"
proof -
  have n: "n = 16 * (16 * (16 * (16 * 0 + e3) + e2) + e1) + e0" by (simp add: n_def)
  have "digit 0 n = e0" "digit (Suc 0) n = e1" "digit (Suc (Suc 0)) n = e2"
    "digit (Suc (Suc (Suc 0))) n = e3"
    unfolding n by (simp_all only: digit_cons [OF assms(1)] digit_cons [OF assms(2)]
        digit_cons [OF assms(3)] digit_cons [OF assms(4)])
  then have "digit 0 n = e0" "digit 1 n = e1" "digit 2 n = e2" "digit 3 n = e3"
    by (simp_all add: numeral_2_eq_2 numeral_3_eq_3)
  then show "is_bcd n" "bcd n = e0 + 10 * e1 + 100 * e2 + 1000 * e3"
    using assms(1-4) by (simp_all add: is_bcd_def bcd_def)
qed

lemma carry_total:
  fixes s0 s1 s2 s3 q0 q1 q2 q3 r0 r1 r2 r3 :: nat
  assumes "r0 + 10 * q0 = s0" "r1 + 10 * q1 = s1" "r2 + 10 * q2 = s2" "r3 + 10 * q3 = s3"
    and "s0 = x0" "s1 = x1 + q0" "s2 = x2 + q1" "s3 = x3 + q2"
  shows "r0 + 10 * r1 + 100 * q1 = x0 + 10 * x1"
    and "r0 + 10 * r1 + 100 * r2 + 1000 * r3 + 10000 * q3 = x0 + 10 * x1 + 100 * x2 + 1000 * x3"
  using assms by linarith+

lemma dsum_total:
  fixes a v c :: nat
  defines "s \<equiv> dsum a v c"
  shows "s 0 mod 10 + 10 * (s 1 mod 10) + 100 * (s 1 div 10)
      = digit 0 a + digit 0 v + c + 10 * (digit 1 a + digit 1 v)"
    and "s 0 mod 10 + 10 * (s 1 mod 10) + 100 * (s 2 mod 10) + 1000 * (s 3 mod 10) + 10000 * (s 3 div 10)
      = bcd a + bcd v + c"
proof -
  have rec: "s 0 = digit 0 a + digit 0 v + c" "s 1 = digit 1 a + digit 1 v + s 0 div 10"
    "s 2 = digit 2 a + digit 2 v + s 1 div 10" "s 3 = digit 3 a + digit 3 v + s 2 div 10"
    using dsum.simps(1) [of a v c] dsum.simps(2) [of a v c 0] dsum.simps(2) [of a v c 1]
      dsum.simps(2) [of a v c 2]
    by (simp_all only: s_def Suc_numeral Suc_1 One_nat_def [symmetric] BitM.simps add_num_simps)
  have m: "n mod 10 + 10 * (n div 10) = n" for n :: nat by simp
  note total = carry_total [OF m m m m rec]
  show "s 0 mod 10 + 10 * (s 1 mod 10) + 100 * (s 1 div 10)
      = digit 0 a + digit 0 v + c + 10 * (digit 1 a + digit 1 v)"
    by (rule total)
  show "s 0 mod 10 + 10 * (s 1 mod 10) + 100 * (s 2 mod 10) + 1000 * (s 3 mod 10) + 10000 * (s 3 div 10)
      = bcd a + bcd v + c"
    unfolding total(2) bcd_def by simp
qed

lemma bcd_byte: "n < 256 \<Longrightarrow> digit 2 n = 0 \<and> digit 3 n = 0"
  by (simp add: digit_def)

lemma mod_divI:
  fixes x m r q :: nat
  assumes "r + m * q = x" and "r < m" and "q \<le> 1"
  shows "x mod m = r" "m \<le> x \<longleftrightarrow> 1 \<le> q"
  using assms by (auto simp: le_Suc_eq)

lemma adc_decimal_result:
  fixes a v c x :: u32 and b :: bool
  assumes a: "is_bcd (unat a)" "unat a < modulus b" and v: "is_bcd (unat v)" "unat v < modulus b"
    and c: "unat c \<le> 1"
  defines "res \<equiv> fst (if b then adc8_decimal a v c else adc16_decimal a x v c)"
    and "tot \<equiv> bcd (unat a) + bcd (unat v) + unat c"
  shows "is_bcd (unat res mod modulus b)" "bcd (unat res mod modulus b) = tot mod decimal_modulus b"
    and "res > (if b then 0xFF else 0xFFFF) \<longleftrightarrow> decimal_modulus b \<le> tot"
proof -
  have ten: "Suc 0 \<le> n div 10 \<longleftrightarrow> 10 \<le> n" for n :: nat by presburger
  define s where "s = dsum (unat a) (unat v) (unat c)"
  note t = adc_steps [OF a(1) v(1) c, folded s_def]
  have s: "s i \<le> 19" if "i < 4" for i using dsum_le [OF a(1) v(1) c that] by (simp add: s_def)
  note total = dsum_total [of "unat a" "unat v" "unat c", folded s_def]
  have e: "s i mod 10 \<le> 9" for i using mod_less_divisor [of 10 "s i"] by simp
  have "is_bcd (unat res mod modulus b) \<and> bcd (unat res mod modulus b) = tot mod decimal_modulus b
    \<and> (res > (if b then 0xFF else 0xFFFF) \<longleftrightarrow> decimal_modulus b \<le> tot)"
  proof (cases b)
    case True
    have r: "unat res mod 256 = 16 * (s 1 mod 10) + s 0 mod 10" "res > 0xFF \<longleftrightarrow> 10 \<le> s 1"
    proof -
      define u where "u = digit_step 1 ((a AND 0x0F) + (v AND 0x0F) + c) ((a AND 0xF0) + (v AND 0xF0))"
      have res: "res = (if u > 10 * 16 - 1 then u + 6 * 16 else u)"
        using True by (simp add: res_def adc8_decimal_steps u_def Let_def)
      have "unat u = unat (16 :: u32) * s 1 + s 0 mod 10" using t(1) by (simp add: u_def)
      from final_adjust [OF disjI1 [OF refl] this _ s [of 1], folded res]
      show "unat res mod 256 = 16 * (s 1 mod 10) + s 0 mod 10" "res > 0xFF \<longleftrightarrow> 10 \<le> s 1"
        using e [of 0] by simp_all
    qed
    have tot: "tot = digit 0 (unat a) + digit 0 (unat v) + unat c + 10 * (digit 1 (unat a) + digit 1 (unat v))"
      using bcd_byte [of "unat a"] bcd_byte [of "unat v"] a(2) v(2) True
      by (simp add: tot_def bcd_def modulus_def width_def)
    have q: "s 1 div 10 \<le> 1" using s [of 1] by simp
    have "s 0 mod 10 + 10 * (s 1 mod 10) < 100" using e [of 0] e [of 1] by linarith
    from mod_divI [OF total(1) this q]
    have "tot mod 100 = s 0 mod 10 + 10 * (s 1 mod 10)" "100 \<le> tot \<longleftrightarrow> 1 \<le> s 1 div 10"
      unfolding tot by simp_all
    with digits_of [OF e [of 0] e [of 1], of 0 0] r show ?thesis
      by (simp add: True modulus_def width_def decimal_modulus_def ten)
  next
    case False
    have r: "unat res mod 65536 = 4096 * (s 3 mod 10) + (256 * (s 2 mod 10) + (16 * (s 1 mod 10) + s 0 mod 10))"
      "res > 0xFFFF \<longleftrightarrow> 10 \<le> s 3"
    proof -
      define u where "u = digit_step 256 (digit_step 16 (digit_step 1 ((a AND 0x0F) + (v AND 0x0F) + c)
        ((a AND 0xF0) + (v AND 0xF0))) ((a AND 0xF00) + (v AND 0xF00))) ((a AND 0xF000) + (v AND 0xF000))"
      have res: "res = (if u > 10 * 4096 - 1 then u + 6 * 4096 else u)"
        using False by (simp add: res_def adc16_decimal_steps u_def Let_def)
      have "unat u = unat (4096 :: u32) * s 3 + (256 * (s 2 mod 10) + (16 * (s 1 mod 10) + s 0 mod 10))"
        using t(3) by (simp add: u_def)
      from final_adjust [OF disjI2 [OF refl] this _ s [of 3], folded res]
      show "unat res mod 65536 = 4096 * (s 3 mod 10) + (256 * (s 2 mod 10) + (16 * (s 1 mod 10) + s 0 mod 10))"
        "res > 0xFFFF \<longleftrightarrow> 10 \<le> s 3"
        using e [of 0] e [of 1] e [of 2] by simp_all
    qed
    have q: "s 3 div 10 \<le> 1" using s [of 3] by simp
    have "s 0 mod 10 + 10 * (s 1 mod 10) + 100 * (s 2 mod 10) + 1000 * (s 3 mod 10) < 10000"
      using e [of 0] e [of 1] e [of 2] e [of 3] by linarith
    from mod_divI [OF total(2) this q]
    have "tot mod 10000 = s 0 mod 10 + 10 * (s 1 mod 10) + 100 * (s 2 mod 10) + 1000 * (s 3 mod 10)"
      "10000 \<le> tot \<longleftrightarrow> 1 \<le> s 3 div 10"
      unfolding tot_def by simp_all
    with digits_of [OF e [of 0] e [of 1] e [of 2] e [of 3]] r show ?thesis
      by (simp add: False modulus_def width_def decimal_modulus_def ten)
  qed
  then show "is_bcd (unat res mod modulus b)" "bcd (unat res mod modulus b) = tot mod decimal_modulus b"
    "res > (if b then 0xFF else 0xFFFF) \<longleftrightarrow> decimal_modulus b \<le> tot" by auto
qed

text \<open>C11: In decimal mode, on packed BCD operands of either width, ADC leaves the packed BCD
  form of the decimal sum modulo 100 or 10000, sets the carry exactly when the decimal sum
  does not fit, and sets N and Z from the packed result.\<close>

theorem ADC_decimal:
  assumes "is_load l" and "LOCAL_DECIMAL s \<noteq> 0"
  defines "b \<equiv> LOCAL_65816_M s"
  defines "v \<equiv> unat (fst (l b s))"
  assumes "is_bcd (acc b s)" and "is_bcd v"
  shows "is_bcd (acc b (ADC l s))
    \<and> bcd (acc b (ADC l s)) = (bcd (acc b s) + bcd v + carry_in s) mod decimal_modulus b
    \<and> (LOCAL_CARRY (ADC l s) \<noteq> 0 \<longleftrightarrow> decimal_modulus b \<le> bcd (acc b s) + bcd v + carry_in s)
    \<and> flags_show b (acc b (ADC l s)) (ADC l s)"
proof -
  obtain w len where l: "l b s = (w, INC_PC len s)" and bound: "unat w < modulus b"
    using load_result [OF assms(1)] b_def by blast
  define a :: u32 where "a = (if b then ucast (reg_a s) else ucast (reg_c s))"
  define c :: u32 where "c = ucast (LOCAL_CARRY s)"
  have "unat a = acc b s" by (simp add: a_def acc_def)
  then have a: "unat a = acc b s" "unat a < modulus b" by (simp_all add: acc_bound)
  have c: "unat c = carry_in s" "unat c \<le> 1" using unat_carry [of s] by (simp_all add: c_def)
  define r where "r = (if b then adc8_decimal a w c else adc16_decimal a (ucast (reg_a s)) w c)"
  have bcd: "is_bcd (unat a)" "is_bcd (unat w)" using assms(5,6) by (simp_all add: a v_def l)
  note r = adc_decimal_result [OF bcd(1) a(2) bcd(2) bound c(2), of "ucast (reg_a s)", folded r_def,
      unfolded a(1) c(1)]
  have eq: "ADC l s = write_back b (fst r) (snd r) (fst r > (if b then 0xFF else 0xFFFF)) (INC_PC len s)"
    using assms(2) l
    by (cases b) (simp_all add: ADC_eq Let_def b_def [symmetric] r_def a_def c_def split_def)
  show ?thesis
    using r write_back_result(4) [where b = b and tmp = "fst r"]
    by (simp add: eq write_back_result v_def l)
qed

theorem ADC_decimal_witness:
  "bcd (acc False (ADC LOAD_IMMEDIATE_FUNC ((native_cpu (\<lambda>a. 0x99))\<lparr>reg_p := P_DECIMAL\<rparr>))) = (1234 + 9999) mod 10000"
  using ADC_decimal [OF is_load_immediate, of "(native_cpu (\<lambda>a. 0x99))\<lparr>reg_p := P_DECIMAL\<rparr>"]
  by (simp add: native_eval operand_eval bcd_eval)

lemma and_not_unat: "unat ((m :: u32) AND NOT v) = unat m - unat (v AND m)"
proof -
  have "(m AND NOT v) AND (v AND m) = 0" by (rule bit_eqI) (auto simp: bit_simps)
  then have "(m AND NOT v) OR (v AND m) = (m AND NOT v) + (v AND m)" by (simp add: disjunctive_add_eq_or)
  moreover have "(m AND NOT v) OR (v AND m) = m" by (rule bit_eqI) (auto simp: bit_simps)
  ultimately have "m AND NOT v = m - (v AND m)" by (simp add: eq_diff_eq)
  then show ?thesis by (simp add: unat_sub word_and_le1)
qed

text \<open>One digit of a decimal subtraction, with the borrow out.\<close>

definition borrow_digit :: "nat \<Rightarrow> nat" where
  "borrow_digit x = (if x < 16 then x - 6 else x - 16)"

lemma sbc8_decimal_digits:
  fixes a v c :: u32
  assumes a: "unat a = 16 * a1 + a0" "a1 \<le> 9" "a0 \<le> 9" and v: "unat v = 16 * v1 + v0" "v1 \<le> 9" "v0 \<le> 9"
    and c: "unat c \<le> 1"
  defines "x0 \<equiv> a0 + 15 - v0 + unat c"
  defines "x1 \<equiv> a1 + 15 - v1 + x0 div 16"
  shows "unat (fst (sbc8_decimal a v c)) = 16 * borrow_digit x1 + borrow_digit x0"
    and "snd (sbc8_decimal a v c) \<longleftrightarrow> 16 \<le> x1"
proof -
  define t0 where "t0 = (a AND 0x0F) + (0x0F AND NOT v) + c"
  define t1 where "t1 = (a AND 0xFF) + (0xFF AND NOT v) + c"
  have x0: "6 \<le> x0" "x0 \<le> 25" and x1: "6 \<le> x1" "x1 \<le> 25"
    using a(2,3) v(2,3) c by (auto simp: x0_def x1_def)
  have d: "digit 0 (unat a) = a0" "digit 0 (unat v) = v0" using a v by (simp_all add: digit_def)
  have t0: "unat t0 = x0"
    using a(3) v(3) c by (simp add: t0_def unat_word_ariths and_not_unat and_digits d x0_def)
  have "unat (a AND 0xFF) = unat a" "unat (v AND 0xFF) = unat v" using a v by (simp_all add: unat_masks)
  then have "unat t1 = unat a + (255 - unat v) + unat c"
    using a v c by (simp add: t1_def unat_word_ariths and_not_unat)
  then have t1: "unat t1 = 16 * (a1 + 15 - v1) + x0" using a v by (simp add: x0_def)
  then have t1': "unat t1 = 16 * x1 + x0 mod 16" by (simp add: x1_def algebra_simps)
  have lo: "unat ((if t0 < 0x10 then t0 - 0x6 else t0) AND 0xF) = borrow_digit x0"
  proof (cases "x0 < 16")
    case True
    then have "unat (t0 - 6) = x0 - 6" using x0 t0 by (simp add: unat_sub word_le_nat_alt)
    with True t0 show ?thesis by (simp add: and_digits digit_def word_less_nat_alt borrow_digit_def)
  next
    case False
    then have "x0 mod 16 = x0 - 16" using x0 by (simp add: le_mod_geq)
    with False t0 show ?thesis by (simp add: and_digits digit_def word_less_nat_alt borrow_digit_def)
  qed
  have lt: "t1 < 0x100 \<longleftrightarrow> x1 < 16" using t1' by (auto simp: word_less_nat_alt)
  have hi: "unat ((if t1 < 0x100 then t1 - 0x60 else t1) AND 0xF0) = 16 * borrow_digit x1"
  proof (cases "x1 < 16")
    case True
    then have "unat (t1 - 0x60) = 16 * (x1 - 6) + x0 mod 16"
      using x1 t1' by (simp add: unat_sub word_le_nat_alt diff_mult_distrib2)
    with True lt show ?thesis by (simp add: and_digits digit_def borrow_digit_def)
  next
    case False
    then have "x1 mod 16 = x1 - 16" using x1 by (simp add: le_mod_geq)
    with False lt t1' show ?thesis by (simp add: and_digits digit_def borrow_digit_def)
  qed
  have eq: "sbc8_decimal a v c = (((if t0 < 0x10 then t0 - 0x6 else t0) AND 0xF)
      OR ((if t1 < 0x100 then t1 - 0x60 else t1) AND 0xF0), t1 > 0xFF)"
    by (simp add: sbc8_decimal_def Let_def t0_def t1_def)
  have "borrow_digit x0 < 16" using x0 by (auto simp: borrow_digit_def)
  then show "unat (fst (sbc8_decimal a v c)) = 16 * borrow_digit x1 + borrow_digit x0"
    using or_disjoint [of "(if t1 < 0x100 then t1 - 0x60 else t1) AND 0xF0" 4
        "(if t0 < 0x10 then t0 - 0x6 else t0) AND 0xF"] lo hi
    unfolding eq fst_conv by (simp add: or.commute)
  show "snd (sbc8_decimal a v c) \<longleftrightarrow> 16 \<le> x1"
    unfolding eq using t1' by (auto simp: word_less_nat_alt)
qed

lemma borrow_digit_eq:
  assumes "6 \<le> x" and "x \<le> 25"
  shows "borrow_digit x \<le> 9" "borrow_digit x + 10 * (x div 16) + 6 = x" "x div 16 \<le> 1"
    "1 \<le> x div 16 \<longleftrightarrow> 16 \<le> x"
proof -
  have "x div 16 = (if x < 16 then 0 else 1)" using assms by (simp add: div_nat_eqI)
  then show "borrow_digit x \<le> 9" "borrow_digit x + 10 * (x div 16) + 6 = x" "x div 16 \<le> 1"
    "1 \<le> x div 16 \<longleftrightarrow> 16 \<le> x"
    using assms by (auto simp: borrow_digit_def)
qed

lemma bcd_byteE:
  assumes "is_bcd n" and "n < 256"
  obtains n1 n0 where "n = 16 * n1 + n0" "n1 \<le> 9" "n0 \<le> 9" "bcd n = 10 * n1 + n0"
proof
  show "n = 16 * digit 1 n + digit 0 n" using assms(2) by (simp add: digit_def)
  show "digit 1 n \<le> 9" "digit 0 n \<le> 9" using assms(1) by (simp_all add: is_bcd_def)
  show "bcd n = 10 * digit 1 n + digit 0 n" using bcd_byte [OF assms(2)] by (simp add: bcd_def)
qed

lemma sbc8_decimal_result:
  fixes a v c :: u32
  assumes a: "is_bcd (unat a)" "unat a < 256" and v: "is_bcd (unat v)" "unat v < 256" and c: "unat c \<le> 1"
  defines "res \<equiv> unat (fst (sbc8_decimal a v c))"
  shows "res < 256" "is_bcd res"
    "bcd res = (bcd (unat a) + 100 - bcd (unat v) - (1 - unat c)) mod 100"
    "snd (sbc8_decimal a v c) \<longleftrightarrow> bcd (unat v) + (1 - unat c) \<le> bcd (unat a)"
proof -
  obtain a1 a0 where a': "unat a = 16 * a1 + a0" "a1 \<le> 9" "a0 \<le> 9" "bcd (unat a) = 10 * a1 + a0"
    using bcd_byteE [OF a] .
  obtain v1 v0 where v': "unat v = 16 * v1 + v0" "v1 \<le> 9" "v0 \<le> 9" "bcd (unat v) = 10 * v1 + v0"
    using bcd_byteE [OF v] .
  define x0 where "x0 = a0 + 15 - v0 + unat c"
  have x0: "6 \<le> x0" "x0 \<le> 25" using a' v' c by (auto simp: x0_def)
  note d0 = borrow_digit_eq [OF x0]
  define x1 where "x1 = a1 + 15 - v1 + x0 div 16"
  have x1: "6 \<le> x1" "x1 \<le> 25" using a' v' d0(3) by (auto simp: x1_def)
  note d1 = borrow_digit_eq [OF x1]
  note r = sbc8_decimal_digits [OF a'(1-3) v'(1-3) c, folded x0_def, folded x1_def]
  have res: "res = 4096 * 0 + (256 * 0 + (16 * borrow_digit x1 + borrow_digit x0))"
    using r(1) by (simp add: res_def)
  have z: "(0 :: nat) \<le> 9" by simp
  note dg = digits_of [OF d0(1) d1(1) z z, folded res]
  show "res < 256" using res d0(1) d1(1) by simp
  show "is_bcd res" by (rule dg)
  let ?tot = "bcd (unat a) + 100 - bcd (unat v) - (1 - unat c)"
  have total: "bcd res + 100 * (x1 div 16) = ?tot"
    using d0(2) d1(2) a' v' c unfolding dg(2) x0_def x1_def by linarith
  have lt: "bcd res < 100" unfolding dg(2) using d0(1) d1(1) by linarith
  note m = mod_divI [OF total lt d1(3)]
  show "bcd res = ?tot mod 100" using m(1) by simp
  have "bcd (unat a) \<le> 99" "bcd (unat v) \<le> 99" using a' v' by simp_all
  then have "100 \<le> ?tot \<longleftrightarrow> bcd (unat v) + (1 - unat c) \<le> bcd (unat a)" using c by auto
  then show "snd (sbc8_decimal a v c) \<longleftrightarrow> bcd (unat v) + (1 - unat c) \<le> bcd (unat a)"
    using m(2) r(2) d1(4) by simp
qed

lemma accumulator_flags [simp]:
  "reg_a (LOCAL_SET_OVERFLOW o' s) = reg_a s" "reg_a (LOCAL_SET_CARRY o' s) = reg_a s"
  by (simp_all add: reg_a_def)

text \<open>C12: In decimal mode, on packed BCD operands and with the 8 bit accumulator, SBC leaves
  the packed BCD form of the decimal difference modulo 100 and sets the carry exactly when no
  borrow is needed.\<close>

theorem SBC_decimal:
  assumes "is_load l" and "LOCAL_DECIMAL s \<noteq> 0" and "LOCAL_65816_M s"
  defines "v \<equiv> unat (fst (l True s))"
  assumes "is_bcd (acc True s)" and "is_bcd v"
  shows "is_bcd (acc True (SBC l s))
    \<and> bcd (acc True (SBC l s)) = (bcd (acc True s) + 100 - bcd v - (1 - carry_in s)) mod 100
    \<and> (LOCAL_CARRY (SBC l s) \<noteq> 0 \<longleftrightarrow> bcd v + (1 - carry_in s) \<le> bcd (acc True s))
    \<and> flags_show True (acc True (SBC l s)) (SBC l s)"
proof -
  obtain w len where l: "l True s = (w, INC_PC len s)" and bound: "unat w < modulus True"
    using load_result [OF assms(1), of s True] assms(3) by blast
  define a c :: u32 where "a = ucast (reg_a s)" and "c = ucast (LOCAL_CARRY s)"
  have a: "unat a = acc True s" by (simp add: a_def acc_def)
  have c: "unat c = carry_in s" "unat c \<le> 1" using unat_carry [of s] by (simp_all add: c_def)
  have bcd: "is_bcd (unat a)" "unat a < 256" "is_bcd (unat w)" "unat w < 256"
    using assms(5,6) acc_bound [of True s] bound by (simp_all add: a v_def l modulus_def width_def)
  define r where "r = sbc8_decimal a w c"
  note res = sbc8_decimal_result [OF bcd c(2), folded r_def, unfolded a c(1)]
  define ov where "ov = snd (sbc_binary 0xFF 0x80 a w c)"
  have eq: "SBC l s = write_back True (fst r) ov (snd r) (INC_PC len s)"
    using assms(2,3) l by (simp add: SBC_def write_back_def Let_def split_def r_def a_def c_def ov_def)
  have "unat (fst r) mod modulus True = unat (fst r)" using res(1) by (simp add: modulus_def width_def)
  then show ?thesis
    using res(2-4) write_back_result(4) [where b = True and tmp = "fst r"]
    by (simp add: eq write_back_result v_def l)
qed

theorem SBC_decimal_witness:
  "bcd (acc True (SBC LOAD_IMMEDIATE_FUNC ((native_cpu (\<lambda>a. 0x35))\<lparr>reg_p := P_DECIMAL OR P_65816_M\<rparr>))) = 98"
  using SBC_decimal [OF is_load_immediate, of "(native_cpu (\<lambda>a. 0x35))\<lparr>reg_p := P_DECIMAL OR P_65816_M\<rparr>"]
  by (simp add: native_eval operand_eval bcd_eval)

lemma sbc16_decimal_zero:
  fixes a :: u32
  assumes "unat a < 256"
  shows "unat (fst (sbc16_decimal a 0 1)) = unat a"
proof -
  have "a AND 0xFFF = take_bit 12 a" by (simp add: take_bit_eq_mask mask_eq_exp_minus_1)
  then have m: "unat (a AND 0xFF) = unat a" "unat (a AND 0xFFF) = unat a" "unat (a AND 0xFFFF) = unat a"
    using assms by (simp_all add: unat_masks unsigned_take_bit_eq take_bit_eq_mod [where ?'a = nat])
  define t0 t1 t2 t3 where "t0 = (a AND 0x0F) + 0x10" and "t1 = (a AND 0xFF) + 0x100"
    and "t2 = (a AND 0xFFF) + 0x1000" and "t3 = (a AND 0xFFFF) + 0x10000"
  have u: "unat t0 = digit 0 (unat a) + 16" "unat t1 = unat a + 256" "unat t2 = unat a + 4096"
    "unat t3 = unat a + 65536"
    using assms m by (simp_all add: t0_def t1_def t2_def t3_def unat_word_ariths and_digits digit_def)
  have n: "\<not> t0 < 0x10" "\<not> t1 < 0x100" "\<not> t2 < 0x1000" "\<not> t3 < 0x10000"
    using u by (simp_all add: word_less_nat_alt)
  have "(unat a + 4096) div 256 = 16" "(unat a + 65536) div 4096 = 16"
    using assms by (simp_all add: div_nat_eqI)
  then have "unat (t2 AND 0xF00) = 0" "unat (t3 AND 0xF000) = 0"
    by (simp_all add: and_digits u digit_def)
  then have z: "t2 AND 0xF00 = 0" "t3 AND 0xF000 = 0" by (simp_all only: unat_eq_0)
  have d: "unat (t0 AND 0xF) = digit 0 (unat a)" "unat (t1 AND 0xF0) = 16 * digit 1 (unat a)"
  proof -
    have "unat a + 256 = 16 * 16 + unat a" by simp
    then have "(unat a + 256) div 16 = 16 + unat a div 16" by (simp only: div_mult_self4)
    then show "unat (t0 AND 0xF) = digit 0 (unat a)" "unat (t1 AND 0xF0) = 16 * digit 1 (unat a)"
      by (simp_all add: and_digits u digit_def)
  qed
  have "fst (sbc16_decimal a 0 1) = (t1 AND 0xF0) OR (t0 AND 0xF)"
  proof -
    have "(a AND 0x0F) + (0x0F AND NOT 0) + 1 = t0" "(a AND 0xFF) + (0xFF AND NOT 0) + 1 = t1"
      "(a AND 0xFFF) + (0xFFF AND NOT 0) + 1 = t2" "(a AND 0xFFFF) + (0xFFFF AND NOT 0) + 1 = t3"
      by (simp_all add: t0_def t1_def t2_def t3_def)
    with n z show ?thesis by (simp only: sbc16_decimal_def Let_def if_False fst_conv or.commute) simp
  qed
  moreover have "unat ((t1 AND 0xF0) OR (t0 AND 0xF)) = 16 * digit 1 (unat a) + digit 0 (unat a)"
    using or_disjoint [of "t1 AND 0xF0" 4 "t0 AND 0xF"] d by (simp add: digit_def)
  ultimately show ?thesis using assms by (simp add: digit_def)
qed

text \<open>The 16 bit decimal subtraction does not look at the high byte of the accumulator.\<close>

text \<open>C21: With the 16 bit accumulator the decimal branch of SBC reads the low byte
  \<open>reg_a\<close> where it should read \<open>reg_c\<close>: subtracting zero without a borrow clears the high
  byte of the accumulator.\<close>

theorem SBC_decimal_loses_high_byte:
  assumes "is_load l" and "LOCAL_DECIMAL s \<noteq> 0" and "\<not> LOCAL_65816_M s"
    and "fst (l False s) = 0" and "LOCAL_CARRY s \<noteq> 0"
  shows "reg_c (SBC l s) = ucast (reg_a s)"
proof -
  obtain w len where l: "l False s = (w, INC_PC len s)"
    using load_result [OF assms(1), of s False] assms(3) by blast
  have c: "LOCAL_CARRY s = 1"
    using assms(5) by (simp add: LOCAL_CARRY_def and_one_eq mod2_eq_if split: if_splits)
  have "reg_c (SBC l s) = ucast (fst (sbc16_decimal (ucast (reg_a s)) 0 1))"
    using assms l c by (simp add: SBC_def Let_def split_def)
  moreover have "unat (fst (sbc16_decimal (ucast (reg_a s)) 0 1)) = unat (reg_a s)"
    using sbc16_decimal_zero [of "ucast (reg_a s)"] u8_bound [of "reg_a s"] by simp
  ultimately show ?thesis
    using u8_bound [of "reg_a s"] by (simp add: word_unat_eq_iff unat_ucast_down)
qed

theorem SBC_decimal_loses_high_byte_witness:
  "reg_c (SBC LOAD_IMMEDIATE_FUNC ((native_cpu (\<lambda>a. 0))\<lparr>reg_p := P_DECIMAL OR P_CARRY\<rparr>)) = 0x34"
  using SBC_decimal_loses_high_byte [OF is_load_immediate, of "(native_cpu (\<lambda>a. 0))\<lparr>reg_p := P_DECIMAL OR P_CARRY\<rparr>"]
  by (simp add: native_eval operand_eval)

end
