(* ===== verification/Logic_Shifts.thy ===== *)
theory Logic_Shifts
  imports Decimal
begin

text \<open>
  Comparisons, shifts and rotations of the accumulator, logical operations and the
  steps of the index registers, on numbers.
\<close>

section \<open>Comparisons\<close>

text \<open>The flags after comparing \<open>a\<close> with \<open>v\<close>.\<close>

lemma compare_flags:
  fixes a v :: u32 and b :: bool and s :: cpu
  assumes a: "unat a < modulus b" and v: "unat v < modulus b"
  defines "t \<equiv> LOCAL_SET_NZ (a - v) b (LOCAL_SET_CARRY (a - v < (if b then 0x100 else 0x10000)) s)"
  shows "LOCAL_CARRY t \<noteq> 0 \<longleftrightarrow> unat v \<le> unat a" and "LOCAL_ZERO t \<longleftrightarrow> unat a = unat v"
    and "LOCAL_SIGN t \<noteq> 0 \<longleftrightarrow> signed_of b ((unat a + modulus b - unat v) mod modulus b) < 0"
proof -
  have m: "modulus b \<le> 65536" by (simp add: modulus_def width_def)
  have diff: "unat (a - v) = (if unat v \<le> unat a then unat a - unat v else 2 ^ 32 + unat a - unat v)"
    by (simp add: unat_sub_if_size word_size add.commute [of "unat a"])
  have mod: "unat (a - v) mod modulus b = (unat a + modulus b - unat v) mod modulus b"
  proof (cases "unat v \<le> unat a")
    case True
    then have e: "unat a + modulus b - unat v = unat a - unat v + modulus b" by simp
    have "unat (a - v) = unat a - unat v" using True diff by simp
    then show ?thesis unfolding e by simp
  next
    case False
    obtain q where q: "(2 :: nat) ^ 32 = modulus b * q + modulus b"
    proof (cases b)
      case True then show ?thesis using that [of "16777215"] by (simp add: modulus_def width_def)
    next
      case False then show ?thesis using that [of "65535"] by (simp add: modulus_def width_def)
    qed
    have "2 ^ 32 + unat a - unat v = (unat a + modulus b - unat v) + modulus b * q"
      unfolding q using v by simp
    then show ?thesis using False diff by simp
  qed
  have "a - v < (if b then 0x100 else 0x10000) \<longleftrightarrow> unat (a - v) < modulus b"
    by (simp add: word_less_nat_alt modulus_def width_def)
  also have "\<dots> \<longleftrightarrow> unat v \<le> unat a" using diff a v m by auto
  finally have c: "a - v < (if b then 0x100 else 0x10000) \<longleftrightarrow> unat v \<le> unat a" .
  have "LOCAL_CARRY t = LOCAL_CARRY (LOCAL_SET_CARRY (a - v < (if b then 0x100 else 0x10000)) s)"
    unfolding t_def by (rule flag_cong) simp
  then show "LOCAL_CARRY t \<noteq> 0 \<longleftrightarrow> unat v \<le> unat a" using c by simp
  have fl: "flags_show b (unat (a - v) mod modulus b) t" unfolding t_def by (rule SET_NZ_flags)
  have "(unat a + modulus b - unat v) mod modulus b = 0 \<longleftrightarrow> unat a = unat v"
    using a v by (auto simp: mod_if)
  with fl mod show "LOCAL_ZERO t \<longleftrightarrow> unat a = unat v" by (simp add: flags_show_def)
  from fl mod show "LOCAL_SIGN t \<noteq> 0 \<longleftrightarrow> signed_of b ((unat a + modulus b - unat v) mod modulus b) < 0"
    by (simp add: flags_show_def)
qed

text \<open>CMP, with any addressing mode, does not change the accumulator and sets the carry
  exactly when the accumulator is at least the operand, Z exactly when they are equal and N
  from the sign of the difference at the width of the accumulator.\<close>

theorem CMP_result:
  fixes l :: load_func and s :: cpu
  assumes "is_load l"
  defines "b \<equiv> LOCAL_65816_M s"
  defines "v \<equiv> unat (fst (l b s))"
  shows "reg_c (CMP l s) = reg_c s \<and> (LOCAL_CARRY (CMP l s) \<noteq> 0 \<longleftrightarrow> v \<le> acc b s)
    \<and> (LOCAL_ZERO (CMP l s) \<longleftrightarrow> acc b s = v)
    \<and> (LOCAL_SIGN (CMP l s) \<noteq> 0 \<longleftrightarrow> signed_of b ((acc b s + modulus b - v) mod modulus b) < 0)"
proof -
  obtain w len where l: "l b s = (w, INC_PC len s)" and bound: "unat w < modulus b"
    using load_result [OF assms(1)] b_def by blast
  define a :: u32 where "a = (if b then ucast (reg_a s) else ucast (reg_c s))"
  have a: "unat a = acc b s" by (simp add: a_def acc_def)
  have "CMP l s = LOCAL_SET_NZ (a - w) b
      (LOCAL_SET_CARRY (a - w < (if b then 0x100 else 0x10000)) (INC_PC len s))"
    using l by (cases b) (simp_all add: CMP_def b_def [symmetric] a_def Let_def split_def)
  then show ?thesis
    using compare_flags [of a b w, unfolded a, OF acc_bound bound] by (simp add: v_def l)
qed

theorem CMP_result_witness:
  "LOCAL_CARRY (CMP LOAD_IMMEDIATE_FUNC (native_cpu (\<lambda>a. 0x22))) = 0"
  using CMP_result [OF is_load_immediate, of "native_cpu (\<lambda>a. 0x22)"]
  by (simp add: native_eval operand_eval)

text \<open>CPX and CPY, with any addressing mode, set the carry exactly when the index register
  is at least the operand, Z exactly when they are equal and N from the sign of the difference
  at the width of the index registers.\<close>

theorem CPX_CPY_result:
  assumes "is_load l" and "wf_cpu s" and "r \<in> {reg_x, reg_y}"
  defines "b \<equiv> LOCAL_65816_X s"
  defines "v \<equiv> unat (fst (l b s))"
  shows "(LOCAL_CARRY (CMPI l r s) \<noteq> 0 \<longleftrightarrow> v \<le> unat (r s))
    \<and> (LOCAL_ZERO (CMPI l r s) \<longleftrightarrow> unat (r s) = v)
    \<and> (LOCAL_SIGN (CMPI l r s) \<noteq> 0 \<longleftrightarrow> signed_of b ((unat (r s) + modulus b - v) mod modulus b) < 0)"
proof -
  have "reg_emul s \<noteq> 0 \<longrightarrow> b" by (simp add: b_def LOCAL_65816_X_def)
  then obtain w len where l: "l b s = (w, INC_PC len s)" "b \<longrightarrow> w \<le> 0xFF" "w \<le> 0xFFFF"
    using assms(1) unfolding is_load_def by blast
  have bound: "unat w < modulus b" using l by (auto simp: modulus_def width_def word_le_nat_alt)
  have a: "unat (ucast (r s) :: u32) < modulus b"
    using wf_index_bound [OF assms(2)] assms(3) u16_bound [of "r s"]
    by (auto simp: b_def modulus_def width_def word_le_nat_alt)
  have r: "r (INC_PC len s) = r s" using assms(3) by auto
  have "CMPI l r s = LOCAL_SET_NZ (ucast (r s) - w) b
      (LOCAL_SET_CARRY (ucast (r s) - w < (if b then 0x100 else 0x10000)) (INC_PC len s))"
    using l r by (cases b) (simp_all add: CMPI_def b_def [symmetric] Let_def split_def)
  then show ?thesis using compare_flags [OF a bound] by (simp add: v_def l)
qed

theorem CPX_CPY_result_witness:
  "LOCAL_CARRY (CMPI LOAD_IMMEDIATE_FUNC reg_x (native_cpu (\<lambda>a. 0x22))) \<noteq> 0"
  using CPX_CPY_result [OF is_load_immediate wf_native, of reg_x "\<lambda>a. 0x22"]
  by (simp add: native_eval operand_eval)

section \<open>Shifts and rotations of the accumulator\<close>

definition accu_word :: "bool \<Rightarrow> cpu \<Rightarrow> u32" where
  "accu_word b s = (if b then ucast (reg_a s) else ucast (reg_c s))"

lemma unat_accu_word: "unat (accu_word b s) = acc b s"
  by (simp add: accu_word_def acc_def)

lemma accu_store:
  fixes tmp ea :: u32 and b c :: bool and s :: cpu
  defines "t \<equiv> STORE_ACCU_RRW ea tmp b (LOCAL_SET_NZ tmp b (LOCAL_SET_CARRY c s))"
  shows "acc b t = unat tmp mod modulus b" "LOCAL_CARRY t \<noteq> 0 \<longleftrightarrow> c"
    "flags_show b (unat tmp mod modulus b) t" "LOCAL_65816_M t = LOCAL_65816_M s"
proof -
  let ?u = "LOCAL_SET_NZ tmp b (LOCAL_SET_CARRY c s)"
  have n: "flag_n t = flag_n ?u" "flag_z t = flag_z ?u" and p: "reg_p t = reg_p (LOCAL_SET_CARRY c s)"
    and e: "reg_emul t = reg_emul s"
    by (simp_all add: t_def STORE_ACCU_RRW_def)
  show "flags_show b (unat tmp mod modulus b) t"
    unfolding flag_cong(4) [OF n] by (rule SET_NZ_flags)
  show "LOCAL_CARRY t \<noteq> 0 \<longleftrightarrow> c" unfolding flag_cong(1) [OF p] by simp
  show "acc b t = unat tmp mod modulus b"
    by (simp add: t_def acc_def STORE_ACCU_RRW_def unat_ucast_down modulus_def width_def)
  have "reg_p t AND P_65816_M = reg_p s AND P_65816_M"
    unfolding p by (simp add: LOCAL_SET_CARRY_def mask_simps)
  then show "LOCAL_65816_M t = LOCAL_65816_M s" using e by (simp add: LOCAL_65816_M_def)
qed

lemma LOAD_ACCU_eq: "LOAD_ACCU_RRW b s = ((accu_word b s, 0), INC_PC 1 s)"
  by (simp add: LOAD_ACCU_RRW_def accu_word_def Let_def)

lemma shift_left_value:
  fixes w c :: u32 and b :: bool
  assumes "unat w < modulus b" and "unat c \<le> 1"
  shows "unat (push_bit 1 w OR c) = 2 * unat w + unat c"
    and "(push_bit 1 w OR c) AND (if b then 0x100 else 0x10000) \<noteq> 0 \<longleftrightarrow> modulus b div 2 \<le> unat w"
proof -
  have m: "modulus b \<le> 65536" by (simp add: modulus_def width_def)
  have p: "unat (push_bit 1 w) = 2 * unat w"
    using assms(1) m by (simp add: unat_word_ariths)
  show v: "unat (push_bit 1 w OR c) = 2 * unat w + unat c"
    using or_disjoint [of "push_bit 1 w" 1 c] p assms(2) by simp
  have t: "x AND 0x100 \<noteq> 0 \<longleftrightarrow> odd (unat x div 256)" "x AND 0x10000 \<noteq> 0 \<longleftrightarrow> odd (unat x div 65536)" for x :: u32
    using and_exp_eq_0_iff_not_bit [of x 8] and_exp_eq_0_iff_not_bit [of x 16] by (simp_all add: bit_unat)
  have "(2 * n + d) div 256 = n div 128" "(2 * n + d) div 65536 = n div 32768" if "d \<le> 1" for n d :: nat
    using that div_mult2_eq [of "2 * n + d" 2 128] div_mult2_eq [of "2 * n + d" 2 32768] by simp_all
  then show "(push_bit 1 w OR c) AND (if b then 0x100 else 0x10000) \<noteq> 0 \<longleftrightarrow> modulus b div 2 \<le> unat w"
    using assms v by (cases b) (simp_all add: t modulus_def width_def odd_div_msb)
qed

lemma ASLROL_accu:
  fixes s :: cpu and carry :: "cpu \<Rightarrow> u32"
  defines "b \<equiv> LOCAL_65816_M s"
  defines "t \<equiv> ASLROL LOAD_ACCU_RRW STORE_ACCU_RRW carry s"
  defines "c \<equiv> unat (carry (INC_PC 1 s))"
  assumes "c \<le> 1"
  shows "acc b t = (2 * acc b s + c) mod modulus b" "LOCAL_CARRY t \<noteq> 0 \<longleftrightarrow> modulus b div 2 \<le> acc b s"
    "flags_show b (acc b t) t" "LOCAL_65816_M t = b"
proof -
  define tmp where "tmp = push_bit 1 (accu_word b s) OR carry (INC_PC 1 s)"
  have eq: "t = STORE_ACCU_RRW 0 tmp b
      (LOCAL_SET_NZ tmp b (LOCAL_SET_CARRY (tmp AND (if b then 0x100 else 0x10000) \<noteq> 0) (INC_PC 1 s)))"
    by (cases b) (simp_all add: t_def ASLROL_def LOAD_ACCU_eq b_def [symmetric] tmp_def Let_def)
  have v: "unat tmp = 2 * acc b s + c" "tmp AND (if b then 0x100 else 0x10000) \<noteq> 0 \<longleftrightarrow> modulus b div 2 \<le> acc b s"
    using shift_left_value [of "accu_word b s" b "carry (INC_PC 1 s)"] assms(4) acc_bound [of b s]
    by (simp_all add: unat_accu_word tmp_def c_def)
  note st = accu_store [where ea = 0 and tmp = tmp and b = b
      and c = "tmp AND (if b then 0x100 else 0x10000) \<noteq> 0" and s = "INC_PC 1 s", folded eq]
  show acc: "acc b t = (2 * acc b s + c) mod modulus b" using st(1) v(1) by simp
  show "LOCAL_CARRY t \<noteq> 0 \<longleftrightarrow> modulus b div 2 \<le> acc b s" using st(2) v(2) by simp
  show "flags_show b (acc b t) t" using st(3) unfolding st(1) .
  show "LOCAL_65816_M t = b" using st(4) by (simp add: b_def)
qed

lemma shift_right_value:
  fixes w c :: u32 and b :: bool
  assumes "unat w < modulus b"
  defines "x \<equiv> w OR (if c \<noteq> 0 then (if b then 0x100 else 0x10000) else 0)"
  shows "unat x = unat w + of_bool (c \<noteq> 0) * modulus b" and "unat (drop_bit 1 x) = unat x div 2"
    and "x AND 1 \<noteq> 0 \<longleftrightarrow> odd (unat w)"
proof -
  show x: "unat x = unat w + of_bool (c \<noteq> 0) * modulus b"
    using assms(1) or_disjoint [of "0x100" 8 w] or_disjoint [of "0x10000" 16 w]
    by (cases b) (auto simp: x_def modulus_def width_def or.commute)
  show "unat (drop_bit 1 x) = unat x div 2"
    using unsigned_less [of x, where ?'a = nat]
    by (simp add: unsigned_drop_bit_eq drop_bit_eq_div [where ?'a = nat] take_bit_eq_mod [where ?'a = nat])
  have "x AND 1 \<noteq> 0 \<longleftrightarrow> odd (unat x)"
    using and_exp_eq_0_iff_not_bit [of x 0] by (simp add: bit_unat)
  also have "\<dots> \<longleftrightarrow> odd (unat w)" using x by (simp add: modulus_def width_def)
  finally show "x AND 1 \<noteq> 0 \<longleftrightarrow> odd (unat w)" .
qed

lemma LSRROR_accu:
  fixes s :: cpu and carry :: "cpu \<Rightarrow> u32"
  defines "b \<equiv> LOCAL_65816_M s"
  defines "t \<equiv> LSRROR LOAD_ACCU_RRW STORE_ACCU_RRW carry s"
  defines "c \<equiv> of_bool (carry (INC_PC 1 s) \<noteq> 0) :: nat"
  shows "acc b t = acc b s div 2 + c * (modulus b div 2)" "LOCAL_CARRY t \<noteq> 0 \<longleftrightarrow> odd (acc b s)"
    "flags_show b (acc b t) t" "LOCAL_65816_M t = b"
proof -
  define x where "x = accu_word b s OR (if carry (INC_PC 1 s) \<noteq> 0 then (if b then 0x100 else 0x10000) else 0)"
  have eq: "t = STORE_ACCU_RRW 0 (drop_bit 1 x) b
      (LOCAL_SET_NZ (drop_bit 1 x) b (LOCAL_SET_CARRY (x AND 1 \<noteq> 0) (INC_PC 1 s)))"
    by (cases b) (simp_all add: t_def LSRROR_def LOAD_ACCU_eq b_def [symmetric] x_def Let_def)
  have v: "unat x = acc b s + c * modulus b" "unat (drop_bit 1 x) = unat x div 2" "x AND 1 \<noteq> 0 \<longleftrightarrow> odd (acc b s)"
    using shift_right_value [of "accu_word b s" b "carry (INC_PC 1 s)"] acc_bound [of b s]
    by (simp_all add: unat_accu_word x_def c_def)
  have half: "modulus b = 2 * (modulus b div 2)" by (simp add: modulus_def width_def)
  have val: "unat (drop_bit 1 x) = acc b s div 2 + c * (modulus b div 2)"
    unfolding v(1,2) by (subst half) simp
  have "c \<le> 1" by (simp add: c_def)
  have "acc b s div 2 + c * (modulus b div 2) < modulus b"
  proof -
    have "acc b s div 2 < modulus b div 2" using acc_bound [of b s] half by linarith
    moreover have "c * (modulus b div 2) \<le> modulus b div 2" using \<open>c \<le> 1\<close> by (cases c) simp_all
    ultimately show ?thesis using half by linarith
  qed
  then have m: "unat (drop_bit 1 x) mod modulus b = acc b s div 2 + c * (modulus b div 2)" using val by simp
  note st = accu_store [where ea = 0 and tmp = "drop_bit 1 x" and b = b and c = "x AND 1 \<noteq> 0"
      and s = "INC_PC 1 s", folded eq]
  show "acc b t = acc b s div 2 + c * (modulus b div 2)" using st(1) m by simp
  show "LOCAL_CARRY t \<noteq> 0 \<longleftrightarrow> odd (acc b s)" using st(2) v(3) by simp
  show "flags_show b (acc b t) t" using st(3) unfolding st(1) .
  show "LOCAL_65816_M t = b" using st(4) by (simp add: b_def)
qed

text \<open>ASL, ROL, LSR and ROR on the accumulator, at either width: the value left in the
  register as an arithmetic expression of the old value and carry, the bit shifted out in
  the carry flag, and N and Z from the result.\<close>

theorem shifts_accumulator:
  fixes s :: cpu
  defines "b \<equiv> LOCAL_65816_M s"
  shows "acc b (ASL LOAD_ACCU_RRW STORE_ACCU_RRW s) = 2 * acc b s mod modulus b
    \<and> acc b (ROL LOAD_ACCU_RRW STORE_ACCU_RRW s) = (2 * acc b s + carry_in s) mod modulus b
    \<and> acc b (LSR LOAD_ACCU_RRW STORE_ACCU_RRW s) = acc b s div 2
    \<and> acc b (ROR LOAD_ACCU_RRW STORE_ACCU_RRW s) = acc b s div 2 + carry_in s * (modulus b div 2)
    \<and> (\<forall>shift \<in> {ASL, ROL}. LOCAL_CARRY (shift LOAD_ACCU_RRW STORE_ACCU_RRW s) \<noteq> 0 \<longleftrightarrow> modulus b div 2 \<le> acc b s)
    \<and> (\<forall>shift \<in> {LSR, ROR}. LOCAL_CARRY (shift LOAD_ACCU_RRW STORE_ACCU_RRW s) \<noteq> 0 \<longleftrightarrow> odd (acc b s))
    \<and> (\<forall>shift \<in> {ASL, ROL, LSR, ROR}. flags_show b (acc b (shift LOAD_ACCU_RRW STORE_ACCU_RRW s))
          (shift LOAD_ACCU_RRW STORE_ACCU_RRW s))"
  using ASLROL_accu [where s = s and carry = "\<lambda>s. 0", folded ASL_def b_def]
    ASLROL_accu [where s = s and carry = "\<lambda>s. ucast (LOCAL_CARRY s)", folded ROL_def b_def]
    LSRROR_accu [where s = s and carry = "\<lambda>s. 0", folded LSR_def b_def]
    LSRROR_accu [where s = s and carry = "\<lambda>s. ucast (LOCAL_CARRY s)", folded ROR_def b_def]
    unat_carry [of s]
  by (simp add: carry_in_def)

theorem shifts_accumulator_witness:
  "acc False (ROL LOAD_ACCU_RRW STORE_ACCU_RRW (native_cpu (\<lambda>a. 0))) = 0x2469"
  using shifts_accumulator [of "native_cpu (\<lambda>a. 0)"] by (simp add: native_eval)

lemma rotate_numbers:
  fixes a c h :: nat
  assumes "a < 2 * h" and "c \<le> 1"
  shows "(2 * a + c) mod (2 * h) div 2 + of_bool (h \<le> a) * h = a" and "of_bool (odd ((2 * a + c) mod (2 * h))) = c"
    and "(2 * (a div 2 + c * h) + of_bool (odd a)) mod (2 * h) = a" and "of_bool (h \<le> a div 2 + c * h) = c"
proof -
  have "(2 * a + c) mod (2 * h) = 2 * (if h \<le> a then a - h else a) + c"
  proof (cases "h \<le> a")
    case True
    then have "2 * a + c = 2 * h + (2 * (a - h) + c)" by simp
    moreover have "2 * (a - h) + c < 2 * h" using assms True by simp
    ultimately have "(2 * a + c) mod (2 * h) = 2 * (a - h) + c" by (simp only: mod_add_self1 mod_less)
    with True show ?thesis by simp
  qed (use assms in simp)
  then show "(2 * a + c) mod (2 * h) div 2 + of_bool (h \<le> a) * h = a"
    "of_bool (odd ((2 * a + c) mod (2 * h))) = c"
    using assms(2) by (auto simp: le_Suc_eq)
  have half: "a = 2 * (a div 2) + of_bool (odd a)" by (simp add: of_bool_odd_eq_mod_2)
  have "2 * (a div 2 + c * h) + of_bool (odd a) = a + (2 * h) * c"
    by (subst (3) half) (simp add: distrib_left ac_simps)
  then show "(2 * (a div 2 + c * h) + of_bool (odd a)) mod (2 * h) = a"
    using assms(1) by (simp only: mod_mult_self2 mod_less)
  show "of_bool (h \<le> a div 2 + c * h) = c" using assms by (auto simp: le_Suc_eq)
qed

text \<open>Rotating the accumulator right after rotating it left, or the other way round,
  gives back the accumulator and the carry.\<close>

theorem ROR_undoes_ROL:
  fixes s :: cpu
  defines "t \<equiv> ROR LOAD_ACCU_RRW STORE_ACCU_RRW (ROL LOAD_ACCU_RRW STORE_ACCU_RRW s)"
    and "u \<equiv> ROL LOAD_ACCU_RRW STORE_ACCU_RRW (ROR LOAD_ACCU_RRW STORE_ACCU_RRW s)"
    and "b \<equiv> LOCAL_65816_M s"
  shows "acc b t = acc b s \<and> carry_in t = carry_in s \<and> acc b u = acc b s \<and> carry_in u = carry_in s"
proof -
  let ?l = "ROL LOAD_ACCU_RRW STORE_ACCU_RRW" and ?r = "ROR LOAD_ACCU_RRW STORE_ACCU_RRW"
  define h where "h = modulus b div 2"
  have m: "modulus b = 2 * h" by (simp add: h_def modulus_def width_def)
  have l: "acc b (?l s) = (2 * acc b s + carry_in s) mod (2 * h)" "carry_in (?l s) = of_bool (h \<le> acc b s)"
    "LOCAL_65816_M (?l s) = b" if "LOCAL_65816_M s = b" for s
    using ASLROL_accu [where s = s and carry = "\<lambda>s. ucast (LOCAL_CARRY s)", folded ROL_def]
      unat_carry [of s] that by (simp_all add: carry_in_def m)
  have r: "acc b (?r s) = acc b s div 2 + carry_in s * h" "carry_in (?r s) = of_bool (odd (acc b s))"
    "LOCAL_65816_M (?r s) = b" if "LOCAL_65816_M s = b" for s
    using LSRROR_accu [where s = s and carry = "\<lambda>s. ucast (LOCAL_CARRY s)", folded ROR_def]
      that by (simp_all add: carry_in_def m)
  have s: "LOCAL_65816_M s = b" "acc b s < 2 * h" "carry_in s \<le> 1"
    using acc_bound [of b s] unfolding m by (simp_all add: b_def carry_in_def)
  have "acc b t = acc b s \<and> carry_in t = carry_in s"
    using s rotate_numbers(1,2) [OF s(2,3)] by (simp only: t_def l r)
  moreover have "acc b u = acc b s \<and> carry_in u = carry_in s"
    using s rotate_numbers(3,4) [OF s(2,3)] by (simp only: u_def l r)
  ultimately show ?thesis by simp
qed

section \<open>Logic and loads\<close>

lemma LOGICAL_result:
  fixes l :: load_func and s :: cpu and f :: "u32 \<Rightarrow> u32 \<Rightarrow> u32"
  assumes "is_load l"
  defines "b \<equiv> LOCAL_65816_M s"
  defines "r \<equiv> unat (f (accu_word b s) (fst (l b s))) mod modulus b"
  shows "acc b (LOGICAL l f s) = r" "flags_show b r (LOGICAL l f s)" "reg_p (LOGICAL l f s) = reg_p s"
proof -
  obtain w len where l: "l b s = (w, INC_PC len s)" and bound: "unat w < modulus b"
    using load_result [OF assms(1)] b_def by blast
  have w: "(ucast (ucast w :: u8) :: u32) = w" if b
    using bound that by (simp add: word_unat_eq_iff unat_ucast_down modulus_def width_def)
  have w': "(ucast (ucast w :: u16) :: u32) = w" if "\<not> b"
    using bound that by (simp add: word_unat_eq_iff unat_ucast_down modulus_def width_def)
  define t where "t = (if b then set_reg_a (ucast (f (accu_word b s) w)) (INC_PC len s)
    else (INC_PC len s)\<lparr>reg_c := ucast (f (accu_word b s) w)\<rparr>)"
  have eq: "LOGICAL l f s = LOCAL_SET_NZ (accu_word b t) b t"
    using l w w' by (cases b) (simp_all add: LOGICAL_def b_def [symmetric] Let_def split_def t_def accu_word_def)
  have acc: "acc b t = r"
    by (simp add: t_def acc_def r_def l unat_ucast_down modulus_def width_def)
  have "acc b (LOGICAL l f s) = acc b t" unfolding eq by (simp add: acc_def)
  then show "acc b (LOGICAL l f s) = r" using acc by simp
  have "unat (accu_word b t) mod modulus b = r" using acc acc_bound [of b t] by (simp add: unat_accu_word)
  then show "flags_show b r (LOGICAL l f s)"
    using SET_NZ_flags [of b "accu_word b t" t] by (simp add: eq)
  show "reg_p (LOGICAL l f s) = reg_p s" by (simp add: eq t_def)
qed

text \<open>AND, ORA, EOR and LDA, with any addressing mode and at either width, leave the
  bitwise conjunction, disjunction, exclusive disjunction of accumulator and operand, or the
  operand; N and Z show the result and the other flags are untouched.\<close>

theorem logic_result:
  fixes l :: load_func and s :: cpu
  assumes "is_load l"
  defines "b \<equiv> LOCAL_65816_M s"
  defines "v \<equiv> unat (fst (l b s))"
  shows "acc b (AND_op l s) = and (acc b s) v \<and> acc b (ORA l s) = or (acc b s) v
    \<and> acc b (EOR l s) = xor (acc b s) v \<and> acc b (LDA l s) = v
    \<and> (\<forall>ins \<in> {AND_op, ORA, EOR, LDA}. flags_show b (acc b (ins l s)) (ins l s)
        \<and> reg_p (ins l s) = reg_p s)"
proof -
  have v: "v < modulus b"
    using load_result [OF assms(1), of s b] unfolding v_def b_def by (metis fst_conv)
  have a: "acc b s < modulus b" by (rule acc_bound)
  have lt: "take_bit (width b) x = x" if "x < modulus b" for x :: nat
    using that by (simp add: take_bit_eq_mod modulus_def)
  have m: "x mod modulus b = take_bit (width b) x" for x :: nat by (simp add: take_bit_eq_mod modulus_def)
  have "and (acc b s) v mod modulus b = and (acc b s) v" "or (acc b s) v mod modulus b = or (acc b s) v"
    "xor (acc b s) v mod modulus b = xor (acc b s) v"
    unfolding m using lt [OF v] lt [OF a] by (simp_all add: take_bit_and take_bit_or take_bit_xor)
  then show ?thesis
    using LOGICAL_result [where f = "\<lambda>r v. r AND v" and s = s, OF assms(1), folded AND_op_def b_def]
      LOGICAL_result [where f = "\<lambda>r v. r OR v" and s = s, OF assms(1), folded ORA_def b_def]
      LOGICAL_result [where f = "\<lambda>r v. r XOR v" and s = s, OF assms(1), folded EOR_def b_def]
      LOGICAL_result [where f = "\<lambda>r v. v" and s = s, OF assms(1), folded LDA_def b_def] v
    by (simp add: unat_accu_word v_def unsigned_and_eq unsigned_or_eq unsigned_xor_eq)
qed

theorem logic_result_witness:
  "acc False (EOR LOAD_IMMEDIATE_FUNC (native_cpu (\<lambda>a. 0x22))) = 0x3016"
  using logic_result [OF is_load_immediate, of "native_cpu (\<lambda>a. 0x22)"]
  by (simp add: native_eval operand_eval)

section \<open>Index registers\<close>

lemma index_step:
  fixes v :: u16
  shows "unat (v + 1) mod modulus b = (unat v + 1) mod modulus b"
    and "unat (v - 1) mod modulus b = (unat v + modulus b - 1) mod modulus b"
proof -
  have d: "unat (v - 1) = (unat v + 65535) mod 65536"
  proof -
    have lt: "unat v < 65536" using unsigned_less [of v, where ?'a = nat] by simp
    show ?thesis
    proof (cases "v = 0")
      case False
      then have "0 < unat v" "unat (v - 1) = unat v - 1" by (simp_all add: unat_gt_0 unat_minus_one)
      have "unat v + 65535 = (unat v - 1) + 65536" using \<open>0 < unat v\<close> by simp
      then have "(unat v + 65535) mod 65536 = (unat v - 1) mod 65536" by (simp only: mod_add_self2)
      with \<open>unat (v - 1) = unat v - 1\<close> lt show ?thesis by simp
    qed (simp add: unsigned_minus_1_eq_mask mask_eq_exp_minus_1)
  qed
  have e: "unat (v + 1) = (unat v + 1) mod 65536" by (simp add: unat_word_ariths)
  have "unat v + 65535 = (unat v + 255) + 256 * 255" by simp
  then have f: "(unat v + 65535) mod 256 = (unat v + 255) mod 256" by (simp only: mod_mult_self2)
  show "unat (v + 1) mod modulus b = (unat v + 1) mod modulus b"
    unfolding e by (cases b) (simp_all add: modulus_def width_def mod_mod_cancel)
  show "unat (v - 1) mod modulus b = (unat v + modulus b - 1) mod modulus b"
    unfolding d using f by (cases b) (simp_all add: modulus_def width_def mod_mod_cancel add.commute)
qed

lemma INCDECI_result:
  fixes s :: cpu and f :: "u16 \<Rightarrow> u16"
  defines "b \<equiv> LOCAL_65816_X s"
  shows "unat (reg_x (INCDECI reg_x reg_x_update f s)) = unat (f (reg_x s)) mod modulus b"
    "unat (reg_y (INCDECI reg_y reg_y_update f s)) = unat (f (reg_y s)) mod modulus b"
    "flags_show b (unat (reg_x (INCDECI reg_x reg_x_update f s))) (INCDECI reg_x reg_x_update f s)"
    "flags_show b (unat (reg_y (INCDECI reg_y reg_y_update f s))) (INCDECI reg_y reg_y_update f s)"
proof -
  have m: "unat (w AND 0xFF) = unat w mod 256" "unat w mod 65536 = unat w" for w :: u16
    using unsigned_less [of w, where ?'a = nat] by (simp_all add: unat_and_ff16)
  have x: "LOCAL_65816_X (INC_PC 1 s) = b" "LOCAL_65816_X (reg_x_update g (INC_PC 1 s)) = b"
    "LOCAL_65816_X (reg_y_update g (INC_PC 1 s)) = b" for g
    by (simp_all add: b_def LOCAL_65816_X_def)
  define w where "w v = (if b then v AND 0xFF else v)" for v :: u16
  have w: "unat (w v) = unat v mod modulus b" for v
    by (simp add: w_def m modulus_def width_def)
  have "(let v = reg_x_update f u in if LOCAL_65816_X v
        then let v = reg_x_update (\<lambda>r. r AND 0xFF) v in LOCAL_SET_NZ (ucast (reg_x v)) True v
        else LOCAL_SET_NZ (ucast (reg_x v)) False v)
      = (let r = if LOCAL_65816_X u then f (reg_x u) AND 0xFF else f (reg_x u)
         in LOCAL_SET_NZ (ucast r) (LOCAL_65816_X u) (u\<lparr>reg_x := r\<rparr>))" for u
    by (cases u) (simp add: LOCAL_65816_X_def Let_def)
  from this [of "INC_PC 1 s"]
  have eqx: "INCDECI reg_x reg_x_update f s
      = LOCAL_SET_NZ (ucast (w (f (reg_x s)))) b ((INC_PC 1 s)\<lparr>reg_x := w (f (reg_x s))\<rparr>)"
    unfolding INCDECI_def x(1) by (simp add: Let_def w_def)
  have "(let v = reg_y_update f u in if LOCAL_65816_X v
        then let v = reg_y_update (\<lambda>r. r AND 0xFF) v in LOCAL_SET_NZ (ucast (reg_y v)) True v
        else LOCAL_SET_NZ (ucast (reg_y v)) False v)
      = (let r = if LOCAL_65816_X u then f (reg_y u) AND 0xFF else f (reg_y u)
         in LOCAL_SET_NZ (ucast r) (LOCAL_65816_X u) (u\<lparr>reg_y := r\<rparr>))" for u
    by (cases u) (simp add: LOCAL_65816_X_def Let_def)
  from this [of "INC_PC 1 s"]
  have eqy: "INCDECI reg_y reg_y_update f s
      = LOCAL_SET_NZ (ucast (w (f (reg_y s)))) b ((INC_PC 1 s)\<lparr>reg_y := w (f (reg_y s))\<rparr>)"
    unfolding INCDECI_def x(1) by (simp add: Let_def w_def)
  note eq = eqx eqy
  show "unat (reg_x (INCDECI reg_x reg_x_update f s)) = unat (f (reg_x s)) mod modulus b"
    "unat (reg_y (INCDECI reg_y reg_y_update f s)) = unat (f (reg_y s)) mod modulus b"
    by (simp_all add: eq w)
  show "flags_show b (unat (reg_x (INCDECI reg_x reg_x_update f s))) (INCDECI reg_x reg_x_update f s)"
    using SET_NZ_flags [of b "ucast (w (f (reg_x s)))" "(INC_PC 1 s)\<lparr>reg_x := w (f (reg_x s))\<rparr>"] by (simp add: eq w)
  show "flags_show b (unat (reg_y (INCDECI reg_y reg_y_update f s))) (INCDECI reg_y reg_y_update f s)"
    using SET_NZ_flags [of b "ucast (w (f (reg_y s)))" "(INC_PC 1 s)\<lparr>reg_y := w (f (reg_y s))\<rparr>"] by (simp add: eq w)
qed

text \<open>INX, INY, DEX and DEY step the index register by one modulo the width that the X
  flag selects and set N and Z from the new value.\<close>

theorem index_inc_dec:
  fixes s :: cpu
  defines "b \<equiv> LOCAL_65816_X s"
  shows "unat (reg_x (INX s)) = (unat (reg_x s) + 1) mod modulus b
    \<and> unat (reg_x (DEX s)) = (unat (reg_x s) + modulus b - 1) mod modulus b
    \<and> unat (reg_y (INY s)) = (unat (reg_y s) + 1) mod modulus b
    \<and> unat (reg_y (DEY s)) = (unat (reg_y s) + modulus b - 1) mod modulus b
    \<and> flags_show b (unat (reg_x (INX s))) (INX s) \<and> flags_show b (unat (reg_x (DEX s))) (DEX s)
    \<and> flags_show b (unat (reg_y (INY s))) (INY s) \<and> flags_show b (unat (reg_y (DEY s))) (DEY s)"
  unfolding INX_def DEX_def INY_def DEY_def
  using INCDECI_result [where s = s and f = "\<lambda>r. r + 1"] INCDECI_result [where s = s and f = "\<lambda>r. r - 1"]
  by (simp add: b_def index_step del: One_nat_def)

end
