(* ===== verification/Isa_Alu.thy ===== *)
theory Isa_Alu
  imports Isa_Operands Logic_Shifts
begin

text \<open>
  The instructions that load, compute, modify and store, for every addressing mode: each
  instruction macro of the core, seen through \<open>abs_cpu\<close>, executes its operation.
\<close>

section \<open>Values of a width\<close>

lemma low_low [simp]: "low b (low b v) = low b v"
  by (simp add: low_def and.assoc)

lemma width_simps [simp]: "merge False v r = v" "low False v = v"
  by (simp_all add: merge_def low_def)

lemma set_nz_low: "low b v = low b w \<Longrightarrow> set_nz b v t = set_nz b w t"
proof -
  assume "low b v = low b w"
  moreover have "v AND msb_of b = low b v AND msb_of b" for v
    by (simp add: low_def msb_of_def and.assoc)
  then have "v AND msb_of b = low b v AND msb_of b" "w AND msb_of b = low b w AND msb_of b" by blast+
  ultimately show ?thesis by (simp only: set_nz_def)
qed

lemma merge_low: "low b v = low b w \<Longrightarrow> merge b v r = merge b w r"
  by (simp add: merge_def low_def split: if_splits)

lemma load_A_low: "low b v = low b w \<Longrightarrow> load_A b v t = load_A b w t"
  by (simp add: load_A_def set_nz_low [of b v w] merge_low [of b v w])

lemma low_byte: "low True (ucast (ucast (w :: u32) :: u8)) = low True (ucast w)"
  unfolding low_def by (simp, rule bit_eqI) (auto simp: mask_numerals bit_simps)

lemma ucast_reg_a: "(ucast (reg_a s) :: u16) = low True (reg_c s)"
  unfolding low_def by (simp, rule bit_eqI) (auto simp: reg_a_def mask_numerals bit_simps)

lemma accu_word_low: "accu_word b s = ucast (low b (reg_c s))"
proof -
  have "(ucast (reg_a s) :: u32) = ucast (ucast (reg_a s) :: u16)" by simp
  then show ?thesis by (simp only: accu_word_def ucast_reg_a) (simp add: low_def)
qed

lemma fetch_low: "low b (fetch p b t) = fetch p b t"
proof -
  have "(ucast c :: u16) AND 0xFF = ucast c" for c :: u8
    by (rule byte_offset)
  then show ?thesis by (cases p) (simp_all add: low_def op1_def and.assoc)
qed

lemma unat_low_less: "unat (low b v) < modulus b"
  using u16_bound [of v] by (simp add: low_def unat_and_ff16 modulus_def width_def)

lemma unat_fetch: "unat (fetch p b t) < modulus b"
  using unat_low_less [of b "fetch p b t"] by (simp add: fetch_low)

lemmas step_simps = advance_def load_A_def set_nz_def set_flag_def Let_def

section \<open>Results in the accumulator\<close>

definition finish :: "bool \<Rightarrow> u32 \<Rightarrow> cpu \<Rightarrow> cpu" where
  "finish b w s = (let s = (if b then set_reg_a (ucast w) s else s\<lparr>reg_c := ucast w\<rparr>)
     in LOCAL_SET_NZ (accu_word b s) b s)"

lemma abs_finish:
  assumes "status_ok s"
  shows "abs_cpu (finish b w s) = load_A b (ucast w) (abs_cpu s)"
proof -
  have "merge True (ucast (ucast w :: u8)) r = merge True (ucast w) r"
    "set_nz True (ucast (ucast w :: u8)) t = set_nz True (ucast w) t" for r t
    by (rule merge_low set_nz_low, rule low_byte)+
  then show ?thesis
    using assms by (cases b) (simp_all add: finish_def load_A_def accu_word_def)
qed

lemma abs_write_back:
  assumes "status_ok s"
  shows "abs_cpu (write_back b w v c s) = load_A b (ucast w) (set_flag c 0x01 (set_flag v 0x40 (abs_cpu s)))"
proof -
  have "merge True (ucast (ucast w :: u8)) r = merge True (ucast w) r" for r
    by (rule merge_low, rule low_byte)
  then show ?thesis
    using assms by (cases b) (simp_all add: write_back_def step_simps)
qed

section \<open>Loading instructions\<close>

lemma loads_operand:
  assumes "loads l m" and "b = LOCAL_65816_M s \<or> b = LOCAL_65816_X s" and "v = fetch (place_of m (abs_cpu s)) b (abs_cpu s)"
  obtains n where "ucast n = len m b" and "l b s = (ucast v, INC_PC n s)"
  using assms wf.emul_M [of s] wf.emul_X [of s] unfolding loads_def by blast

lemma LOGICAL_abs:
  assumes "loads l m" and "status_ok s"
    and f: "\<And>x y. (ucast (f x y) :: u16) = g (ucast x) (ucast y)"
      "\<And>x y. low True (g (low True x) y) = low True (g x y)"
  shows "abs_cpu (LOGICAL l f s) = advance (len m (m8 (abs_cpu s)))
    (load_A (m8 (abs_cpu s)) (g (reg_c s) (fetch (place_of m (abs_cpu s)) (m8 (abs_cpu s)) (abs_cpu s))) (abs_cpu s))"
proof -
  define b v where "b = LOCAL_65816_M s" and "v = fetch (place_of m (abs_cpu s)) b (abs_cpu s)"
  obtain n where n: "ucast n = len m b" "l b s = (ucast v, INC_PC n s)"
    using loads_operand [OF assms(1), of b s v] b_def v_def by blast
  have v: "(ucast (ucast (ucast v :: u32) :: u8) :: u32) = ucast v" if b
    using unat_fetch [of "place_of m (abs_cpu s)" b "abs_cpu s"] that
    by (simp add: v_def word_unat_eq_iff unat_ucast_down modulus_def width_def)
  have "LOGICAL l f s = finish b (f (accu_word b s) (ucast v)) (INC_PC n s)"
    using n(2) v by (cases b) (simp_all add: LOGICAL_def b_def [symmetric] Let_def finish_def accu_word_def)
  moreover have "low b (g (low b (reg_c s)) v) = low b (g (reg_c s) v)"
    using f(2) by (cases b) (simp_all add: low_def)
  then have "load_A b (g (low b (reg_c s)) v) t = load_A b (g (reg_c s) v) t" for t
    by (rule load_A_low)
  ultimately show ?thesis
    using assms(2) n(1)
    by (simp add: abs_finish f(1) accu_word_low m8_abs b_def [symmetric] v_def [symmetric])
      (simp add: step_simps)
qed

lemma ADC_abs:
  assumes "loads l m" and "status_ok s" and "LOCAL_DECIMAL s = 0"
  shows "abs_cpu (ADC l s) = exec (Acc Adc m) (abs_cpu s)"
proof -
  define b v where "b = LOCAL_65816_M s" and "v = fetch (place_of m (abs_cpu s)) b (abs_cpu s)"
  obtain n where n: "ucast n = len m b" "l b s = (ucast v, INC_PC n s)"
    using loads_operand [OF assms(1), of b s v] b_def v_def by blast
  define a c :: u32 where "a = accu_word b s" and "c = ucast (LOCAL_CARRY s)"
  define r where "r = adc_binary (if b then 0x80 else 0x8000) a (ucast v) c"
  have a: "unat a = unat (low b (reg_c s))" by (simp add: a_def accu_word_low)
  have c: "unat c = carry_in s" "unat c \<le> 1" using unat_carry [of s] by (simp_all add: c_def)
  have "unat a < modulus b" "unat (ucast v :: u32) < modulus b"
    using unat_low_less unat_fetch by (simp_all add: a v_def)
  note r = adc_binary_result [OF this c(2), folded r_def, unfolded a c(1)]
  have eq: "ADC l s = write_back b (fst r) (snd r) (fst r > (if b then 0xFF else 0xFFFF)) (INC_PC n s)"
    using assms(3) n(2)
    by (cases b) (simp_all add: ADC_eq Let_def b_def [symmetric] r_def a_def c_def split_def accu_word_def)
  have "fst r > (if b then 0xFF else 0xFFFF) \<longleftrightarrow> modulus b \<le> unat (fst r)"
    by (auto simp: word_less_nat_alt modulus_def width_def)
  moreover have "(ucast (fst r) :: u16) = of_nat (unat (fst r))" by simp
  ultimately show ?thesis
    using assms(2) r n(1)
    by (simp add: eq abs_write_back add_def carry_abs m8_abs b_def [symmetric] v_def [symmetric] Let_def)
      (simp add: step_simps)
qed

lemma low_add: "low b (low b x + y) = low b (x + y)"
  by (cases b) (simp_all add: low_def word_unat_eq_iff unat_and_ff16 unat_word_ariths mod_mod_cancel mod_simps)

lemma low_add_right: "low b (x + low b y) = low b (x + y)"
  using low_add [of b y x] by (simp add: add.commute)

lemma low_minus: "low b (low b x - y) = low b (x - y)"
  using low_add [of b x "- y"] by simp

lemma ucast_minus: "(ucast (x - y :: u32) :: u16) = ucast x - ucast y"
  using ucast_plus(1) [of "x - y" y] by (simp add: eq_diff_eq)

lemma complement_low:
  assumes "unat v < modulus b"
  shows "low b (ucast ((ucast v :: u32) XOR (if b then 0xFF else 0xFFFF))) = low b (- 1 - v)"
proof -
  have "(ucast v :: u32) AND (if b then 0xFF else 0xFFFF) = ucast v"
    using assms by (cases b) (simp_all add: and_mask_id word_le_nat_alt modulus_def width_def)
  then have "(ucast v :: u32) XOR (if b then 0xFF else 0xFFFF) = (if b then 0xFF else 0xFFFF) - ucast v"
    by (rule xor_mask_complement)
  then have "low b (ucast ((ucast v :: u32) XOR (if b then 0xFF else 0xFFFF)))
      = low b ((if b then 0xFF else 0xFFFF) - v)"
    by (simp add: ucast_minus)
  also have "\<dots> = low b (low b (if b then 0xFF else 0xFFFF) - v)" by (rule low_minus [symmetric])
  also have "low b (if b then 0xFF else 0xFFFF) = low b (- 1)" by (simp add: low_def)
  finally show ?thesis by (simp only: low_minus)
qed

lemma SBC_abs:
  assumes "loads l m" and "status_ok s" and "LOCAL_DECIMAL s = 0"
  shows "abs_cpu (SBC l s) = exec (Acc Sbc m) (abs_cpu s)"
proof -
  define b v where "b = LOCAL_65816_M s" and "v = fetch (place_of m (abs_cpu s)) b (abs_cpu s)"
  obtain n where n: "ucast n = len m b" "l b s = (ucast v, INC_PC n s)"
    using loads_operand [OF assms(1), of b s v] b_def v_def by blast
  define a c :: u32 where "a = accu_word b s" and "c = ucast (LOCAL_CARRY s)"
  define r where "r = sbc_binary (if b then 0xFF else 0xFFFF) (if b then 0x80 else 0x8000) a (ucast v) c"
  have a: "unat a = unat (low b (reg_c s))" by (simp add: a_def accu_word_low)
  have c: "unat c = carry_in s" "unat c \<le> 1" using unat_carry [of s] by (simp_all add: c_def)
  have bounds: "unat a < modulus b" "unat (ucast v :: u32) < modulus b"
    using unat_low_less unat_fetch by (simp_all add: a v_def)
  note r = sbc_binary_result [OF bounds c(2), folded r_def, unfolded a c(1)]
  have eq: "SBC l s = write_back b (fst r) (snd r) (fst r > (if b then 0xFF else 0xFFFF)) (INC_PC n s)"
    using SBC_binary_eq [OF assms(3), of l "ucast v" n] n(2)
    by (simp add: b_def [symmetric] r_def a_def c_def accu_word_def)
  have "fst r > (if b then 0xFF else 0xFFFF) \<longleftrightarrow> modulus b \<le> unat (fst r)"
    by (auto simp: word_less_nat_alt modulus_def width_def)
  then have carry: "fst r > (if b then 0xFF else 0xFFFF) \<longleftrightarrow> unat v + (1 - carry_in s) \<le> unat (low b (reg_c s))"
    using r(1) bounds(2) c by auto
  define w where "w = (ucast v :: u32) XOR (if b then 0xFF else 0xFFFF)"
  have "ucast (fst r) = ucast c + ucast w + low b (reg_c s)"
    by (simp add: r_def w_def sbc_binary_def Let_def ucast_plus a_def accu_word_low add.assoc)
  then have "low b (ucast (fst r)) = low b (reg_c s + (ucast c + ucast w))"
    by (simp only: low_add_right) (simp only: add.commute)
  also have "\<dots> = low b (reg_c s + ucast c + low b (ucast w))"
    by (simp only: low_add_right add.assoc [symmetric])
  also have "\<dots> = low b (reg_c s + ucast c + (- 1 - v))"
    using bounds(2) by (simp only: w_def complement_low low_add_right unat_ucast_up)
  also have "reg_c s + ucast c + (- 1 - v) = reg_c s - v - of_nat (1 - carry_in s)"
  proof -
    have "carry_in s = 0 \<or> carry_in s = 1" using c by linarith
    then show ?thesis using carry_abs(2) [OF assms(2)] by (auto simp: c_def)
  qed
  finally have "low b (ucast (fst r)) = low b (reg_c s - v - of_nat (1 - carry_in s))" .
  note val = load_A_low [OF this]
  have k: "int (Suc 0 - carry_in s) = 1 - int (carry_in s)" using c by simp
  show ?thesis
    using assms(2) r(2) n(1) carry
    by (simp add: eq abs_write_back subtract_def carry_abs m8_abs b_def [symmetric] v_def [symmetric] Let_def val k)
      (simp add: step_simps)
qed

lemma compare_borrow:
  fixes x y :: u32
  assumes "unat x < modulus b" and "unat y < modulus b"
  shows "x - y < (if b then 0x100 else 0x10000) \<longleftrightarrow> y \<le> x"
proof -
  have "unat (x - y) = (if unat y \<le> unat x then unat x - unat y else 2 ^ 32 + unat x - unat y)"
    by (simp add: unat_sub_if_size word_size add.commute [of "unat x"])
  moreover have "modulus b \<le> 65536" by (simp add: modulus_def width_def)
  ultimately show ?thesis
    using assms by (cases b) (auto simp: word_less_nat_alt word_le_nat_alt modulus_def width_def)
qed

text \<open>The common tail of the three comparisons.\<close>

lemma abs_compare:
  assumes "status_ok s" and "a = ucast (low b r)" and "unat v < modulus b"
  shows "abs_cpu (LOCAL_SET_NZ (a - ucast v) b (LOCAL_SET_CARRY (a - ucast v < (if b then 0x100 else 0x10000)) s))
    = compare b r v (abs_cpu s)"
proof -
  have "a - ucast v < (if b then 0x100 else 0x10000) \<longleftrightarrow> ucast v \<le> a"
    using assms(2,3) unat_low_less [of b r] by (intro compare_borrow) simp_all
  also have "\<dots> \<longleftrightarrow> v \<le> low b r" by (simp add: assms(2) word_le_nat_alt)
  finally have c: "a - ucast v < (if b then 0x100 else 0x10000) \<longleftrightarrow> v \<le> low b r" .
  have "set_nz b (ucast (a - ucast v)) t = set_nz b (r - v) t" for t
    by (rule set_nz_low) (simp add: assms(2) ucast_minus low_minus)
  then show ?thesis using assms(1) unfolding c by (simp add: compare_def)
qed

lemma CMP_abs:
  assumes "loads l m" and "status_ok s"
  shows "abs_cpu (CMP l s) = exec (Acc Cmp m) (abs_cpu s)"
proof -
  define b v where "b = LOCAL_65816_M s" and "v = fetch (place_of m (abs_cpu s)) b (abs_cpu s)"
  obtain n where n: "ucast n = len m b" "l b s = (ucast v, INC_PC n s)"
    using loads_operand [OF assms(1), of b s v] b_def v_def by blast
  have "CMP l s = LOCAL_SET_NZ (accu_word b s - ucast v) b
      (LOCAL_SET_CARRY (accu_word b s - ucast v < (if b then 0x100 else 0x10000)) (INC_PC n s))"
    using n(2) by (cases b) (simp_all add: CMP_def b_def [symmetric] accu_word_def Let_def)
  moreover have "unat v < modulus b" by (simp add: v_def unat_fetch)
  ultimately show ?thesis
    using assms(2) n(1) abs_compare [where s = "INC_PC n s" and b = b and v = v, OF _ accu_word_low]
    by (simp add: m8_abs b_def [symmetric] v_def [symmetric])
      (simp add: compare_def step_simps)
qed

lemma CMPI_abs:
  assumes "loads l m" and "status_ok s" and "LOCAL_65816_X s \<Longrightarrow> r s \<le> 0xFF"
    and "\<And>n. r (INC_PC n s) = r s" and "index_value ir (abs_cpu s) = r s"
  shows "abs_cpu (CMPI l r s) = exec (Cpx ir m) (abs_cpu s)"
proof -
  define b v where "b = LOCAL_65816_X s" and "v = fetch (place_of m (abs_cpu s)) b (abs_cpu s)"
  obtain n where n: "ucast n = len m b" "l b s = (ucast v, INC_PC n s)"
    using loads_operand [OF assms(1), of b s v] b_def v_def by blast
  have "low b (r s) = r s"
    using assms(3) by (auto simp: b_def low_def word_le_nat_alt word_unat_eq_iff unat_and_ff16)
  moreover have "CMPI l r s = LOCAL_SET_NZ (ucast (r s) - ucast v) b
      (LOCAL_SET_CARRY ((ucast (r s) :: u32) - ucast v < (if b then 0x100 else 0x10000)) (INC_PC n s))"
    using n(2) assms(4) by (cases b) (simp_all add: CMPI_def b_def [symmetric] Let_def)
  moreover have "unat v < modulus b" by (simp add: v_def unat_fetch)
  ultimately show ?thesis
    using assms(2,5) n(1) abs_compare [where s = "INC_PC n s" and b = b and v = v and r = "r s" and a = "ucast (r s)"]
    by (simp add: x8_abs b_def [symmetric] v_def [symmetric])
      (simp add: compare_def step_simps)
qed

lemma and_accu:
  assumes "unat v < modulus b"
  shows "(ucast v :: u32) AND accu_word b s = 0 \<longleftrightarrow> low b (v AND reg_c s) = 0"
proof -
  have "low b v = v" using assms by (cases b) (simp_all add: low_def word_unat_eq_iff unat_and_ff16 modulus_def width_def)
  then have "low b (v AND reg_c s) = v AND low b (reg_c s)"
    by (cases b) (simp_all add: low_def and.assoc and.left_commute and.commute)
  moreover have "(ucast v :: u32) AND ucast w = ucast (v AND w)" for w :: u16
    by (simp add: unsigned_and_eq)
  ultimately show ?thesis
    by (simp add: accu_word_low) (simp add: word_unat_eq_iff)
qed

lemma BIT_abs:
  assumes "loads l m" and "status_ok s" and "m \<noteq> Immediate"
  shows "abs_cpu (BIT l s) = exec (BitTest m) (abs_cpu s)"
proof -
  define b v where "b = LOCAL_65816_M s" and "v = fetch (place_of m (abs_cpu s)) b (abs_cpu s)"
  obtain n where n: "ucast n = len m b" "l b s = (ucast v, INC_PC n s)"
    using loads_operand [OF assms(1), of b s v] b_def v_def by blast
  have "(ucast v :: u32) AND 0x80 \<noteq> 0 \<longleftrightarrow> v AND 0x80 \<noteq> 0" "(ucast v :: u32) AND 0x40 \<noteq> 0 \<longleftrightarrow> v AND 0x40 \<noteq> 0"
    "(ucast v :: u32) AND 0x8000 \<noteq> 0 \<longleftrightarrow> v AND 0x8000 \<noteq> 0" "(ucast v :: u32) AND 0x4000 \<noteq> 0 \<longleftrightarrow> v AND 0x4000 \<noteq> 0"
    using and_exp_eq_0_iff_not_bit [of "ucast v :: u32" 7] and_exp_eq_0_iff_not_bit [of "ucast v :: u32" 6]
      and_exp_eq_0_iff_not_bit [of "ucast v :: u32" 15] and_exp_eq_0_iff_not_bit [of "ucast v :: u32" 14]
      and_exp_eq_0_iff_not_bit [of v 7] and_exp_eq_0_iff_not_bit [of v 6]
      and_exp_eq_0_iff_not_bit [of v 15] and_exp_eq_0_iff_not_bit [of v 14]
    by (simp_all add: bit_simps)
  moreover have "(ucast v :: u32) AND accu_word b s = 0 \<longleftrightarrow> low b (v AND reg_c s) = 0"
    by (rule and_accu, unfold v_def, rule unat_fetch)
  moreover have "BIT l s = LOCAL_SET_ZERO (ucast v AND accu_word b s = 0)
      (LOCAL_SET_OVERFLOW ((ucast v :: u32) AND (if b then 0x40 else 0x4000) \<noteq> 0)
      (LOCAL_SET_SIGN ((ucast v :: u32) AND (if b then 0x80 else 0x8000) \<noteq> 0) (INC_PC n s)))"
    using n(2) by (cases b) (simp_all add: BIT_def b_def [symmetric] accu_word_def reg_a_def Let_def)
  ultimately show ?thesis
    using assms(2,3) n(1)
    by (simp add: m8_abs b_def [symmetric] v_def [symmetric] Let_def)
      (cases b; simp add: step_simps msb_of_def)
qed

lemma BIT_IMM_abs:
  assumes "status_ok s"
  shows "abs_cpu (BIT_IMM LOAD_IMMEDIATE_FUNC s) = exec (BitTest Immediate) (abs_cpu s)"
proof -
  define b v where "b = LOCAL_65816_M s" and "v = fetch (place_of Immediate (abs_cpu s)) b (abs_cpu s)"
  obtain n where n: "ucast n = len Immediate b" "LOAD_IMMEDIATE_FUNC b s = (ucast v, INC_PC n s)"
    using loads_operand [OF loads_immediate, of b s v] b_def v_def by blast
  have "(ucast v :: u32) AND accu_word b s = 0 \<longleftrightarrow> low b (v AND reg_c s) = 0"
    by (rule and_accu, unfold v_def, rule unat_fetch)
  moreover have "BIT_IMM LOAD_IMMEDIATE_FUNC s = LOCAL_SET_ZERO (ucast v AND accu_word b s = 0) (INC_PC n s)"
    using n(2) by (cases b) (simp_all add: BIT_IMM_def b_def [symmetric] accu_word_def reg_a_def Let_def)
  ultimately show ?thesis
    using assms n(1) by (simp add: m8_abs b_def [symmetric] v_def [symmetric] Let_def del: fetch.simps place_of.simps)
      (simp add: step_simps)
qed

section \<open>Index registers\<close>

lemma LDX_abs:
  assumes "loads l m" and "status_ok s"
  shows "abs_cpu (LDX l s) = exec (Ldx IX m) (abs_cpu s)" and "abs_cpu (LDY l s) = exec (Ldx IY m) (abs_cpu s)"
proof -
  define b v where "b = LOCAL_65816_X s" and "v = fetch (place_of m (abs_cpu s)) b (abs_cpu s)"
  obtain n where n: "ucast n = len m b" "l b s = (ucast v, INC_PC n s)"
    using loads_operand [OF assms(1), of b s v] b_def v_def by blast
  have "LDX l s = LOCAL_SET_NZ (ucast v) b ((INC_PC n s)\<lparr>reg_x := v\<rparr>)"
    "LDY l s = LOCAL_SET_NZ (ucast v) b ((INC_PC n s)\<lparr>reg_y := v\<rparr>)"
    using n(2) by (cases b; simp add: LDX_def LDY_def LDI_def b_def [symmetric] Let_def)+
  moreover have "low b v = v" by (simp add: v_def fetch_low)
  ultimately show "abs_cpu (LDX l s) = exec (Ldx IX m) (abs_cpu s)" "abs_cpu (LDY l s) = exec (Ldx IY m) (abs_cpu s)"
    using assms(2) n(1)
    by (simp_all add: x8_abs b_def [symmetric] v_def [symmetric]) (simp_all add: step_simps)
qed

section \<open>Stores\<close>

lemma stores_abs:
  assumes "stores st m" and "status_ok s"
  shows "abs_cpu (STA st s) = exec (Sta m) (abs_cpu s)" "abs_cpu (STZ st s) = exec (Stz m) (abs_cpu s)"
    "abs_cpu (STX st s) = exec (Stx IX m) (abs_cpu s)" "abs_cpu (STY st s) = exec (Stx IY m) (abs_cpu s)"
  using assms wf.emul_M [of s] wf.emul_X [of s] unfolding stores_def
  by (simp_all add: STA_def STX_def STY_def STZ_def m8_abs x8_abs)

section \<open>Read, modify, write\<close>

lemma put_low: "low b v = low b w \<Longrightarrow> put p b v t = put p b w t"
proof -
  assume eq: "low b v = low b w"
  have "(ucast v :: u8) = ucast (low True v)" for v :: u16
    unfolding low_def by (simp, rule bit_eqI) (auto simp: mask_numerals bit_simps)
  with eq have "b \<Longrightarrow> (ucast v :: u8) = ucast w" by metis
  with eq show ?thesis by (cases p; cases b) (simp_all add: merge_low [of True v w] wr0_def)
qed

lemma put_rPC: "put p b v (t\<lparr>rPC := x\<rparr>) = (put p b v t)\<lparr>rPC := x\<rparr>" "rPC (put p b v t) = rPC t"
  by (cases p; simp add: wr_def wr0_def Let_def)+

lemma modifies_operand:
  assumes "modifies l st m" and "b = LOCAL_65816_M s" and "v = fetch (place_of m (abs_cpu s)) b (abs_cpu s)"
  obtains n ea where "ucast n = len m b" and "l b s = ((ucast v, ea), INC_PC n s)"
    and "\<And>w u. abs_cpu (st ea w b u) = put (place_of m (abs_cpu s)) b (ucast w) (abs_cpu u)"
  using assms wf.emul_M [of s] unfolding modifies_def by blast

text \<open>What remains to show of a read-modify-write instruction: the value and the flags.\<close>

lemma modify_exec:
  assumes "status_ok s" and "b = LOCAL_65816_M s" and "v = fetch (place_of m (abs_cpu s)) b (abs_cpu s)"
    and "\<And>w u. abs_cpu (st ea w b u) = put (place_of m (abs_cpu s)) b (ucast w) (abs_cpu u)"
    and "low b (ucast w) = low b (modified i b v (abs_cpu s))"
    and "abs_cpu u = (modify_flags i b v (abs_cpu s))\<lparr>rPC := ucast (reg_pc s) + len m b\<rparr>"
  shows "abs_cpu (st ea w b u) = exec (Rmw i m) (abs_cpu s)"
proof -
  have "rPC (modify_flags i b v t) = rPC t" for t by (simp add: modify_flags_def set_nz_def set_flag_def)
  then show ?thesis
    using put_low [OF assms(5)] assms(1)
    by (simp add: assms(4,6) put_rPC advance_def Let_def m8_abs assms(2) [symmetric] assms(3) [symmetric])
qed

lemma ASLROL_abs:
  assumes "modifies l st m" and "status_ok s"
    and "i = Asl \<and> c = (\<lambda>s. 0) \<or> i = Rol \<and> c = (\<lambda>s. ucast (LOCAL_CARRY s))"
  shows "abs_cpu (ASLROL l st c s) = exec (Rmw i m) (abs_cpu s)"
proof -
  have i: "i \<in> {Asl, Rol} \<and> i \<notin> {Trb, Tsb}" using assms(3) by auto
  define b v where "b = LOCAL_65816_M s" and "v = fetch (place_of m (abs_cpu s)) b (abs_cpu s)"
  obtain n ea where n: "ucast n = len m b" "l b s = ((ucast v, ea), INC_PC n s)"
    and st: "\<And>w u. abs_cpu (st ea w b u) = put (place_of m (abs_cpu s)) b (ucast w) (abs_cpu u)"
    by (rule modifies_operand [OF assms(1) b_def v_def]) (rule that; assumption)
  define w where "w = push_bit 1 (ucast v) OR c s"
  have c: "c (INC_PC n s) = c s" using assms(3) by auto
  have k: "carry_in s = 0 \<or> carry_in s = 1" by (simp add: carry_in_def)
  then have cs: "c s = of_nat (if i = Rol then carry_in s else 0)" "c s = 0 \<or> c s = 1"
    using assms(3) carry_abs(2) [OF assms(2)] by auto
  have out: "w AND (if b then 0x100 else 0x10000) \<noteq> 0 \<longleftrightarrow> v AND msb_of b \<noteq> 0"
  proof -
    have "bit w (Suc k) = bit v k" if "k = 7 \<or> k = 15" for k
      unfolding w_def bit_or_iff bit_push_bit_iff using that cs(2) by (auto simp: bit_simps)
    from this [of 7] this [of 15] show ?thesis
      unfolding and_msb using and_exp_eq_0_iff_not_bit [of w 8] and_exp_eq_0_iff_not_bit [of w 16] by simp
  qed
  have eq: "ASLROL l st c s = st ea w b (LOCAL_SET_NZ w b (LOCAL_SET_CARRY (v AND msb_of b \<noteq> 0) (INC_PC n s)))"
    unfolding out [symmetric] using n(2) c by (cases b) (simp_all add: ASLROL_def b_def [symmetric] w_def Let_def)
  have r: "ucast w = modified i b v (abs_cpu s)"
    unfolding w_def unsigned_or_eq ucast_push cs(1) using k assms(3) by (auto simp: carry_abs(1) [OF assms(2)])
  show ?thesis
    unfolding eq
  proof (rule modify_exec [where st = st and ea = ea and i = i, OF assms(2) b_def v_def st arg_cong [where f = "low b", OF r]])
    show "abs_cpu (LOCAL_SET_NZ w b (LOCAL_SET_CARRY (v AND msb_of b \<noteq> 0) (INC_PC n s)))
        = (modify_flags i b v (abs_cpu s))\<lparr>rPC := ucast (reg_pc s) + len m b\<rparr>"
      using assms(2) i n(1) r by (simp add: modify_flags_def step_simps del: modified.simps)
  qed
qed

lemma LSRROR_abs:
  assumes "modifies l st m" and "status_ok s"
    and "i = Lsr \<and> c = (\<lambda>s. 0) \<or> i = Ror \<and> c = (\<lambda>s. ucast (LOCAL_CARRY s))"
  shows "abs_cpu (LSRROR l st c s) = exec (Rmw i m) (abs_cpu s)"
proof -
  have i: "i \<in> {Lsr, Ror} \<and> i \<notin> {Trb, Tsb, Asl, Rol}" using assms(3) by auto
  define b v where "b = LOCAL_65816_M s" and "v = fetch (place_of m (abs_cpu s)) b (abs_cpu s)"
  obtain n ea where n: "ucast n = len m b" "l b s = ((ucast v, ea), INC_PC n s)"
    and st: "\<And>w u. abs_cpu (st ea w b u) = put (place_of m (abs_cpu s)) b (ucast w) (abs_cpu u)"
    by (rule modifies_operand [OF assms(1) b_def v_def]) (rule that; assumption)
  define h where "h = (i = Ror \<and> carry_in s = 1)"
  define x :: u32 where "x = ucast v OR (if h then if b then 0x100 else 0x10000 else 0)"
  have c: "c (INC_PC n s) \<noteq> 0 \<longleftrightarrow> h"
  proof -
    have "carry_in s = 0 \<or> carry_in s = 1" by (simp add: carry_in_def)
    then show ?thesis using assms(3) carry_abs(2) [OF assms(2)] by (auto simp: h_def)
  qed
  have "odd (ucast v :: u32) \<longleftrightarrow> odd v" by (simp flip: bit_0 add: bit_simps)
  then have out: "x AND 1 \<noteq> 0 \<longleftrightarrow> odd v"
    by (cases h; cases b; simp add: x_def and_one_eq mod2_eq_if even_or_iff)
  have "l b s = ((ucast v, ea), INC_PC n s) \<Longrightarrow> LSRROR l st c s
      = st ea (drop_bit 1 x) b (LOCAL_SET_NZ (drop_bit 1 x) b (LOCAL_SET_CARRY (x AND 1 \<noteq> 0) (INC_PC n s)))"
    using c by (cases b; cases h) (simp_all add: LSRROR_def b_def [symmetric] x_def Let_def)
  then have eq: "LSRROR l st c s
      = st ea (drop_bit 1 x) b (LOCAL_SET_NZ (drop_bit 1 x) b (LOCAL_SET_CARRY (odd v) (INC_PC n s)))"
    using n(2) unfolding out by blast
  have "ucast (drop_bit 1 x) = drop_bit 1 v OR (if h then msb_of b else 0)"
    by (cases h; cases b; rule bit_eqI; auto simp: x_def msb_of_def bit_simps)
  then have r: "ucast (drop_bit 1 x) = modified i b v (abs_cpu s)"
    using assms(3) by (auto simp: h_def carry_abs(1) [OF assms(2)])
  show ?thesis
    unfolding eq
  proof (rule modify_exec [where st = st and ea = ea and i = i, OF assms(2) b_def v_def st arg_cong [where f = "low b", OF r]])
    show "abs_cpu (LOCAL_SET_NZ (drop_bit 1 x) b (LOCAL_SET_CARRY (odd v) (INC_PC n s)))
        = (modify_flags i b v (abs_cpu s))\<lparr>rPC := ucast (reg_pc s) + len m b\<rparr>"
      using assms(2) i n(1) r by (simp add: modify_flags_def step_simps del: modified.simps)
  qed
qed

lemma INCDEC_abs:
  assumes "modifies l st m" and "status_ok s" and "i = Inc \<and> f = (\<lambda>t. t + 1) \<or> i = Dec \<and> f = (\<lambda>t. t - 1)"
  shows "abs_cpu (INCDEC l st f s) = exec (Rmw i m) (abs_cpu s)"
proof -
  have i: "i \<notin> {Trb, Tsb, Asl, Rol, Lsr, Ror}" using assms(3) by auto
  define b v where "b = LOCAL_65816_M s" and "v = fetch (place_of m (abs_cpu s)) b (abs_cpu s)"
  obtain n ea where n: "ucast n = len m b" "l b s = ((ucast v, ea), INC_PC n s)"
    and st: "\<And>w u. abs_cpu (st ea w b u) = put (place_of m (abs_cpu s)) b (ucast w) (abs_cpu u)"
    by (rule modifies_operand [OF assms(1) b_def v_def]) (rule that; assumption)
  have eq: "INCDEC l st f s = st ea (f (ucast v)) b (LOCAL_SET_NZ (f (ucast v)) b (INC_PC n s))"
    using n(2) by (cases b) (simp_all add: INCDEC_def b_def [symmetric] Let_def)
  have r: "ucast (f (ucast v)) = modified i b v (abs_cpu s)"
    using assms(3) by (auto simp: ucast_plus ucast_minus)
  show ?thesis
    unfolding eq
  proof (rule modify_exec [where st = st and ea = ea and i = i, OF assms(2) b_def v_def st arg_cong [where f = "low b", OF r]])
    show "abs_cpu (LOCAL_SET_NZ (f (ucast v)) b (INC_PC n s))
        = (modify_flags i b v (abs_cpu s))\<lparr>rPC := ucast (reg_pc s) + len m b\<rparr>"
      using assms(2) i n(1) r by (simp add: modify_flags_def step_simps del: modified.simps)
  qed
qed

lemma TRBTSB_abs:
  assumes "modifies l st m" and "status_ok s" and "i = Trb \<and> f = (\<lambda>t r. t AND NOT r) \<or> i = Tsb \<and> f = (\<lambda>t r. t OR r)"
  shows "abs_cpu (TRBTSB l st f s) = exec (Rmw i m) (abs_cpu s)"
proof -
  have i: "i \<in> {Trb, Tsb}" using assms(3) by auto
  define b v where "b = LOCAL_65816_M s" and "v = fetch (place_of m (abs_cpu s)) b (abs_cpu s)"
  obtain n ea where n: "ucast n = len m b" "l b s = ((ucast v, ea), INC_PC n s)"
    and st: "\<And>w u. abs_cpu (st ea w b u) = put (place_of m (abs_cpu s)) b (ucast w) (abs_cpu u)"
    by (rule modifies_operand [OF assms(1) b_def v_def]) (rule that; assumption)
  have z: "(ucast v :: u32) AND accu_word b s = 0 \<longleftrightarrow> low b (v AND reg_c s) = 0"
    by (rule and_accu, unfold v_def, rule unat_fetch)
  have eq: "TRBTSB l st f s = st ea (f (ucast v) (accu_word b s)) b
      (LOCAL_SET_ZERO (low b (v AND reg_c s) = 0) (INC_PC n s))"
    unfolding z [symmetric]
    using n(2) by (cases b) (simp_all add: TRBTSB_def b_def [symmetric] accu_word_def reg_a_def Let_def)
  have r: "low b (ucast (f (ucast v) (accu_word b s))) = low b (modified i b v (abs_cpu s))"
    using assms(3) unfolding low_def accu_word_low
    by (cases b; auto intro!: bit_eqI simp: bit_simps mask_numerals)
  show ?thesis
    unfolding eq
  proof (rule modify_exec [where st = st and ea = ea and i = i, OF assms(2) b_def v_def st r])
    show "abs_cpu (LOCAL_SET_ZERO (low b (v AND reg_c s) = 0) (INC_PC n s))
        = (modify_flags i b v (abs_cpu s))\<lparr>rPC := ucast (reg_pc s) + len m b\<rparr>"
      using assms(2) i n(1) by (simp add: modify_flags_def step_simps)
  qed
qed

end
