(* ===== verification/Isa_Reg.thy ===== *)
theory Isa_Reg
  imports Isa_Alu
begin

text \<open>
  The instructions on registers: counting, transfers, flags, and the pushes and pulls. They
  rely on the rules between modes and registers that \<open>wf_cpu\<close> states: the specification keeps
  them by \<open>page1\<close> and \<open>limit_index\<close>, which on a well-formed state change nothing.
\<close>

section \<open>Well-formed states\<close>

lemma wf_limits:
  assumes "wf_cpu s"
  shows "status_ok s" and "LOCAL_65816_X s \<Longrightarrow> reg_x s AND 0xFF = reg_x s"
    and "LOCAL_65816_X s \<Longrightarrow> reg_y s AND 0xFF = reg_y s"
    and "reg_emul s \<noteq> 0 \<Longrightarrow> 0x100 OR (reg_sp s AND 0xFF) = reg_sp s"
    and "reg_emul s \<noteq> 0 \<Longrightarrow> reg_emul s = 1"
proof -
  have le: "v AND 0xFF = v" if "v \<le> 0xFF" for v :: u16
    using that by (simp add: word_unat_eq_iff unat_and_ff16 word_le_nat_alt)
  show "status_ok s" by (rule wf_status_ok [OF assms])
  show "LOCAL_65816_X s \<Longrightarrow> reg_x s AND 0xFF = reg_x s" "LOCAL_65816_X s \<Longrightarrow> reg_y s AND 0xFF = reg_y s"
    using wf_index_bound [OF assms] by (simp_all add: le)
  show "reg_emul s \<noteq> 0 \<Longrightarrow> 0x100 OR (reg_sp s AND 0xFF) = reg_sp s"
    using assms by (intro page_one_unat) (simp add: wf_cpu_def mode_ok_def)
  show "reg_emul s \<noteq> 0 \<Longrightarrow> reg_emul s = 1"
    using assms by (auto simp: wf_cpu_def mode_ok_def word_le_nat_alt word_unat_eq_iff)
qed

lemma wf_low_index: "wf_cpu s \<Longrightarrow> low (LOCAL_65816_X s) (reg_x s) = reg_x s"
  "wf_cpu s \<Longrightarrow> low (LOCAL_65816_X s) (reg_y s) = reg_y s"
  by (simp_all add: low_def wf_limits)

lemma set_nz_mask [simp]: "set_nz True (v AND 0xFF) t = set_nz True v t"
  by (rule set_nz_low) (simp add: low_def and.assoc)

lemma byte_of_word [simp]:
  fixes v :: u16
  shows "set_nz True (ucast (ucast v :: u8)) t = set_nz True v t" "merge True (ucast (ucast v :: u8)) r = merge True v r"
  using low_byte [of "ucast v"] by (auto intro: set_nz_low merge_low)

lemma X_frame [simp]:
  "LOCAL_65816_X (reg_x_update f s) = LOCAL_65816_X s" "LOCAL_65816_X (reg_y_update f s) = LOCAL_65816_X s"
  "LOCAL_65816_X (reg_c_update f s) = LOCAL_65816_X s" "LOCAL_65816_M (reg_c_update f s) = LOCAL_65816_M s"
  by (simp_all add: LOCAL_65816_X_def LOCAL_65816_M_def)

section \<open>Counting and transfers\<close>

lemma counts_abs:
  assumes "status_ok s"
  shows "abs_cpu (INX s) = exec (Count IX True) (abs_cpu s)" "abs_cpu (DEX s) = exec (Count IX False) (abs_cpu s)"
    "abs_cpu (INY s) = exec (Count IY True) (abs_cpu s)" "abs_cpu (DEY s) = exec (Count IY False) (abs_cpu s)"
  using assms x8_abs [OF assms]
  by (simp_all add: INX_def DEX_def INY_def DEY_def INCDECI_def Let_def low_def)
    (simp_all add: step_simps low_def)

lemma index_transfers_abs:
  assumes "wf_cpu s"
  shows "abs_cpu (TAX s) = exec (Transfer RA RX) (abs_cpu s)" "abs_cpu (TAY s) = exec (Transfer RA RY) (abs_cpu s)"
    "abs_cpu (TSX s) = exec (Transfer RS RX) (abs_cpu s)" "abs_cpu (TXY s) = exec (Transfer RX RY) (abs_cpu s)"
    "abs_cpu (TYX s) = exec (Transfer RY RX) (abs_cpu s)"
  using wf_limits [OF assms] wf_low_index [OF assms] x8_abs [OF wf_limits(1) [OF assms]]
  by (simp_all add: TAX_def TAY_def TSX_def TXY_def TYX_def TRANSI_def Let_def)
    (simp_all add: step_simps low_def)

lemma wide_transfers_abs:
  assumes "wf_cpu s"
  shows "abs_cpu (TCD s) = exec (Transfer RA RD) (abs_cpu s)" "abs_cpu (TDC s) = exec (Transfer RD RA) (abs_cpu s)"
    "abs_cpu (TSC s) = exec (Transfer RS RA) (abs_cpu s)" "abs_cpu (TCS s) = exec (Transfer RA RS) (abs_cpu s)"
    "abs_cpu (TXS s) = exec (Transfer RX RS) (abs_cpu s)"
  using wf_limits [OF assms]
  by (simp_all add: TCD_def TDC_def TSC_def TCS_def TXS_def Let_def ucast_reg_a)
    (auto simp: step_simps page1_def low_def LOCAL_65816_X_def)

lemma accu_transfers_abs:
  assumes "status_ok s"
  shows "abs_cpu (TXA s) = exec (Transfer RX RA) (abs_cpu s)" "abs_cpu (TYA s) = exec (Transfer RY RA) (abs_cpu s)"
  using assms m8_abs [OF assms]
  by (simp_all add: TXA_def TYA_def TRANSA_def Let_def) (simp_all add: step_simps)

lemma XBA_abs: "abs_cpu (XBA s) = exec Xba (abs_cpu s)"
proof -
  have "push_bit 8 (ucast (reg_a s)) OR (reg_c (set_reg_a (reg_b s) t) AND 0xFF)
      = push_bit 8 (reg_c s) OR drop_bit 8 (reg_c s)" if "reg_c t = reg_c s" for t
    using that by (intro bit_eqI)
      (auto simp: set_reg_a_def reg_a_def reg_b_def mask_numerals bit_simps dest: bit_imp_le_length)
  then show ?thesis by (simp add: XBA_def Let_def set_reg_b_def advance_def)
qed

section \<open>Flags\<close>

text \<open>A well-formed state keeps the rules, so it is enough to compare the registers.\<close>

lemma x8_flags: "m8 (t\<lparr>rP := p\<rparr>) \<longleftrightarrow> rE t \<or> bit p 5" "x8 (t\<lparr>rP := p\<rparr>) \<longleftrightarrow> rE t \<or> bit p 4"
  by (simp_all add: m8_def x8_def)

lemma advance_frame [simp]:
  "rA (advance n t) = rA t" "rX (advance n t) = rX t" "rY (advance n t) = rY t" "rD (advance n t) = rD t"
  "rS (advance n t) = rS t" "rDB (advance n t) = rDB t" "rPB (advance n t) = rPB t" "rP (advance n t) = rP t"
  "rE (advance n t) = rE t" "mem (advance n t) = mem t" "m8 (advance n t) = m8 t" "x8 (advance n t) = x8 t"
  by (simp_all add: advance_def m8_def x8_def)

lemma rules_hold:
  assumes "wf_cpu s"
  shows "limit_index (page1 (abs_cpu s)) = abs_cpu s"
  using wf_limits [OF assms] wf_low_index [OF assms] x8_abs [OF wf_limits(1) [OF assms]]
  by (auto simp: limit_index_def page1_def x8_def abs_cpu_def)

lemma mem_abs: "mem (abs_cpu s) = (\<lambda>a. ramMemory s (ucast a))"
  by (simp add: abs_cpu_def)

lemma rules_frame [simp]:
  "rA (page1 t) = rA t" "rX (page1 t) = rX t" "rY (page1 t) = rY t" "rD (page1 t) = rD t" "rPC (page1 t) = rPC t"
  "rDB (page1 t) = rDB t" "rPB (page1 t) = rPB t" "rP (page1 t) = rP t" "rE (page1 t) = rE t" "mem (page1 t) = mem t"
  "rA (limit_index t) = rA t" "rS (limit_index t) = rS t" "rD (limit_index t) = rD t" "rPC (limit_index t) = rPC t"
  "rDB (limit_index t) = rDB t" "rPB (limit_index t) = rPB t" "rP (limit_index t) = rP t"
  "rE (limit_index t) = rE t" "mem (limit_index t) = mem t" "x8 (page1 t) = x8 t" "isa.more (page1 t) = isa.more t"
  "isa.more (limit_index t) = isa.more t" "rX (limit_index t) = low (x8 t) (rX t)" "rY (limit_index t) = low (x8 t) (rY t)"
  "rS (page1 t) = (if rE t then 0x100 OR (rS t AND 0xFF) else rS t)"
  by (simp_all add: page1_def limit_index_def x8_def)

lemma same_emul: "t\<lparr>rP := p, rE := rE t\<rparr> = t\<lparr>rP := p\<rparr>"
  by simp

lemma flag_exec:
  assumes "wf_cpu t" and "abs_cpu t = set_flag b m (advance 1 (abs_cpu s))"
  shows "b \<Longrightarrow> abs_cpu t = exec (Flag (Set m)) (abs_cpu s)" "\<not> b \<Longrightarrow> abs_cpu t = exec (Flag (Clear m)) (abs_cpu s)"
proof -
  have "(advance 1 (abs_cpu s))\<lparr>rP := put_bits b m (rP (abs_cpu s)), rE := rE (abs_cpu s)\<rparr> = abs_cpu t"
    unfolding assms(2) using same_emul [of "advance 1 (abs_cpu s)"] by (simp add: set_flag_def)
  then show "b \<Longrightarrow> abs_cpu t = exec (Flag (Set m)) (abs_cpu s)" "\<not> b \<Longrightarrow> abs_cpu t = exec (Flag (Clear m)) (abs_cpu s)"
    using rules_hold [OF assms(1)] by (simp_all add: model_def del: abs_select)
qed

lemmas flag_set = flag_exec(1) [where b = True, OF _ _ TrueI]

lemmas flag_clear = flag_exec(2) [where b = False, OF _ _ notI]

lemma flag_ops_abs:
  assumes "wf_cpu s"
  shows "abs_cpu (CLC s) = exec (Flag (Clear 0x01)) (abs_cpu s)" "abs_cpu (SEC s) = exec (Flag (Set 0x01)) (abs_cpu s)"
    "abs_cpu (CLI s) = exec (Flag (Clear 0x04)) (abs_cpu s)" "abs_cpu (SEI s) = exec (Flag (Set 0x04)) (abs_cpu s)"
    "abs_cpu (CLD s) = exec (Flag (Clear 0x08)) (abs_cpu s)" "abs_cpu (SED s) = exec (Flag (Set 0x08)) (abs_cpu s)"
    "abs_cpu (CLV s) = exec (Flag (Clear 0x40)) (abs_cpu s)"
  by (rule flag_set flag_clear,
      rule wf.I_flag_ops [OF assms],
      use wf_limits(1) [OF assms] in \<open>simp add: CLC_def CLD_def CLI_def CLV_def SEC_def SED_def SEI_def advance_def\<close>, (erule FalseE)?)+

text \<open>The steps of REP and SEP change the status and nothing else, but for the one that sets X.\<close>

definition regs :: "cpu \<Rightarrow> isa" where
  "regs s = (abs_cpu s)\<lparr>rP := 0\<rparr>"

lemma regs_set:
  "regs (if c then LOCAL_SET_SIGN v s else s) = regs s" "regs (if c then LOCAL_SET_OVERFLOW v s else s) = regs s"
  "regs (if c then LOCAL_SET_65816_M v s else s) = regs s" "regs (if c then LOCAL_SET_DECIMAL v s else s) = regs s"
  "regs (if c then LOCAL_SET_INTERRUPT v s else s) = regs s" "regs (if c then LOCAL_SET_ZERO v s else s) = regs s"
  "regs (if c then LOCAL_SET_CARRY v s else s) = regs s"
  by (simp_all add: regs_def abs_cpu_def)

lemma regs_set_X:
  "regs (if c \<and> reg_emul s = 0 then if v
      then (LOCAL_SET_65816_X v s)\<lparr>reg_x := reg_x (LOCAL_SET_65816_X v s) AND 0xFF, reg_y := reg_y (LOCAL_SET_65816_X v s) AND 0xFF\<rparr>
      else LOCAL_SET_65816_X v s else s)
    = (let b = v \<and> c \<and> \<not> rE (regs s) in (regs s)\<lparr>rX := low b (rX (regs s)), rY := low b (rY (regs s))\<rparr>)"
  by (simp add: regs_def abs_cpu_def low_def Let_def)

lemma REPSEP_regs:
  "regs (REPSEP v s) = (let b = v \<and> opb 1 s AND 0x10 \<noteq> 0 \<and> reg_emul s = 0
     in (advance 2 (regs s))\<lparr>rX := low b (reg_x s), rY := low b (reg_y s)\<rparr>)"
  unfolding REPSEP_def Let_def regs_set regs_set_X
  by (simp add: regs_def advance_def opb_def ucast_and ucast_plus)

lemma REPSEP_abs:
  assumes "wf_cpu s"
  shows "abs_cpu (REP s) = exec (Flag Rep) (abs_cpu s)" and "abs_cpu (SEP s) = exec (Flag Sep) (abs_cpu s)"
proof -
  note ok = wf_limits(1) [OF assms]
  define op where "op = code 1 (abs_cpu s)"
  have op: "opb 1 s = ucast op" by (simp add: op_def op1_abs)
  have P: "LOCAL_65816_STATUS (REPSEP v s) = put_bits v (op AND changeable (reg_emul s \<noteq> 0)) (LOCAL_65816_STATUS s)" for v
    using status_of_REPSEP [OF ok, of v] by (simp_all add: status_of_def op)
  have bit4: "opb 1 s AND 0x10 \<noteq> 0 \<longleftrightarrow> bit op 4"
    unfolding op operand_bits by (simp add: bit_simps)
  have x8: "reg_emul s = 0 \<and> bit (put_bits v (op AND changeable (reg_emul s \<noteq> 0)) (LOCAL_65816_STATUS s)) 4
      \<longleftrightarrow> reg_emul s = 0 \<and> (if bit op 4 then v else bit (LOCAL_65816_STATUS s) 4)" for v
    by (auto simp: put_bits_def changeable_def bit_simps)
  have X: "bit (LOCAL_65816_STATUS s) 4 \<or> reg_emul s \<noteq> 0 \<longleftrightarrow> LOCAL_65816_X s"
    using x8_abs [OF ok] by (auto simp: x8_def)
  have "abs_cpu (REPSEP v s) = (regs (REPSEP v s))\<lparr>rP := LOCAL_65816_STATUS (REPSEP v s)\<rparr>" for v
    by (simp add: regs_def abs_cpu_def)
  moreover have "(regs (REPSEP v s))\<lparr>rP := LOCAL_65816_STATUS (REPSEP v s)\<rparr> = limit_index (page1 ((advance 2 (abs_cpu s))
      \<lparr>rP := put_bits v (op AND changeable (reg_emul s \<noteq> 0)) (rP (abs_cpu s)), rE := reg_emul s \<noteq> 0\<rparr>))" (is "?l v = ?r v") for v
  proof (rule isa.equality)
    show "rX (?l v) = rX (?r v)" "rY (?l v) = rY (?r v)"
      using x8 [of v] X wf_limits(2,3) [OF assms]
      by (auto simp: REPSEP_regs bit4 x8_def low_def Let_def and.assoc split: if_splits)
    show "rS (?l v) = rS (?r v)"
      using wf_limits(4) [OF assms] unfolding REPSEP_regs by (simp add: regs_def Let_def)
  qed (unfold REPSEP_regs, simp_all add: P regs_def Let_def advance_def)
  ultimately show "abs_cpu (REP s) = exec (Flag Rep) (abs_cpu s)" "abs_cpu (SEP s) = exec (Flag Sep) (abs_cpu s)"
    by (simp_all add: REP_def SEP_def model_def op_def)
qed

lemma XCE_abs:
  assumes "wf_cpu s"
  shows "abs_cpu (XCE s) = exec (Flag Xce) (abs_cpu s)"
proof -
  let ?p = "LOCAL_65816_STATUS s"
  note ok [simp] = wf_limits(1) [OF assms]
  have c: "?p AND 1 \<noteq> 0 \<longleftrightarrow> LOCAL_CARRY s \<noteq> 0" by (rule status_carry [OF ok])
  have "LOCAL_CARRY s = of_bool (bit (reg_p s) 0)"
    by (rule byte_eqI; simp add: LOCAL_CARRY_def bit_simps)
  then have c': "LOCAL_CARRY s = 0 \<or> LOCAL_CARRY s = 1" by simp
  have e: "reg_emul s = 0 \<or> reg_emul s = 1" using wf_limits(5) [OF assms] by blast
  show ?thesis
  proof (cases "LOCAL_CARRY s = reg_emul s")
    case True
    have "XCE s = INC_PC 1 s" using True by (simp add: XCE_def Let_def LOCAL_CARRY_def)
    moreover have "(advance 1 (abs_cpu s))\<lparr>rP := ?p, rE := reg_emul s \<noteq> 0\<rparr> = abs_cpu (INC_PC 1 s)"
      by (simp add: advance_def)
    ultimately have "limit_index (page1 ((advance 1 (abs_cpu s))\<lparr>rP := ?p, rE := reg_emul s \<noteq> 0\<rparr>)) = abs_cpu (XCE s)"
      using rules_hold [OF wf.I_INC_PC [OF assms, of 1]] by (simp only:)
    then show ?thesis
      using put_same_bit [of ?p] True c by (simp add: model_def)
  next
    case False
    have q: "put_bits True 0x10 (put_bits True 0x20 (put_bits True 0x01 p)) = put_bits True 0x30 (put_bits True 0x01 p)"
      "bit (put_bits True 0x30 r) 4" for p r
      by (rule byte_eqI; simp add: put_bits_def bit_simps) (simp add: put_bits_def bit_simps)
    show ?thesis
    proof (cases "reg_emul s = 0")
      case True
      with False c c' show ?thesis
        by (simp add: XCE_def Let_def model_def LOCAL_CARRY_def set_flag_def advance_def limit_index_def page1_def
            x8_def low_def)
    next
      case emul: False
      then have "LOCAL_65816_X s" using wf.emul_X [of s] by simp
      with False c c' e emul show ?thesis
        using wf_limits(2,3) [OF assms] q
        by (simp add: XCE_def Let_def model_def LOCAL_CARRY_def set_flag_def advance_def limit_index_def page1_def
            x8_def low_def)
    qed
  qed
qed

lemma skips_abs: "abs_cpu (NOP s) = exec (Skip 1) (abs_cpu s)" "abs_cpu (WDM s) = exec (Skip 2) (abs_cpu s)"
  by (simp_all add: NOP_def WDM_def advance_def)

section \<open>Pushes and pulls\<close>

lemma high_byte: "(ucast (drop_bit 8 (ucast (v :: u16) :: u32)) :: u8) = ucast (drop_bit 8 v)"
  by (rule bit_eqI) (auto simp: bit_simps)

lemma pair_bytes [simp]: "ucast (pair lo hi) = lo" "ucast (drop_bit 8 (pair lo hi)) = hi"
proof -
  have lt: "unat lo < 256" "unat hi < 256" by (rule u8_bound)+
  then have "unat (pair lo hi) = unat lo + 256 * unat hi"
    by (simp add: pair_def push_bit_eq_mult unat_word_ariths)
  with lt show "ucast (pair lo hi) = lo" "ucast (drop_bit 8 (pair lo hi)) = hi"
    by (simp_all add: word_unat_eq_iff unsigned_ucast_eq take_bit_eq_mod unat_drop_bit_eq drop_bit_nat_def)
qed

lemma STORE_STACK_abs:
  "abs_cpu (STORE_STACK (ucast v) b s) = (if b then push8 (ucast v) (advance 1 (abs_cpu s))
     else push16 v (advance 1 (abs_cpu s)))" for v :: u16
  by (simp add: STORE_STACK_def Let_def advance_def push16_def high_byte)

lemma STORE_STACK_byte:
  "abs_cpu (STORE_STACK (ucast v) True s) = push8 v (advance 1 (abs_cpu s))" for v :: u8
  by (simp add: STORE_STACK_def Let_def advance_def)

lemma LOCAL_STATUS_abs: "LOCAL_STATUS s = LOCAL_65816_STATUS s OR 0x20"
  by (simp add: LOCAL_STATUS_def LOCAL_65816_STATUS_def or.assoc or.commute or.left_commute)

lemma nowrap_frame [simp]:
  "reg_dpr (PUSH_nowrap v s) = reg_dpr s" "reg_pc (PUSH_nowrap v s) = reg_pc s" "reg_pbr (PUSH_nowrap v s) = reg_pbr s"
  "reg_x (PUSH_nowrap v s) = reg_x s" "reg_emul (PUSH_nowrap v s) = reg_emul s"
  by (simp_all add: PUSH_nowrap_def Let_def)

lemma pushes_abs:
  assumes "wf_cpu s"
  shows "abs_cpu (PHA STORE_STACK s) = exec (Push RA) (abs_cpu s)" "abs_cpu (PHX STORE_STACK s) = exec (Push RX) (abs_cpu s)"
    "abs_cpu (PHY STORE_STACK s) = exec (Push RY) (abs_cpu s)" "abs_cpu (PHB STORE_STACK s) = exec (Push RDB) (abs_cpu s)"
    "abs_cpu (PHK STORE_STACK s) = exec (Push RPB) (abs_cpu s)" "abs_cpu (PHP STORE_STACK s) = exec (Push RP) (abs_cpu s)"
    "abs_cpu (PHD s) = exec (Push RD) (abs_cpu s)"
  using m8_abs [OF wf_limits(1) [OF assms]] x8_abs [OF wf_limits(1) [OF assms]]
  by (simp_all add: PHA_def PHX_def PHY_def PHB_def PHK_def PHP_def PHD_def STORE_STACK_abs STORE_STACK_byte Let_def
      LOCAL_STATUS_abs or.assoc reg_a_def) 
    (simp_all add: push16_new_def push8_def high_byte advance_def)

lemma or_pair: "ucast lo OR push_bit 8 (ucast hi) = (ucast (pair lo hi) :: u32)" for lo hi :: u8
  by (simp add: or_push8 ucast_pair)

lemma pull_frame [simp]:
  "rA (snd (pull8 t)) = rA t" "rX (snd (pull8 t)) = rX t" "rY (snd (pull8 t)) = rY t" "rE (snd (pull8 t)) = rE t"
  "rA (snd (pull16 t)) = rA t" "rX (snd (pull16 t)) = rX t" "rY (snd (pull16 t)) = rY t" "rE (snd (pull16 t)) = rE t"
  "m8 (snd (pull8 t)) = m8 t" "x8 (snd (pull8 t)) = x8 t" "m8 (snd (pull16 t)) = m8 t" "x8 (snd (pull16 t)) = x8 t"
  by (simp_all add: pull8_def pull16_def Let_def unstack_def split_beta m8_def x8_def)

lemma LOAD_STACK_abs:
  "fst (LOAD_STACK True s) = ucast (fst (pull8 (advance 1 (abs_cpu s))))"
  "abs_cpu (snd (LOAD_STACK True s)) = snd (pull8 (advance 1 (abs_cpu s)))"
  "fst (LOAD_STACK False s) = ucast (fst (pull16 (advance 1 (abs_cpu s))))"
  "abs_cpu (snd (LOAD_STACK False s)) = snd (pull16 (advance 1 (abs_cpu s)))"
  by (simp_all add: LOAD_STACK_def Let_def split_beta PULL_abs pull16_def advance_def or_pair)

lemma LOAD_STACK_keeps [simp]:
  "reg_c (snd (LOAD_STACK b s)) = reg_c s" "reg_x (snd (LOAD_STACK b s)) = reg_x s" "reg_y (snd (LOAD_STACK b s)) = reg_y s"
  "reg_emul (snd (LOAD_STACK b s)) = reg_emul s" "status_ok (snd (LOAD_STACK b s)) = status_ok s"
  by (simp_all add: LOAD_STACK_def Let_def split_beta status_ok_def)

lemma low_ucast_byte [simp]: "low True (ucast (b :: u8)) = ucast b"
  by (simp add: low_def byte_offset)

lemma pulls_abs:
  assumes "wf_cpu s"
  shows "abs_cpu (PLA LOAD_STACK s) = exec (Pull RA) (abs_cpu s)" "abs_cpu (PLX LOAD_STACK s) = exec (Pull RX) (abs_cpu s)"
    "abs_cpu (PLY LOAD_STACK s) = exec (Pull RY) (abs_cpu s)" "abs_cpu (PLB LOAD_STACK s) = exec (Pull RDB) (abs_cpu s)"
  using m8_abs [OF wf_limits(1) [OF assms]] x8_abs [OF wf_limits(1) [OF assms]] wf_limits(1) [OF assms]
  by (simp_all add: PLA_def PLX_def PLY_def PLB_def PLI_def split_beta Let_def LOAD_STACK_abs load_A_def low_def byte_offset)

lemma limit_abs:
  assumes "status_ok s"
  shows "abs_cpu (if LOCAL_65816_X s then s\<lparr>reg_x := reg_x s AND 0xFF, reg_y := reg_y s AND 0xFF\<rparr> else s)
    = limit_index (abs_cpu s)"
  using x8_abs [OF assms] by (auto simp: limit_index_def low_def abs_cpu_def LOCAL_65816_STATUS_def LOCAL_ZERO_def)

lemma SET_STATUS_ok [simp]: "status_ok (LOCAL_SET_STATUS (ucast (p :: u8)) s)"
  by (simp add: status_ok_def LOCAL_SET_STATUS_byte and.assoc)

lemma PLP_abs: "abs_cpu (PLP LOAD_STACK s) = exec (Pull RP) (abs_cpu s)"
  unfolding PLP_def split_beta Let_def LOAD_STACK_abs limit_abs [OF SET_STATUS_ok] abs_SET_STATUS
  by (simp add: split_beta Let_def)

lemma new_stack_abs:
  "abs_cpu (PUSH x (PUSH_nowrap (drop_bit 8 x) s)) = push16_new (ucast x) (abs_cpu s)"
  by (simp add: push16_new_def push8_def ucast_high)

lemma page1_abs: "abs_cpu (if reg_emul s \<noteq> 0 then s\<lparr>reg_sp := (reg_sp s AND 0xFF) OR 0x100\<rparr> else s) = page1 (abs_cpu s)"
  by (simp add: page1_def or.commute)

lemma PULL_nowrap_keeps [simp]:
  "reg_emul (snd (PULL_nowrap s)) = reg_emul s" "reg_sp (snd (PULL_nowrap s)) = reg_sp s + 1" "status_ok (snd (PULL_nowrap s)) = status_ok s"
  by (simp_all add: PULL_nowrap_def Let_def)

lemma PLD_abs:
  assumes "status_ok s"
  shows "abs_cpu (PLD s) = exec (Pull RD) (abs_cpu s)"
  using assms
  by (simp add: PLD_def split_beta Let_def or_pair PULL_nowrap_abs pull16_new_def advance_def)
    (simp add: page1_def or.commute unstack_def set_nz_def set_flag_def)

lemma operands:
  "FETCH_PARAM ((reg_pc s + 1) AND 0xFFFF) s = ucast (code 1 (abs_cpu s))"
  "FETCH_PARAM ((reg_pc s + 2) AND 0xFFFF) s = ucast (code 2 (abs_cpu s))"
  "FETCH_PARAM ((reg_pc s + 3) AND 0xFFFF) s = ucast (code 3 (abs_cpu s))"
  using opb_abs [of 1 s] opb_abs [of 2 s] opb_abs [of 3 s] by (simp_all add: opb_def)

lemma code_advance [simp]: "code n ((abs_cpu s)\<lparr>rPC := ucast (reg_pc s) + m\<rparr>) = code (m + n) (abs_cpu s)"
  by (simp add: code_def rd_def add.assoc)

lemma code16_pair: "ucast (code 1 t) + push_bit 8 (ucast (code 2 t)) = (ucast (code16 t) :: u32)"
  by (simp add: code16_def pair_le)

lemma drop_push_byte: "ucast (drop_bit 8 (push_bit 8 (ucast b :: u32))) = b" for b :: u8
  by (rule bit_eqI) (auto simp: bit_simps)

lemma new_pushes_abs:
  "abs_cpu (PEA s) = exec Pea (abs_cpu s)" "abs_cpu (PEI s) = exec Pei (abs_cpu s)" "abs_cpu (PER s) = exec Per (abs_cpu s)"
  subgoal
    by (simp add: PEA_def Let_def operands push16_new_def push8_def advance_def code16_def drop_push_byte)
  subgoal
    unfolding PEI_def Let_def LOAD_BANK0_def load_bank0 or_pair new_stack_abs
    by (simp add: operands advance_def ucast_plus op1_def rd0_def rd_def) (simp add: Let_def add.commute)
  subgoal
    unfolding PER_def Let_def new_stack_abs
    by (simp add: operands advance_def ucast_plus ucast_and ucast_push code16_def pair_def add.assoc)
  done

end
