(* ===== verification/Isa_Control.thy ===== *)
theory Isa_Control
  imports Isa_Reg
begin

text \<open>
  Branches, jumps, calls, returns, the software interrupt and the block moves against the
  specification.
\<close>

section \<open>Branches\<close>

lemma fetch_code: "FETCH_PARAM (x AND 0xFFFF) s = ucast (rd (bank (reg_pbr s) (ucast x)) (abs_cpu s))"
  by (simp add: FETCH_PARAM_abs ucast_and)

lemma signed_offset: "(ucast (scast (b :: u8) :: u32) :: u16) = scast b"
  by (rule bit_eqI) (auto simp: bit_simps min_def)

lemma BRANCH_abs:
  assumes "c (INC_PC 1 s) \<longleftrightarrow> (LOCAL_65816_STATUS s AND m \<noteq> 0) = v"
  shows "abs_cpu (BRANCH c s) = exec (Branch m v) (abs_cpu s)"
  using assms
  by (simp add: BRANCH_def Let_def operands advance_def ucast_and ucast_plus signed_offset)

lemma BRANCH_LONG_abs: "abs_cpu (BRANCH_LONG s) = exec BranchLong (abs_cpu s)"
  by (simp add: BRANCH_LONG_def Let_def operands advance_def ucast_and ucast_plus ucast_push code16_def pair_def)

section \<open>The program counter is apart from memory and stack\<close>

lemma rd_pc [simp]: "rd a (t\<lparr>rPC := p\<rparr>) = rd a t" "rd0 b (t\<lparr>rPC := p\<rparr>) = rd0 b t"
  by (simp_all add: rd_def rd0_def)

lemma stack_pc [simp]:
  "page1 (t\<lparr>rPC := p\<rparr>) = (page1 t)\<lparr>rPC := p\<rparr>" "stack v (t\<lparr>rPC := p\<rparr>) = (stack v t)\<lparr>rPC := p\<rparr>"
  "push8 v (t\<lparr>rPC := p\<rparr>) = (push8 v t)\<lparr>rPC := p\<rparr>" "push16 w (t\<lparr>rPC := p\<rparr>) = (push16 w t)\<lparr>rPC := p\<rparr>"
  "push16_new w (t\<lparr>rPC := p\<rparr>) = (push16_new w t)\<lparr>rPC := p\<rparr>" "unstack (t\<lparr>rPC := p\<rparr>) = (unstack t)\<lparr>rPC := p\<rparr>"
  by (simp_all add: stack_simps push8_def push16_def push16_new_def)

lemma limit_pc [simp]: "limit_index (t\<lparr>rPC := p\<rparr>) = (limit_index t)\<lparr>rPC := p\<rparr>"
  by (simp add: limit_index_def x8_def)

lemma stack_keeps [simp]:
  "rPC (stack v t) = rPC t" "rPB (stack v t) = rPB t" "rX (stack v t) = rX t" "rE (stack v t) = rE t"
  "rPC (push8 v t) = rPC t" "rPB (push8 v t) = rPB t" "rP (push8 v t) = rP t" "rE (push8 v t) = rE t"
  "rPC (push16 w t) = rPC t" "rPB (push16 w t) = rPB t" "rP (push16 w t) = rP t" "rE (push16 w t) = rE t"
  "rPC (push16_new w t) = rPC t" "rPB (push16_new w t) = rPB t"
  "push16_new w (t\<lparr>rPB := b\<rparr>) = (push16_new w t)\<lparr>rPB := b\<rparr>"
  by (simp_all add: stack_simps push8_def push16_def push16_new_def)

lemma pull_pc [simp]:
  "stack_top (t\<lparr>rPC := p\<rparr>) = stack_top t"
  "fst (pull8 (t\<lparr>rPC := p\<rparr>)) = fst (pull8 t)" "snd (pull8 (t\<lparr>rPC := p\<rparr>)) = (snd (pull8 t))\<lparr>rPC := p\<rparr>"
  by (simp_all add: pull8_def Let_def stack_top_def unstack_def) (simp_all add: page1_def rd0_def rd_def)

section \<open>Jumps\<close>

lemma JMP_abs: "abs_cpu (JMP s) = exec Jmp (abs_cpu s)"
  by (simp add: JMP_def Let_def operands code16_pair)

lemma JMP_LONG_abs: "abs_cpu (JMP_LONG s) = exec JmpLong (abs_cpu s)"
  by (simp add: JMP_LONG_def Let_def operands code16_pair)

lemma jumps_indirect_abs:
  "abs_cpu (JMP_IND s) = exec JmpInd (abs_cpu s)" "abs_cpu (JMP_IND_LONG s) = exec JmpIndLong (abs_cpu s)"
  "abs_cpu (JMP_IND_X s) = exec JmpIndX (abs_cpu s)"
  by (simp_all add: JMP_IND_def JMP_IND_LONG_def JMP_IND_X_def Let_def operands code16_pair LOAD_LONG_abs LOAD_BANK0_def)
    (simp_all add: fetch_code or_pair rd0_def ucast_and ucast_plus)

section \<open>Calls\<close>

lemma push16_abs: "abs_cpu (PUSH x (PUSH (drop_bit 8 x) s)) = push16 (ucast x) (abs_cpu s)"
  by (simp add: push16_def ucast_high)

lemma calls_abs:
  "abs_cpu (JSR s) = exec Jsr (abs_cpu s)" "abs_cpu (JSR_LONG s) = exec JsrLong (abs_cpu s)"
  subgoal
    unfolding JSR_def Let_def PUSH_frame abs_update push16_abs
    by (simp add: operands code16_pair ucast_and ucast_plus)
  subgoal
    unfolding JSR_LONG_def Let_def PUSH_frame nowrap_frame abs_update new_stack_abs
    by (simp add: operands code16_pair) (simp add: fetch_code code_def Let_def ucast_and ucast_plus)
  done

text \<open>JSR through a table pushes the return address before it has read its operand.\<close>

lemma JSR_IND_X_abs: "abs_cpu (JSR_IND_X s) = exec JsrIndX (abs_cpu s)"
proof -
  define v where "v = INC_PC 1 (INC_PC 1 s)"
  define u where "u = PUSH (reg_pc v) (PUSH_nowrap (drop_bit 8 (reg_pc v)) v)"
  have u: "abs_cpu u = (push16_new (ucast (reg_pc s) + 2) (abs_cpu s))\<lparr>rPC := ucast (reg_pc s) + 2\<rparr>"
    "reg_pc u = (reg_pc s + 2) AND 0xFFFF" "reg_pbr u = reg_pbr s" "reg_x u = reg_x s"
    unfolding u_def new_stack_abs by (simp_all add: v_def ucast_and ucast_plus)
  have "JSR_IND_X s = (let ea = (FETCH_PARAM (reg_pc (INC_PC 1 s)) (INC_PC 1 s) + push_bit 8 (FETCH_PARAM (reg_pc u) u) + ucast (reg_x u)) AND 0xFFFF;
      t = u\<lparr>reg_pc := FETCH_PARAM ea u\<rparr>
    in t\<lparr>reg_pc := reg_pc t OR push_bit 8 (FETCH_PARAM ((ea + 1) AND 0xFFFF) t)\<rparr>)"
    unfolding JSR_IND_X_def u_def v_def Let_def nowrap_frame by (rule refl)
  then show ?thesis
    by (simp add: u fetch_code Let_def or_pair code_def ucast_and ucast_plus)
      (simp add: pair_def ucast_push)
qed

section \<open>Returns\<close>

lemma PULL_nowrap_pc [simp]: "reg_pc (snd (PULL_nowrap s)) = reg_pc s"
  by (simp add: PULL_nowrap_def Let_def)

lemma returns_abs:
  "abs_cpu (RTS s) = exec Rts (abs_cpu s)" "abs_cpu (RTL s) = exec Rtl (abs_cpu s)"
  subgoal
    by (simp add: RTS_def Let_def split_beta PULL_abs pull16_def or_pair)
  subgoal
    by (simp add: RTL_def Let_def split_beta PULL_nowrap_abs pull16_new_def or_pair) (simp add: page1_def unstack_def or.commute)
  done

lemma RTI_abs: "abs_cpu (RTI s) = exec Rti (abs_cpu s)"
proof -
  define t where "t = LOCAL_SET_STATUS (fst (PULL (INC_PC 1 s))) (snd (PULL (INC_PC 1 s)))"
  define u where "u = (if LOCAL_65816_X t then t\<lparr>reg_x := reg_x t AND 0xFF, reg_y := reg_y t AND 0xFF\<rparr> else t)"
  have "status_ok t" unfolding t_def PULL_abs by (rule SET_STATUS_ok)
  then have u: "abs_cpu u = limit_index (abs_cpu t)" unfolding u_def by (rule limit_abs)
  have t: "reg_emul u = reg_emul s" "abs_cpu t = (snd (pull8 (abs_cpu s)))\<lparr>rP := fst (pull8 (abs_cpu s)), rPC := ucast (reg_pc s) + 1\<rparr>"
    unfolding u_def t_def PULL_abs abs_SET_STATUS by simp_all
  have "RTI s = (let l = PULL u; h = PULL (snd l); v = (snd h)\<lparr>reg_pc := fst l OR push_bit 8 (fst h)\<rparr>
      in if reg_emul u \<noteq> 0 then v else (snd (PULL v))\<lparr>reg_pbr := ucast (fst (PULL v))\<rparr>)"
    unfolding RTI_def u_def t_def Let_def split_beta by (rule refl)
  then show ?thesis
    by (simp add: Let_def PULL_abs u t or_pair pull16_def split_beta)
qed

section \<open>The software interrupt\<close>

lemma set_flag_keeps [simp]:
  "rE (set_flag c m t) = rE t" "rPC (set_flag c m t) = rPC t" "rPB (set_flag c m t) = rPB t"
  "rP (set_flag c m t) = put_bits c m (rP t)"
  "set_flag c m (t\<lparr>rPC := p\<rparr>) = (set_flag c m t)\<lparr>rPC := p\<rparr>"
  by (simp_all add: set_flag_def)

definition serve :: "u32 \<Rightarrow> u8 \<Rightarrow> cpu \<Rightarrow> cpu" where
  "serve a p w = LOAD_INT_ADDR a (LOCAL_SET_INTERRUPT True (LOCAL_SET_DECIMAL False
     (PUSH (ucast p) (PUSH (reg_pc w) (PUSH (drop_bit 8 (reg_pc w)) w)))))"

lemma serve_abs:
  assumes "status_ok w" and "t = set_flag True 0x04 (set_flag False 0x08 (push8 p (push16 (ucast (reg_pc w)) (abs_cpu w))))"
  shows "abs_cpu (serve a p w) = t\<lparr>rPC := pair (rd (ucast a) t) (rd (ucast (a + 1)) t)\<rparr>"
  using assms(1) unfolding assms(2)
  by (simp add: serve_def LOAD_INT_ADDR_def Let_def LOAD_LONG_abs or_pair push16_def ucast_high)

lemma BRK_serve:
  fixes s defines "w \<equiv> INC_PC 1 (INC_PC 1 (EXPORT_REGISTERS s))"
  shows "BRK s = (if reg_emul s \<noteq> 0
    then serve 0xFFFE (LOCAL_STATUS (LOCAL_SET_BREAK True w)) (LOCAL_SET_BREAK True w)
    else serve 0xFFE6 (LOCAL_65816_STATUS w) (PUSH (ucast (reg_pbr s)) w))\<lparr>reg_pbr := 0\<rparr>"
  by (simp add: BRK_def serve_def Let_def w_def LOCAL_STATUS_def LOCAL_65816_STATUS_def LOCAL_ZERO_def)

lemma BRK_abs:
  assumes "status_ok s"
  shows "abs_cpu (BRK s) = exec Brk (abs_cpu s)"
proof (cases "reg_emul s = 0")
  case True
  then show ?thesis
    using assms by (simp add: BRK_serve serve_abs [OF _ refl] enter_def Let_def advance_def ucast_and ucast_plus rd0_def)
next
  case False
  then show ?thesis
    using assms by (simp add: BRK_serve serve_abs [OF _ refl] enter_def Let_def advance_def ucast_and ucast_plus rd0_def
        LOCAL_STATUS_abs setters)
qed

section \<open>Block moves\<close>

lemma in_bank:
  assumes "reg_pc s \<le> 0xFFFD"
  shows "(reg_pc s + 1) AND 0xFFFF = reg_pc s + 1" "(reg_pc s + 2) AND 0xFFFF = reg_pc s + 2"
proof -
  have "unat (reg_pc s) \<le> 0xFFFD" using assms by (simp add: word_le_nat_alt)
  then have "reg_pc s + 1 \<le> 0xFFFF" "reg_pc s + 2 \<le> 0xFFFF"
    by (simp_all add: word_le_nat_alt unat_word_ariths)
  then show "(reg_pc s + 1) AND 0xFFFF = reg_pc s + 1" "(reg_pc s + 2) AND 0xFFFF = reg_pc s + 2"
    by (simp_all add: and_mask_id)
qed

definition move_core :: "cpu \<Rightarrow> cpu" where
  "move_core s =
     (let (p1, s) =
            (if reg_c s = 0 then
               let s = INC_PC 1 s;
                   p1 = FETCH_PARAM (reg_pc s) s;
                   s = INC_PC 1 s;
                   s = s\<lparr>reg_dbr := ucast (FETCH_PARAM (reg_pc s) s)\<rparr>
               in (p1, INC_PC 1 s)
             else
               (FETCH_PARAM (reg_pc s + 1) s,
                s\<lparr>reg_dbr := ucast (FETCH_PARAM (reg_pc s + 2) s)\<rparr>));
          tmp = LOAD_LONG (ucast (reg_x s) + dbr16 s) s;
          s = s\<lparr>reg_dbr := ucast p1\<rparr>
      in STORE_LONG (ucast (reg_y s) + dbr16 s) tmp s)"

lemma MOVE_core:
  "MOVE f s =
    (let t = (move_core s)\<lparr>reg_x := f (reg_x (move_core s)), reg_y := f (reg_y (move_core s))\<rparr>;
         t = (if LOCAL_65816_X t then t\<lparr>reg_x := reg_x t AND 0xFF, reg_y := reg_y t AND 0xFF\<rparr> else t)
     in t\<lparr>reg_c := reg_c t - 1\<rparr>)"
  unfolding MOVE_def move_core_def Let_def split_beta by (rule refl)

lemma move_core_keeps [simp]:
  "reg_x (move_core s) = reg_x s" "reg_y (move_core s) = reg_y s" "reg_c (move_core s) = reg_c s" "status_ok (move_core s) = status_ok s"
  by (simp_all add: move_core_def Let_def)

lemma move_core_abs:
  assumes "reg_pc s \<le> 0xFFFD"
  shows "abs_cpu (move_core s) = (let dst = code 1 (abs_cpu s); t = abs_cpu s
     in (wr (bank dst (reg_y s)) (rd (bank (code 2 t) (reg_x s)) t) t)
       \<lparr>rPC := (if reg_c s = 0 then rPC t + 3 else rPC t), rDB := dst\<rparr>)"
proof -
  have op: "FETCH_PARAM (reg_pc s + 1) s = ucast (code 1 (abs_cpu s))" "FETCH_PARAM (reg_pc s + 2) s = ucast (code 2 (abs_cpu s))"
    using operands(1,2) [of s] in_bank [OF assms] by simp_all
  have b: "ucast v + push_bit 16 (ucast d) = bank d v" for v d by (simp add: bank_def add.commute)
  show ?thesis
    by (cases "reg_c s = 0")
      (simp_all add: move_core_def Let_def op operands LOAD_LONG_abs ucast_plus ucast_push b,
       simp_all add: rd_def wr_def ucast_and ucast_plus)
qed

lemma limit_index_acc [simp]: "limit_index (t\<lparr>rA := a\<rparr>) = (limit_index t)\<lparr>rA := a\<rparr>"
  by (simp add: limit_index_def x8_def)

lemma MOVE_abs:
  assumes "status_ok s" and "reg_pc s \<le> 0xFFFD"
  shows "abs_cpu (MVN s) = exec (Move True) (abs_cpu s)" "abs_cpu (MVP s) = exec (Move False) (abs_cpu s)"
proof -
  have ok: "status_ok ((move_core s)\<lparr>reg_x := x, reg_y := y\<rparr>)" for x y
    using assms(1) by simp
  have "abs_cpu (MOVE f s) = (limit_index ((abs_cpu (move_core s))\<lparr>rX := f (reg_x s), rY := f (reg_y s)\<rparr>))\<lparr>rA := reg_c s - 1\<rparr>" for f
    unfolding MOVE_core Let_def abs_update limit_abs [OF ok] by simp
  then show "abs_cpu (MVN s) = exec (Move True) (abs_cpu s)" "abs_cpu (MVP s) = exec (Move False) (abs_cpu s)"
    by (simp_all add: MVN_def MVP_def move_core_abs [OF assms(2)] block_move_def limit_index_def x8_def Let_def)
qed

end
