(* ===== verification/Isa_Hidden.thy ===== *)
theory Isa_Hidden
  imports Isa_Control
begin

text \<open>
  Where the specification leaves a case open, decimal arithmetic and the block moves at the end of
  a bank, the core still computes on nothing but what the programmer sees.
\<close>

section \<open>States that look the same\<close>

definition twins :: "cpu \<Rightarrow> cpu \<Rightarrow> bool" where
  "twins s t \<longleftrightarrow> wf_cpu s \<and> wf_cpu t \<and> abs_cpu s = abs_cpu t"

lemma rammask_ucast:
  "(ucast (a :: u20) :: u32) AND RAMMASK = ucast a" "ucast (ucast (c AND RAMMASK) :: u20) = (c AND RAMMASK :: u32)"
proof -
  have m: "RAMMASK = mask 20" by (simp add: mask_eq_exp_minus_1)
  show "(ucast a :: u32) AND RAMMASK = ucast a" "ucast (ucast (c AND RAMMASK) :: u20) = (c AND RAMMASK :: u32)"
    unfolding m by (rule bit_eqI; auto simp: bit_simps dest: bit_imp_le_length)+
qed

lemma twins_fields:
  assumes "twins s t"
  shows "reg_c s = reg_c t" "reg_x s = reg_x t" "reg_y s = reg_y t" "reg_dpr s = reg_dpr t" "reg_sp s = reg_sp t"
    "reg_pbr s = reg_pbr t" "reg_dbr s = reg_dbr t" "reg_pc s = reg_pc t" "reg_p s = reg_p t" "reg_emul s = reg_emul t"
    "LOCAL_65816_STATUS s = LOCAL_65816_STATUS t" "ramMemory s (a AND RAMMASK) = ramMemory t (a AND RAMMASK)"
proof -
  have w: "wf_cpu s" "wf_cpu t" and e: "abs_cpu s = abs_cpu t" using assms by (simp_all add: twins_def)
  show st: "LOCAL_65816_STATUS s = LOCAL_65816_STATUS t" using arg_cong [OF e, of rP] by simp
  show "reg_c s = reg_c t" "reg_x s = reg_x t" "reg_y s = reg_y t" "reg_dpr s = reg_dpr t" "reg_sp s = reg_sp t"
    "reg_pbr s = reg_pbr t" "reg_dbr s = reg_dbr t"
    using e by (simp_all add: abs_cpu_def)
  have "reg_p u = LOCAL_65816_STATUS u AND 0x7D" if "wf_cpu u" for u
  proof -
    have "reg_p u AND 0x82 = 0" using that by (simp add: wf_cpu_def mode_ok_def)
    moreover have "(0x82 OR 0x7D :: u8) = - 1" by simp
    ultimately have "reg_p u = reg_p u AND 0x7D"
      using word_ao_dist2 [of "reg_p u" "0x82" "0x7D"] by (simp only: and.right_neutral or.left_neutral)
    then show ?thesis by (simp add: LOCAL_65816_STATUS_def word_ao_dist and.assoc)
  qed
  from this [OF w(1)] this [OF w(2)] show "reg_p s = reg_p t" by (simp add: st)
  have "(ucast (reg_pc s) :: u16) = ucast (reg_pc t)" using e by (simp add: abs_cpu_def)
  moreover have "unat (reg_pc s) \<le> 65535" "unat (reg_pc t) \<le> 65535"
    using w by (simp_all add: wf_cpu_def word_le_nat_alt)
  ultimately show "reg_pc s = reg_pc t" by (simp add: word_unat_eq_iff unat_ucast_down)
  have "reg_emul s = 0 \<longleftrightarrow> reg_emul t = 0" using e by (simp add: abs_cpu_def)
  moreover have "reg_emul s = 0 \<or> reg_emul s = 1" "reg_emul t = 0 \<or> reg_emul t = 1"
    using w by (auto simp: wf_cpu_def mode_ok_def word_le_nat_alt word_unat_eq_iff)
  ultimately show "reg_emul s = reg_emul t" by auto
  have "ramMemory u (a AND RAMMASK) = mem (abs_cpu u) (ucast (a AND RAMMASK))" for u
    by (simp add: abs_cpu_def rammask_ucast)
  then show "ramMemory s (a AND RAMMASK) = ramMemory t (a AND RAMMASK)" by (simp add: e)
qed

section \<open>The open cases\<close>

lemma SBC_eq:
  "SBC l s = (let b = LOCAL_65816_M s; c = ucast (LOCAL_CARRY s); (v, t) = l b s;
      (tmp, ov) = sbc_binary (if b then 0xFF else 0xFFFF) (if b then 0x80 else 0x8000) (if b then ucast (reg_a t) else ucast (reg_c t)) v c;
      (r, k) = (if LOCAL_DECIMAL t \<noteq> 0
         then (if b then sbc8_decimal else sbc16_decimal) (ucast (reg_a t)) v (ucast (LOCAL_CARRY t))
         else (tmp, tmp > (if b then 0xFF else 0xFFFF)))
     in write_back b r ov k t)"
  by (simp add: SBC_def write_back_def Let_def split_def)

lemma ADC_SBC_observed:
  assumes "twins s t" and "loads l m"
  shows "abs_cpu (ADC l s) = abs_cpu (ADC l t)" "abs_cpu (SBC l s) = abs_cpu (SBC l t)"
proof -
  note f = twins_fields [OF assms(1)]
  have ok: "status_ok s" "status_ok t" and e: "abs_cpu s = abs_cpu t" using assms(1) wf_limits(1) by (auto simp: twins_def)
  define b where "b = LOCAL_65816_M t"
  have b: "LOCAL_65816_M s = b" "LOCAL_65816_M t = b" using f by (simp_all add: b_def LOCAL_65816_M_def)
  obtain n where n: "ucast n = len m b" "l b s = (ucast (fetch (place_of m (abs_cpu t)) b (abs_cpu t)), INC_PC n s)"
    using loads_operand [OF assms(2), of b s] b e by metis
  obtain n' where n': "ucast n' = len m b" "l b t = (ucast (fetch (place_of m (abs_cpu t)) b (abs_cpu t)), INC_PC n' t)"
    using loads_operand [OF assms(2), of b t] b by metis
  have "abs_cpu (INC_PC n s) = abs_cpu (INC_PC n' t)" using n(1) n'(1) e f(8) by simp
  then have w: "abs_cpu (write_back b r v c (INC_PC n s)) = abs_cpu (write_back b r v c (INC_PC n' t))" for r v c
    using ok by (simp add: abs_write_back)
  have "LOCAL_CARRY s = LOCAL_CARRY t" "LOCAL_DECIMAL s = LOCAL_DECIMAL t" "reg_a s = reg_a t"
    using f by (simp_all add: LOCAL_CARRY_def LOCAL_DECIMAL_def reg_a_def)
  then show "abs_cpu (ADC l s) = abs_cpu (ADC l t)" "abs_cpu (SBC l s) = abs_cpu (SBC l t)"
    using f(1) n(2) n'(2) w by (cases b; simp add: ADC_eq SBC_eq b Let_def split_def)+
qed

lemma MOVE_observed:
  assumes "twins s t"
  shows "abs_cpu (MOVE f s) = abs_cpu (MOVE f t)"
proof -
  note f = twins_fields [OF assms]
  obtain n z a e i M where t: "t = s\<lparr>flag_n := n, flag_z := z, last_opcode_addr := a, exported := e, interrupt65816 := i, ramMemory := M\<rparr>"
    using f(1-10) by (intro that [of "ramMemory t" "interrupt65816 t" "exported t" "last_opcode_addr t" "flag_z t" "flag_n t"])
      (cases s; cases t; simp)
  have M: "M (a AND RAMMASK) = ramMemory s (a AND RAMMASK)" for a using f(12) [of a] by (simp add: t)
  have M': "M (ucast a) = ramMemory s (ucast a)" for a :: u20
  proof -
    have "ucast a AND RAMMASK = (ucast a :: u32)" by (rule rammask_ucast)
    then show ?thesis using M [of "ucast a"] by simp
  qed
  have st: "LOCAL_65816_STATUS t = LOCAL_65816_STATUS s" using f(11) by simp
  have x: "LOCAL_65816_X t = LOCAL_65816_X s" by (simp add: t LOCAL_65816_X_def)
  show ?thesis
    using M' st unfolding t
    by (cases "reg_c s = 0"; cases "LOCAL_65816_X s"; simp add: MOVE_core move_core_def Let_def abs_cpu_def FETCH_PARAM_def LOAD_LONG_def STORE_LONG_def CPU65816GetBank_def M LOCAL_65816_X_def LOCAL_65816_STATUS_def LOCAL_ZERO_def INC_PC_def fun_eq_iff)
qed

end
