(* ===== verification/Isa_Refinement.thy ===== *)
theory Isa_Refinement
  imports Isa_Hidden Advance
begin

text \<open>
  The refinement: one step of the core, with the opcode switch around the instructions, is one
  step of the specified processor, and so is a run of any length.
\<close>

section \<open>Instructions\<close>

text \<open>The code of an instruction does what the specification says where that settles it, and
  depends everywhere on what the programmer sees alone.\<close>

definition realizes :: "(cpu \<Rightarrow> cpu) \<Rightarrow> instr \<Rightarrow> bool" where
  "realizes f i \<longleftrightarrow> (\<forall>s. wf_cpu s \<longrightarrow> settled i (abs_cpu s) \<longrightarrow> abs_cpu (f s) = exec i (abs_cpu s))
     \<and> (\<forall>s t. twins s t \<longrightarrow> abs_cpu (f s) = abs_cpu (f t))"

lemma realizesI: "(\<And>s. wf_cpu s \<Longrightarrow> abs_cpu (f s) = exec i (abs_cpu s)) \<Longrightarrow> realizes f i"
  by (simp add: realizes_def twins_def)

lemma realizes_decimal:
  assumes "\<And>s. status_ok s \<Longrightarrow> LOCAL_DECIMAL s = 0 \<Longrightarrow> abs_cpu (f s) = exec (Acc i m) (abs_cpu s)"
    and "\<And>s t. twins s t \<Longrightarrow> abs_cpu (f s) = abs_cpu (f t)" and "i = Adc \<or> i = Sbc"
  shows "realizes f (Acc i m)"
  using assms wf_limits(1)
  by (auto simp: realizes_def settled_def status_bits LOCAL_DECIMAL_def and_bit_eq_0)

lemma logical_realizes:
  assumes "loads l m"
  shows "realizes (ORA l) (Acc Ora m)" "realizes (AND_op l) (Acc And m)" "realizes (EOR l) (Acc Eor m)"
    "realizes (LDA l) (Acc Lda m)"
proof -
  have u: "(ucast (x OR y) :: u16) = ucast x OR ucast y" "(ucast (x AND y) :: u16) = ucast x AND ucast y"
    "(ucast (x XOR y) :: u16) = ucast x XOR ucast y" for x y :: u32
    by (rule bit_eqI; auto simp: bit_simps)+
  have l: "low True (low True x OR y) = low True (x OR y)" "low True (low True x AND y) = low True (x AND y)"
    "low True (low True x XOR y) = low True (x XOR y)" for x y
    by (rule bit_eqI; auto simp: low_def bit_simps)+
  show "realizes (ORA l) (Acc Ora m)" unfolding ORA_def
    by (rule realizesI, drule wf_limits(1), simp add: LOGICAL_abs [where f = "\<lambda>x y. x OR y" and g = "\<lambda>x y. x OR y",
          OF assms _ u(1) l(1)])
  show "realizes (AND_op l) (Acc And m)" unfolding AND_op_def
    by (rule realizesI, drule wf_limits(1), simp add: LOGICAL_abs [where f = "\<lambda>x y. x AND y" and g = "\<lambda>x y. x AND y",
          OF assms _ u(2) l(2)])
  show "realizes (EOR l) (Acc Eor m)" unfolding EOR_def
    by (rule realizesI, drule wf_limits(1), simp add: LOGICAL_abs [where f = "\<lambda>x y. x XOR y" and g = "\<lambda>x y. x XOR y",
          OF assms _ u(3) l(3)])
  show "realizes (LDA l) (Acc Lda m)" unfolding LDA_def
    by (rule realizesI, drule wf_limits(1), simp add: LOGICAL_abs [where f = "\<lambda>x y. y" and g = "\<lambda>x y. y", OF assms])
qed

lemma loading_realizes:
  assumes "loads l m"
  shows "realizes (ADC l) (Acc Adc m)" "realizes (SBC l) (Acc Sbc m)" "realizes (CMP l) (Acc Cmp m)"
    "realizes (LDX l) (Ldx IX m)" "realizes (LDY l) (Ldx IY m)" "realizes (CPX l) (Cpx IX m)" "realizes (CPY l) (Cpx IY m)"
    "m \<noteq> Immediate \<Longrightarrow> realizes (BIT l) (BitTest m)"
proof -
  show "realizes (ADC l) (Acc Adc m)" "realizes (SBC l) (Acc Sbc m)"
    by (rule realizes_decimal, rule ADC_abs SBC_abs, rule assms, assumption, assumption,
        erule ADC_SBC_observed, rule assms, simp)+
  show "realizes (CMP l) (Acc Cmp m)" "realizes (LDX l) (Ldx IX m)" "realizes (LDY l) (Ldx IY m)"
    by (rule realizesI, rule CMP_abs LDX_abs, rule assms, erule wf_limits(1))+
  show "realizes (CPX l) (Cpx IX m)" "realizes (CPY l) (Cpx IY m)"
    unfolding CPX_def CPY_def
    by (rule realizesI, rule CMPI_abs, rule assms, erule wf_limits(1), (drule wf_index_bound, simp), simp_all)+
  show "m \<noteq> Immediate \<Longrightarrow> realizes (BIT l) (BitTest m)"
    by (rule realizesI, rule BIT_abs, rule assms, erule wf_limits(1), assumption)
qed

lemma modifying_realizes:
  assumes "modifies l st m"
  shows "realizes (ASL l st) (Rmw Asl m)" "realizes (ROL l st) (Rmw Rol m)" "realizes (LSR l st) (Rmw Lsr m)"
    "realizes (ROR l st) (Rmw Ror m)" "realizes (INC l st) (Rmw Inc m)" "realizes (DEC l st) (Rmw Dec m)"
    "realizes (TRB l st) (Rmw Trb m)" "realizes (TSB l st) (Rmw Tsb m)"
  unfolding ASL_def ROL_def LSR_def ROR_def INC_def DEC_def TRB_def TSB_def
  by (rule realizesI, rule ASLROL_abs LSRROR_abs INCDEC_abs TRBTSB_abs, rule assms, erule wf_limits(1), simp)+

lemma storing_realizes:
  assumes "stores st m"
  shows "realizes (STA st) (Sta m)" "realizes (STZ st) (Stz m)" "realizes (STX st) (Stx IX m)" "realizes (STY st) (Stx IY m)"
  by (rule realizesI, rule stores_abs, rule assms, erule wf_limits(1))+

lemma branches_realize:
  "realizes (BRANCH (\<lambda>s. LOCAL_SIGN s = 0)) (Branch 0x80 False)" "realizes (BRANCH (\<lambda>s. LOCAL_SIGN s \<noteq> 0)) (Branch 0x80 True)"
  "realizes (BRANCH (\<lambda>s. LOCAL_OVERFLOW s = 0)) (Branch 0x40 False)" "realizes (BRANCH (\<lambda>s. LOCAL_OVERFLOW s \<noteq> 0)) (Branch 0x40 True)"
  "realizes (BRANCH (\<lambda>s. LOCAL_CARRY s = 0)) (Branch 0x01 False)" "realizes (BRANCH (\<lambda>s. LOCAL_CARRY s \<noteq> 0)) (Branch 0x01 True)"
  "realizes (BRANCH (\<lambda>s. \<not> LOCAL_ZERO s)) (Branch 0x02 False)" "realizes (BRANCH LOCAL_ZERO) (Branch 0x02 True)"
  "realizes (BRANCH (\<lambda>s. True)) (Branch 0 False)"
  by (rule realizesI, rule BRANCH_abs, drule wf_limits(1),
      simp add: and_bit_eq_0 status_bits LOCAL_SIGN_def LOCAL_OVERFLOW_def LOCAL_CARRY_def LOCAL_ZERO_def)+

lemma register_realizes:
  "realizes INX (Count IX True)" "realizes DEX (Count IX False)" "realizes INY (Count IY True)" "realizes DEY (Count IY False)"
  "realizes TAX (Transfer RA RX)" "realizes TAY (Transfer RA RY)" "realizes TSX (Transfer RS RX)" "realizes TXY (Transfer RX RY)"
  "realizes TYX (Transfer RY RX)" "realizes TCD (Transfer RA RD)" "realizes TDC (Transfer RD RA)" "realizes TSC (Transfer RS RA)"
  "realizes TCS (Transfer RA RS)" "realizes TXS (Transfer RX RS)" "realizes TXA (Transfer RX RA)" "realizes TYA (Transfer RY RA)"
  "realizes XBA Xba" "realizes CLC (Flag (Clear 0x01))" "realizes SEC (Flag (Set 0x01))" "realizes CLI (Flag (Clear 0x04))"
  "realizes SEI (Flag (Set 0x04))" "realizes CLD (Flag (Clear 0x08))" "realizes SED (Flag (Set 0x08))"
  "realizes CLV (Flag (Clear 0x40))" "realizes REP (Flag Rep)" "realizes SEP (Flag Sep)" "realizes XCE (Flag Xce)"
  "realizes NOP (Skip 1)" "realizes WDM (Skip 2)"
  by (rule realizesI, (rule counts_abs index_transfers_abs wide_transfers_abs accu_transfers_abs XBA_abs flag_ops_abs
      REPSEP_abs XCE_abs skips_abs; (assumption | erule wf_limits(1))?))+

lemma stack_realizes:
  "realizes (PHA STORE_STACK) (Push RA)" "realizes (PHX STORE_STACK) (Push RX)" "realizes (PHY STORE_STACK) (Push RY)"
  "realizes (PHB STORE_STACK) (Push RDB)" "realizes (PHK STORE_STACK) (Push RPB)" "realizes (PHP STORE_STACK) (Push RP)"
  "realizes PHD (Push RD)" "realizes (PLA LOAD_STACK) (Pull RA)" "realizes (PLX LOAD_STACK) (Pull RX)"
  "realizes (PLY LOAD_STACK) (Pull RY)" "realizes (PLB LOAD_STACK) (Pull RDB)" "realizes (PLP LOAD_STACK) (Pull RP)"
  "realizes PLD (Pull RD)" "realizes PEA Pea" "realizes PEI Pei" "realizes PER Per"
  by (rule realizesI, (rule pushes_abs pulls_abs PLP_abs PLD_abs new_pushes_abs; (assumption | erule wf_limits(1))?))+

lemma control_realizes:
  "realizes BRANCH_LONG BranchLong" "realizes JMP Jmp" "realizes JMP_IND JmpInd" "realizes JMP_IND_LONG JmpIndLong"
  "realizes JMP_IND_X JmpIndX" "realizes JMP_LONG JmpLong" "realizes JSR Jsr" "realizes JSR_LONG JsrLong"
  "realizes JSR_IND_X JsrIndX" "realizes RTS Rts" "realizes RTL Rtl" "realizes RTI Rti" "realizes BRK Brk"
  by (rule realizesI, (rule BRANCH_LONG_abs JMP_abs jumps_indirect_abs JMP_LONG_abs calls_abs JSR_IND_X_abs returns_abs
      RTI_abs BRK_abs; (erule wf_limits(1))?))+

lemma other_realizes:
  "realizes COP_02 Unimplemented" "realizes WAI_65816 Unimplemented" "realizes STP_65816 Unimplemented"
  "realizes (BIT_IMM LOAD_IMMEDIATE_FUNC) (BitTest Immediate)"
  "realizes MVN (Move True)" "realizes MVP (Move False)"
proof -
  show "realizes COP_02 Unimplemented" "realizes WAI_65816 Unimplemented" "realizes STP_65816 Unimplemented"
    by (rule realizesI, simp add: COP_02_def WAI_65816_def STP_65816_def)+
  show "realizes (BIT_IMM LOAD_IMMEDIATE_FUNC) (BitTest Immediate)"
    by (rule realizesI, rule BIT_IMM_abs, erule wf_limits(1))
  have "reg_pc s \<le> 0xFFFD" if "reg_pc s \<le> 0xFFFF" "(ucast (reg_pc s) :: u16) \<le> 0xFFFD" for s
    using that by (simp add: word_le_nat_alt unat_ucast_down)
  then show "realizes MVN (Move True)" "realizes MVP (Move False)"
    using MOVE_abs wf_limits(1) MOVE_observed by (auto simp: realizes_def settled_def wf_cpu_def MVN_def MVP_def)
qed

section \<open>The opcode switch\<close>

definition decodes :: "(u32 \<Rightarrow> cpu \<Rightarrow> cpu) \<Rightarrow> nat \<Rightarrow> bool" where
  "decodes f k \<longleftrightarrow> realizes (f (of_nat k)) (opcode_table ! k)"

lemmas decodes_simps = decodes_def opcode_table_def logical_realizes loading_realizes modifying_realizes storing_realizes
  branches_realize register_realizes stack_realizes control_realizes other_realizes
  loads_modes loads_immediate stores_modes modifies_modes modifies_accumulator

lemma dispatch_00_decodes: "list_all (decodes dispatch_00) [0 ..< 32]"
  by (simp add: upt_0_32 decodes_simps dispatch_00_def [abs_def])

lemma dispatch_20_decodes: "list_all (decodes dispatch_20) [32 ..< 64]"
  by (simp add: decodes_simps dispatch_20_def [abs_def])

lemma dispatch_40_decodes: "list_all (decodes dispatch_40) [64 ..< 96]"
  by (simp add: decodes_simps dispatch_40_def [abs_def])

lemma dispatch_60_decodes: "list_all (decodes dispatch_60) [96 ..< 128]"
  by (simp add: decodes_simps dispatch_60_def [abs_def])

lemma dispatch_80_decodes: "list_all (decodes dispatch_80) [128 ..< 160]"
  by (simp add: decodes_simps dispatch_80_def [abs_def])

lemma dispatch_A0_decodes: "list_all (decodes dispatch_A0) [160 ..< 192]"
  by (simp add: decodes_simps dispatch_A0_def [abs_def])

lemma dispatch_C0_decodes: "list_all (decodes dispatch_C0) [192 ..< 224]"
  by (simp add: decodes_simps dispatch_C0_def [abs_def])

lemma dispatch_E0_decodes: "list_all (decodes dispatch_E0) [224 ..< 256]"
  by (simp add: decodes_simps dispatch_E0_def [abs_def])

lemmas dispatch_decodes =
  dispatch_00_decodes [THEN upt_range]
  dispatch_20_decodes [THEN upt_range]
  dispatch_40_decodes [THEN upt_range]
  dispatch_60_decodes [THEN upt_range]
  dispatch_80_decodes [THEN upt_range]
  dispatch_A0_decodes [THEN upt_range]
  dispatch_C0_decodes [THEN upt_range]
  dispatch_E0_decodes [THEN upt_range]

lemma opcode_switch_decodes:
  assumes "k < 256"
  shows "decodes opcode_switch k"
proof -
  have below: "(of_nat k :: u32) < numeral n \<longleftrightarrow> k < numeral n" if "(numeral n :: nat) < 256" for n
    using less_of_nat [OF that assms] by simp
  have "decodes opcode_switch k \<longleftrightarrow> decodes
    (if k < 0x20 then dispatch_00 else if k < 0x40 then dispatch_20 else if k < 0x60 then dispatch_40
     else if k < 0x80 then dispatch_60 else if k < 0xA0 then dispatch_80 else if k < 0xC0 then dispatch_A0
     else if k < 0xE0 then dispatch_C0 else dispatch_E0) k"
    by (simp add: decodes_def opcode_switch_def [abs_def] below)
  with assms show ?thesis by (simp add: dispatch_decodes split del: if_split split: if_split_asm)
qed

section \<open>One step\<close>

lemma fetch_opcode_abs:
  assumes "wf_cpu s"
  shows "fetch_opcode s = of_nat (unat (code 0 (abs_cpu s)))"
proof -
  have "reg_pc s \<le> 0xFFFF" using assms by (simp add: wf_cpu_def)
  then show ?thesis
    by (simp add: fetch_opcode_def FETCH_PARAM_abs code_def)
qed

lemma execute_abs:
  assumes "wf_cpu s" and "specified (abs_cpu s)"
  shows "abs_cpu (CPU65816ExecuteOneInstruction s) = isa_step (abs_cpu s)"
proof -
  let ?s = "s\<lparr>last_opcode_addr := reg_pc s\<rparr>" and ?k = "unat (code 0 (abs_cpu s))"
  have "decodes opcode_switch ?k" using u8_bound by (rule opcode_switch_decodes)
  moreover have "wf_cpu ?s" using assms(1) by (simp add: wf_cpu_def)
  ultimately show ?thesis
    using assms by (simp add: CPU65816ExecuteOneInstruction_def Let_def fetch_opcode_abs decodes_def realizes_def
        isa_step_def specified_def current_def)
qed

lemma execute_observed:
  assumes "wf_cpu s" and "wf_cpu t" and "abs_cpu s = abs_cpu t"
  shows "abs_cpu (CPU65816ExecuteOneInstruction s) = abs_cpu (CPU65816ExecuteOneInstruction t)"
proof -
  let ?s = "s\<lparr>last_opcode_addr := reg_pc s\<rparr>" and ?t = "t\<lparr>last_opcode_addr := reg_pc t\<rparr>"
  let ?k = "unat (code 0 (abs_cpu t))"
  have "decodes opcode_switch ?k" using u8_bound by (rule opcode_switch_decodes)
  moreover have "twins ?s ?t" using assms by (simp add: twins_def wf_cpu_def)
  ultimately show ?thesis
    using assms by (simp add: CPU65816ExecuteOneInstruction_def Let_def fetch_opcode_abs decodes_def realizes_def)
qed

section \<open>Runs\<close>

text \<open>A simulation: a concrete step that keeps an invariant and an abstract step that it follows
  where the abstract state allows it. In the first contract the invariant, too, is kept only
  there; the second, of the core, promises it for every step.\<close>

locale guarded_simulation =
  fixes step :: "'s \<Rightarrow> 's" and astep :: "'a \<Rightarrow> 'a" and abs :: "'s \<Rightarrow> 'a" and inv :: "'s \<Rightarrow> bool" and ok :: "'a \<Rightarrow> bool"
  assumes guarded_abs: "inv s \<Longrightarrow> ok (abs s) \<Longrightarrow> abs (step s) = astep (abs s)"
    and guarded_inv: "inv s \<Longrightarrow> ok (abs s) \<Longrightarrow> inv (step s)"
begin

lemma guarded_steps:
  assumes "inv s" and "\<And>k. k < n \<Longrightarrow> ok ((astep ^^ k) (abs s))"
  shows "abs ((step ^^ n) s) = (astep ^^ n) (abs s)" "inv ((step ^^ n) s)"
  using assms(2)
proof (induction n)
  case (Suc n)
  { case 1 with Suc show ?case by (simp add: guarded_abs) }
  { case 2 with Suc show ?case by (simp add: guarded_inv) }
qed (use assms(1) in simp_all)

end

locale simulation =
  fixes step :: "'s \<Rightarrow> 's" and astep :: "'a \<Rightarrow> 'a" and abs :: "'s \<Rightarrow> 'a" and inv :: "'s \<Rightarrow> bool" and ok :: "'a \<Rightarrow> bool"
  assumes step_abs: "inv s \<Longrightarrow> ok (abs s) \<Longrightarrow> abs (step s) = astep (abs s)"
    and step_inv: "inv s \<Longrightarrow> inv (step s)"

sublocale simulation \<subseteq> guarded_simulation
  by unfold_locales (rule step_abs step_inv; assumption)+

context simulation
begin

lemma steps_inv: "inv s \<Longrightarrow> inv ((step ^^ n) s)"
  by (induction n) (simp_all add: step_inv)

lemmas steps_abs = guarded_steps(1)

end

text \<open>If, in addition, the step itself looks at nothing but the abstract state, then states with
  the same abstraction behave alike, in the open cases too.\<close>

locale opaque_simulation = simulation +
  assumes step_opaque: "inv s \<Longrightarrow> inv t \<Longrightarrow> abs s = abs t \<Longrightarrow> abs (step s) = abs (step t)"
begin

lemma same_behaviour:
  assumes "inv s" and "inv t" and "abs s = abs t"
  shows "abs ((step ^^ n) s) = abs ((step ^^ n) t)"
  using assms by (induction n) (simp_all add: step_opaque steps_inv)

end

interpretation core: opaque_simulation CPU65816ExecuteOneInstruction isa_step abs_cpu wf_cpu specified
  by unfold_locales (rule execute_abs wf.I_ExecuteOneInstruction execute_observed; assumption)+

text \<open>C1: The core refines the specified processor. An execution of one instruction by the core, seen
  through the abstraction, is one step of the specification, for every opcode, addressing
  mode, register width and mode and for every content of memory, except the decimal additions
  and subtractions and the block moves at the end of a bank that the specification leaves open.\<close>

theorem core_refines_isa:
  assumes "wf_cpu s" and "specified (abs_cpu s)"
  shows "abs_cpu (CPU65816ExecuteOneInstruction s) = isa_step (abs_cpu s)"
  using assms by (rule core.step_abs)

text \<open>An example: a memory of XBA instructions, which exchange the bytes of the accumulator.\<close>

lemma code_swaps [simp]: "mem t = (\<lambda>_. b) \<Longrightarrow> code n t = b"
  by (simp add: code_def rd_def)

lemma current_swap: "mem t = (\<lambda>_. 0xEB) \<Longrightarrow> current t = Xba"
  by (simp add: current_def opcode_table_def)

lemma swaps:
  assumes "mem t = (\<lambda>_. 0xEB)"
  shows "isa_step t = advance 1 (t\<lparr>rA := push_bit 8 (rA t) OR drop_bit 8 (rA t)\<rparr>)"
    and "mem ((isa_step ^^ k) t) = (\<lambda>_. 0xEB)" and "specified ((isa_step ^^ k) t)"
proof -
  show "isa_step t = advance 1 (t\<lparr>rA := push_bit 8 (rA t) OR drop_bit 8 (rA t)\<rparr>)"
    using assms by (simp add: isa_step_def current_swap)
  show m: "mem ((isa_step ^^ k) t) = (\<lambda>_. 0xEB)" for k
    by (induction k) (simp_all add: assms isa_step_def current_swap)
  show "specified ((isa_step ^^ k) t)" using m by (simp add: specified_def current_swap settled_def)
qed

lemma mem_native: "mem (abs_cpu (native_cpu (\<lambda>_. b))) = (\<lambda>_. b)"
  by (simp add: mem_abs native_cpu_def initial_cpu_def)

lemma specified_native: "specified (abs_cpu (native_cpu (\<lambda>_. 0xEB)))"
  using swaps(3) [OF mem_native, of 0] by simp

theorem core_refines_isa_witness:
  "rA (abs_cpu (CPU65816ExecuteOneInstruction (native_cpu (\<lambda>_. 0xEB)))) = 0x3412"
  unfolding core_refines_isa [OF wf_native specified_native] swaps(1) [OF mem_native]
  by (simp add: native_cpu_def initial_cpu_def)

text \<open>As long as the specified processor meets no open case, the core and the specification pass
  through the same states.\<close>

theorem run_refines_isa:
  assumes "wf_cpu s" and "\<And>k. k < n \<Longrightarrow> specified ((isa_step ^^ k) (abs_cpu s))"
  shows "abs_cpu (run n s) = (isa_step ^^ n) (abs_cpu s)"
  unfolding run_def using assms by (rule core.steps_abs)

theorem run_refines_isa_witness:
  "rA (abs_cpu (run 2 (native_cpu (\<lambda>_. 0xEB)))) = 0x1234"
proof -
  have "abs_cpu (run 2 (native_cpu (\<lambda>_. 0xEB))) = (isa_step ^^ 2) (abs_cpu (native_cpu (\<lambda>_. 0xEB)))"
    by (rule run_refines_isa [OF wf_native]) (rule swaps(3) [OF mem_native])
  also have "\<dots> = isa_step (isa_step (abs_cpu (native_cpu (\<lambda>_. 0xEB))))" by (simp add: numeral_2_eq_2)
  finally show ?thesis
    using mem_native by (simp add: swaps(1)) (simp add: native_cpu_def initial_cpu_def)
qed

text \<open>C5: What the core keeps beyond the registers of the programmer's model is not observable. Two
  well-formed states of the core with the same registers, status and memory, whatever their split of the
  flags over \<open>reg_p\<close>, \<open>flag_n\<close> and \<open>flag_z\<close>, their exported register set and their last opcode
  address, stay equal in this sense in runs of any length of any program, decimal arithmetic and
  block moves at the end of a bank included.\<close>

theorem hidden_state_unobservable:
  assumes "wf_cpu s" and "wf_cpu t" and "abs_cpu s = abs_cpu t"
  shows "abs_cpu (run n s) = abs_cpu (run n t)"
  unfolding run_def using assms by (rule core.same_behaviour)

theorem hidden_state_unobservable_witness:
  "abs_cpu (run 1000 ((native_cpu ((\<lambda>_. 0x69)(0x28000 := 0xF8)))\<lparr>flag_z := 1\<rparr>))
    = abs_cpu (run 1000 ((native_cpu ((\<lambda>_. 0x69)(0x28000 := 0xF8)))\<lparr>flag_z := 0x55, flag_n := 0x7F, last_opcode_addr := 9\<rparr>))"
proof (rule hidden_state_unobservable)
  let ?s = "(native_cpu ((\<lambda>_. 0x69)(0x28000 := 0xF8)))\<lparr>flag_z := 1\<rparr>"
  show "wf_cpu ?s" "wf_cpu ((native_cpu ((\<lambda>_. 0x69)(0x28000 := 0xF8)))\<lparr>flag_z := 0x55, flag_n := 0x7F, last_opcode_addr := 9\<rparr>)"
    using wf_native [of "(\<lambda>_. 0x69)(0x28000 := 0xF8)"] by (simp_all add: wf_cpu_def)
  show "abs_cpu ?s = abs_cpu ((native_cpu ((\<lambda>_. 0x69)(0x28000 := 0xF8)))\<lparr>flag_z := 0x55, flag_n := 0x7F, last_opcode_addr := 9\<rparr>)"
    by (simp add: abs_cpu_def native_cpu_def initial_cpu_def LOCAL_65816_STATUS_def LOCAL_ZERO_def)
qed

end
