(* ===== verification/Isa_Machine.thy ===== *)
theory Isa_Machine
  imports Isa_Refinement Machine
begin

text \<open>
  The specified processor inside the machine: what a frame of \<open>CPUExecute\<close> does to the
  programmer's view, with the breakpoints, the frame length and the break byte.
\<close>

definition isa_stops :: "u32 \<Rightarrow> u32 \<Rightarrow> isa \<Rightarrow> bool" where
  "isa_stops b1 b2 t \<longleftrightarrow> code 0 t = 0xEA \<or> ucast (bank (rPB t) (rPC t)) \<in> {b1, b2}"

text \<open>At most \<open>n\<close> steps, up to the first state that stops; the flag tells whether all were made.
  There is no result if a step is one that the specification leaves open.\<close>

primrec isa_run :: "u32 \<Rightarrow> u32 \<Rightarrow> nat \<Rightarrow> isa \<Rightarrow> (bool \<times> isa) option" where
  "isa_run b1 b2 0 t = Some (True, t)"
| "isa_run b1 b2 (Suc n) t =
     (if specified t
      then let t = isa_step t in if n \<noteq> 0 \<and> isa_stops b1 b2 t then Some (False, t) else isa_run b1 b2 n t
      else None)"

definition press_break :: "bool \<Rightarrow> isa \<Rightarrow> isa" where
  "press_break b t = t\<lparr>mem := (mem t)(0xF8000 := of_bool b)\<rparr>"

lemma isa_run_steps:
  assumes "isa_run b1 b2 r t = Some (ended, u)" and "0 < r"
  obtains n where "0 < n" "n \<le> r" "u = (isa_step ^^ n) t" "ended \<longleftrightarrow> n = r" "n < r \<longrightarrow> isa_stops b1 b2 u"
    "\<forall>k < n. specified ((isa_step ^^ k) t)" "\<forall>k. 0 < k \<and> k < n \<longrightarrow> \<not> isa_stops b1 b2 ((isa_step ^^ k) t)"
  using assms
proof (induction r arbitrary: t thesis)
  case (Suc r)
  have sp: "specified t" using Suc.prems(2) by (simp split: if_splits)
  show ?case
  proof (cases "r = 0 \<or> isa_stops b1 b2 (isa_step t)")
    case True
    then show ?thesis
      using Suc.prems(2) sp by (intro Suc.prems(1) [of 1]) (cases "r = 0"; auto simp: Let_def)+
  next
    case False
    then have go: "isa_run b1 b2 r (isa_step t) = Some (ended, u)" "0 < r"
      using Suc.prems(2) sp by (auto simp: Let_def)
    obtain n where n: "0 < n" "n \<le> r" "u = (isa_step ^^ n) (isa_step t)" "ended \<longleftrightarrow> n = r" "n < r \<longrightarrow> isa_stops b1 b2 u"
      "\<forall>k < n. specified ((isa_step ^^ k) (isa_step t))"
      "\<forall>k. 0 < k \<and> k < n \<longrightarrow> \<not> isa_stops b1 b2 ((isa_step ^^ k) (isa_step t))"
      by (rule Suc.IH [OF _ go])
    show ?thesis
    proof (rule Suc.prems(1) [of "Suc n"])
      show "\<forall>k < Suc n. specified ((isa_step ^^ k) t)"
        using sp n(6) by (auto simp: less_Suc_eq_0_disj funpow_swap1)
      show "\<forall>k. 0 < k \<and> k < Suc n \<longrightarrow> \<not> isa_stops b1 b2 ((isa_step ^^ k) t)"
      proof (intro allI impI)
        fix k assume k: "0 < k \<and> k < Suc n"
        then obtain j where "k = Suc j" "j < n" by (cases k) auto
        with False n(7) show "\<not> isa_stops b1 b2 ((isa_step ^^ k) t)" by (cases j) (auto simp: funpow_swap1)
      qed
    qed (use n(1-5) in \<open>simp_all add: funpow_swap1\<close>)
  qed
qed simp

lemma unat_bank: "unat (bank b a) = unat a + 65536 * unat b"
  using u8_bound [of b] u16_bound [of a]
  by (simp add: bank_def push_bit_eq_mult unat_word_ariths unat_ucast_wide)

lemma GetPC_abs:
  assumes "reg_pc s \<le> 0xFFFF"
  shows "CPU65816GetPC s = ucast (bank (reg_pbr s) (ucast (reg_pc s)))"
proof -
  have "unat (reg_pc s) \<le> 65535" using assms by (simp add: word_le_nat_alt)
  moreover have "CPU65816GetPC s = reg_pc s + push_bit 16 (ucast (reg_pbr s))"
    using assms by (simp add: CPU65816GetPC_def or_push16)
  moreover have "unat (ucast (w :: u24) :: u32) = unat w" for w
    using unsigned_less [of w, where ?'a = nat] by (simp add: unsigned_ucast_eq take_bit_eq_mod)
  ultimately show ?thesis
    using u8_bound [of "reg_pbr s"]
    by (simp add: word_unat_eq_iff unat_bank unat_ucast_down push_bit_eq_mult unat_word_ariths)
qed

lemma stops_at_abs:
  assumes "wf_cpu s"
  shows "stops_at b1 b2 s = isa_stops b1 b2 (abs_cpu s)"
proof -
  have pc: "reg_pc s \<le> 0xFFFF" using assms by (simp add: wf_cpu_def)
  moreover have "ramMemory s (CPU65816GetPC s AND RAMMASK) = code 0 (abs_cpu s)"
    using FETCH_PARAM_abs [OF pc, of s] by (simp add: FETCH_PARAM_def CPU65816GetPC_def CPU65816GetBank_def code_def)
      (simp add: word_unat_eq_iff)
  ultimately show ?thesis by (simp add: stops_at_def isa_stops_def GetPC_abs)
qed

lemma end_frame_abs: "abs_cpu (end_frame m s) = press_break (break_key (keyState m)) (abs_cpu s)"
proof -
  have "end_frame m s = STORE_LONG 0xF8000 (of_bool (break_key (keyState m))) s"
    by (simp add: end_frame_def STORE_LONG_def)
  then show ?thesis by (simp add: press_break_def wr_def)
qed

text \<open>C2: A frame of the machine is a run of the specified processor, if that run meets none of the
  cases that the specification leaves open (decimal ADC and SBC, block moves at the end of a bank):
  \<open>isa_run\<close> then has a result, and only the steps up to the stop count. \<open>CPUExecute\<close>, called with the
  rest of a frame to go, makes that many steps of the specification, or stops earlier at the
  first state whose next opcode is 0xEA or whose address is a breakpoint; it returns the frame
  rate exactly if the frame has ended, and then the break byte has been written over the memory
  of the last state.\<close>

theorem frame_refines_isa:
  assumes "wf_cpu (proc m)" and "Cycles m < CYCLES_PER_FRAME"
    and "isa_run b1 b2 (unat CYCLES_PER_FRAME - unat (Cycles m)) (abs_cpu (proc m)) = Some (ended, t)"
    and "CPUExecute b1 b2 m = (rate, m')"
  shows "rate = (if ended then 60 else 0)
    \<and> abs_cpu (proc m') = (if ended then press_break (break_key (keyState m)) t else t)"
proof -
  obtain n where "frame_result b1 b2 m n (CPUExecute b1 b2 m)"
    using CPUExecute_result [OF assms(2)] by blast
  then have r: "0 < n" "unat (Cycles m) + n \<le> 51666" "\<And>k. 0 < k \<Longrightarrow> k < n \<Longrightarrow> \<not> stops_at b1 b2 (run k (proc m))"
    "if unat (Cycles m) + n = 51666 then rate = 60 \<and> proc m' = end_frame m (run n (proc m))
     else rate = 0 \<and> proc m' = run n (proc m) \<and> stops_at b1 b2 (proc m')"
    by (auto simp: frame_result_def assms(4) split: if_splits)
  have left: "0 < 51666 - unat (Cycles m)" using assms(2) by (simp add: word_less_nat_alt cycles_per_frame)
  have eq: "isa_run b1 b2 (51666 - unat (Cycles m)) (abs_cpu (proc m)) = Some (ended, t)"
    using assms(3) by (simp add: cycles_per_frame)
  obtain i where i: "0 < i" "i \<le> 51666 - unat (Cycles m)" "t = (isa_step ^^ i) (abs_cpu (proc m))"
    "ended \<longleftrightarrow> i = 51666 - unat (Cycles m)" "i < 51666 - unat (Cycles m) \<longrightarrow> isa_stops b1 b2 t"
    "\<forall>k < i. specified ((isa_step ^^ k) (abs_cpu (proc m)))"
    "\<forall>k. 0 < k \<and> k < i \<longrightarrow> \<not> isa_stops b1 b2 ((isa_step ^^ k) (abs_cpu (proc m)))"
    by (rule isa_run_steps [OF eq left])
  have wf: "wf_cpu (run k (proc m))" for k
    unfolding run_def using assms(1) by (rule core.steps_inv)
  have abs: "abs_cpu (run k (proc m)) = (isa_step ^^ k) (abs_cpu (proc m))" if "k \<le> i" for k
    unfolding run_def using that assms(1) i(6) by (intro core.steps_abs) auto
  have stops: "stops_at b1 b2 (run k (proc m)) = isa_stops b1 b2 ((isa_step ^^ k) (abs_cpu (proc m)))" if "k \<le> i" for k
    unfolding stops_at_abs [OF wf] abs [OF that] ..
  have "\<not> n < i"
  proof
    assume "n < i"
    then have "unat (Cycles m) + n \<noteq> 51666" "\<not> isa_stops b1 b2 ((isa_step ^^ n) (abs_cpu (proc m)))" using i(2,7) r(1) by auto
    with r(4) stops [of n] \<open>n < i\<close> show False by (auto split: if_splits)
  qed
  moreover have "\<not> i < n"
  proof
    assume "i < n"
    with r(2) have "isa_stops b1 b2 t" by (intro i(5) [rule_format]) simp
    with r(3) [OF i(1) \<open>i < n\<close>] stops [of i] i(3) show False by simp
  qed
  ultimately have "i = n" by simp
  with r(2,4) abs [of n] i(3,4) show ?thesis by (auto simp: end_frame_abs split: if_splits)
qed

lemma swaps_run:
  assumes "mem t = (\<lambda>_. 0xEB)"
  shows "\<exists>u. isa_run 0xFFFFFFFF 0xFFFFFFFF n t = Some (True, u)"
  using assms
proof (induction n arbitrary: t)
  case (Suc n)
  have "(ucast (w :: u24) :: u32) \<noteq> 0xFFFFFFFF" for w
    using unsigned_less [of w, where ?'a = nat] by (simp add: word_unat_eq_iff unsigned_ucast_eq take_bit_eq_mod)
  then have "specified t" "\<not> isa_stops 0xFFFFFFFF 0xFFFFFFFF (isa_step t)"
    using swaps(2) [OF Suc.prems, of 1] swaps(3) [OF Suc.prems, of 0] by (simp_all add: isa_stops_def)
  with Suc.IH [of "isa_step t"] swaps(2) [OF Suc.prems, of 1] show ?case by (simp add: Let_def)
qed simp

theorem frame_refines_isa_witness:
  "fst (CPUExecute 0xFFFFFFFF 0xFFFFFFFF ((boot (\<lambda>_. 0))\<lparr>proc := native_cpu (\<lambda>_. 0xEB)\<rparr>)) = 60"
proof -
  let ?m = "(boot (\<lambda>_. 0))\<lparr>proc := native_cpu (\<lambda>_. 0xEB)\<rparr>"
  obtain u where "isa_run 0xFFFFFFFF 0xFFFFFFFF (unat CYCLES_PER_FRAME - unat (Cycles ?m)) (abs_cpu (proc ?m)) = Some (True, u)"
    using swaps_run [OF mem_native] by auto
  from frame_refines_isa [OF _ _ this surjective_pairing] show ?thesis
    by (simp add: wf_native boot_def cycles_per_frame)
qed

end
