(* ===== verification/Interrupts.thy ===== *)
theory Interrupts
  imports Isa_Control
begin

text \<open>
  The interrupt entries IRQ and NMI of \<open>65816core.c\<close>, and COP. No opcode of this build expands
  them, and the acknowledgement of the interrupt, the trace and the monitor, which their host
  would supply, are left out. What they do to the processor is what BRK does, with other
  vectors and with the B flag clear; a handler that returns at once is transparent.
\<close>

section \<open>The entries\<close>

definition IRQ :: "cpu \<Rightarrow> cpu" where
  "IRQ s =
     (let s = (if reg_emul s \<noteq> 0 then
                 let s = LOCAL_SET_BREAK False s;
                     s = PUSH (drop_bit 8 (reg_pc s)) s;
                     s = PUSH (reg_pc s) s;
                     s = PUSH (ucast (LOCAL_STATUS s)) s;
                     s = LOCAL_SET_INTERRUPT True s;
                     s = LOCAL_SET_DECIMAL False s
                 in LOAD_INT_ADDR 0xFFFE s
               else
                 let s = PUSH (ucast (reg_pbr s)) s;
                     s = PUSH (drop_bit 8 (reg_pc s)) s;
                     s = PUSH (reg_pc s) s;
                     s = PUSH (ucast (LOCAL_65816_STATUS s)) s;
                     s = LOCAL_SET_INTERRUPT True s;
                     s = LOCAL_SET_DECIMAL False s
                 in LOAD_INT_ADDR 0xFFEE s)
      in s\<lparr>reg_pbr := 0\<rparr>)"

definition NMI :: "cpu \<Rightarrow> cpu" where
  "NMI s =
     (let s = (if reg_emul s \<noteq> 0 then
                 let s = LOCAL_SET_BREAK False s;
                     s = PUSH (drop_bit 8 (reg_pc s)) s;
                     s = PUSH (reg_pc s) s;
                     s = PUSH (ucast (LOCAL_STATUS s)) s;
                     s = LOCAL_SET_INTERRUPT True s;
                     s = LOCAL_SET_DECIMAL False s
                 in LOAD_INT_ADDR 0xFFFA s
               else
                 let s = PUSH (ucast (reg_pbr s)) s;
                     s = PUSH (drop_bit 8 (reg_pc s)) s;
                     s = PUSH (reg_pc s) s;
                     s = PUSH (ucast (LOCAL_65816_STATUS s)) s;
                     s = LOCAL_SET_INTERRUPT True s;
                     s = LOCAL_SET_DECIMAL False s
                 in LOAD_INT_ADDR 0xFFEA s)
      in s\<lparr>reg_pbr := 0\<rparr>)"

text \<open>The reset of the core, after the function \<open>cpu_reset\<close> of its host, which is not in the
  repository and is an argument. The three reads from the stack have no effect.\<close>

definition RES :: "(cpu \<Rightarrow> cpu) \<Rightarrow> cpu \<Rightarrow> cpu" where
  "RES cpu_reset s =
     (let s = cpu_reset s;
          s = LOCAL_SET_BREAK False s;
          s = s\<lparr>reg_emul := 1\<rparr>;
          s = s\<lparr>reg_x := reg_x s AND 0xFF\<rparr>;
          s = s\<lparr>reg_y := reg_y s AND 0xFF\<rparr>;
          s = s\<lparr>reg_sp := 0x100 OR (reg_sp s AND 0xFF)\<rparr>;
          s = s\<lparr>reg_dpr := 0\<rparr>;
          s = s\<lparr>reg_dbr := 0\<rparr>;
          s = s\<lparr>reg_pbr := 0\<rparr>;
          s = s\<lparr>reg_sp := 0x100 OR ((reg_sp s - 1) AND 0xFF)\<rparr>;
          s = s\<lparr>reg_sp := 0x100 OR ((reg_sp s - 1) AND 0xFF)\<rparr>;
          s = s\<lparr>reg_sp := 0x100 OR ((reg_sp s - 1) AND 0xFF)\<rparr>;
          s = LOCAL_SET_INTERRUPT True s;
          s = LOCAL_SET_DECIMAL False s
      in LOAD_INT_ADDR 0xFFFC s)"

section \<open>One entry sequence\<close>

text \<open>The flags in the other order make no difference.\<close>

lemma entry_flags: "LOCAL_SET_DECIMAL False (LOCAL_SET_INTERRUPT True s) = LOCAL_SET_INTERRUPT True (LOCAL_SET_DECIMAL False s)"
  by (simp add: LOCAL_SET_DECIMAL_def LOCAL_SET_INTERRUPT_def)
    (rule arg_cong [where f = "\<lambda>p. s\<lparr>reg_p := p\<rparr>"], rule byte_eqI; simp add: bit_simps)

lemma IRQ_serve: "IRQ s = (if reg_emul s \<noteq> 0
    then serve 0xFFFE (LOCAL_STATUS (LOCAL_SET_BREAK False s)) (LOCAL_SET_BREAK False s)
    else serve 0xFFEE (LOCAL_65816_STATUS s) (PUSH (ucast (reg_pbr s)) s))\<lparr>reg_pbr := 0\<rparr>"
  by (simp add: IRQ_def serve_def Let_def entry_flags)

lemma NMI_serve: "NMI s = (if reg_emul s \<noteq> 0
    then serve 0xFFFA (LOCAL_STATUS (LOCAL_SET_BREAK False s)) (LOCAL_SET_BREAK False s)
    else serve 0xFFEA (LOCAL_65816_STATUS s) (PUSH (ucast (reg_pbr s)) s))\<lparr>reg_pbr := 0\<rparr>"
  by (simp add: NMI_def serve_def Let_def entry_flags)

lemma COP_serve:
  fixes s defines "w \<equiv> INC_PC 1 (INC_PC 1 (EXPORT_REGISTERS s))"
  shows "COP s = (if reg_emul s \<noteq> 0
    then serve 0xFFF4 (LOCAL_STATUS (LOCAL_SET_BREAK True w)) (LOCAL_SET_BREAK True w)
    else serve 0xFFE4 (LOCAL_65816_STATUS w) (PUSH (ucast (reg_pbr s)) w))\<lparr>reg_pbr := 0\<rparr>"
  by (simp add: COP_def serve_def Let_def w_def LOCAL_STATUS_def LOCAL_65816_STATUS_def LOCAL_ZERO_def)

lemma entries_abs:
  assumes "wf_cpu s"
  shows "abs_cpu (COP s) = enter True 0xFFF4 0xFFE4 (advance 2 (abs_cpu s))"
    "abs_cpu (IRQ s) = enter False 0xFFFE 0xFFEE (abs_cpu s)"
    "abs_cpu (NMI s) = enter False 0xFFFA 0xFFEA (abs_cpu s)"
proof -
  have pc: "rPC (abs_cpu s) = ucast (reg_pc s)" by simp
  show "abs_cpu (COP s) = enter True 0xFFF4 0xFFE4 (advance 2 (abs_cpu s))"
    "abs_cpu (IRQ s) = enter False 0xFFFE 0xFFEE (abs_cpu s)"
    "abs_cpu (NMI s) = enter False 0xFFFA 0xFFEA (abs_cpu s)"
    using wf_limits(1) [OF assms]
    by (cases "reg_emul s = 0"; simp add: COP_serve IRQ_serve NMI_serve serve_abs [OF _ refl] enter_def Let_def
        advance_def ucast_and ucast_plus rd0_def LOCAL_STATUS_abs setters)+
qed

section \<open>Returning from an interrupt\<close>

lemma serve_stack:
  assumes "stack_ok w"
  shows "reg_emul (serve a p w) = reg_emul w" "reg_sp (serve a p w) = stack_pos (reg_emul w) (reg_sp w) (-3)"
    "peek 0 (serve a p w) = ucast p" "peek (Suc 0) (serve a p w) = reg_pc w AND 0xFF"
    "peek 2 (serve a p w) = drop_bit 8 (reg_pc w) AND 0xFF" "peek 3 (serve a p w) = peek 0 w"
  using assms
  by (simp_all add: serve_def PUSH_sp stack_pos_add eval_nat_numeral peek_PUSH_simps and_mask_id)

lemma RTI_restores:
  assumes "peek 0 u = ucast p" and "peek 1 u OR push_bit 8 (peek 2 u) = pc" and "pc \<le> 0xFFFF"
    and "reg_emul u = 0 \<Longrightarrow> peek 3 u = ucast b" and "reg_emul u \<noteq> 0 \<Longrightarrow> b = reg_pbr u"
  shows "abs_cpu (RTI u) = (limit_index ((abs_cpu u)\<lparr>rP := p\<rparr>))\<lparr>rPC := ucast pc, rPB := b,
    rS := stack_pos (reg_emul u) (reg_sp u) (if reg_emul u = 0 then 4 else 3)\<rparr>"
proof -
  have "abs_cpu (mask_index (LOCAL_SET_STATUS (ucast p) u)) = limit_index ((abs_cpu u)\<lparr>rP := p\<rparr>)"
    unfolding mask_index_def limit_abs [OF SET_STATUS_ok] abs_SET_STATUS by (rule refl)
  then show ?thesis
    using assms by (simp add: RTI_eq Let_def)
qed

text \<open>What an interrupt leaves in the registers once its handler has returned.\<close>

definition resumed :: "isa \<Rightarrow> isa" where
  "resumed t = (if rE t then t\<lparr>rP := (rP t AND NOT 0x10) OR 0x20, rPB := 0\<rparr> else t)"

lemma serve_keeps [simp]:
  "reg_c (serve a p w) = reg_c w" "reg_x (serve a p w) = reg_x w" "reg_y (serve a p w) = reg_y w"
  "reg_dpr (serve a p w) = reg_dpr w" "reg_dbr (serve a p w) = reg_dbr w"
  by (simp_all add: serve_def)

lemma RTI_serve:
  assumes "wf_cpu s"
    and u: "u = (if reg_emul s \<noteq> 0 then serve ve (LOCAL_STATUS (LOCAL_SET_BREAK False s)) (LOCAL_SET_BREAK False s)
      else serve vn (LOCAL_65816_STATUS s) (PUSH (ucast (reg_pbr s)) s))\<lparr>reg_pbr := 0\<rparr>"
  shows "abs_cpu (RTI u) = (resumed (abs_cpu s))\<lparr>mem := mem (abs_cpu (RTI u))\<rparr>"
proof -
  note ok = wf_stack_ok [OF assms(1)] and status = wf_limits(1) [OF assms(1)]
  have pc: "reg_pc s \<le> 0xFFFF" using assms(1) by (simp add: wf_cpu_def)
  define p where "p = rP (resumed (abs_cpu s))"
  have p: "p = (if reg_emul s \<noteq> 0 then LOCAL_STATUS (LOCAL_SET_BREAK False s) else LOCAL_65816_STATUS s)"
    by (simp add: p_def resumed_def LOCAL_STATUS_abs setters [OF status] put_bits_def)
  have keeps: "reg_c u = reg_c s" "reg_x u = reg_x s" "reg_y u = reg_y s" "reg_dpr u = reg_dpr s" "reg_dbr u = reg_dbr s"
    "reg_emul u = reg_emul s" "reg_pbr u = 0"
    using ok by (simp_all add: u serve_stack)
  have peeks: "peek 0 u = ucast p" "peek 1 u OR push_bit 8 (peek 2 u) = reg_pc s"
    "reg_emul s = 0 \<Longrightarrow> peek 3 u = ucast (reg_pbr s)"
    using ok return_address [of "reg_pc s"] and_mask_id(1) [OF pc] peek_PUSH [of s 0] stack_cap_ge [of s]
    by (simp_all add: u p serve_stack and_mask_id)
  have sp: "stack_pos (reg_emul u) (reg_sp u) (if reg_emul u = 0 then 4 else 3) = reg_sp s"
    using ok stack_pos_0 [OF ok] by (cases "reg_emul s = 0") (simp_all add: u serve_stack PUSH_sp stack_pos_add)
  have rti: "abs_cpu (RTI u) = (limit_index ((abs_cpu u)\<lparr>rP := p\<rparr>))\<lparr>rPC := ucast (reg_pc s),
      rPB := (if reg_emul s = 0 then reg_pbr s else 0), rS := reg_sp s\<rparr>"
    using RTI_restores [OF peeks(1,2) pc, of "if reg_emul s = 0 then reg_pbr s else 0"] peeks(3) sp keeps by simp
  have x: "low (x8 ((abs_cpu u)\<lparr>rP := p\<rparr>)) (reg_x s) = reg_x s" "low (x8 ((abs_cpu u)\<lparr>rP := p\<rparr>)) (reg_y s) = reg_y s"
    using wf_low_index [OF assms(1)] x8_abs [OF status] wf.emul_X [of s] keeps
    by (auto simp: x8_flags x8_def p low_def)
  show ?thesis
  proof (rule isa.equality)
    show "rP (abs_cpu (RTI u)) = rP ((resumed (abs_cpu s))\<lparr>mem := mem (abs_cpu (RTI u))\<rparr>)"
      by (simp add: rti p_def)
  qed (simp_all add: rti x keeps resumed_def)
qed

text \<open>C19: A hardware interrupt whose handler returns at once is transparent. After IRQ or NMI and an
  RTI all registers are as before, status byte, stack pointer and program bank included; in
  emulation mode the B flag is clear and the unused bit set, and the program bank, which this
  mode does not save, is 0.\<close>

theorem interrupt_transparent:
  assumes "wf_cpu s" and "f = IRQ \<or> f = NMI"
  shows "abs_cpu (RTI (f s)) = (resumed (abs_cpu s))\<lparr>mem := mem (abs_cpu (RTI (f s)))\<rparr>"
  using assms(2) RTI_serve [OF assms(1) IRQ_serve] RTI_serve [OF assms(1) NMI_serve] by blast

theorem interrupt_transparent_witness:
  "rS (abs_cpu (RTI (IRQ (native_cpu (\<lambda>_. 0))))) = 0x1FFF \<and> rP (abs_cpu (RTI (IRQ (native_cpu (\<lambda>_. 0))))) = 0x03"
proof -
  have "rS (abs_cpu (RTI (IRQ (native_cpu (\<lambda>_. 0))))) = rS (resumed (abs_cpu (native_cpu (\<lambda>_. 0))))"
    "rP (abs_cpu (RTI (IRQ (native_cpu (\<lambda>_. 0))))) = rP (resumed (abs_cpu (native_cpu (\<lambda>_. 0))))"
    by (subst interrupt_transparent [OF wf_native disjI1 [OF refl]], simp)+
  then show ?thesis
    by (simp add: resumed_def native_cpu_def initial_cpu_def LOCAL_65816_STATUS_def LOCAL_ZERO_def)
qed

section \<open>Reset\<close>

text \<open>C31: The reset of the core makes any state well formed. Whatever stack pointer and index registers
  native mode has left, after RES the stack is in page one, the index registers have 8 bits,
  and the program counter is the vector at \<open>0xFFFC\<close>; the reset that the emulator uses instead,
  \<open>CPU65816Reset\<close>, does not give that. All that is asked of the host is that it leaves the
  range of the registers alone.\<close>

theorem RES_wf:
  assumes "sane_cpu s" and "\<And>t. sane_cpu t \<Longrightarrow> sane_cpu (cpu_reset t)"
  shows "wf_cpu (RES cpu_reset s) \<and> reg_emul (RES cpu_reset s) = 1
    \<and> reg_pc (RES cpu_reset s) = LOAD_LONG 0xFFFC (cpu_reset s) OR push_bit 8 (LOAD_LONG 0xFFFD (cpu_reset s))"
proof -
  let ?t = "cpu_reset s"
  have t: "sane_cpu ?t" using assms by blast
  have eq: "RES cpu_reset s = LOAD_INT_ADDR 0xFFFC (LOCAL_SET_DECIMAL False (LOCAL_SET_INTERRUPT True
      ((LOCAL_SET_BREAK False ?t)\<lparr>reg_emul := 1, reg_x := reg_x ?t AND 0xFF, reg_y := reg_y ?t AND 0xFF, reg_dpr := 0,
        reg_dbr := 0, reg_pbr := 0, reg_sp := stack_pos 1 (reg_sp ?t) (- 3)\<rparr>)))"
    using stack_pos_add [of 1 "reg_sp ?t" 0 "- 1"] stack_pos_add [of 1 "reg_sp ?t" "- 1" "- 1"]
      stack_pos_add [of 1 "reg_sp ?t" "- 2" "- 1"]
    by (simp add: RES_def Let_def stack_pos_def)
  have p: "reg_p (RES cpu_reset s) AND 0x82 = 0"
    using t by (simp add: eq sane_cpu_def LOCAL_SET_DECIMAL_def LOCAL_SET_INTERRUPT_def LOCAL_SET_BREAK_def
        and_bit_eq_0 bit_simps)
  have pc: "reg_pc (RES cpu_reset s) = LOAD_LONG 0xFFFC ?t OR push_bit 8 (LOAD_LONG 0xFFFD ?t)"
    by (simp add: eq LOAD_INT_ADDR_def Let_def LOAD_LONG_def)
  moreover have "reg_pc (RES cpu_reset s) \<le> 0xFFFF"
    unfolding pc by (simp add: LOAD_LONG_def or_push8 pointer_le)
  moreover have "reg_sp (RES cpu_reset s) AND 0xFF00 = 0x100" by (simp add: eq stack_pos_one)
  moreover have "reg_emul (RES cpu_reset s) = 1" "reg_x (RES cpu_reset s) \<le> 0xFF" "reg_y (RES cpu_reset s) \<le> 0xFF"
    by (simp_all add: eq word_and_le1)
  ultimately show ?thesis using p by (simp add: wf_cpu_def mode_ok_def)
qed

theorem RES_wf_witness:
  "wf_cpu (RES CPU65816Reset (native_cpu (\<lambda>a. 0x12))) \<and> reg_pc (RES CPU65816Reset (native_cpu (\<lambda>a. 0x12))) = 0x1212"
  using RES_wf [of "native_cpu (\<lambda>a. 0x12)" CPU65816Reset]
  by (simp add: wf_imp_sane [OF wf_native] sane_cpu_def CPU65816Reset_def)
    (simp add: LOAD_LONG_def native_cpu_def initial_cpu_def)

end
