(* ===== verification/Sound.thy ===== *)
theory Sound
  imports Main "HOL-Library.Signed_Division"
begin

text \<open>
  The sound generator of \<open>framework/gfx.cpp\<close>: the class \<open>Beeper\<close>, the audio callback and
  \<open>GFXSetFrequency\<close>. The members \<open>freq\<close> and \<open>v\<close> are doubles, but only integers are ever put into
  them: \<open>GFXSetFrequency\<close> takes an int, and \<open>v\<close> starts at 0, the object being static, and grows by
  \<open>freq\<close>. Below \<open>2 ^ 53\<close> a double holds integers exactly, and the conversion to int ends the
  defined behaviour long before, so both are integers here. A call returns \<open>None\<close> where the code
  has a signed overflow. The callback runs in a thread of SDL; a change of the frequency while
  it runs is not modelled.
\<close>

section \<open>The generator\<close>

record beeper =
  freq_of :: int
  phase_of :: int

definition AMPLITUDE :: int where "AMPLITUDE = 28000"
definition FREQUENCY :: int where "FREQUENCY = 44100"

definition is_int32 :: "int \<Rightarrow> bool" where
  "is_int32 x \<longleftrightarrow> - (2 ^ 31) \<le> x \<and> x < 2 ^ 31"

text \<open>\<open>(((int)v*2/FREQUENCY) % 2) ? -1 : 1\<close>, with the division of C.\<close>

definition sample :: "int \<Rightarrow> int option" where
  "sample v =
     (if is_int32 v \<and> is_int32 (v * 2)
      then Some (AMPLITUDE * (if (v * 2 sdiv FREQUENCY) smod 2 \<noteq> 0 then - 1 else 1))
      else None)"

text \<open>The inner loop, with the number of samples that are left.\<close>

fun play :: "nat \<Rightarrow> beeper \<Rightarrow> (int list \<times> beeper) option" where
  "play 0 b = Some ([], b)"
| "play (Suc n) b =
     (case sample (phase_of b) of
        None \<Rightarrow> None
      | Some s \<Rightarrow>
          (case play n (b\<lparr>phase_of := phase_of b + freq_of b\<rparr>) of
             None \<Rightarrow> None
           | Some (stream, b) \<Rightarrow> Some (s # stream, b)))"

definition generateSamples :: "int \<Rightarrow> beeper \<Rightarrow> (int list \<times> beeper) option" where
  "generateSamples len b =
     (if len \<le> 0 then Some ([], b)
      else if freq_of b = 0 then Some (replicate (nat len) 0, b)
      else play (nat len) b)"

definition setFrequency :: "int \<Rightarrow> beeper \<Rightarrow> beeper" where
  "setFrequency f b = b\<lparr>freq_of := f\<rparr>"

text \<open>The length that SDL passes is in bytes, a sample has two.\<close>

definition audio_callback :: "int \<Rightarrow> beeper \<Rightarrow> (int list \<times> beeper) option" where
  "audio_callback len b = generateSamples (len sdiv 2) b"

definition GFXSetFrequency :: "int \<Rightarrow> beeper \<Rightarrow> beeper" where
  "GFXSetFrequency f b = setFrequency f b"

text \<open>The constructor, on the zeroed static object.\<close>

definition Beeper :: beeper where
  "Beeper = setFrequency 0 \<lparr>freq_of = 0, phase_of = 0\<rparr>"

section \<open>The wave\<close>

text \<open>The wave at phase \<open>v\<close>: \<open>FREQUENCY\<close> of phase are one period, the first half of it up.\<close>

definition wave :: "int \<Rightarrow> int" where
  "wave v = (if 2 * (v mod FREQUENCY) < FREQUENCY then AMPLITUDE else - AMPLITUDE)"

lemma half_periods: "even (2 * v div FREQUENCY) \<longleftrightarrow> 2 * (v mod FREQUENCY) < FREQUENCY"
proof -
  define q r where "q = v div FREQUENCY" and "r = v mod FREQUENCY"
  have r: "0 \<le> r" "r < FREQUENCY" by (simp_all add: r_def FREQUENCY_def)
  have "v = FREQUENCY * q + r" by (simp add: q_def r_def)
  then have "2 * v = 2 * r + 2 * q * FREQUENCY" by simp
  then have "2 * v div FREQUENCY = 2 * q + 2 * r div FREQUENCY" by (simp add: FREQUENCY_def)
  moreover have "2 * r div FREQUENCY = (if 2 * r < FREQUENCY then 0 else 1)"
    using r by (auto intro!: int_div_pos_eq [where r = "2 * r - FREQUENCY"])
  ultimately show ?thesis by (simp add: r_def)
qed

lemma sample_wave:
  assumes "0 \<le> v"
  shows "sample v = (if v < 2 ^ 30 then Some (wave v) else None)"
proof -
  have "v * 2 sdiv FREQUENCY = 2 * v div FREQUENCY"
    using assms by (simp add: signed_divide_int_def FREQUENCY_def sgn_if)
  moreover have "(x smod 2 \<noteq> 0) = odd x" if "0 \<le> x" for x :: int
    using that by (simp add: signed_modulo_int_def sgn_if odd_iff_mod_2_eq_one)
  moreover have "0 \<le> 2 * v div FREQUENCY" using assms by (simp add: FREQUENCY_def)
  ultimately show ?thesis
    using assms half_periods [of v] by (auto simp: sample_def wave_def is_int32_def)
qed

lemma play_wave:
  assumes "0 \<le> phase_of b" and "0 < freq_of b"
  shows "play n b = (if n = 0 \<or> phase_of b + int (n - 1) * freq_of b < 2 ^ 30
    then Some (map (\<lambda>k. wave (phase_of b + int k * freq_of b)) [0 ..< n], b\<lparr>phase_of := phase_of b + int n * freq_of b\<rparr>)
    else None)"
  using assms
proof (induction n arbitrary: b)
  case (Suc n)
  let ?v = "phase_of b" and ?f = "freq_of b"
  show ?case
  proof (cases "?v < 2 ^ 30")
    case False
    have "0 \<le> int n * ?f" using Suc.prems by simp
    then have "\<not> ?v + int n * ?f < 2 ^ 30" using False by linarith
    then show ?thesis using False Suc.prems by (simp add: sample_wave)
  next
    case True
    have shift: "map (\<lambda>k. wave (?v + ?f + int k * ?f)) [0 ..< n] = map (\<lambda>k. wave (?v + int k * ?f)) [Suc 0 ..< Suc n]"
      by (simp add: map_Suc_upt [symmetric] comp_def algebra_simps del: upt_Suc)
    have "play n (b\<lparr>phase_of := ?v + ?f\<rparr>) = (if n = 0 \<or> ?v + int n * ?f < 2 ^ 30
      then Some (map (\<lambda>k. wave (?v + int k * ?f)) [Suc 0 ..< Suc n], b\<lparr>phase_of := ?v + int (Suc n) * ?f\<rparr>) else None)"
      using Suc.IH [of "b\<lparr>phase_of := ?v + ?f\<rparr>"] Suc.prems shift
      by (cases n) (simp_all add: algebra_simps del: upt_Suc)
    then show ?thesis
      using True Suc.prems by (simp add: sample_wave upt_conv_Cons [of 0 "Suc n"] del: upt_Suc)
  qed
qed simp

lemma play_add:
  "play (m + n) b = (case play m b of None \<Rightarrow> None
     | Some (xs, b') \<Rightarrow> map_option (map_prod ((@) xs) id) (play n b'))"
proof (induction m arbitrary: b)
  case (Suc m)
  then show ?case
    by (auto split: option.splits prod.splits simp: map_prod_def option.map_comp comp_def)
qed (simp add: map_prod_def split_beta' option.map_ident_strong)

lemma play_freq: "play n b = Some (xs, b') \<Longrightarrow> freq_of b' = freq_of b"
  by (induction n arbitrary: b xs) (auto split: option.splits)

text \<open>C33: A tone is a square wave until the phase overflows. With a positive frequency the sample
  \<open>k\<close> of a call is \<open>AMPLITUDE\<close> in the first half of each period of \<open>FREQUENCY\<close> units of phase and
  \<open>- AMPLITUDE\<close> in the second, and the phase goes on by \<open>freq\<close> per sample; but the phase is
  never reduced, and the call that meets a phase of \<open>2 ^ 30\<close> or more, at 440 Hz after 55
  seconds, overflows the int in \<open>(int)v*2\<close>.\<close>

theorem tone_until_overflow:
  assumes "0 \<le> phase_of b" and "0 < freq_of b" and "0 < n"
  shows "generateSamples (int n) b = (if phase_of b + int (n - 1) * freq_of b < 2 ^ 30
    then Some (map (\<lambda>k. wave (phase_of b + int k * freq_of b)) [0 ..< n], b\<lparr>phase_of := phase_of b + int n * freq_of b\<rparr>)
    else None)"
  using assms play_wave [OF assms(1,2), of n] by (simp add: generateSamples_def)

theorem tone_until_overflow_witness:
  "map_option fst (generateSamples 3 (GFXSetFrequency 22050 Beeper)) = Some [28000, - 28000, 28000]
    \<and> generateSamples 2440324 (GFXSetFrequency 440 Beeper) = None"
  using tone_until_overflow [of "GFXSetFrequency 22050 Beeper" 3] tone_until_overflow [of "GFXSetFrequency 440 Beeper" 2440324]
  by (simp add: GFXSetFrequency_def setFrequency_def Beeper_def wave_def FREQUENCY_def AMPLITUDE_def upt_conv_Cons)

text \<open>C34: The ends of the buffers are not audible: a call for \<open>m + n\<close> samples gives the samples of a
  call for \<open>m\<close> and then one for \<open>n\<close>, and leaves the generator in the same state, for every
  frequency and phase; if the code overflows in one of the two, so it does in the other.\<close>

theorem buffers_join:
  "generateSamples (int (m + n)) b =
     (case generateSamples (int m) b of None \<Rightarrow> None
      | Some (xs, b') \<Rightarrow> map_option (map_prod ((@) xs) id) (generateSamples (int n) b'))"
proof (cases "m = 0 \<or> n = 0 \<or> freq_of b = 0")
  case True
  then show ?thesis
    by (auto simp: generateSamples_def nat_add_distrib replicate_add option.map_id map_prod_def split: option.splits dest: play_freq)
next
  case False
  then show ?thesis
    using play_add [of m n b] by (auto simp: generateSamples_def nat_add_distrib dest: play_freq split: option.splits)
qed

section \<open>The sound of the emulator\<close>

text \<open>The program only ever calls \<open>GFXSetFrequency(0)\<close> (\<open>debugger.cpp\<close>, on the reset key and on any
  key in the stopped debugger), so it is silent and the overflow out of reach.\<close>

inductive beeper_reachable :: "beeper \<Rightarrow> bool" where
  start: "beeper_reachable Beeper"
| quiet: "beeper_reachable b \<Longrightarrow> beeper_reachable (GFXSetFrequency 0 b)"
| callback: "beeper_reachable b \<Longrightarrow> audio_callback len b = Some (stream, b') \<Longrightarrow> beeper_reachable b'"

lemma program_is_silent:
  assumes "beeper_reachable b"
  shows "audio_callback len b = Some (replicate (nat (len sdiv 2)) 0, b)"
proof -
  have "freq_of b = 0" using assms
    by induction (auto simp: Beeper_def GFXSetFrequency_def setFrequency_def audio_callback_def generateSamples_def
        split: if_splits)
  then show ?thesis by (simp add: audio_callback_def generateSamples_def)
qed

end
