(* ===== verification/Assembly.thy ===== *)
theory Assembly
  imports Isa_Refinement
begin

text \<open>
  The processor as the routines of the BASIC interpreter see it: listings of assembled
  instructions, and a machine of 16 bit registers and 16 bit variables that executes them in
  native mode. The interpreter keeps its variables in four pages of bank 0 (\<open>data.asm\<close>):
  general variables in the direct page, the expression stack at X, and the stack of the
  processor. A variable is a cell, and cells do not overlap, so a store changes one cell.
  The machine is refined by the specified processor, and so by the core
  (\<open>basic\<close>, an interpretation of \<open>guarded_simulation\<close>).
\<close>

section \<open>Listings\<close>

text \<open>A line is an instruction with its operand. Its code is the opcode and as many bytes of the
  operand as the instruction has.\<close>

type_synonym line = "instr \<times> u16"

fun isize :: "instr \<Rightarrow> nat" where
  "isize (Acc i m) = unat (len m False)"
| "isize (Rmw i m) = unat (len m False)"
| "isize (Sta m) = unat (len m False)"
| "isize (Stz m) = unat (len m False)"
| "isize (Ldx r m) = unat (len m False)"
| "isize (Branch m v) = 2"
| "isize Jsr = 3"
| "isize _ = 1"

definition opcode_of :: "instr \<Rightarrow> nat" where
  "opcode_of i = length (takeWhile (\<lambda>j. j \<noteq> i) opcode_table)"

definition encode :: "line \<Rightarrow> u8 list" where
  "encode l = take (isize (fst l)) [of_nat (opcode_of (fst l)), ucast (snd l), ucast (drop_bit 8 (snd l))]"

text \<open>The lines of a routine with their addresses, and that the code of the lines is in the
  program bank of a state.\<close>

fun placed :: "u16 \<Rightarrow> line list \<Rightarrow> (u16 \<times> line) list" where
  "placed a [] = []"
| "placed a (l # ls) = (a, l) # placed (a + of_nat (isize (fst l))) ls"

definition line_at :: "u8 \<Rightarrow> u16 \<times> line \<Rightarrow> (u20 \<Rightarrow> u8) \<Rightarrow> bool" where
  "line_at b p M \<longleftrightarrow> list_all (\<lambda>k. M (ucast (bank b (fst p + of_nat k))) = encode (snd p) ! k)
     [0 ..< length (encode (snd p))]"

definition loaded :: "u8 \<Rightarrow> (u16 \<times> line) list \<Rightarrow> (u20 \<Rightarrow> u8) \<Rightarrow> bool" where
  "loaded b ps M \<longleftrightarrow> list_all (\<lambda>p. fst (snd p) \<in> set opcode_table \<and> line_at b p M) ps"

section \<open>Cells\<close>

text \<open>\<open>Var a\<close> is the variable at the offset \<open>a\<close> of the direct page, \<open>Val a\<close> the word at the offset
  \<open>a\<close> from the top of the expression stack \<open>x\<close>, and \<open>Slot a\<close> the word whose low byte is \<open>a\<close>
  below the stack pointer \<open>s\<close>.\<close>

datatype cell = Var u16 | Val u16 | Slot u16

definition cells :: "cell list" where
  "cells = [Var 0x16, Var 0x40, Var 0x42, Var 0x44, Val 0, Val 2, Val 4, Val 6, Val 8, Val 10,
     Slot 1, Slot 3, Slot 5, Slot 7, Slot 9]"

abbreviation DirectPage :: u16 where
  "DirectPage \<equiv> 0xF000"

fun cell_addr :: "u16 \<Rightarrow> u16 \<Rightarrow> cell \<Rightarrow> u16" where
  "cell_addr x s (Var a) = DirectPage + a"
| "cell_addr x s (Val a) = DirectPage + (x + a)"
| "cell_addr x s (Slot a) = s - a"

text \<open>The room for the cells: the expression stack ends below the stack of the processor.\<close>

definition layout_ok :: "u16 \<Rightarrow> u16 \<Rightarrow> bool" where
  "layout_ok x s \<longleftrightarrow> 0x48 \<le> x \<and> x \<le> 0x280 \<and> 0xF2A0 \<le> s \<and> s \<le> 0xF3FE"

definition word0 :: "u16 \<Rightarrow> isa \<Rightarrow> u16" where
  "word0 a t = pair (rd0 a t) (rd0 (a + 1) t)"

definition cell_bytes :: "u16 \<Rightarrow> u16 \<Rightarrow> u20 list" where
  "cell_bytes x s = concat (map (\<lambda>c. [ucast (cell_addr x s c), ucast (cell_addr x s c + 1)]) cells)"

section \<open>The machine of words\<close>

record w16 =
  wA :: u16
  wX :: u16
  wY :: u16
  wS :: u16
  wPC :: u16
  wN :: bool
  wV :: bool
  wZ :: bool
  wC :: bool
  wM :: "cell \<Rightarrow> u16"

definition nz :: "u16 \<Rightarrow> w16 \<Rightarrow> w16" where
  "nz v w = w\<lparr>wN := bit v 15, wZ := (v = 0)\<rparr>"

text \<open>The cell of a memory operand, with the expression stack at \<open>x\<close>, and the cell of the word
  that is pushed next, with the stack pointer at \<open>s\<close>.\<close>

fun cell_of :: "u16 \<Rightarrow> mode \<Rightarrow> u16 \<Rightarrow> w16 \<Rightarrow> cell" where
  "cell_of x DirectX v w = Val (wX w - x + v)"
| "cell_of x _ v w = Var v"

definition slot :: "u16 \<Rightarrow> w16 \<Rightarrow> cell" where
  "slot s w = Slot (s - wS w + 1)"

fun operand :: "u16 \<Rightarrow> mode \<Rightarrow> u16 \<Rightarrow> w16 \<Rightarrow> u16" where
  "operand x Immediate v w = v"
| "operand x Accumulator v w = wA w"
| "operand x m v w = wM w (cell_of x m v w)"

definition store16 :: "u16 \<Rightarrow> mode \<Rightarrow> u16 \<Rightarrow> u16 \<Rightarrow> w16 \<Rightarrow> w16" where
  "store16 x m v r w = (if m = Accumulator then w\<lparr>wA := r\<rparr> else w\<lparr>wM := (wM w)(cell_of x m v w := r)\<rparr>)"

definition signed16 :: "int \<Rightarrow> bool" where
  "signed16 z \<longleftrightarrow> - 32768 \<le> z \<and> z < 32768"

fun operate16 :: "acc_op \<Rightarrow> u16 \<Rightarrow> w16 \<Rightarrow> w16" where
  "operate16 Ora v w = nz (wA w OR v) (w\<lparr>wA := wA w OR v\<rparr>)"
| "operate16 And v w = nz (wA w AND v) (w\<lparr>wA := wA w AND v\<rparr>)"
| "operate16 Eor v w = nz (wA w XOR v) (w\<lparr>wA := wA w XOR v\<rparr>)"
| "operate16 Lda v w = nz v (w\<lparr>wA := v\<rparr>)"
| "operate16 Adc v w =
     (let r = wA w + v + of_bool (wC w)
      in nz r (w\<lparr>wA := r, wC := 65536 \<le> unat (wA w) + unat v + of_bool (wC w),
           wV := \<not> signed16 (sint (wA w) + sint v + of_bool (wC w))\<rparr>))"
| "operate16 Sbc v w =
     (let r = wA w - v - of_bool (\<not> wC w)
      in nz r (w\<lparr>wA := r, wC := unat v + of_bool (\<not> wC w) \<le> unat (wA w),
           wV := \<not> signed16 (sint (wA w) - sint v - of_bool (\<not> wC w))\<rparr>))"
| "operate16 Cmp v w = nz (wA w - v) (w\<lparr>wC := v \<le> wA w\<rparr>)"

fun modified16 :: "rmw_op \<Rightarrow> u16 \<Rightarrow> bool \<Rightarrow> u16" where
  "modified16 Asl v c = push_bit 1 v"
| "modified16 Rol v c = push_bit 1 v + of_bool c"
| "modified16 Lsr v c = drop_bit 1 v"
| "modified16 Ror v c = drop_bit 1 v + (if c then 0x8000 else 0)"
| "modified16 Inc v c = v + 1"
| "modified16 Dec v c = v - 1"
| "modified16 _ v c = v"

definition shifted_out :: "rmw_op \<Rightarrow> u16 \<Rightarrow> bool \<Rightarrow> bool" where
  "shifted_out i v c = (if i \<in> {Asl, Rol} then bit v 15 else if i \<in> {Lsr, Ror} then odd v else c)"

fun index16 :: "index \<Rightarrow> u16 \<Rightarrow> w16 \<Rightarrow> w16" where
  "index16 IX v w = nz v (w\<lparr>wX := v\<rparr>)"
| "index16 IY v w = nz v (w\<lparr>wY := v\<rparr>)"

fun index_of :: "index \<Rightarrow> w16 \<Rightarrow> u16" where
  "index_of IX w = wX w"
| "index_of IY w = wY w"

text \<open>The flag that a branch tests, by its mask.\<close>

definition flag16 :: "u8 \<Rightarrow> w16 \<Rightarrow> bool" where
  "flag16 m w = (if m = 0x80 then wN w else if m = 0x40 then wV w else if m = 0x02 then wZ w
     else if m = 0x01 then wC w else False)"

definition push_word :: "u16 \<Rightarrow> u16 \<Rightarrow> w16 \<Rightarrow> w16" where
  "push_word s v w = w\<lparr>wM := (wM w)(slot s w := v), wS := wS w - 2\<rparr>"

definition pull_word :: "u16 \<Rightarrow> w16 \<Rightarrow> u16 \<times> w16" where
  "pull_word s w = (let w = w\<lparr>wS := wS w + 2\<rparr> in (wM w (slot s w), w))"

text \<open>An instruction with its operand; the program counter has been moved behind it.\<close>

fun exec16 :: "u16 \<Rightarrow> u16 \<Rightarrow> instr \<Rightarrow> u16 \<Rightarrow> w16 \<Rightarrow> w16" where
  "exec16 x s (Acc i m) v w = operate16 i (operand x m v w) w"
| "exec16 x s (Rmw i m) v w =
     (let u = operand x m v w; r = modified16 i u (wC w)
      in nz r (store16 x m v r (w\<lparr>wC := shifted_out i u (wC w)\<rparr>)))"
| "exec16 x s (Sta m) v w = store16 x m v (wA w) w"
| "exec16 x s (Stz m) v w = store16 x m v 0 w"
| "exec16 x s (Ldx r m) v w = index16 r (operand x m v w) w"
| "exec16 x s (Count r up) v w = index16 r (if up then index_of r w + 1 else index_of r w - 1) w"
| "exec16 x s (Push r) v w = push_word s (if r = RX then wX w else wY w) w"
| "exec16 x s (Pull r) v w = (let (u, w) = pull_word s w in index16 (if r = RX then IX else IY) u w)"
| "exec16 x s (Flag i) v w = w\<lparr>wC := (i = Set 0x01)\<rparr>"
| "exec16 x s (Branch m b) v w =
     (if flag16 m w = b then w\<lparr>wPC := wPC w + scast (ucast v :: u8)\<rparr> else w)"
| "exec16 x s Jsr v w = (push_word s (wPC w - 1) w)\<lparr>wPC := v\<rparr>"
| "exec16 x s Rts v w = (let (u, w) = pull_word s w in w\<lparr>wPC := u + 1\<rparr>)"
| "exec16 x s _ v w = w"

text \<open>The instructions that the machine has: memory operands are cells, pushes and pulls stay in the
  slots, and operands have the width of the encoding.\<close>

definition cell_operand :: "u16 \<Rightarrow> mode \<Rightarrow> u16 \<Rightarrow> w16 \<Rightarrow> bool" where
  "cell_operand x m v w \<longleftrightarrow> m \<in> {Direct, DirectX} \<and> v \<le> 0xFF \<and> cell_of x m v w \<in> set cells"

fun known :: "u16 \<Rightarrow> u16 \<Rightarrow> instr \<Rightarrow> u16 \<Rightarrow> w16 \<Rightarrow> bool" where
  "known x s (Acc i m) v w \<longleftrightarrow> m = Immediate \<or> cell_operand x m v w"
| "known x s (Rmw i m) v w \<longleftrightarrow> i \<notin> {Trb, Tsb} \<and> (m = Accumulator \<or> cell_operand x m v w)"
| "known x s (Sta m) v w \<longleftrightarrow> cell_operand x m v w"
| "known x s (Stz m) v w \<longleftrightarrow> cell_operand x m v w"
| "known x s (Ldx r m) v w \<longleftrightarrow> m = Immediate"
| "known x s (Count r up) v w \<longleftrightarrow> True"
| "known x s (Push r) v w \<longleftrightarrow> r \<in> {RX, RY} \<and> slot s w \<in> set cells"
| "known x s (Pull r) v w \<longleftrightarrow> r \<in> {RX, RY} \<and> slot s (w\<lparr>wS := wS w + 2\<rparr>) \<in> set cells"
| "known x s (Flag i) v w \<longleftrightarrow> i \<in> {Set 0x01, Clear 0x01}"
| "known x s (Branch m b) v w \<longleftrightarrow> m \<in> {0x80, 0x40, 0x02, 0x01, 0} \<and> v \<le> 0xFF"
| "known x s Jsr v w \<longleftrightarrow> slot s w \<in> set cells"
| "known x s Rts v w \<longleftrightarrow> slot s (w\<lparr>wS := wS w + 2\<rparr>) \<in> set cells"
| "known x s _ v w \<longleftrightarrow> False"

text \<open>A step fetches the line at the program counter.\<close>

definition step16 :: "u16 \<Rightarrow> u16 \<Rightarrow> (u16 \<times> line) list \<Rightarrow> w16 \<Rightarrow> w16" where
  "step16 x s ps w = (case map_of ps (wPC w) of
     Some (i, v) \<Rightarrow> exec16 x s i v (w\<lparr>wPC := wPC w + of_nat (isize i)\<rparr>)
   | None \<Rightarrow> w)"

definition ok16 :: "u16 \<Rightarrow> u16 \<Rightarrow> (u16 \<times> line) list \<Rightarrow> w16 \<Rightarrow> bool" where
  "ok16 x s ps w = (case map_of ps (wPC w) of Some (i, v) \<Rightarrow> known x s i v w | None \<Rightarrow> False)"

section \<open>The machine in the processor\<close>

definition view :: "u16 \<Rightarrow> u16 \<Rightarrow> isa \<Rightarrow> w16" where
  "view x s t = \<lparr>wA = rA t, wX = rX t, wY = rY t, wS = rS t, wPC = rPC t,
     wN = bit (rP t) 7, wV = bit (rP t) 6, wZ = bit (rP t) 1, wC = bit (rP t) 0,
     wM = (\<lambda>c. if c \<in> set cells then word0 (cell_addr x s c) t else 0)\<rparr>"

text \<open>The states in which the machine runs: native mode with 16 bit registers and binary
  arithmetic, the routines loaded in bank 1, and a memory that differs from \<open>M\<close> in the
  cells only.\<close>

definition fits :: "u16 \<Rightarrow> u16 \<Rightarrow> u8 \<Rightarrow> (u20 \<Rightarrow> u8) \<Rightarrow> isa \<Rightarrow> bool" where
  "fits x s db M t \<longleftrightarrow> \<not> rE t \<and> rP t AND 0x38 = 0 \<and> rD t = DirectPage \<and> rPB t = 1 \<and> rDB t = db
     \<and> (\<forall>a. a \<notin> set (cell_bytes x s) \<longrightarrow> mem t a = M a)"

lemma view_select [simp]:
  "wA (view x s t) = rA t" "wX (view x s t) = rX t" "wY (view x s t) = rY t" "wS (view x s t) = rS t"
  "wPC (view x s t) = rPC t" "wN (view x s t) = bit (rP t) 7" "wV (view x s t) = bit (rP t) 6"
  "wZ (view x s t) = bit (rP t) 1" "wC (view x s t) = bit (rP t) 0"
  by (simp_all add: view_def)

subsection \<open>Cells do not overlap\<close>

lemma cell_addr_unat:
  assumes "layout_ok x s"
  shows "a \<le> 0x44 \<Longrightarrow> unat (cell_addr x s (Var a)) = 0xF000 + unat a"
    and "a \<le> 10 \<Longrightarrow> unat (cell_addr x s (Val a)) = 0xF000 + unat x + unat a"
    and "a \<le> 9 \<Longrightarrow> unat (cell_addr x s (Slot a)) = unat s - unat a"
  using assms by (simp_all add: layout_ok_def word_le_nat_alt unat_plus_if' unat_sub_if_size word_size)

lemma cells_apart:
  assumes "layout_ok x s" and "c \<in> set cells" and "d \<in> set cells" and "c \<noteq> d"
  shows "unat (cell_addr x s c) + 2 \<le> unat (cell_addr x s d) \<or> unat (cell_addr x s d) + 2 \<le> unat (cell_addr x s c)"
  using assms(2-4) assms(1) unfolding cells_def
  by (auto simp: cell_addr_unat [OF assms(1)] layout_ok_def word_le_nat_alt simp del: cell_addr.simps)

lemma cell_addr_bound: "layout_ok x s \<Longrightarrow> c \<in> set cells \<Longrightarrow> unat (cell_addr x s c) < 65535"
  unfolding cells_def by (auto simp: cell_addr_unat layout_ok_def word_le_nat_alt simp del: cell_addr.simps)

lemma unat_u20: "unat (ucast (z :: u16) :: u20) = unat z"
  using u16_bound [of z] by (simp add: unsigned_ucast_eq take_bit_eq_mod)

lemma put_frame:
  "rX (put p b v t) = rX t" "rY (put p b v t) = rY t" "rD (put p b v t) = rD t"
  "rS (put p b v t) = rS t" "rPC (put p b v t) = rPC t" "rDB (put p b v t) = rDB t" "rPB (put p b v t) = rPB t"
  "rP (put p b v t) = rP t" "rE (put p b v t) = rE t" "rA (put (Bank0 a) b v t) = rA t"
  by (cases p; simp add: Let_def wr0_def)+

lemma rd0_wr0: "rd0 a (wr0 b v t) = (if a = b then v else rd0 a t)"
proof -
  have "(ucast (ucast a :: u24) :: u20) = ucast (ucast b :: u24) \<longleftrightarrow> a = b"
    using u16_bound [of a] u16_bound [of b] by (simp add: word_unat_eq_iff unat_ucast_wide)
  then show ?thesis by (simp add: rd0_def wr0_def rd_def wr_def)
qed

lemma pair_split: "pair (ucast v) (ucast (drop_bit 8 v)) = v"
proof -
  have "unat v < 65536" "unat v div 256 < 256" using u16_bound [of v] by simp_all
  then show ?thesis
    by (simp add: word_unat_eq_iff pair_def push_bit_eq_mult unat_word_ariths unat_ucast_down unsigned_drop_bit_eq
        drop_bit_eq_div [where ?'a = nat] take_bit_eq_mod)
qed

lemma put_cell:
  assumes "layout_ok x s" and "c \<in> set cells" and "d \<in> set cells"
  shows "word0 (cell_addr x s c) (put (Bank0 (cell_addr x s d)) False v t) = (if c = d then v else word0 (cell_addr x s c) t)"
proof (cases "c = d")
  case True
  then show ?thesis by (simp add: word0_def rd0_wr0 Let_def pair_split)
next
  case False
  note b = cell_addr_bound [OF assms(1)] u16_bound
  have "cell_addr x s c \<noteq> cell_addr x s d" "cell_addr x s c + 1 \<noteq> cell_addr x s d" "cell_addr x s c \<noteq> cell_addr x s d + 1"
    "cell_addr x s c + 1 \<noteq> cell_addr x s d + 1"
    using cells_apart [OF assms False] b(1) [OF assms(2)] b(1) [OF assms(3)]
    by (auto simp del: cell_addr.simps simp: unat_plus_if' dest: arg_cong [where f = unat])
  with False show ?thesis by (simp add: word0_def rd0_wr0 Let_def del: cell_addr.simps)
qed

lemma put_outside:
  assumes "d \<in> set cells" and "a \<notin> set (cell_bytes x s)"
  shows "mem (put (Bank0 (cell_addr x s d)) b v t) a = mem t a"
proof -
  have u: "(ucast (ucast z :: u24) :: u20) = ucast z" for z :: u16
    using u16_bound [of z] by (simp add: word_unat_eq_iff unat_ucast_wide unat_u20)
  have "a \<noteq> ucast (cell_addr x s d)" "a \<noteq> ucast (cell_addr x s d + 1)"
    using assms by (auto simp: cell_bytes_def simp del: cell_addr.simps)
  then show ?thesis by (simp add: Let_def wr0_def wr_def u del: cell_addr.simps)
qed

lemma view_put:
  assumes "layout_ok x s" and "d \<in> set cells"
  shows "view x s (put (Bank0 (cell_addr x s d)) False v t) = (view x s t)\<lparr>wM := (wM (view x s t))(d := v)\<rparr>"
  using assms by (auto simp: view_def put_cell put_frame simp del: cell_addr.simps put.simps)

subsection \<open>Fetching a line\<close>

lemma takeWhile_member: "i \<in> set is \<Longrightarrow> length (takeWhile (\<lambda>j. j \<noteq> i) is) < length is"
  by (induction "is") auto

lemma fits_line:
  assumes "fits x s db M t" and "loaded 1 ps M" and "map_of ps (rPC t) = Some (i, v)"
  shows "current t = i" and "k < length (encode (i, v)) \<Longrightarrow> code (of_nat k) t = encode (i, v) ! k"
proof -
  have p: "i \<in> set opcode_table" "line_at 1 (rPC t, i, v) M"
    using assms(2) map_of_SomeD [OF assms(3)] by (auto simp: loaded_def list_all_iff)
  have "(ucast (bank 1 a) :: u20) \<notin> set (cell_bytes x s)" for a
  proof -
    have "unat (ucast (bank 1 a) :: u20) = 65536 + unat a"
      using u16_bound [of a] by (simp add: bank_def unat_ucast_wide unat_word_ariths)
    then have "(ucast (bank 1 a) :: u20) \<noteq> ucast z" for z :: u16
      using u16_bound [of z] unat_u20 [of z] by (metis not_add_less1)
    then show ?thesis by (auto simp: cell_bytes_def simp del: cell_addr.simps)
  qed
  with assms(1) have m: "mem t (ucast (bank 1 a)) = M (ucast (bank 1 a))" for a by (simp add: fits_def)
  from assms(1) have b: "rPB t = 1" by (simp add: fits_def)
  show c: "code (of_nat k) t = encode (i, v) ! k" if "k < length (encode (i, v))" for k
    using p(2) that by (simp add: code_def rd_def m b line_at_def list_all_iff)
  have n: "opcode_of i < 256" "opcode_table ! opcode_of i = i"
  proof -
    have l: "length opcode_table = 256" by (simp add: opcode_table_def)
    show "opcode_of i < 256" unfolding opcode_of_def l [symmetric]
      using p(1) by (rule takeWhile_member)
    then show "opcode_table ! opcode_of i = i"
      using nth_length_takeWhile [of "\<lambda>j. j \<noteq> i" opcode_table] l by (simp add: opcode_of_def)
  qed
  have "0 < isize i" by (cases i) (simp_all add: len_def)
  then show "current t = i" using c [of 0] n by (simp add: current_def encode_def unsigned_of_nat take_bit_eq_mod)
qed

subsection \<open>Registers, flags and memory through the view\<close>

lemma bit_put_bits: "bit (put_bits c m p) n \<longleftrightarrow> (if bit m n then c else bit p n)"
  by (auto simp: put_bits_def bit_simps dest: bit_imp_le_length)

lemma mem_frames [simp]:
  "rd0 a (t\<lparr>rA := u\<rparr>) = rd0 a t" "rd0 a (t\<lparr>rX := u\<rparr>) = rd0 a t" "rd0 a (t\<lparr>rY := u\<rparr>) = rd0 a t"
  "rd0 a (t\<lparr>rS := u\<rparr>) = rd0 a t" "rd0 a (t\<lparr>rPC := u\<rparr>) = rd0 a t" "rd0 a (t\<lparr>rP := p\<rparr>) = rd0 a t"
  by (simp_all add: rd0_def rd_def)

lemma view_update [simp]:
  "view x s (t\<lparr>rA := u\<rparr>) = (view x s t)\<lparr>wA := u\<rparr>" "view x s (t\<lparr>rX := u\<rparr>) = (view x s t)\<lparr>wX := u\<rparr>"
  "view x s (t\<lparr>rY := u\<rparr>) = (view x s t)\<lparr>wY := u\<rparr>" "view x s (t\<lparr>rS := u\<rparr>) = (view x s t)\<lparr>wS := u\<rparr>"
  "view x s (t\<lparr>rPC := u\<rparr>) = (view x s t)\<lparr>wPC := u\<rparr>" "view x s (advance u t) = (view x s t)\<lparr>wPC := rPC t + u\<rparr>"
  "view x s (set_flag c 0x80 t) = (view x s t)\<lparr>wN := c\<rparr>" "view x s (set_flag c 0x40 t) = (view x s t)\<lparr>wV := c\<rparr>"
  "view x s (set_flag c 0x02 t) = (view x s t)\<lparr>wZ := c\<rparr>" "view x s (set_flag c 0x01 t) = (view x s t)\<lparr>wC := c\<rparr>"
  by (simp_all add: view_def word0_def advance_def set_flag_def bit_put_bits cong: if_cong)

lemma fits_update [simp]:
  "fits x s db M (t\<lparr>rA := u\<rparr>) = fits x s db M t" "fits x s db M (t\<lparr>rX := u\<rparr>) = fits x s db M t"
  "fits x s db M (t\<lparr>rY := u\<rparr>) = fits x s db M t" "fits x s db M (t\<lparr>rS := u\<rparr>) = fits x s db M t"
  "fits x s db M (t\<lparr>rPC := u\<rparr>) = fits x s db M t" "fits x s db M (advance u t) = fits x s db M t"
  by (simp_all add: fits_def advance_def)

lemma fits_flag [simp]:
  assumes "m \<in> {0x80, 0x40, 0x02, 0x01}"
  shows "fits x s db M (set_flag c m t) = fits x s db M t"
proof -
  have "put_bits c m p AND 0x38 = p AND 0x38" for p
    using assms by (intro byte_eqI) (auto simp: bit_put_bits bit_simps)
  then show ?thesis by (simp add: fits_def set_flag_def)
qed

lemma fits_put [simp]:
  "d \<in> set cells \<Longrightarrow> fits x s db M (put (Bank0 (cell_addr x s d)) b v t) = fits x s db M t"
  by (simp add: fits_def put_outside put_frame del: put.simps cell_addr.simps)

lemma fits_native:
  assumes "fits x s db M t"
  shows "\<not> rE t" "\<not> m8 t" "\<not> x8 t" "dp t off = DirectPage + off" "page1 t = t" "limit_index t = t" "\<not> bit (rP t) 3"
proof -
  have "bit (rP t AND 0x38) n = False" for n using assms by (simp add: fits_def)
  from this [of 3] this [of 4] this [of 5] have "\<not> bit (rP t) 3" "\<not> bit (rP t) 4" "\<not> bit (rP t) 5"
    by (simp_all add: bit_simps)
  with assms show "\<not> rE t" "\<not> m8 t" "\<not> x8 t" "dp t off = DirectPage + off" "page1 t = t" "limit_index t = t" "\<not> bit (rP t) 3"
    by (simp_all add: fits_def m8_def x8_def dp_def page1_def limit_index_def low_def)
qed

lemma view_nz [simp]: "view x s (set_nz False v t) = nz v (view x s t)" "fits x s db M (set_nz False v t) = fits x s db M t"
  by (simp_all add: set_nz_def nz_def low_def and_msb)

lemma view_load [simp]:
  "view x s (load_A False v t) = nz v ((view x s t)\<lparr>wA := v\<rparr>)" "fits x s db M (load_A False v t) = fits x s db M t"
  by (simp_all add: load_A_def merge_def)

subsection \<open>Operands and the stack\<close>

text \<open>\<open>behind v n t\<close>: the operand behind the opcode is \<open>v\<close>, in \<open>n\<close> bytes.\<close>

definition behind :: "u16 \<Rightarrow> nat \<Rightarrow> isa \<Rightarrow> bool" where
  "behind v n t \<longleftrightarrow> (n = 2 \<longrightarrow> code 1 t = ucast v) \<and> (n = 3 \<longrightarrow> code16 t = v)"

lemma behind_op1: "behind v 2 t \<Longrightarrow> v \<le> 0xFF \<Longrightarrow> op1 t = v"
  using unat_ucast_down(3) [of v] by (simp add: behind_def op1_def word_unat_eq_iff word_le_nat_alt)

lemma line_behind:
  assumes "fits x s db M t" and "loaded 1 ps M" and "map_of ps (rPC t) = Some (i, v)"
  shows "behind v (isize i) t"
  using fits_line(2) [OF assms, of 1] fits_line(2) [OF assms, of 2]
  by (auto simp: behind_def encode_def code16_def pair_split)

lemma place_cell:
  assumes "fits x s db M t" and "cell_operand x m v (view x s t)" and "behind v 2 t"
  shows "place_of m t = Bank0 (cell_addr x s (cell_of x m v (view x s t)))" "cell_of x m v (view x s t) \<in> set cells"
    "len m False = 2"
proof -
  have "op1 t = v" using assms(2,3) by (simp add: cell_operand_def behind_op1)
  then show "place_of m t = Bank0 (cell_addr x s (cell_of x m v (view x s t)))"
    using assms(2) by (auto simp: cell_operand_def fits_native [OF assms(1)] ac_simps)
qed (use assms(2) in \<open>auto simp: cell_operand_def len_def\<close>)

lemma fetch_operand:
  assumes "fits x s db M t" and "m \<in> {Immediate, Accumulator} \<or> cell_operand x m v (view x s t)"
    and "behind v (unat (len m False)) t"
  shows "fetch (place_of m t) False t = operand x m v (view x s t)"
proof (cases "m \<in> {Immediate, Accumulator}")
  case True
  with assms(3) show ?thesis by (auto simp: len_def behind_def low_def)
next
  case False
  with assms(2) have c: "cell_operand x m v (view x s t)" by blast
  then have m: "m = Direct \<or> m = DirectX" by (auto simp: cell_operand_def)
  with assms(3) have "behind v 2 t" by (auto simp: len_def)
  from m place_cell [OF assms(1) c this] show ?thesis
    by (auto simp: view_def word0_def simp del: cell_addr.simps place_of.simps)
qed

lemma store_operand:
  assumes "layout_ok x s" and "fits x s db M t" and "m = Accumulator \<or> cell_operand x m v (view x s t)"
    and "behind v (unat (len m False)) t" and "\<And>m. place_of m u = place_of m t" and "wX (view x s u) = wX (view x s t)"
  shows "view x s (put (place_of m t) False r u) = store16 x m v r (view x s u)"
    "fits x s db M (put (place_of m t) False r u) = fits x s db M u"
proof -
  have "view x s (put (place_of m t) False r u) = store16 x m v r (view x s u) \<and>
    fits x s db M (put (place_of m t) False r u) = fits x s db M u"
  proof (cases "m = Accumulator")
    case True
    then show ?thesis by (simp add: store16_def merge_def)
  next
    case False
    with assms(3) have c: "cell_operand x m v (view x s t)" by blast
    then have m: "m = Direct \<or> m = DirectX" by (auto simp: cell_operand_def)
    with assms(4) have "behind v 2 t" by (auto simp: len_def)
    note pl = place_cell [OF assms(2) c this]
    have "cell_of x m v (view x s u) = cell_of x m v (view x s t)" using m assms(6) by auto
    with False pl show ?thesis
      using view_put [OF assms(1) pl(2)] by (simp add: store16_def del: cell_addr.simps put.simps place_of.simps)
  qed
  then show "view x s (put (place_of m t) False r u) = store16 x m v r (view x s u)"
    "fits x s db M (put (place_of m t) False r u) = fits x s db M u" by blast+
qed

lemma slot_addr: "cell_addr x s (slot s (view x s t)) = rS t - 1"
  by (simp add: slot_def)

lemma push_sim:
  assumes "layout_ok x s" and "fits x s db M t" and "slot s (view x s t) \<in> set cells"
  shows "view x s (push16 v t) = push_word s v (view x s t)" "fits x s db M (push16 v t)"
proof -
  note n = fits_native [OF assms(2)]
  let ?u = "put (Bank0 (rS t - 1)) False v t"
  have p: "push8 b u = stack b u" if "rE u = rE t" for b u
    using that n(1) by (simp add: push8_def page1_def stack_def wr0_def)
  have "(ucast (ucast (rS t) :: u24) :: u20) \<noteq> ucast (ucast (rS t - 1) :: u24)"
    using u16_bound [of "rS t"] u16_bound [of "rS t - 1"] by (simp add: word_unat_eq_iff unat_ucast_wide)
      (simp flip: word_unat_eq_iff)
  then have "push16 v t = ?u\<lparr>rS := rS t - 2\<rparr>"
    by (simp add: push16_def p stack_def wr0_def wr_def fun_upd_twist Let_def)
  moreover have "view x s ?u = (view x s t)\<lparr>wM := (wM (view x s t))(slot s (view x s t) := v)\<rparr>" "fits x s db M ?u"
    using view_put [OF assms(1,3), of v t] fits_put [OF assms(3), of x s db M False v t] assms(2)
    unfolding slot_addr by simp_all
  ultimately show "view x s (push16 v t) = push_word s v (view x s t)" "fits x s db M (push16 v t)"
    by (simp_all add: push_word_def)
qed

lemma pull_sim:
  assumes "fits x s db M t" and "slot s ((view x s t)\<lparr>wS := rS t + 2\<rparr>) \<in> set cells"
  shows "fst (pull16 t) = fst (pull_word s (view x s t))" "view x s (snd (pull16 t)) = snd (pull_word s (view x s t))"
    "fits x s db M (snd (pull16 t))"
proof -
  note n = fits_native [OF assms(1)]
  have p: "page1 (u\<lparr>rS := v\<rparr>) = u\<lparr>rS := v\<rparr>" if "rE u = rE t" for u v
    using that n(1) by (simp add: page1_def)
  have q: "pull16 t = (word0 (rS t + 1) t, t\<lparr>rS := rS t + 2\<rparr>)"
    using n(1) by (simp add: pull16_def pull8_def Let_def unstack_def stack_top_def p word0_def)
  have "slot s ((view x s t)\<lparr>wS := rS t + 2\<rparr>) = slot s (view x s (t\<lparr>rS := rS t + 2\<rparr>))" by simp
  with assms(2) have "wM (view x s t) (slot s ((view x s t)\<lparr>wS := rS t + 2\<rparr>)) = word0 (rS t + 1) t"
    using slot_addr [of x s "t\<lparr>rS := rS t + 2\<rparr>"] by (simp add: view_def add.commute del: cell_addr.simps)
  then show "fst (pull16 t) = fst (pull_word s (view x s t))" "view x s (snd (pull16 t)) = snd (pull_word s (view x s t))"
    by (simp_all add: q pull_word_def Let_def)
  show "fits x s db M (snd (pull16 t))" using assms(1) by (simp add: q)
qed

subsection \<open>Instructions\<close>

lemma centered_mod:
  fixes n h :: nat
  assumes "n < 2 * h"
  shows "(int n + int h) mod (2 * int h) - int h = (if n < h then int n else int n - 2 * int h)"
proof (cases "n < h")
  case True
  then have "(int n + int h) mod (2 * int h) = int n + int h" by (intro mod_pos_pos_trivial) linarith+
  with True show ?thesis by simp
next
  case False
  then have "(int n - int h) mod (2 * int h) = int n - int h" using assms by (intro mod_pos_pos_trivial) linarith+
  with False show ?thesis using minus_mod_self2 [of "int n + int h" "2 * int h"] by (simp add: algebra_simps)
qed

lemma sint_unat:
  "sint (v :: u16) = (if unat v < 32768 then int (unat v) else int (unat v) - 65536)"
  "sint (u :: u32) = (if unat u < 2147483648 then int (unat u) else int (unat u) - 4294967296)"
proof -
  have v: "unat v < 2 * 32768" and u: "unat u < 2 * 2147483648"
    using unsigned_less [of v, where ?'a = nat] unsigned_less [of u, where ?'a = nat] by simp_all
  have "sint v = (int (unat v) + int 32768) mod (2 * int 32768) - int 32768"
    "sint u = (int (unat u) + int 2147483648) mod (2 * int 2147483648) - int 2147483648"
    by (simp_all add: sint_uint signed_take_bit_eq_take_bit_shift take_bit_eq_mod)
  then show "sint v = (if unat v < 32768 then int (unat v) else int (unat v) - 65536)"
    "sint u = (if unat u < 2147483648 then int (unat u) else int (unat u) - 4294967296)"
    unfolding centered_mod [OF v] centered_mod [OF u] by simp_all
qed

lemma sint_signed_of: "signed_of False (unat (v :: u16)) = sint v"
  by (simp add: signed_of_def modulus_def width_def sint_unat)

lemma operate_sim:
  assumes "fits x s db M t"
  shows "view x s (operate i False v t) = operate16 i v (view x s t)" "fits x s db M (operate i False v t)"
proof -
  have s: "z \<notin> {- 32768 ..< 32768} \<longleftrightarrow> \<not> signed16 z" for z by (auto simp: signed16_def)
  have "view x s (operate i False v t) = operate16 i v (view x s t) \<and> fits x s db M (operate i False v t)"
    using assms by (cases i) (simp_all add: add_def subtract_def compare_def Let_def carry_def low_def sint_signed_of modulus_def
        width_def s of_bool_def nz_def del: atLeastLessThan_iff)
  then show "view x s (operate i False v t) = operate16 i v (view x s t)" "fits x s db M (operate i False v t)" by blast+
qed


lemma place_flag: "place_of m (set_flag c k t) = place_of m t"
proof -
  have "dp (t\<lparr>rP := p\<rparr>) off = dp t off" "code n (t\<lparr>rP := p\<rparr>) = code n t" for p off n
    by (simp_all add: dp_def code_def rd_def)
  then show ?thesis
    by (cases m) (simp_all add: set_flag_def op1_def dp_pointer_def long_pointer_def stack_pointer_def code16_def Let_def)
qed

lemma view_carry [simp]: "(view x s t)\<lparr>wC := bit (rP t) 0\<rparr> = view x s t"
  by (simp add: view_def)

lemma modify_sim:
  assumes "fits x s db M t" and "i \<notin> {Trb, Tsb}"
  shows "view x s (modify_flags i False v t) = nz (modified16 i v (wC (view x s t)))
      ((view x s t)\<lparr>wC := shifted_out i v (wC (view x s t))\<rparr>)"
    and "fits x s db M (modify_flags i False v t)" and "modified i False v t = modified16 i v (wC (view x s t))"
    and "place_of m (modify_flags i False v t) = place_of m t"
proof -
  have "push_bit 1 v OR 1 = push_bit 1 v + 1" for v :: u16
    by (rule disjunctive_add [symmetric]) (metis bit_1_iff bit_push_bit_iff not_one_le_zero)
  moreover have "drop_bit 1 v OR push_bit 15 1 = drop_bit 1 v + push_bit 15 1" for v :: u16
    by (rule disjunctive_add [symmetric]) (auto simp: bit_simps simp del: push_bit_of_1 dest: bit_imp_le_length)
  ultimately have l: "push_bit 1 v OR 1 = push_bit 1 v + 1" "drop_bit 1 v OR 0x8000 = drop_bit 1 v + 0x8000" for v :: u16
    by simp_all
  show m: "modified i False v t = modified16 i v (wC (view x s t))"
    using assms(2) by (cases i) (auto simp: carry_def l [simplified] msb_of_def)
  have "v AND 0x8000 \<noteq> 0 \<longleftrightarrow> bit v 15" using and_msb [of v False] by (simp add: msb_of_def)
  then have b: "v AND 0x8000 = 0 \<longleftrightarrow> \<not> bit v 15" by blast
  have f: "modify_flags i False v t = set_nz False (modified i False v t)
    (if i \<in> {Asl, Rol, Lsr, Ror} then set_flag (shifted_out i v (wC (view x s t))) 0x01 t else t)"
    using assms(2) b by (auto simp: modify_flags_def msb_of_def shifted_out_def)
  show "view x s (modify_flags i False v t) = nz (modified16 i v (wC (view x s t)))
      ((view x s t)\<lparr>wC := shifted_out i v (wC (view x s t))\<rparr>)"
    unfolding f m using assms(2) by (cases i) (simp_all add: shifted_out_def)
  show "fits x s db M (modify_flags i False v t)"
    unfolding f using assms(1) by simp
  show "place_of m (modify_flags i False v t) = place_of m t"
    unfolding f by (simp add: set_nz_def place_flag)
qed

text \<open>The program counter of the machine only matters to branches and calls.\<close>

lemma pc_irrelevant [simp]:
  "cell_of x m v (w\<lparr>wPC := a\<rparr>) = cell_of x m v w" "operand x m v (w\<lparr>wPC := a\<rparr>) = operand x m v w"
  "slot s (w\<lparr>wPC := a\<rparr>) = slot s w" "nz v (w\<lparr>wPC := a\<rparr>) = (nz v w)\<lparr>wPC := a\<rparr>"
  "store16 x m v r (w\<lparr>wPC := a\<rparr>) = (store16 x m v r w)\<lparr>wPC := a\<rparr>"
  "operate16 i v (w\<lparr>wPC := a\<rparr>) = (operate16 i v w)\<lparr>wPC := a\<rparr>"
  "index16 q v (w\<lparr>wPC := a\<rparr>) = (index16 q v w)\<lparr>wPC := a\<rparr>" "index_of q (w\<lparr>wPC := a\<rparr>) = index_of q w"
  "flag16 m' (w\<lparr>wPC := a\<rparr>) = flag16 m' w" "push_word s v (w\<lparr>wPC := a\<rparr>) = (push_word s v w)\<lparr>wPC := a\<rparr>"
  "pull_word s (w\<lparr>wPC := a\<rparr>) = map_prod id (\<lambda>w. w\<lparr>wPC := a\<rparr>) (pull_word s w)"
proof -
  show c: "cell_of x m v (w\<lparr>wPC := a\<rparr>) = cell_of x m v w" by (cases m) simp_all
  then show "operand x m v (w\<lparr>wPC := a\<rparr>) = operand x m v w" by (cases m) simp_all
  show "slot s (w\<lparr>wPC := a\<rparr>) = slot s w" by (simp add: slot_def)
  then show "push_word s v (w\<lparr>wPC := a\<rparr>) = (push_word s v w)\<lparr>wPC := a\<rparr>" by (simp add: push_word_def)
  show "pull_word s (w\<lparr>wPC := a\<rparr>) = map_prod id (\<lambda>w. w\<lparr>wPC := a\<rparr>) (pull_word s w)"
    by (simp add: pull_word_def Let_def slot_def)
  show n: "nz v (w\<lparr>wPC := a\<rparr>) = (nz v w)\<lparr>wPC := a\<rparr>" for v w by (simp add: nz_def)
  show "store16 x m v r (w\<lparr>wPC := a\<rparr>) = (store16 x m v r w)\<lparr>wPC := a\<rparr>" using c by (simp add: store16_def)
  show "operate16 i v (w\<lparr>wPC := a\<rparr>) = (operate16 i v w)\<lparr>wPC := a\<rparr>" by (cases i) (simp_all add: nz_def Let_def)
  show "index16 q v (w\<lparr>wPC := a\<rparr>) = (index16 q v w)\<lparr>wPC := a\<rparr>" "index_of q (w\<lparr>wPC := a\<rparr>) = index_of q w"
    by (cases q; simp add: nz_def)+
  show "flag16 m' (w\<lparr>wPC := a\<rparr>) = flag16 m' w" by (simp add: flag16_def)
qed

lemma store_nz: "store16 x m v r (nz u w) = nz u (store16 x m v r w)"
  by (cases m) (simp_all add: store16_def nz_def)

lemma store_carry: "store16 x m v r (w\<lparr>wPC := a, wC := c\<rparr>) = (store16 x m v r (w\<lparr>wC := c\<rparr>))\<lparr>wPC := a\<rparr>"
  by (cases m) (simp_all add: store16_def)

lemma keep_pc:
  "rPC (set_nz b u t) = rPC t" "rPC (set_index r u t) = rPC t" "rPC (operate i b u t) = rPC t" "rPC (modify_flags k b u t) = rPC t"
proof -
  show nz: "rPC (set_nz b u t) = rPC t" for b u t by (simp add: set_nz_def set_flag_def)
  show "rPC (set_index r u t) = rPC t" by (cases r) (simp_all add: nz)
  show "rPC (operate i b u t) = rPC t"
    by (cases i) (simp_all add: load_A_def add_def subtract_def compare_def set_flag_def Let_def nz)
  show "rPC (modify_flags k b u t) = rPC t" by (simp add: modify_flags_def set_flag_def nz)
qed

lemma index_sim:
  assumes "fits x s db M t"
  shows "view x s (set_index r u t) = index16 r u (view x s t)" "fits x s db M (set_index r u t)"
    "index_value r t = index_of r (view x s t)"
  using assms by (cases r; simp add: fits_native [OF assms] low_def)+

lemma rmw_sim:
  assumes "layout_ok x s" and "fits x s db M t" and "known x s (Rmw k m) v (view x s t)" and "behind v (isize (Rmw k m)) t"
  shows "view x s (exec (Rmw k m) t) = exec16 x s (Rmw k m) v ((view x s t)\<lparr>wPC := rPC t + of_nat (isize (Rmw k m))\<rparr>)
    \<and> fits x s db M (exec (Rmw k m) t)"
proof -
  let ?u = "operand x m v (view x s t)"
  let ?t = "modify_flags k False ?u t"
  from assms(3,4) have k: "k \<notin> {Trb, Tsb}" "m = Accumulator \<or> cell_operand x m v (view x s t)" "behind v (unat (len m False)) t"
    by auto
  note mod = modify_sim [OF assms(2) k(1)]
  have x: "wX (view x s ?t) = wX (view x s t)" unfolding mod(1) by (simp add: nz_def)
  note put = store_operand [OF assms(1,2) k(2,3) mod(4) x, of "modified k False ?u t"]
  have "fetch (place_of m t) False t = ?u" using assms(2) k(2,3) by (intro fetch_operand) auto
  then have e: "exec (Rmw k m) t = advance (len m False) (put (place_of m t) False (modified k False ?u t) ?t)"
    by (simp add: fits_native [OF assms(2)] Let_def)
  show ?thesis
    unfolding e by (simp add: put mod(2) put_frame keep_pc) (simp add: mod(1,3) store_nz store_carry Let_def)
qed

text \<open>Instructions on registers and variables.\<close>

lemma data_sim:
  assumes "layout_ok x s" and "fits x s db M t" and "known x s i v (view x s t)" and "behind v (isize i) t"
    and "(\<exists>j m. i = Acc j m) \<or> (\<exists>m. i = Sta m \<or> i = Stz m) \<or> (\<exists>r m. i = Ldx r m) \<or> (\<exists>r up. i = Count r up) \<or> (\<exists>f. i = Flag f)"
  shows "view x s (exec i t) = exec16 x s i v ((view x s t)\<lparr>wPC := rPC t + of_nat (isize i)\<rparr>) \<and> fits x s db M (exec i t)"
proof -
  note n = fits_native [OF assms(2)]
  from assms(5) consider j m where "i = Acc j m" | m where "i = Sta m" | m where "i = Stz m" | r m where "i = Ldx r m"
    | r up where "i = Count r up" | f where "i = Flag f"
    by blast
  then show ?thesis
  proof cases
    case 1
    with assms(2-4) have "fetch (place_of m t) False t = operand x m v (view x s t)" by (intro fetch_operand) auto
    with 1 show ?thesis by (simp add: n operate_sim [OF assms(2)] keep_pc)
  next
    case 2
    with assms(3,4) have "m = Accumulator \<or> cell_operand x m v (view x s t)" "behind v (unat (len m False)) t" by auto
    from store_operand [OF assms(1,2) this, of t] show ?thesis using 2 assms(2) by (simp add: n put_frame)
  next
    case 3
    with assms(3,4) have "m = Accumulator \<or> cell_operand x m v (view x s t)" "behind v (unat (len m False)) t" by auto
    from store_operand [OF assms(1,2) this, of t] show ?thesis using 3 assms(2) by (simp add: n put_frame)
  next
    case 4
    with assms(2-4) have "fetch (place_of m t) False t = operand x m v (view x s t)" by (intro fetch_operand) auto
    with 4 show ?thesis by (simp add: n index_sim [OF assms(2)] keep_pc)
  next
    case 5
    then show ?thesis by (simp add: index_sim [OF assms(2)] keep_pc)
  next
    case 6
    have "view x s ((advance 1 t)\<lparr>rP := put_bits b 0x01 (rP t), rE := False\<rparr>)
        = (view x s t)\<lparr>wPC := rPC t + 1, wC := b\<rparr>"
      "fits x s db M ((advance 1 t)\<lparr>rP := put_bits b 0x01 (rP t), rE := False\<rparr>)" for b
    proof -
      have "(advance 1 t)\<lparr>rP := put_bits b 0x01 (rP t), rE := False\<rparr> = set_flag b 0x01 (advance 1 t)"
        using n(1) by (simp add: set_flag_def advance_def)
      then show "view x s ((advance 1 t)\<lparr>rP := put_bits b 0x01 (rP t), rE := False\<rparr>)
          = (view x s t)\<lparr>wPC := rPC t + 1, wC := b\<rparr>"
        "fits x s db M ((advance 1 t)\<lparr>rP := put_bits b 0x01 (rP t), rE := False\<rparr>)"
        using assms(2) by simp_all
    qed
    note f = this fits_native(5,6) [OF this(2)]
    from 6 assms(3) have "f = Set 0x01 \<or> f = Clear 0x01" by simp
    then show ?thesis using 6 n(1) f by (auto simp: model_def page1_def)
  qed
qed

text \<open>Pushes, pulls and transfers of control.\<close>

lemma advance_back: "view x s (advance n t) = (view x s t)\<lparr>wPC := rPC t + n\<rparr>" "slot s (view x s (advance n t)) = slot s (view x s t)"
  "rS (advance n t) = rS t" "rPC (advance n t) = rPC t + n"
  by (simp_all add: slot_def advance_def)

lemma control_sim:
  assumes "layout_ok x s" and "fits x s db M t" and "known x s i v (view x s t)" and "behind v (isize i) t"
    and "(\<exists>r. i = Push r \<or> i = Pull r) \<or> (\<exists>m b. i = Branch m b) \<or> i = Jsr \<or> i = Rts"
  shows "view x s (exec i t) = exec16 x s i v ((view x s t)\<lparr>wPC := rPC t + of_nat (isize i)\<rparr>) \<and> fits x s db M (exec i t)"
proof -
  note n = fits_native [OF assms(2)]
  have fa: "fits x s db M (advance 1 t)" using assms(2) by simp
  note na = fits_native [OF fa]
  from assms(5) consider r where "i = Push r" | r where "i = Pull r" | m b where "i = Branch m b" | "i = Jsr" | "i = Rts" by blast
  then show ?thesis
  proof cases
    case 1
    with assms(3) have r: "r = RX \<or> r = RY" and sl: "slot s (view x s (advance 1 t)) \<in> set cells"
      by (auto simp del: view_update simp: advance_back)
    from push_sim [OF assms(1) fa sl] 1 r na show ?thesis by (auto simp: Let_def)
  next
    case 2
    with assms(3) have r: "r = RX \<or> r = RY" and sl: "slot s ((view x s (advance 1 t))\<lparr>wS := rS (advance 1 t) + 2\<rparr>) \<in> set cells"
      by (auto simp: advance_def slot_def)
    from pull_sim [OF fa sl] have p: "fst (pull16 (advance 1 t)) = fst (pull_word s (view x s t))"
      "view x s (snd (pull16 (advance 1 t))) = (snd (pull_word s (view x s t)))\<lparr>wPC := rPC t + 1\<rparr>"
      "fits x s db M (snd (pull16 (advance 1 t)))"
      by simp_all
    from 2 r na show ?thesis by (auto simp: Let_def split_beta index_sim [OF p(3)] p nz_def)
  next
    case 3
    with assms(3,4) have v: "code 1 t = ucast v" "m \<in> {0x80, 0x40, 0x02, 0x01, 0}" by (auto simp: behind_def)
    have "(rP t AND m \<noteq> 0) = flag16 m (view x s t)"
      using v(2) by (auto simp: flag16_def and_bit_eq_0)
    with 3 assms(2) v(1) show ?thesis by (simp add: add.assoc)
  next
    case 4
    with assms(3,4) have "slot s (view x s t) \<in> set cells" "code16 t = v" by (auto simp: behind_def)
    with push_sim [OF assms(1,2) this(1)] 4 show ?thesis by (simp add: push_word_def add.commute [of "rPC t" 2])
  next
    case 5
    with assms(3) have "slot s ((view x s t)\<lparr>wS := rS t + 2\<rparr>) \<in> set cells" by simp
    from pull_sim [OF assms(2) this] 5 show ?thesis by (simp add: split_beta)
  qed
qed

lemma step_sim:
  assumes "layout_ok x s" and "loaded 1 ps M" and "fits x s db M t" and "ok16 x s ps (view x s t)"
  shows "view x s (isa_step t) = step16 x s ps (view x s t)" "fits x s db M (isa_step t)" "specified t"
proof -
  from assms(4) obtain i v where l: "map_of ps (rPC t) = Some (i, v)" and k: "known x s i v (view x s t)"
    by (auto simp: ok16_def split: option.splits)
  have c: "current t = i" using fits_line(1) [OF assms(3,2) l] .
  have b: "behind v (isize i) t" using line_behind [OF assms(3,2) l] .
  note facts = assms(1,3) k b
  have "view x s (exec i t) = exec16 x s i v ((view x s t)\<lparr>wPC := rPC t + of_nat (isize i)\<rparr>) \<and> fits x s db M (exec i t)"
  proof (cases "\<exists>j m. i = Rmw j m")
    case True
    with facts rmw_sim show ?thesis by blast
  next
    case False
    with k have "(\<exists>j m. i = Acc j m) \<or> (\<exists>m. i = Sta m \<or> i = Stz m) \<or> (\<exists>r m. i = Ldx r m) \<or> (\<exists>r up. i = Count r up)
        \<or> (\<exists>f. i = Flag f) \<or> (\<exists>r. i = Push r \<or> i = Pull r) \<or> (\<exists>m b. i = Branch m b) \<or> i = Jsr \<or> i = Rts"
      by (cases i) simp_all
    with data_sim [OF facts] control_sim [OF facts] show ?thesis by blast
  qed
  with l c show "view x s (isa_step t) = step16 x s ps (view x s t)" "fits x s db M (isa_step t)"
    by (simp_all add: isa_step_def step16_def)
  show "specified t" using k fits_native(7) [OF assms(3)]
    by (cases i) (simp_all add: specified_def settled_def c)
qed

section \<open>Runs\<close>

inductive runs :: "u16 \<Rightarrow> u16 \<Rightarrow> (u16 \<times> line) list \<Rightarrow> nat \<Rightarrow> w16 \<Rightarrow> w16 \<Rightarrow> bool" for x s ps where
  runs_0: "runs x s ps 0 w w"
| runs_Suc: "ok16 x s ps w \<Longrightarrow> runs x s ps n (step16 x s ps w) w' \<Longrightarrow> runs x s ps (Suc n) w w'"

inductive_simps runs_0_iff [simp]: "runs x s ps 0 w w'"
inductive_simps runs_Suc_iff: "runs x s ps (Suc n) w w'"

lemma runs_numeral [simp]:
  "runs x s ps (numeral k) w w' \<longleftrightarrow> ok16 x s ps w \<and> runs x s ps (pred_numeral k) (step16 x s ps w) w'"
  "runs x s ps (Suc 0) w w' \<longleftrightarrow> ok16 x s ps w \<and> w' = step16 x s ps w"
  by (auto simp: numeral_eq_Suc runs_Suc_iff)

lemma runs_trans: "runs x s ps m w w1 \<Longrightarrow> runs x s ps n w1 w2 \<Longrightarrow> runs x s ps (m + n) w w2"
  by (induction rule: runs.induct) (simp_all add: runs.runs_Suc)

lemma runs_steps:
  assumes "runs x s ps n w w'"
  shows "w' = (step16 x s ps ^^ n) w" "k < n \<Longrightarrow> ok16 x s ps ((step16 x s ps ^^ k) w)"
  using assms
proof (induction arbitrary: k)
  case (runs_Suc w n w')
  { case 1 with runs_Suc.IH(1) show ?case by (simp add: funpow_swap1) }
  { case 2 with runs_Suc show ?case by (cases k) (simp_all add: funpow_swap1) }
qed simp_all

text \<open>The core runs the machine of words.\<close>

definition hosts :: "u16 \<Rightarrow> u16 \<Rightarrow> (u16 \<times> line) list \<Rightarrow> u8 \<Rightarrow> (u20 \<Rightarrow> u8) \<Rightarrow> cpu \<Rightarrow> bool" where
  "hosts x s ps db M c \<longleftrightarrow> layout_ok x s \<and> loaded 1 ps M \<and> wf_cpu c \<and> fits x s db M (abs_cpu c)"

interpretation basic: guarded_simulation CPU65816ExecuteOneInstruction "step16 x s ps" "\<lambda>c. view x s (abs_cpu c)"
    "hosts x s ps db M" "ok16 x s ps" for x s ps db M
proof
  fix c assume c: "hosts x s ps db M c" and ok: "ok16 x s ps (view x s (abs_cpu c))"
  then have h: "layout_ok x s" "loaded 1 ps M" "wf_cpu c" "fits x s db M (abs_cpu c)" by (simp_all add: hosts_def)
  note sim = step_sim [OF h(1,2,4) ok]
  have "abs_cpu (CPU65816ExecuteOneInstruction c) = isa_step (abs_cpu c)" using h(3) sim(3) by (rule execute_abs)
  moreover have "wf_cpu (CPU65816ExecuteOneInstruction c)" using h(3) by (rule core.step_inv)
  ultimately show "view x s (abs_cpu (CPU65816ExecuteOneInstruction c)) = step16 x s ps (view x s (abs_cpu c))"
    "hosts x s ps db M (CPU65816ExecuteOneInstruction c)"
    using h sim by (simp_all add: hosts_def)
qed

lemma core_runs:
  assumes "hosts x s ps db M c" and "runs x s ps n (view x s (abs_cpu c)) w"
  shows "view x s (abs_cpu (run n c)) = w" "hosts x s ps db M (run n c)"
  using basic.guarded_steps [OF assms(1), of n] runs_steps [OF assms(2)] by (simp_all add: run_def)

end
