(* ===== verification/Basic_Code.thy ===== *)
theory Basic_Code
  imports Assembly
begin

text \<open>
  The binary operators of the BASIC interpreter on integers, as the assembler lists them
  (\<open>src/source/binary/\<close>, assembled into bank 1): the code of \<open>+ - * / % & | ^ << >>\<close> and of the
  six comparisons, with the type checks in front. Not listed are the string branches of \<open>+\<close> and
  of the comparisons, which use 8 bit and indirect instructions, and the error handler.

  An operand of the expression stack is a 32 bit integer in two words and a word of type and
  precedence, whose bit 15 is set for a string. The offsets are those of \<open>data.asm\<close>: from X,
  \<open>EXSValueL\<close> 0, \<open>EXSValueH\<close> 2, \<open>EXSPrecType\<close> 4, and the right operand 6 higher (\<open>EXSNext\<close>); in the
  direct page, \<open>DSignCount\<close> 16, \<open>DTemp1\<close> 40 and 42, \<open>DTemp2\<close> 44 (hexadecimal). A branch has its
  displacement as the operand; \<open>bra\<close> is \<open>Branch 0 False\<close>, and the masks 80, 40, 02 and 01 are
  the flags N, V, Z and C.
\<close>

section \<open>Type checks\<close>

text \<open>Each ends in the call of the error handler at 0583, if the types do not fit.\<close>

definition CheckBothNumeric :: "line list" where
  "CheckBothNumeric =
    [(Acc Lda DirectX, 0x04), (Acc Ora DirectX, 0x0A), (Branch 0x80 True, 0x01), (Rts, 0),
     (Jsr, 0x0583)]"

definition CompareTypeCheck :: "line list" where
  "CompareTypeCheck =
    [(Acc Lda DirectX, 0x04), (Acc Eor DirectX, 0x0A), (Branch 0x80 True, 0x06),
     (Acc Lda DirectX, 0x04), (Branch 0x80 True, 0x1C), (Flag (Clear 0x01), 0), (Rts, 0),
     (Jsr, 0x0583)]"

section \<open>Arithmetic and logic\<close>

text \<open>The addition, of integers; the branch for strings leaves the listing.\<close>

definition Binary_Add :: "line list" where
  "Binary_Add =
    [(Acc Lda DirectX, 0x04), (Acc Eor DirectX, 0x0A), (Branch 0x80 True, 0x12),
     (Acc Lda DirectX, 0x04), (Branch 0x80 True, 0x3F), (Flag (Clear 0x01), 0),
     (Acc Lda DirectX, 0), (Acc Adc DirectX, 0x06), (Sta DirectX, 0), (Acc Lda DirectX, 0x02),
     (Acc Adc DirectX, 0x08), (Sta DirectX, 0x02), (Rts, 0), (Jsr, 0x0583)]"

definition Binary_Subtract :: "line list" where
  "Binary_Subtract =
    [(Jsr, 0x060C), (Flag (Set 0x01), 0), (Acc Lda DirectX, 0), (Acc Sbc DirectX, 0x06),
     (Sta DirectX, 0), (Acc Lda DirectX, 0x02), (Acc Sbc DirectX, 0x08), (Sta DirectX, 0x02),
     (Rts, 0)]"

definition Binary_ShiftRight :: "line list" where
  "Binary_ShiftRight =
    [(Jsr, 0x060C), (Acc Lda DirectX, 0x06), (Acc And Immediate, 0x3F),
     (Branch 0x02 True, 0x07), (Rmw Lsr DirectX, 0x02), (Rmw Ror DirectX, 0),
     (Rmw Dec Accumulator, 0), (Branch 0x02 False, 0xF9), (Rts, 0)]"

definition Binary_ShiftLeft :: "line list" where
  "Binary_ShiftLeft =
    [(Jsr, 0x060C), (Acc Lda DirectX, 0x06), (Acc And Immediate, 0x3F),
     (Branch 0x02 True, 0x07), (Rmw Asl DirectX, 0), (Rmw Rol DirectX, 0x02),
     (Rmw Dec Accumulator, 0), (Branch 0x02 False, 0xF9), (Rts, 0)]"

definition Binary_And :: "line list" where
  "Binary_And =
    [(Jsr, 0x060C), (Acc Lda DirectX, 0), (Acc And DirectX, 0x06), (Sta DirectX, 0),
     (Acc Lda DirectX, 0x02), (Acc And DirectX, 0x08), (Sta DirectX, 0x02), (Rts, 0)]"

definition Binary_Or :: "line list" where
  "Binary_Or =
    [(Jsr, 0x060C), (Acc Lda DirectX, 0), (Acc Ora DirectX, 0x06), (Sta DirectX, 0),
     (Acc Lda DirectX, 0x02), (Acc Ora DirectX, 0x08), (Sta DirectX, 0x02), (Rts, 0)]"

definition Binary_Xor :: "line list" where
  "Binary_Xor =
    [(Jsr, 0x060C), (Acc Lda DirectX, 0), (Acc Eor DirectX, 0x06), (Sta DirectX, 0),
     (Acc Lda DirectX, 0x02), (Acc Eor DirectX, 0x08), (Sta DirectX, 0x02), (Rts, 0)]"

section \<open>Comparisons\<close>

definition Binary_Equals :: "line list" where
  "Binary_Equals =
    [(Jsr, 0x0BE9), (Branch 0x01 True, 0x0E), (Acc Lda DirectX, 0), (Acc Cmp DirectX, 0x06),
     (Branch 0x02 False, 0x4F), (Acc Lda DirectX, 0x02), (Acc Cmp DirectX, 0x08),
     (Branch 0x02 False, 0x49), (Branch 0 False, 0x3F), (Acc Ora Immediate, 0),
     (Branch 0x02 True, 0x3A), (Branch 0 False, 0x40)]"

definition Binary_NotEquals :: "line list" where
  "Binary_NotEquals =
    [(Jsr, 0x0BE9), (Branch 0x01 True, 0x0E), (Acc Lda DirectX, 0), (Acc Cmp DirectX, 0x06),
     (Branch 0x02 False, 0x2D), (Acc Lda DirectX, 0x02), (Acc Cmp DirectX, 0x08),
     (Branch 0x02 False, 0x27), (Branch 0 False, 0x2D), (Acc Ora Immediate, 0),
     (Branch 0x02 False, 0x20), (Branch 0 False, 0x26)]"

definition Binary_Less :: "line list" where
  "Binary_Less =
    [(Jsr, 0x0BE9), (Branch 0x01 True, 0x12), (Flag (Set 0x01), 0), (Acc Lda DirectX, 0),
     (Acc Sbc DirectX, 0x06), (Acc Lda DirectX, 0x02), (Acc Sbc DirectX, 0x08),
     (Branch 0x40 False, 0x03), (Acc Eor Immediate, 0x8000), (Branch 0x80 True, 0x09),
     (Branch 0 False, 0x0F), (Acc Cmp Immediate, 0xFFFF), (Branch 0x02 True, 0x02),
     (Branch 0 False, 0x08)]"

definition Compare_Succeed :: "line list" where
  "Compare_Succeed =
    [(Acc Lda Immediate, 0xFFFF), (Sta DirectX, 0), (Sta DirectX, 0x02), (Rts, 0)]"

definition Compare_Fail :: "line list" where
  "Compare_Fail =
    [(Stz DirectX, 0), (Stz DirectX, 0x02), (Rts, 0)]"

definition Binary_GreaterEqual :: "line list" where
  "Binary_GreaterEqual =
    [(Jsr, 0x0BE9), (Branch 0x01 True, 0x12), (Flag (Set 0x01), 0), (Acc Lda DirectX, 0),
     (Acc Sbc DirectX, 0x06), (Acc Lda DirectX, 0x02), (Acc Sbc DirectX, 0x08),
     (Branch 0x40 False, 0x03), (Acc Eor Immediate, 0x8000), (Branch 0x80 False, 0xDE),
     (Branch 0 False, 0xE4), (Acc Ora Immediate, 0), (Branch 0x80 False, 0xD7),
     (Branch 0 False, 0xDD)]"

definition Binary_LessEqual :: "line list" where
  "Binary_LessEqual =
    [(Jsr, 0x0BE9), (Branch 0x01 True, 0x12), (Flag (Clear 0x01), 0), (Acc Lda DirectX, 0),
     (Acc Sbc DirectX, 0x06), (Acc Lda DirectX, 0x02), (Acc Sbc DirectX, 0x08),
     (Branch 0x40 False, 0x03), (Acc Eor Immediate, 0x8000), (Branch 0x80 True, 0xC0),
     (Branch 0 False, 0xC6), (Acc Cmp Immediate, 0x01), (Branch 0x02 False, 0xB9),
     (Branch 0 False, 0xBF)]"

definition Binary_Greater :: "line list" where
  "Binary_Greater =
    [(Jsr, 0x0BE9), (Branch 0x01 True, 0x12), (Flag (Clear 0x01), 0), (Acc Lda DirectX, 0),
     (Acc Sbc DirectX, 0x06), (Acc Lda DirectX, 0x02), (Acc Sbc DirectX, 0x08),
     (Branch 0x40 False, 0x03), (Acc Eor Immediate, 0x8000), (Branch 0x80 False, 0xA2),
     (Branch 0 False, 0xA8), (Acc Cmp Immediate, 0x01), (Branch 0x02 True, 0x9B),
     (Branch 0 False, 0xA1)]"

section \<open>Division and multiplication\<close>

text \<open>The division in two parts, in front of and behind the text of its error message.\<close>

definition Binary_Divide :: "line list" where
  "Binary_Divide =
    [(Jsr, 0x060C), (Acc Lda DirectX, 0x06), (Acc Ora DirectX, 0x08), (Branch 0x02 False, 0x14),
     (Jsr, 0x0583)]"

definition Binary_Divide_Ok :: "line list" where
  "Binary_Divide_Ok =
    [(Stz Direct, 0x40), (Stz Direct, 0x42), (Stz Direct, 0x16), (Push RY, 0),
     (Acc Lda DirectX, 0x08), (Branch 0x80 False, 0x0B), (Push RX, 0), (Count IX True, 0),
     (Count IX True, 0), (Count IX True, 0), (Count IX True, 0), (Count IX True, 0),
     (Count IX True, 0), (Jsr, 0x0CBD), (Pull RX, 0), (Acc Lda DirectX, 0x02),
     (Branch 0x80 False, 0x03), (Jsr, 0x0CBD), (Ldx IY Immediate, 0x20), (Rmw Asl DirectX, 0),
     (Rmw Rol DirectX, 0x02), (Rmw Rol Direct, 0x40), (Rmw Rol Direct, 0x42),
     (Flag (Set 0x01), 0), (Acc Lda Direct, 0x40), (Acc Sbc DirectX, 0x06), (Sta Direct, 0x44),
     (Acc Lda Direct, 0x42), (Acc Sbc DirectX, 0x08), (Branch 0x01 False, 0x08),
     (Sta Direct, 0x42), (Acc Lda Direct, 0x44), (Sta Direct, 0x40), (Rmw Inc DirectX, 0),
     (Count IY False, 0), (Branch 0x02 False, 0xE0), (Acc Lda Direct, 0x16),
     (Acc And Immediate, 0x01), (Branch 0x02 True, 0x03), (Jsr, 0x0CBD), (Pull RY, 0), (Rts, 0)]"

definition Binary_DivNegate :: "line list" where
  "Binary_DivNegate =
    [(Rmw Inc Direct, 0x16), (Flag (Set 0x01), 0), (Acc Lda Immediate, 0), (Acc Sbc DirectX, 0),
     (Sta DirectX, 0), (Acc Lda Immediate, 0), (Acc Sbc DirectX, 0x02), (Sta DirectX, 0x02),
     (Rts, 0)]"

definition Binary_Modulus :: "line list" where
  "Binary_Modulus =
    [(Jsr, 0x0C54), (Acc Lda Direct, 0x40), (Sta DirectX, 0), (Acc Lda Direct, 0x42),
     (Sta DirectX, 0x02), (Rts, 0)]"

definition Binary_Multiply :: "line list" where
  "Binary_Multiply =
    [(Jsr, 0x060C), (Acc Lda DirectX, 0), (Sta Direct, 0x40), (Acc Lda DirectX, 0x02),
     (Sta Direct, 0x42), (Stz DirectX, 0), (Stz DirectX, 0x02), (Acc Lda Direct, 0x40),
     (Acc Ora Direct, 0x42), (Branch 0x02 True, 0x1E), (Acc Lda Direct, 0x40),
     (Acc And Immediate, 0x01), (Branch 0x02 True, 0x0D), (Flag (Clear 0x01), 0),
     (Acc Lda DirectX, 0), (Acc Adc DirectX, 0x06), (Sta DirectX, 0), (Acc Lda DirectX, 0x02),
     (Acc Adc DirectX, 0x08), (Sta DirectX, 0x02), (Rmw Lsr Direct, 0x42),
     (Rmw Ror Direct, 0x40), (Rmw Asl DirectX, 0x06), (Rmw Rol DirectX, 0x08),
     (Branch 0 False, 0xDC), (Rts, 0)]"

section \<open>The code in bank 1\<close>

definition operators :: "(u16 \<times> line) list" where
  "operators =
     placed 0x060C CheckBothNumeric @
     placed 0x0A4A Binary_Add @
     placed 0x0ACB Binary_Subtract @
     placed 0x0ADC Binary_ShiftRight @
     placed 0x0AEE Binary_ShiftLeft @
     placed 0x0B00 Binary_And @
     placed 0x0B10 Binary_Or @
     placed 0x0B20 Binary_Xor @
     placed 0x0B30 Binary_Equals @
     placed 0x0B4A Binary_NotEquals @
     placed 0x0B64 Binary_Less @
     placed 0x0B82 Compare_Succeed @
     placed 0x0B8A Compare_Fail @
     placed 0x0B8F Binary_GreaterEqual @
     placed 0x0BAD Binary_LessEqual @
     placed 0x0BCB Binary_Greater @
     placed 0x0BE9 CompareTypeCheck @
     placed 0x0C54 Binary_Divide @
     placed 0x0C71 Binary_Divide_Ok @
     placed 0x0CBD Binary_DivNegate @
     placed 0x0CCF Binary_Modulus @
     placed 0x0CDB Binary_Multiply"

lemmas listings = CheckBothNumeric_def Binary_Add_def Binary_Subtract_def Binary_ShiftRight_def Binary_ShiftLeft_def
  Binary_And_def Binary_Or_def Binary_Xor_def Binary_Equals_def Binary_NotEquals_def Binary_Less_def Compare_Succeed_def
  Compare_Fail_def Binary_GreaterEqual_def Binary_LessEqual_def Binary_Greater_def CompareTypeCheck_def Binary_Divide_def
  Binary_Divide_Ok_def Binary_DivNegate_def Binary_Modulus_def Binary_Multiply_def

lemma len_values [simp]: "len Immediate False = 3" "len Accumulator b = 1" "len Direct b = 2" "len DirectX b = 2"
  by (simp_all add: len_def)

lemmas operator_lines = operators_def [unfolded listings, simplified]

lemma operators_sorted: "sorted_wrt (<) (map fst operators)"
  by (simp add: operator_lines sorted_wrt1 sorted_wrt2 [OF transp_on_less] del: sorted_wrt.simps(2))

lemma operators_lookup: "list_all (\<lambda>(a, l). map_of operators a = Some l) operators"
proof -
  have "distinct (map fst operators)" using operators_sorted by (simp add: strict_sorted_iff)
  then show ?thesis by (auto simp: list_all_iff)
qed

lemmas operator_at [simp] = operators_lookup [unfolded operator_lines, simplified list.pred_inject prod.case,
  folded operator_lines]

end
