(* ===== verification/Basic_Operators.thy ===== *)
theory Basic_Operators
  imports Basic_Code
begin

text \<open>
  The operators of the BASIC interpreter compute what their symbols say: the machine of words
  runs their code, and the core runs the machine of words.
\<close>

section \<open>Integers of two words\<close>

definition long :: "u16 \<Rightarrow> u16 \<Rightarrow> u32" where
  "long lo hi = ucast lo + push_bit 16 (ucast hi)"

lemma unat_long: "unat (long lo hi) = unat lo + 65536 * unat hi"
  using u16_bound [of lo] u16_bound [of hi] by (simp add: long_def unat_word_ariths push_bit_eq_mult)

lemma long_eqI: "unat a + 65536 * unat b = unat v \<Longrightarrow> long a b = v"
  by (simp add: word_unat_eq_iff unat_long)

lemma long_of_nat: "long lo (of_nat n) = of_nat (unat lo + 65536 * n)"
proof -
  have "(unat lo + 65536 * n) mod (65536 * 65536) = 65536 * (n mod 65536) + unat lo"
    using u16_bound [of lo] by (subst mod_mult2_eq) simp
  then show ?thesis by (simp add: word_unat_eq_iff unat_long unsigned_of_nat take_bit_eq_mod del: of_nat_add of_nat_mult)
qed

lemma long_nats: "long a b = of_nat (unat a + 65536 * unat b)"
  using long_of_nat [of a "unat b"] by simp

lemma long_add: "long (a + c) (b + d + of_bool (65536 \<le> unat a + unat c)) = long a b + long c d"
proof -
  let ?k = "of_bool (65536 \<le> unat a + unat c) :: nat"
  have "unat (a + c) + 65536 * ?k = unat a + unat c"
    using u16_bound [of a] u16_bound [of c] by (simp add: unat_plus_if' of_bool_def)
  then have "unat (a + c) + 65536 * (unat b + unat d + ?k) = (unat a + 65536 * unat b) + (unat c + 65536 * unat d)"
    by simp
  moreover have "b + d + of_bool (65536 \<le> unat a + unat c) = of_nat (unat b + unat d + ?k)" by simp
  ultimately show ?thesis by (simp only: long_of_nat long_nats [of a] long_nats [of c] of_nat_add [symmetric])
qed

lemma long_sub: "long (a - c) (b - d - of_bool (\<not> unat c \<le> unat a)) = long a b - long c d"
proof -
  have "65536 \<le> unat (a - c) + unat c \<longleftrightarrow> \<not> unat c \<le> unat a"
    using u16_bound [of a] u16_bound [of c] by (simp add: unat_sub_if_size word_size word_le_nat_alt)
  then show ?thesis using long_add [of "a - c" c "b - d - of_bool (\<not> unat c \<le> unat a)" d] by simp
qed

lemma bit_unat16: "bit (w :: u16) n \<longleftrightarrow> odd (unat w div 2 ^ n)"
  using bit_unsigned_iff [of w n, where ?'a = nat] bit_imp_le_length [of w n] by (auto simp: bit_iff_odd)

lemma long_half: "long (drop_bit 1 lo + (if odd hi then 0x8000 else 0)) (drop_bit 1 hi) = drop_bit 1 (long lo hi)"
proof (rule long_eqI)
  have b: "unat lo div 2 < 32768" using u16_bound [of lo] by simp
  have o: "odd hi \<longleftrightarrow> odd (unat hi)" using bit_unat16 [of hi 0] by (simp add: bit_0)
  have d: "unat (drop_bit 1 w) = unat w div 2" "unat (drop_bit 1 v) = unat v div 2" for w :: u16 and v :: u32
    by (simp_all add: drop_bit_eq_div unat_div)
  have "unat (drop_bit 1 lo + (if odd hi then 0x8000 else 0)) = unat lo div 2 + 32768 * (unat hi mod 2)"
    using b unfolding o unat_plus_if' d by (auto simp: mod2_eq_if)
  moreover have "(unat lo + 65536 * unat hi) div 2 = unat lo div 2 + 32768 * unat hi"
    using div_mult_self2 [of 2 "unat lo" "32768 * unat hi"] by simp
  ultimately show "unat (drop_bit 1 lo + (if odd hi then 0x8000 else 0)) + 65536 * unat (drop_bit 1 hi) = unat (drop_bit 1 (long lo hi))"
    unfolding d unat_long using div_mult_mod_eq [of "unat hi" 2] by (simp only:)
qed

lemma long_double: "long (push_bit 1 lo) (push_bit 1 hi + of_bool (bit lo 15)) = push_bit 1 (long lo hi)"
proof -
  have "bit lo 15 \<longleftrightarrow> 65536 \<le> unat lo + unat lo"
    using u16_bound [of lo] odd_div_msb(2) [of "unat lo"] by (simp add: bit_unat16) linarith
  then show ?thesis using long_add [of lo lo hi hi] by (simp add: push_bit_eq_mult mult_2_right)
qed

text \<open>The two shifts as the machine leaves them.\<close>

lemma long_shifts:
  "odd hi \<Longrightarrow> long (drop_bit (Suc 0) lo + 0x8000) (drop_bit (Suc 0) hi) = drop_bit (Suc 0) (long lo hi)"
  "even hi \<Longrightarrow> long (drop_bit (Suc 0) lo) (drop_bit (Suc 0) hi) = drop_bit (Suc 0) (long lo hi)"
  "bit lo 15 \<Longrightarrow> long (lo * 2) (hi * 2 + 1) = long lo hi * 2"
  "\<not> bit lo 15 \<Longrightarrow> long (lo * 2) (hi * 2) = long lo hi * 2"
  using long_half [of lo hi] long_double [of lo hi] by simp_all

lemma bit_long: "bit (long lo hi) n \<longleftrightarrow> (if n < 16 then bit lo n else bit hi (n - 16))"
proof -
  have "long lo hi = ucast lo OR push_bit 16 (ucast hi)" unfolding long_def
    by (rule disjunctive_add) (auto simp: bit_simps dest: bit_imp_le_length)
  then show ?thesis by (auto simp: bit_simps dest: bit_imp_le_length)
qed

lemma long_bits:
  "long (a AND c) (b AND d) = long a b AND long c d" "long (a OR c) (b OR d) = long a b OR long c d"
  "long (a XOR c) (b XOR d) = long a b XOR long c d"
  by (rule bit_eqI; simp add: bit_long bit_simps)+

lemma long_zero: "long lo hi = 0 \<longleftrightarrow> lo OR hi = 0"
proof -
  have "lo OR hi = 0 \<longleftrightarrow> lo = 0 \<and> hi = 0" by (metis or_eq_0_iff)
  then show ?thesis by (simp add: word_unat_eq_iff unat_long)
qed

lemma odd_long: "odd (long lo hi) \<longleftrightarrow> odd lo"
  using bit_long [of lo hi 0] by (simp add: bit_0)

lemma long_le: "long c d \<le> long a b \<longleftrightarrow> unat d + of_bool (\<not> unat c \<le> unat a) \<le> unat b"
  using u16_bound [of a] u16_bound [of c] by (simp add: word_le_nat_alt unat_long of_bool_def) arith

section \<open>Symbolic execution\<close>

text \<open>One instruction of the listings: look it up, check it, execute it.\<close>

lemmas steps = ok16_def step16_def cell_operand_def cells_def slot_def store16_def push_word_def pull_word_def
  nz_def flag16_def shifted_out_def Let_def

section \<open>Calls\<close>

text \<open>What a routine keeps: the registers X, Y and S, and the words on the stack.\<close>

definition kept :: "w16 \<Rightarrow> w16 \<Rightarrow> bool" where
  "kept w w' \<longleftrightarrow> wX w' = wX w \<and> wY w' = wY w \<and> wS w' = wS w \<and> (\<forall>a. wM w' (Slot a) = wM w (Slot a))"

lemma kept_trans: "kept w1 w2 \<Longrightarrow> kept w2 w3 \<Longrightarrow> kept w1 w3"
  by (simp add: kept_def)

abbreviation "value_at w a \<equiv> long (wM w (Val a)) (wM w (Val (a + 2)))"
abbreviation "DTemp1 w \<equiv> long (wM w (Var 0x40)) (wM w (Var 0x42))"

text \<open>A routine has been called at \<open>a\<close> when its caller's address is the word on the stack; it is
  finished behind the call, with the stack pointer and the index registers as before it.\<close>

definition entered :: "u16 \<Rightarrow> u16 \<Rightarrow> u16 \<Rightarrow> w16 \<Rightarrow> bool" where
  "entered x s a w \<longleftrightarrow> wPC w = a \<and> wX w = x \<and> wS w = s - 2"

definition finished :: "u16 \<Rightarrow> u16 \<Rightarrow> w16 \<Rightarrow> w16 \<Rightarrow> bool" where
  "finished x s w w' \<longleftrightarrow> wPC w' = wM w (Slot 1) + 1 \<and> wX w' = x \<and> wS w' = s \<and> wY w' = wY w"

definition numbers :: "w16 \<Rightarrow> bool" where
  "numbers w \<longleftrightarrow> \<not> bit (wM w (Val 4)) 15 \<and> \<not> bit (wM w (Val 10)) 15"

text \<open>The same of the core: the interpreter calls an operator in native mode with 16 bit registers
  and binary arithmetic, with the operands on the expression stack.\<close>

definition called :: "u16 \<Rightarrow> cpu \<Rightarrow> bool" where
  "called a c \<longleftrightarrow> (let t = abs_cpu c in wf_cpu c \<and> \<not> rE t \<and> rP t AND 0x38 = 0 \<and> rD t = DirectPage \<and> rPB t = 1
     \<and> rPC t = a \<and> layout_ok (rX t) (rS t + 2) \<and> loaded 1 operators (mem t))"

definition returned :: "cpu \<Rightarrow> cpu \<Rightarrow> bool" where
  "returned c c' \<longleftrightarrow> (let t = abs_cpu c; u = abs_cpu c' in \<not> rE u \<and> rP u AND 0x38 = 0 \<and> rD u = rD t \<and> rPB u = rPB t
     \<and> rDB u = rDB t \<and> rX u = rX t \<and> rY u = rY t \<and> rS u = rS t + 2 \<and> rPC u = word0 (rS t + 1) t + 1
     \<and> (\<forall>a. a \<notin> set (cell_bytes (rX t) (rS t + 2)) \<longrightarrow> mem u a = mem t a))"

definition exs :: "u16 \<Rightarrow> cpu \<Rightarrow> u16" where
  "exs a c = word0 (DirectPage + (rX (abs_cpu c) + a)) (abs_cpu c)"

definition left_value :: "cpu \<Rightarrow> u32" where
  "left_value c = long (exs 0 c) (exs 2 c)"

definition right_value :: "cpu \<Rightarrow> u32" where
  "right_value c = long (exs 6 c) (exs 8 c)"

definition integers :: "cpu \<Rightarrow> bool" where
  "integers c \<longleftrightarrow> \<not> bit (exs 4 c) 15 \<and> \<not> bit (exs 10 c) 15"

text \<open>An operator that computes \<open>f\<close> in at most \<open>k\<close> instructions, on operands with \<open>p\<close>, for the
  machine of words and for the core.\<close>

definition computes_if :: "u16 \<Rightarrow> nat \<Rightarrow> (u32 \<Rightarrow> u32 \<Rightarrow> bool) \<Rightarrow> (u32 \<Rightarrow> u32 \<Rightarrow> u32) \<Rightarrow> bool" where
  "computes_if a k p f \<longleftrightarrow> (\<forall>x s w. entered x s a w \<longrightarrow> numbers w \<longrightarrow> p (value_at w 0) (value_at w 6) \<longrightarrow>
     (\<exists>n w'. n \<le> k \<and> runs x s operators n w w' \<and> finished x s w w' \<and> value_at w' 0 = f (value_at w 0) (value_at w 6)))"

abbreviation "computes a k f \<equiv> computes_if a k (\<lambda>u v. True) f"

lemma called_view:
  assumes "called a c" and "x = rX (abs_cpu c)" and "s = rS (abs_cpu c) + 2" and "w = view x s (abs_cpu c)"
  shows "hosts x s operators (rDB (abs_cpu c)) (mem (abs_cpu c)) c" "entered x s a w" "wY w = rY (abs_cpu c)"
    "wM w (Slot 1) = word0 (rS (abs_cpu c) + 1) (abs_cpu c)"
    "value_at w 0 = left_value c" "value_at w 6 = right_value c" "numbers w \<longleftrightarrow> integers c"
  using assms(1) unfolding assms(4,2,3)
  by (simp_all add: called_def Let_def hosts_def fits_def entered_def view_def cells_def left_value_def right_value_def
      exs_def integers_def numbers_def add.commute)

lemma finished_returned:
  assumes "called a c" and "x = rX (abs_cpu c)" and "s = rS (abs_cpu c) + 2" and "w = view x s (abs_cpu c)"
    and "runs x s operators n w w'" and "finished x s w w'"
  shows "returned c (run n c)" "left_value (run n c) = value_at w' 0" "right_value (run n c) = value_at w' 6"
proof -
  note v = called_view [OF assms(1-4)]
  note r = core_runs [OF v(1), of n w', folded assms(4), OF assms(5)]
  have "fits x s (rDB (abs_cpu c)) (mem (abs_cpu c)) (abs_cpu (run n c))" using r(2) by (simp add: hosts_def)
  moreover have "wX w' = rX (abs_cpu (run n c))" "wY w' = rY (abs_cpu (run n c))" "wS w' = rS (abs_cpu (run n c))"
    "wPC w' = rPC (abs_cpu (run n c))"
    using r(1) by auto
  ultimately show "returned c (run n c)"
    using assms(1,6) v(3,4) unfolding assms(2,3) by (simp add: returned_def finished_def Let_def fits_def called_def)
  have "rX (abs_cpu (run n c)) = x" using assms(6) r(1) by (auto simp: finished_def)
  then show "left_value (run n c) = value_at w' 0" "right_value (run n c) = value_at w' 6"
    unfolding r(1) [symmetric] by (simp_all add: view_def cells_def left_value_def right_value_def exs_def)
qed

lemma computes_on_core:
  assumes "computes_if a k p f" and "called a c" and "integers c" and "p (left_value c) (right_value c)"
  shows "\<exists>n \<le> k. returned c (run n c) \<and> left_value (run n c) = f (left_value c) (right_value c)"
proof -
  define x s w where d: "x = rX (abs_cpu c)" "s = rS (abs_cpu c) + 2" "w = view x s (abs_cpu c)"
  note v = called_view [OF assms(2) d]
  obtain n w' where "n \<le> k" "runs x s operators n w w'" "finished x s w w'" "value_at w' 0 = f (value_at w 0) (value_at w 6)"
    using assms(1,3,4) v unfolding computes_if_def by metis
  with finished_returned [OF assms(2) d] v(5,6) show ?thesis by (intro exI [of _ n]) simp
qed

section \<open>Multiplication\<close>

lemma multiply_exit:
  assumes "wPC w = 0x0CEA" and "DTemp1 w = 0"
  shows "\<exists>w'. runs x s operators 3 w w' \<and> kept w w' \<and> wM w' = wM w \<and> wPC w' = 0x0D0E"
  using assms unfolding long_zero by (cases w) (simp add: steps kept_def)

lemma multiply_test:
  assumes "wPC w = 0x0CEA" and "DTemp1 w \<noteq> 0"
  shows "\<exists>w'. runs x s operators 6 w w' \<and> kept w w' \<and> wM w' = wM w \<and> wPC w' = (if odd (DTemp1 w) then 0x0CF7 else 0x0D04)"
  using assms unfolding odd_long long_zero
  by (cases w) (simp add: steps kept_def even_iff_mod_2_eq_zero and_one_eq)

lemma multiply_add:
  assumes "wPC w = 0x0CF7" and "wX w = x"
  shows "\<exists>w'. runs x s operators 7 w w' \<and> kept w w' \<and> wPC w' = 0x0D04 \<and> DTemp1 w' = DTemp1 w
    \<and> value_at w' 6 = value_at w 6 \<and> value_at w' 0 = value_at w 0 + value_at w 6"
  using assms by (cases w) (simp add: steps kept_def flip: long_add)

lemma multiply_shift:
  assumes "wPC w = 0x0D04" and "wX w = x"
  shows "\<exists>w'. runs x s operators 5 w w' \<and> kept w w' \<and> wPC w' = 0x0CEA \<and> DTemp1 w' = drop_bit 1 (DTemp1 w)
    \<and> value_at w' 6 = push_bit 1 (value_at w 6) \<and> value_at w' 0 = value_at w 0"
  using assms by (cases w) (simp add: steps kept_def long_shifts)

lemma multiply_pass:
  assumes "wPC w = 0x0CEA" and "DTemp1 w \<noteq> 0" and "wX w = x"
  shows "\<exists>n w'. n \<le> 18 \<and> runs x s operators n w w' \<and> kept w w' \<and> wPC w' = 0x0CEA \<and> DTemp1 w' = drop_bit 1 (DTemp1 w)
    \<and> value_at w' 6 = push_bit 1 (value_at w 6) \<and> value_at w' 0 = value_at w 0 + (if odd (DTemp1 w) then value_at w 6 else 0)"
proof -
  obtain w1 where w1: "runs x s operators 6 w w1" "kept w w1" "wM w1 = wM w" "wPC w1 = (if odd (DTemp1 w) then 0x0CF7 else 0x0D04)"
    using multiply_test [OF assms(1,2)] by blast
  obtain n w2 where w2: "n \<le> 7" "runs x s operators n w1 w2" "kept w1 w2" "wPC w2 = 0x0D04" "DTemp1 w2 = DTemp1 w1"
    "value_at w2 6 = value_at w1 6" "value_at w2 0 = value_at w1 0 + (if odd (DTemp1 w) then value_at w1 6 else 0)"
  proof (cases "odd (DTemp1 w)")
    case True
    with w1 assms(3) multiply_add [of w1 x s] that [of 7] show ?thesis by (auto simp: kept_def)
  next
    case False
    with w1 that [of 0 w1] show ?thesis by (simp add: kept_def)
  qed
  obtain w3 where w3: "runs x s operators 5 w2 w3" "kept w2 w3" "wPC w3 = 0x0CEA" "DTemp1 w3 = drop_bit 1 (DTemp1 w2)"
    "value_at w3 6 = push_bit 1 (value_at w2 6)" "value_at w3 0 = value_at w2 0"
    using multiply_shift [of w2 x s] w1(2) w2(3,4) assms(3) by (auto simp: kept_def)
  have "runs x s operators (6 + (n + 5)) w w3" using w1(1) w2(2) w3(1) by (blast intro: runs_trans)
  moreover have "kept w w3" using w1(2) w2(3) w3(2) by (blast intro: kept_trans)
  ultimately show ?thesis using w1(3) w2 w3 by (intro exI [of _ "6 + (n + 5)"] exI [of _ w3]) simp
qed

lemma multiply_loop:
  assumes "wPC w = 0x0CEA" and "wX w = x" and "unat (DTemp1 w) < 2 ^ j"
  shows "\<exists>n w'. n \<le> 18 * j + 3 \<and> runs x s operators n w w' \<and> kept w w' \<and> wPC w' = 0x0D0E
    \<and> value_at w' 0 = value_at w 0 + DTemp1 w * value_at w 6"
  using assms
proof (induction j arbitrary: w)
  case 0
  then have z: "DTemp1 w = 0" by (simp add: unat_eq_0)
  with multiply_exit [OF "0.prems"(1) z] show ?case by (intro exI [of _ 3]) auto
next
  case (Suc j)
  show ?case
  proof (cases "DTemp1 w = 0")
    case True
    with multiply_exit [OF Suc.prems(1) True] show ?thesis by (intro exI [of _ 3]) auto
  next
    case False
    obtain n w1 where w1: "n \<le> 18" "runs x s operators n w w1" "kept w w1" "wPC w1 = 0x0CEA"
      "DTemp1 w1 = drop_bit 1 (DTemp1 w)" "value_at w1 6 = push_bit 1 (value_at w 6)"
      "value_at w1 0 = value_at w 0 + (if odd (DTemp1 w) then value_at w 6 else 0)"
      using multiply_pass [OF Suc.prems(1) False Suc.prems(2)] by blast
    have "unat (DTemp1 w1) < 2 ^ j"
      using Suc.prems(3) unfolding w1(5) by (simp add: drop_bit_eq_div unat_div)
    then obtain k w2 where w2: "k \<le> 18 * j + 3" "runs x s operators k w1 w2" "kept w1 w2" "wPC w2 = 0x0D0E"
      "value_at w2 0 = value_at w1 0 + DTemp1 w1 * value_at w1 6"
      using Suc.IH [of w1] w1(3,4) Suc.prems(2) by (auto simp: kept_def)
    have "value_at w2 0 = value_at w 0 + DTemp1 w * value_at w 6"
    proof -
      have "2 * drop_bit 1 (DTemp1 w) + (if odd (DTemp1 w) then 1 else 0) = 2 * (DTemp1 w div 2) + DTemp1 w mod 2"
        by (simp add: drop_bit_eq_div mod_2_eq_odd)
      also have "\<dots> = DTemp1 w" by (rule mult_div_mod_eq)
      finally have h: "2 * drop_bit 1 (DTemp1 w) + (if odd (DTemp1 w) then 1 else 0) = DTemp1 w" .
      have "(2 * e + (if b then 1 else 0)) * v = e * (2 * v) + (if b then v else 0)" for e v :: u32 and b
        by (simp add: algebra_simps)
      from this [of "drop_bit 1 (DTemp1 w)" "odd (DTemp1 w)" "value_at w 6", unfolded h]
      have "DTemp1 w * value_at w 6 = drop_bit 1 (DTemp1 w) * (2 * value_at w 6) + (if odd (DTemp1 w) then value_at w 6 else 0)" .
      then show ?thesis unfolding w2(5) w1(5-7) by (simp add: push_bit_eq_mult algebra_simps)
    qed
    moreover have "runs x s operators (n + k) w w2" using w1(2) w2(2) by (rule runs_trans)
    ultimately show ?thesis
      using w1(1,3) w2(1,3,4) by (intro exI [of _ "n + k"] exI [of _ w2]) (auto intro: kept_trans)
  qed
qed


lemma enteredE:
  assumes "entered x s a w" and "numbers w"
  obtains ra y n v z c m where "w = \<lparr>wA = ra, wX = x, wY = y, wS = s - 2, wPC = a, wN = n, wV = v, wZ = z, wC = c, wM = m\<rparr>"
    "\<not> bit (m (Val 4)) 15" "\<not> bit (m (Val 10)) 15"
  using assms by (cases w) (auto simp: entered_def numbers_def)

text \<open>Routines that begin with the check of the types. The call of the check uses the next slot,
  the first or, in a routine that another has called, the second.\<close>

lemma check_numeric:
  assumes "map_of operators (wPC w) = Some (Jsr, 0x060C)" and "numbers w" and "wX w = x" and "wS w = s + 1 - d" and "d \<in> {3, 5}"
  shows "\<exists>w'. runs x s operators 5 w w' \<and> wPC w' = wPC w + 3 \<and> wX w' = x \<and> wY w' = wY w \<and> wS w' = wS w
    \<and> wM w' = (wM w)(Slot d := wPC w + 2)"
  using assms by (cases w) (auto simp: steps numbers_def bit_or_iff)

lemma after_check:
  assumes "entered x s a w" and "numbers w" and "map_of operators a = Some (Jsr, 0x060C)"
  obtains w1 where "runs x s operators 5 w w1" "wPC w1 = a + 3" "wX w1 = x" "wY w1 = wY w" "wS w1 = s - 2"
    "wM w1 (Slot 1) = wM w (Slot 1)" "\<And>b. wM w1 (Val b) = wM w (Val b)"
proof -
  have "\<exists>w'. runs x s operators 5 w w' \<and> wPC w' = wPC w + 3 \<and> wX w' = x \<and> wY w' = wY w \<and> wS w' = wS w
      \<and> wM w' = (wM w)(Slot 3 := wPC w + 2)"
    using assms by (intro check_numeric) (simp_all add: entered_def)
  with assms(1) that show thesis by (auto simp: entered_def simp del: runs_numeral)
qed

lemma rts_finishes:
  assumes "map_of operators (wPC w) = Some (Rts, 0)" and "wS w = s - 2" and "wX w = x"
  shows "\<exists>w'. runs x s operators 1 w w' \<and> wPC w' = wM w (Slot 1) + 1 \<and> wX w' = x \<and> wS w' = s \<and> wY w' = wY w \<and> wM w' = wM w"
  using assms by (cases w) (simp add: steps)

lemma straight:
  assumes "map_of operators a = Some (Jsr, 0x060C)" and "n + 5 \<le> k"
    and "\<And>x s w. wPC w = a + 3 \<Longrightarrow> wX w = x \<Longrightarrow> wS w = s - 2 \<Longrightarrow>
      \<exists>w'. runs x s operators n w w' \<and> finished x s w w' \<and> value_at w' 0 = f (value_at w 0) (value_at w 6)"
  shows "computes a k f"
  unfolding computes_if_def
proof (intro allI impI)
  fix x s w assume e: "entered x s a w" "numbers w"
  obtain w1 where w1: "runs x s operators 5 w w1" "wPC w1 = a + 3" "wX w1 = x" "wY w1 = wY w" "wS w1 = s - 2"
    "wM w1 (Slot 1) = wM w (Slot 1)" "\<And>b. wM w1 (Val b) = wM w (Val b)"
    using after_check [OF e assms(1)] by blast
  obtain w' where "runs x s operators n w1 w'" "finished x s w1 w'" "value_at w' 0 = f (value_at w1 0) (value_at w1 6)"
    using assms(3) [OF w1(2,3,5)] by blast
  with w1 assms(2) runs_trans [OF w1(1), of n w'] show "\<exists>n w'. n \<le> k \<and> runs x s operators n w w' \<and> finished x s w w'
      \<and> value_at w' 0 = f (value_at w 0) (value_at w 6)"
    by (intro exI [of _ "5 + n"] exI [of _ w']) (simp add: finished_def)
qed

section \<open>Addition, subtraction and logic\<close>

lemma add_computes: "computes 0x0A4A 13 (+)"
  unfolding computes_if_def
proof (intro allI impI)
  fix x s w assume "entered x s 0x0A4A w" "numbers w"
  then have "\<exists>w'. runs x s operators 13 w w' \<and> finished x s w w' \<and> value_at w' 0 = value_at w 0 + value_at w 6"
    by (rule enteredE) (simp add: steps finished_def bit_xor_iff flip: long_add)
  then show "\<exists>n w'. n \<le> 13 \<and> runs x s operators n w w' \<and> finished x s w w' \<and> value_at w' 0 = value_at w 0 + value_at w 6"
    by (intro exI [of _ 13]) simp
qed

lemma subtract_computes: "computes 0x0ACB 13 (-)"
proof (rule straight [where n = 8])
  fix x s and w :: w16 assume "wPC w = 0x0ACB + 3" "wX w = x" "wS w = s - 2"
  then show "\<exists>w'. runs x s operators 8 w w' \<and> finished x s w w' \<and> value_at w' 0 = value_at w 0 - value_at w 6"
    by (cases w) (simp add: steps finished_def flip: long_sub)
qed simp_all

lemma logic_computes: "computes 0x0B00 12 (AND)" "computes 0x0B10 12 (OR)" "computes 0x0B20 12 (XOR)"
proof -
  show "computes 0x0B00 12 (AND)"
  proof (rule straight [where n = 7])
    fix x s and w :: w16 assume "wPC w = 0x0B00 + 3" "wX w = x" "wS w = s - 2"
    then show "\<exists>w'. runs x s operators 7 w w' \<and> finished x s w w' \<and> value_at w' 0 = value_at w 0 AND value_at w 6"
      by (cases w) (simp add: steps finished_def long_bits)
  qed simp_all
  show "computes 0x0B10 12 (OR)"
  proof (rule straight [where n = 7])
    fix x s and w :: w16 assume "wPC w = 0x0B10 + 3" "wX w = x" "wS w = s - 2"
    then show "\<exists>w'. runs x s operators 7 w w' \<and> finished x s w w' \<and> value_at w' 0 = value_at w 0 OR value_at w 6"
      by (cases w) (simp add: steps finished_def long_bits)
  qed simp_all
  show "computes 0x0B20 12 (XOR)"
  proof (rule straight [where n = 7])
    fix x s and w :: w16 assume "wPC w = 0x0B20 + 3" "wX w = x" "wS w = s - 2"
    then show "\<exists>w'. runs x s operators 7 w w' \<and> finished x s w w' \<and> value_at w' 0 = value_at w 0 XOR value_at w 6"
      by (cases w) (simp add: steps finished_def long_bits)
  qed simp_all
qed

lemma multiply_computes: "computes 0x0CDB 591 (*)"
  unfolding computes_if_def
proof (intro allI impI)
  fix x s w assume e: "entered x s 0x0CDB w" "numbers w"
  obtain w1 where w1: "runs x s operators 5 w w1" "wPC w1 = 0x0CDE" "wX w1 = x" "wY w1 = wY w" "wS w1 = s - 2"
    "wM w1 (Slot 1) = wM w (Slot 1)" "\<And>b. wM w1 (Val b) = wM w (Val b)"
    using after_check [OF e] by auto
  have "\<exists>w2. runs x s operators 6 w1 w2 \<and> kept w1 w2 \<and> wPC w2 = 0x0CEA \<and> DTemp1 w2 = value_at w1 0 \<and> value_at w2 0 = 0
      \<and> value_at w2 6 = value_at w1 6"
    using w1(2,3) by (cases w1) (simp add: steps kept_def long_zero)
  then obtain w2 where w2: "runs x s operators 6 w1 w2" "kept w1 w2" "wPC w2 = 0x0CEA" "DTemp1 w2 = value_at w1 0"
    "value_at w2 0 = 0" "value_at w2 6 = value_at w1 6" by blast
  obtain n w3 where w3: "n \<le> 579" "runs x s operators n w2 w3" "kept w2 w3" "wPC w3 = 0x0D0E"
    "value_at w3 0 = value_at w2 0 + DTemp1 w2 * value_at w2 6"
    using multiply_loop [of w2 x 32 s] w1(3) w2(2,3) unsigned_less [of "DTemp1 w2", where ?'a = nat] by (auto simp: kept_def)
  obtain w4 where w4: "runs x s operators 1 w3 w4" "wPC w4 = wM w3 (Slot 1) + 1" "wX w4 = x" "wS w4 = s" "wY w4 = wY w3"
    "wM w4 = wM w3"
    using rts_finishes [of w3 s x] w1 w2(2) w3(3,4) by (auto simp: kept_def)
  have "runs x s operators (5 + (6 + (n + 1))) w w4" using w1(1) w2(1) w3(2) w4(1) by (blast intro: runs_trans)
  then show "\<exists>n w'. n \<le> 591 \<and> runs x s operators n w w' \<and> finished x s w w' \<and> value_at w' 0 = value_at w 0 * value_at w 6"
    using w1 w2 w3 w4 by (intro exI [of _ "5 + (6 + (n + 1))"] exI [of _ w4]) (auto simp: finished_def kept_def)
qed

section \<open>Shifts\<close>

text \<open>The loops of the shifts, with the count in the accumulator.\<close>

lemma right_pass:
  assumes "wPC w = 0x0ADC + 10" and "wX w = x"
  shows "\<exists>w'. runs x s operators 4 w w' \<and> kept w w' \<and> wA w' = wA w - 1 \<and> value_at w' 0 = drop_bit 1 (value_at w 0)
    \<and> wPC w' = (if wA w = 1 then 0x0ADC + 17 else 0x0ADC + 10)"
  using assms by (cases w) (simp add: steps kept_def long_shifts)

lemma left_pass:
  assumes "wPC w = 0x0AEE + 10" and "wX w = x"
  shows "\<exists>w'. runs x s operators 4 w w' \<and> kept w w' \<and> wA w' = wA w - 1 \<and> value_at w' 0 = push_bit 1 (value_at w 0)
    \<and> wPC w' = (if wA w = 1 then 0x0AEE + 17 else 0x0AEE + 10)"
  using assms by (cases w) (simp add: steps kept_def long_shifts)

lemma shift_loop:
  fixes w :: w16
  assumes "unat (wA w) = Suc j" and "wPC w = p" and "wX w = x"
    and pass: "\<And>w. wPC w = p \<Longrightarrow> wX w = x \<Longrightarrow>
      \<exists>w'. runs x s operators 4 w w' \<and> kept w w' \<and> wA w' = wA w - 1 \<and> value_at w' 0 = g (value_at w 0)
        \<and> wPC w' = (if wA w = 1 then q else p)"
  shows "\<exists>w'. runs x s operators (4 * Suc j) w w' \<and> kept w w' \<and> wPC w' = q \<and> value_at w' 0 = (g ^^ Suc j) (value_at w 0)"
  using assms(1-3)
proof (induction j arbitrary: w)
  case 0
  then have "wA w = 1" by (simp add: word_unat_eq_iff)
  with pass [OF 0(2,3)] show ?case by (auto simp del: runs_numeral)
next
  case (Suc j)
  then have a: "wA w \<noteq> 1" by auto
  obtain w1 where w1: "runs x s operators 4 w w1" "kept w w1" "wA w1 = wA w - 1" "value_at w1 0 = g (value_at w 0)" "wPC w1 = p"
    using pass [OF Suc.prems(2,3)] a by (auto simp del: runs_numeral)
  have "unat (wA w1) = Suc j" using Suc.prems(1) unfolding w1(3) by (simp add: unat_sub_if_size)
  then obtain w2 where w2: "runs x s operators (4 * Suc j) w1 w2" "kept w1 w2" "wPC w2 = q"
    "value_at w2 0 = (g ^^ Suc j) (value_at w1 0)"
    using Suc.IH [of w1] w1(2,5) Suc.prems(3) by (auto simp: kept_def)
  have "runs x s operators (4 + 4 * Suc j) w w2" using w1(1) w2(1) by (rule runs_trans)
  then show ?case using kept_trans [OF w1(2) w2(2)] w2(3,4) w1(4) by (intro exI [of _ w2]) (simp add: funpow_swap1)
qed

lemma shift_computes:
  assumes "map_of operators a = Some (Jsr, 0x060C)" and "map_of operators (a + 3) = Some (Acc Lda DirectX, 6)"
    and "map_of operators (5 + a) = Some (Acc And Immediate, 0x3F)" and "map_of operators (8 + a) = Some (Branch 0x02 True, 7)"
    and "map_of operators (a + 17) = Some (Rts, 0)"
    and pass: "\<And>x s w. wPC w = a + 10 \<Longrightarrow> wX w = x \<Longrightarrow>
      \<exists>w'. runs x s operators 4 w w' \<and> kept w w' \<and> wA w' = wA w - 1 \<and> value_at w' 0 = g (value_at w 0)
        \<and> wPC w' = (if wA w = 1 then a + 17 else a + 10)"
  shows "computes a 261 (\<lambda>u v. (g ^^ unat (v AND 63)) u)"
  unfolding computes_if_def
proof (intro allI impI)
  fix x s w assume e: "entered x s a w" "numbers w"
  obtain w1 where w1: "runs x s operators 5 w w1" "wPC w1 = a + 3" "wX w1 = x" "wY w1 = wY w" "wS w1 = s - 2"
    "wM w1 (Slot 1) = wM w (Slot 1)" "\<And>b. wM w1 (Val b) = wM w (Val b)"
    using after_check [OF e assms(1)] by blast
  let ?k = "wM w1 (Val 6) AND 0x3F"
  have "\<exists>w2. runs x s operators 3 w1 w2 \<and> kept w1 w2 \<and> wA w2 = ?k \<and> wM w2 = wM w1 \<and> wPC w2 = (if ?k = 0 then a + 17 else a + 10)"
    using assms(2-4) w1(2,3) by (cases w1) (simp add: steps kept_def)
  then obtain w2 where w2: "runs x s operators 3 w1 w2" "kept w1 w2" "wA w2 = ?k" "wM w2 = wM w1"
    "wPC w2 = (if ?k = 0 then a + 17 else a + 10)" by blast
  have k: "unat (value_at w 6 AND 63) = unat ?k"
  proof -
    have "(63 :: u32) = long 0x3F 0" by (simp add: long_def)
    then have "value_at w 6 AND 63 = long ?k 0" using long_bits(1) [of "wM w (Val 6)" "0x3F" "wM w (Val 8)" 0] w1(7) by simp
    then show ?thesis by (simp add: unat_long)
  qed
  have "\<exists>n w3. n = 4 * unat ?k \<and> runs x s operators n w2 w3 \<and> kept w2 w3 \<and> wPC w3 = a + 17
      \<and> value_at w3 0 = (g ^^ unat ?k) (value_at w2 0)"
  proof (cases "unat ?k")
    case 0
    with w2(5) show ?thesis by (auto simp: unat_eq_0 kept_def)
  next
    case (Suc j)
    with w2(5) have "wPC w2 = a + 10" by auto
    then have "\<exists>w3. runs x s operators (4 * Suc j) w2 w3 \<and> kept w2 w3 \<and> wPC w3 = a + 17 \<and> value_at w3 0 = (g ^^ Suc j) (value_at w2 0)"
      using Suc w1(3) w2(2,3) by (intro shift_loop [OF _ _ _ pass]) (simp_all add: kept_def)
    then show ?thesis unfolding Suc by blast
  qed
  then obtain w3 where w3: "runs x s operators (4 * unat ?k) w2 w3" "kept w2 w3" "wPC w3 = a + 17"
    "value_at w3 0 = (g ^^ unat ?k) (value_at w2 0)" by blast
  obtain w4 where w4: "runs x s operators 1 w3 w4" "wPC w4 = wM w3 (Slot 1) + 1" "wX w4 = x" "wS w4 = s" "wY w4 = wY w3"
    "wM w4 = wM w3"
    using rts_finishes [of w3 s x] assms(5) w1 w2(2) w3(2,3) by (auto simp: kept_def)
  have "?k \<le> 0x3F" by (rule word_and_le1)
  then have "unat ?k \<le> 63" by (simp add: word_le_nat_alt)
  moreover have "runs x s operators (5 + (3 + (4 * unat ?k + 1))) w w4" using w1(1) w2(1) w3(1) w4(1) by (blast intro: runs_trans)
  ultimately show "\<exists>n w'. n \<le> 261 \<and> runs x s operators n w w' \<and> finished x s w w'
      \<and> value_at w' 0 = (g ^^ unat (value_at w 6 AND 63)) (value_at w 0)"
    using w1 w2 w3 w4 k by (intro exI [of _ "5 + (3 + (4 * unat ?k + 1))"] exI [of _ w4]) (auto simp: finished_def kept_def)
qed

lemma shifts_compute:
  "computes 0x0ADC 261 (\<lambda>u v. drop_bit (unat (v AND 63)) u)" "computes 0x0AEE 261 (\<lambda>u v. push_bit (unat (v AND 63)) u)"
proof -
  have "(drop_bit 1 ^^ k) u = drop_bit k u" "(push_bit 1 ^^ k) u = push_bit k u" for u :: u32 and k
    by (induction k) (simp_all only: funpow.simps comp_apply id_apply drop_bit_drop_bit push_bit_push_bit drop_bit_0 push_bit_0_id
        plus_1_eq_Suc)
  moreover have "computes 0x0ADC 261 (\<lambda>u v. (drop_bit 1 ^^ unat (v AND 63)) u)"
  proof (rule shift_computes, goal_cases)
    case (6 x s w)
    then show ?case by (rule right_pass)
  qed simp_all
  moreover have "computes 0x0AEE 261 (\<lambda>u v. (push_bit 1 ^^ unat (v AND 63)) u)"
  proof (rule shift_computes, goal_cases)
    case (6 x s w)
    then show ?case by (rule left_pass)
  qed simp_all
  ultimately show "computes 0x0ADC 261 (\<lambda>u v. drop_bit (unat (v AND 63)) u)"
    "computes 0x0AEE 261 (\<lambda>u v. push_bit (unat (v AND 63)) u)" by simp_all
qed

end
