(* ===== verification/Basic_Comparison.thy ===== *)
theory Basic_Comparison
  imports Basic_Operators
begin

text \<open>
  The comparisons of the BASIC interpreter on integers: -1 for true, 0 for false, and the order
  is that of the signed numbers, over the whole range.
\<close>

section \<open>Signed order from the flags\<close>

lemma bit15: "bit (v :: u16) 15 \<longleftrightarrow> sint v < 0"
  using odd_div_msb(2) [of "unat v"] u16_bound [of v] uint_bounded [of v] by (simp add: bit_unat16 sint_unat(1))

text \<open>The sign of a difference, corrected by the overflow, is the sign of the exact difference.\<close>

lemma corrected_sign:
  fixes b d :: u16
  shows "bit (b - d - of_bool k) 15 = signed16 (sint b - sint d - of_bool k) \<longleftrightarrow> sint b - sint d - of_bool k < 0"
proof -
  define z where "z = sint b - sint d - of_bool k"
  have z: "- 65536 \<le> z" "z \<le> 65535"
    using sint_greater_eq [of b] sint_greater_eq [of d] sint_less [of b] sint_less [of d] unfolding z_def
    by (simp_all add: of_bool_def)
  have "b - d - of_bool k = (of_int z :: u16)" by (simp add: z_def)
  then have "sint (b - d - of_bool k) = signed_take_bit 15 z" by (simp add: signed_of_int)
  also have "\<dots> = (z + 32768) mod 65536 - 32768" by (simp add: signed_take_bit_eq_take_bit_shift take_bit_eq_mod)
  also have "\<dots> = (if z < - 32768 then z + 65536 else if z < 32768 then z else z - 65536)"
  proof -
    consider "z < - 32768" | "- 32768 \<le> z" "z < 32768" | "32768 \<le> z" by linarith
    then show ?thesis
    proof cases
      case 1
      then have "(z + 98304) mod 65536 = z + 98304" using z by (intro mod_pos_pos_trivial) auto
      then show ?thesis using 1 mod_add_self2 [of "z + 32768" 65536] by simp
    next
      case 2
      then show ?thesis by (simp add: mod_pos_pos_trivial)
    next
      case 3
      then have "(z - 32768) mod 65536 = z - 32768" using z by (intro mod_pos_pos_trivial) auto
      then show ?thesis using 3 minus_mod_self2 [of "z + 32768" 65536] by simp
    qed
  qed
  finally show ?thesis unfolding bit15 z_def [symmetric] signed16_def using z by (auto split: if_splits)
qed

lemma sint_long: "sint (long a b) = 65536 * sint b + int (unat a)"
  using u16_bound [of a] by (simp add: sint_unat unat_long)

lemma long_eq: "long a b = long c d \<longleftrightarrow> a = c \<and> b = d"
proof
  have p: "unat v = unat (long v u) mod 65536" "unat u = unat (long v u) div 65536" for v u
    using u16_bound [of v] by (simp_all add: unat_long)
  assume "long a b = long c d"
  with p(1) [of a b] p(1) [of c d] p(2) [of b a] p(2) [of d c] show "a = c \<and> b = d" by (simp add: word_unat_eq_iff)
qed simp

lemma exact_sign:
  "sint b - sint d - of_bool (\<not> unat c + of_bool e \<le> unat a) < 0
    \<longleftrightarrow> sint (long a b) < sint (long c d) \<or> (e \<and> long a b = long c d)"
proof -
  have s: "b = d \<longleftrightarrow> sint b = sint d" by (auto intro: signed_word_eqI)
  have "65536 * sint b + int (unat a) < 65536 * sint d + int (unat c) \<longleftrightarrow> sint b < sint d \<or> (sint b = sint d \<and> unat a < unat c)"
    using u16_bound [of a] u16_bound [of c] by arith
  then show ?thesis unfolding sint_long long_eq s word_unat_eq_iff [of a] of_bool_def by (cases e) auto
qed

section \<open>Running a comparison\<close>

lemma check_types:
  assumes "map_of operators (wPC w) = Some (Jsr, 0x0BE9)" and "numbers w" and "wX w = x" and "wS w = s - 2"
  shows "\<exists>w'. runs x s operators 8 w w' \<and> wPC w' = wPC w + 3 \<and> wX w' = x \<and> wY w' = wY w \<and> wS w' = s - 2 \<and> \<not> wC w'
    \<and> wM w' = (wM w)(Slot 3 := wPC w + 2)"
  using assms by (cases w) (auto simp: steps numbers_def bit_xor_iff)

lemma signed_test:
  fixes w :: w16
  assumes "map_of operators p = Some (Acc Lda DirectX, 0)" and "map_of operators (p + 2) = Some (Acc Sbc DirectX, 6)"
    and "map_of operators (4 + p) = Some (Acc Lda DirectX, 2)" and "map_of operators (6 + p) = Some (Acc Sbc DirectX, 8)"
    and "map_of operators (8 + p) = Some (Branch 0x40 False, 3)" and "map_of operators (10 + p) = Some (Acc Eor Immediate, 0x8000)"
    and "wPC w = p" and "wX w = x"
  shows "\<exists>n w'. n \<le> 6 \<and> runs x s operators n w w' \<and> kept w w' \<and> wM w' = wM w \<and> wPC w' = 13 + p
    \<and> wN w' = (sint (value_at w 0) < sint (value_at w 6) \<or> \<not> wC w \<and> value_at w 0 = value_at w 6)"
proof -
  let ?b = "wM w (Val 2)" and ?d = "wM w (Val 8)" and ?k = "\<not> unat (wM w (Val 6)) + of_bool (\<not> wC w) \<le> unat (wM w (Val 0))"
  let ?v = "\<not> signed16 (sint ?b - sint ?d - of_bool ?k)"
  have "\<exists>w1. runs x s operators 4 w w1 \<and> kept w w1 \<and> wM w1 = wM w \<and> wPC w1 = 8 + p \<and> wA w1 = ?b - ?d - of_bool ?k
      \<and> wN w1 = bit (?b - ?d - of_bool ?k) 15 \<and> wV w1 = ?v"
    using assms by (cases w) (simp add: steps kept_def)
  then obtain w1 where w1: "runs x s operators 4 w w1" "kept w w1" "wM w1 = wM w" "wPC w1 = 8 + p" "wA w1 = ?b - ?d - of_bool ?k"
    "wN w1 = bit (?b - ?d - of_bool ?k) 15" "wV w1 = ?v" by blast
  have "\<exists>n w2. n \<le> 2 \<and> runs x s operators n w1 w2 \<and> kept w1 w2 \<and> wM w2 = wM w1 \<and> wPC w2 = 13 + p
      \<and> wN w2 = (bit (?b - ?d - of_bool ?k) 15 \<noteq> ?v)"
  proof (cases ?v)
    case True
    with w1(4-7) assms(5,6) have "\<exists>w2. runs x s operators 2 w1 w2 \<and> kept w1 w2 \<and> wM w2 = wM w1 \<and> wPC w2 = 13 + p
      \<and> wN w2 = (bit (?b - ?d - of_bool ?k) 15 \<noteq> ?v)"
      by (cases w1) (simp add: steps kept_def bit_xor_iff)
    then show ?thesis using order.refl [of "2 :: nat"] by blast
  next
    case False
    with w1(4-7) assms(5) have "\<exists>w2. runs x s operators (Suc 0) w1 w2 \<and> kept w1 w2 \<and> wM w2 = wM w1 \<and> wPC w2 = 13 + p
      \<and> wN w2 = (bit (?b - ?d - of_bool ?k) 15 \<noteq> ?v)"
      by (cases w1) (simp add: steps kept_def)
    moreover have "Suc 0 \<le> 2" by simp
    ultimately show ?thesis by blast
  qed
  then obtain n w2 where w2: "n \<le> 2" "runs x s operators n w1 w2" "kept w1 w2" "wM w2 = wM w1" "wPC w2 = 13 + p"
    "wN w2 = (bit (?b - ?d - of_bool ?k) 15 \<noteq> ?v)" by blast
  have "wN w2 = (sint (value_at w 0) < sint (value_at w 6) \<or> \<not> wC w \<and> value_at w 0 = value_at w 6)"
    unfolding w2(6) using corrected_sign [of ?b ?d ?k] exact_sign [of ?b ?d "wM w (Val 6)" "\<not> wC w" "wM w (Val 0)"] by simp
  then show ?thesis
    using w1(1,2,3) w2 kept_trans [OF w1(2) w2(3)] runs_trans [OF w1(1) w2(2)] by (intro exI [of _ "4 + n"] exI [of _ w2]) simp
qed

text \<open>The two ends of a comparison.\<close>

lemma verdict:
  fixes w :: w16
  assumes "wPC w = (if b then 0x0B82 else 0x0B8A)" and "wX w = x" and "wS w = s - 2"
  shows "\<exists>n w'. n \<le> 4 \<and> runs x s operators n w w' \<and> finished x s w w' \<and> value_at w' 0 = (if b then - 1 else 0)"
proof (cases b)
  case True
  have "(- 1 :: u32) = long 0xFFFF 0xFFFF" by (simp add: long_def)
  with True assms have "\<exists>w'. runs x s operators 4 w w' \<and> finished x s w w' \<and> value_at w' 0 = - 1"
    by (cases w) (simp add: steps finished_def)
  with True show ?thesis by (auto simp del: runs_numeral)
next
  case False
  with assms have "\<exists>w'. runs x s operators 3 w w' \<and> finished x s w w' \<and> value_at w' 0 = 0"
    by (cases w) (simp add: steps finished_def long_zero)
  with False show ?thesis by (intro exI [of _ 3]) (auto simp del: runs_numeral)
qed

text \<open>A comparison is the check, a test that branches to one of the ends, and the end.\<close>

lemma compares:
  assumes "map_of operators a = Some (Jsr, 0x0BE9)" and "12 + n \<le> k"
    and test: "\<And>x s w. wPC w = a + 3 \<Longrightarrow> wX w = x \<Longrightarrow> \<not> wC w \<Longrightarrow>
      \<exists>m w'. m \<le> n \<and> runs x s operators m w w' \<and> kept w w' \<and> wPC w' = (if r (value_at w 0) (value_at w 6) then 0x0B82 else 0x0B8A)"
  shows "computes a k (\<lambda>u v. if r u v then - 1 else 0)"
  unfolding computes_if_def
proof (intro allI impI)
  fix x s w assume e: "entered x s a w" "numbers w"
  have "\<exists>w'. runs x s operators 8 w w' \<and> wPC w' = wPC w + 3 \<and> wX w' = x \<and> wY w' = wY w \<and> wS w' = s - 2 \<and> \<not> wC w'
    \<and> wM w' = (wM w)(Slot 3 := wPC w + 2)"
    using e assms(1) by (intro check_types) (simp_all add: entered_def)
  then obtain w1 where w1: "runs x s operators 8 w w1" "wPC w1 = a + 3" "wX w1 = x" "wY w1 = wY w" "wS w1 = s - 2" "\<not> wC w1"
    "wM w1 = (wM w)(Slot 3 := wPC w + 2)" using e(1) by (auto simp: entered_def simp del: runs_numeral)
  obtain m w2 where w2: "m \<le> n" "runs x s operators m w1 w2" "kept w1 w2"
    "wPC w2 = (if r (value_at w1 0) (value_at w1 6) then 0x0B82 else 0x0B8A)" using test [OF w1(2,3,6)] by blast
  obtain j w3 where w3: "j \<le> 4" "runs x s operators j w2 w3" "finished x s w2 w3"
    "value_at w3 0 = (if r (value_at w1 0) (value_at w1 6) then - 1 else 0)"
    using verdict [OF w2(4), of x s] w1(3,5) w2(3) by (auto simp: kept_def)
  have "runs x s operators (8 + (m + j)) w w3" using w1(1) w2(2) w3(2) by (blast intro: runs_trans)
  then show "\<exists>n w'. n \<le> k \<and> runs x s operators n w w' \<and> finished x s w w'
      \<and> value_at w' 0 = (if r (value_at w 0) (value_at w 6) then - 1 else 0)"
    using w1 w2 w3 assms(2) by (intro exI [of _ "8 + (m + j)"] exI [of _ w3]) (simp add: finished_def kept_def)
qed

section \<open>The six comparisons\<close>

lemma equality_test:
  fixes w :: w16
  assumes "wPC w = 0x0B33 \<or> wPC w = 0x0B4D" and "wX w = x" and "\<not> wC w"
  shows "\<exists>m w'. m \<le> 8 \<and> runs x s operators m w w' \<and> kept w w'
    \<and> wPC w' = (if (value_at w 0 = value_at w 6) = (wPC w = 0x0B33) then 0x0B82 else 0x0B8A)"
proof -
  consider "wM w (Val 0) \<noteq> wM w (Val 6)" | "wM w (Val 0) = wM w (Val 6)" "wM w (Val 2) \<noteq> wM w (Val 8)"
    | "wM w (Val 0) = wM w (Val 6)" "wM w (Val 2) = wM w (Val 8)" by blast
  then have "\<exists>m\<in>{4, 7, 8}. \<exists>w'. runs x s operators m w w' \<and> kept w w'
      \<and> wPC w' = (if (value_at w 0 = value_at w 6) = (wPC w = 0x0B33) then 0x0B82 else 0x0B8A)"
  proof cases
    case 1
    with assms show ?thesis unfolding long_eq by (intro bexI [of _ 4]; elim disjE; cases w) (simp_all add: steps kept_def)
  next
    case 2
    with assms show ?thesis unfolding long_eq by (intro bexI [of _ 7]; elim disjE; cases w) (simp_all add: steps kept_def)
  next
    case 3
    with assms show ?thesis unfolding long_eq by (intro bexI [of _ 8]; elim disjE; cases w) (simp_all add: steps kept_def)
  qed
  moreover have "\<forall>m\<in>{4, 7, 8}. m \<le> (8 :: nat)" by simp
  ultimately show ?thesis by blast
qed

lemma order_test:
  fixes w :: w16
  assumes "map_of operators q = Some (Branch 0x01 True, d)" and "d \<le> 0xFF"
    and "map_of operators (q + 2) = Some (Flag (if e then Clear 0x01 else Set 0x01), 0)"
    and "map_of operators (q + 3) = Some (Acc Lda DirectX, 0)" and "map_of operators (q + 3 + 2) = Some (Acc Sbc DirectX, 6)"
    and "map_of operators (4 + (q + 3)) = Some (Acc Lda DirectX, 2)" and "map_of operators (6 + (q + 3)) = Some (Acc Sbc DirectX, 8)"
    and "map_of operators (8 + (q + 3)) = Some (Branch 0x40 False, 3)" and "map_of operators (10 + (q + 3)) = Some (Acc Eor Immediate, 0x8000)"
    and ends: "\<And>w. wPC w = 13 + (q + 3) \<Longrightarrow>
      \<exists>w'. runs x s operators (if wN w = g then 1 else 2) w w' \<and> kept w w' \<and> wPC w' = (if wN w = g then 0x0B82 else 0x0B8A)"
    and "wPC w = q" and "wX w = x" and "\<not> wC w"
  shows "\<exists>m w'. m \<le> 10 \<and> runs x s operators m w w' \<and> kept w w'
    \<and> wPC w' = (if (sint (value_at w 0) < sint (value_at w 6) \<or> e \<and> value_at w 0 = value_at w 6) = g then 0x0B82 else 0x0B8A)"
proof -
  have "\<exists>w1. runs x s operators 2 w w1 \<and> kept w w1 \<and> wM w1 = wM w \<and> wPC w1 = q + 3 \<and> wC w1 = (\<not> e)"
    using assms(1-3,11-13) by (cases w; cases e) (simp_all add: steps kept_def)
  then obtain w1 where w1: "runs x s operators 2 w w1" "kept w w1" "wM w1 = wM w" "wPC w1 = q + 3" "wC w1 = (\<not> e)" by blast
  obtain n w2 where w2: "n \<le> 6" "runs x s operators n w1 w2" "kept w1 w2" "wM w2 = wM w1" "wPC w2 = 13 + (q + 3)"
    "wN w2 = (sint (value_at w1 0) < sint (value_at w1 6) \<or> \<not> wC w1 \<and> value_at w1 0 = value_at w1 6)"
    using signed_test [OF assms(4-9) w1(4), of x s] assms(12) w1(2) by (auto simp: kept_def)
  obtain w3 where w3: "runs x s operators (if wN w2 = g then 1 else 2) w2 w3" "kept w2 w3"
    "wPC w3 = (if wN w2 = g then 0x0B82 else 0x0B8A)" using ends [OF w2(5)] by blast
  have "runs x s operators (2 + (n + (if wN w2 = g then 1 else 2))) w w3" using w1(1) w2(2) w3(1) by (blast intro: runs_trans)
  moreover have "kept w w3" using w1(2) w2(3) w3(2) by (blast intro: kept_trans)
  moreover have "2 + (n + (if wN w2 = g then 1 else 2)) \<le> 10" using w2(1) by simp
  moreover have "wPC w3 = (if (sint (value_at w 0) < sint (value_at w 6) \<or> e \<and> value_at w 0 = value_at w 6) = g then 0x0B82 else 0x0B8A)"
    using w3(3) unfolding w2(6) w1(3,5) by (simp only: not_not)
  ultimately show ?thesis by (intro exI conjI)
qed

text \<open>The branches behind the tests; \<open>bmi\<close> for the less, \<open>bpl\<close> for the greater.\<close>

lemma order_ends:
  fixes w :: w16
  shows "wPC w = 0x0B77 \<or> wPC w = 0x0BC0 \<Longrightarrow>
      \<exists>w'. runs x s operators (if wN w = True then 1 else 2) w w' \<and> kept w w' \<and> wPC w' = (if wN w = True then 0x0B82 else 0x0B8A)"
    and "wPC w = 0x0BA2 \<or> wPC w = 0x0BDE \<Longrightarrow>
      \<exists>w'. runs x s operators (if wN w = False then 1 else 2) w w' \<and> kept w w' \<and> wPC w' = (if wN w = False then 0x0B82 else 0x0B8A)"
  by (elim disjE; cases w; cases "wN w"; simp add: steps kept_def)+

lemma order_tests:
  fixes w :: w16
  assumes "wX w = x" and "\<not> wC w"
  shows "wPC w = 0x0B67 \<Longrightarrow> \<exists>m w'. m \<le> 10 \<and> runs x s operators m w w' \<and> kept w w'
      \<and> wPC w' = (if sint (value_at w 0) < sint (value_at w 6) then 0x0B82 else 0x0B8A)"
    and "wPC w = 0x0BB0 \<Longrightarrow> \<exists>m w'. m \<le> 10 \<and> runs x s operators m w w' \<and> kept w w'
      \<and> wPC w' = (if sint (value_at w 0) \<le> sint (value_at w 6) then 0x0B82 else 0x0B8A)"
    and "wPC w = 0x0B92 \<Longrightarrow> \<exists>m w'. m \<le> 10 \<and> runs x s operators m w w' \<and> kept w w'
      \<and> wPC w' = (if sint (value_at w 0) \<ge> sint (value_at w 6) then 0x0B82 else 0x0B8A)"
    and "wPC w = 0x0BCE \<Longrightarrow> \<exists>m w'. m \<le> 10 \<and> runs x s operators m w w' \<and> kept w w'
      \<and> wPC w' = (if sint (value_at w 0) > sint (value_at w 6) then 0x0B82 else 0x0B8A)"
proof -
  have eq: "sint u < sint v \<or> u = v \<longleftrightarrow> sint u \<le> sint v" for u v :: u32
    by (auto intro: signed_word_eqI simp: le_less)
  have rel: "(sint u < sint v \<or> True \<and> u = v) = False \<longleftrightarrow> sint v < sint u" "(sint u < sint v \<or> False \<and> u = v) = False \<longleftrightarrow> sint v \<le> sint u"
    "(sint u < sint v \<or> True \<and> u = v) = True \<longleftrightarrow> sint u \<le> sint v" for u v :: u32
    using eq [of u v] by auto
  show "\<exists>m w'. m \<le> 10 \<and> runs x s operators m w w' \<and> kept w w'
      \<and> wPC w' = (if sint (value_at w 0) < sint (value_at w 6) then 0x0B82 else 0x0B8A)" if pc: "wPC w = 0x0B67"
  proof -
    have "\<exists>m w'. m \<le> 10 \<and> runs x s operators m w w' \<and> kept w w'
      \<and> wPC w' = (if (sint (value_at w 0) < sint (value_at w 6) \<or> False \<and> value_at w 0 = value_at w 6) = True then 0x0B82 else 0x0B8A)"
      by (rule order_test [where q = "0x0B67" and d = "0x12"]; (rule order_ends(1))?) (use pc assms in simp_all)
    then show ?thesis unfolding rel by (simp only: simp_thms)
  qed
  show "\<exists>m w'. m \<le> 10 \<and> runs x s operators m w w' \<and> kept w w'
      \<and> wPC w' = (if sint (value_at w 0) \<le> sint (value_at w 6) then 0x0B82 else 0x0B8A)" if pc: "wPC w = 0x0BB0"
  proof -
    have "\<exists>m w'. m \<le> 10 \<and> runs x s operators m w w' \<and> kept w w'
      \<and> wPC w' = (if (sint (value_at w 0) < sint (value_at w 6) \<or> True \<and> value_at w 0 = value_at w 6) = True then 0x0B82 else 0x0B8A)"
      by (rule order_test [where q = "0x0BB0" and d = "0x12"]; (rule order_ends(1))?) (use pc assms in simp_all)
    then show ?thesis unfolding rel by (simp only: simp_thms)
  qed
  show "\<exists>m w'. m \<le> 10 \<and> runs x s operators m w w' \<and> kept w w'
      \<and> wPC w' = (if sint (value_at w 0) \<ge> sint (value_at w 6) then 0x0B82 else 0x0B8A)" if pc: "wPC w = 0x0B92"
  proof -
    have "\<exists>m w'. m \<le> 10 \<and> runs x s operators m w w' \<and> kept w w'
      \<and> wPC w' = (if (sint (value_at w 0) < sint (value_at w 6) \<or> False \<and> value_at w 0 = value_at w 6) = False then 0x0B82 else 0x0B8A)"
      by (rule order_test [where q = "0x0B92" and d = "0x12"]; (rule order_ends(2))?) (use pc assms in simp_all)
    then show ?thesis unfolding rel by (simp only: simp_thms)
  qed
  show "\<exists>m w'. m \<le> 10 \<and> runs x s operators m w w' \<and> kept w w'
      \<and> wPC w' = (if sint (value_at w 0) > sint (value_at w 6) then 0x0B82 else 0x0B8A)" if pc: "wPC w = 0x0BCE"
  proof -
    have "\<exists>m w'. m \<le> 10 \<and> runs x s operators m w w' \<and> kept w w'
      \<and> wPC w' = (if (sint (value_at w 0) < sint (value_at w 6) \<or> True \<and> value_at w 0 = value_at w 6) = False then 0x0B82 else 0x0B8A)"
      by (rule order_test [where q = "0x0BCE" and d = "0x12"]; (rule order_ends(2))?) (use pc assms in simp_all)
    then show ?thesis unfolding rel by (simp only: simp_thms)
  qed
qed

lemma comparisons_compute:
  "computes 0x0B30 24 (\<lambda>u v. if u = v then - 1 else 0)" "computes 0x0B4A 24 (\<lambda>u v. if u \<noteq> v then - 1 else 0)"
  "computes 0x0B64 24 (\<lambda>u v. if sint u < sint v then - 1 else 0)" "computes 0x0BCB 24 (\<lambda>u v. if sint u > sint v then - 1 else 0)"
  "computes 0x0BAD 24 (\<lambda>u v. if sint u \<le> sint v then - 1 else 0)" "computes 0x0B8F 24 (\<lambda>u v. if sint u \<ge> sint v then - 1 else 0)"
proof -
  show "computes 0x0B30 24 (\<lambda>u v. if u = v then - 1 else 0)"
    by (rule compares [where n = 8]) (use equality_test in \<open>fastforce+\<close>)
  show "computes 0x0B4A 24 (\<lambda>u v. if u \<noteq> v then - 1 else 0)"
    by (rule compares [where n = 8]) (use equality_test in \<open>fastforce+\<close>)
  show "computes 0x0B64 24 (\<lambda>u v. if sint u < sint v then - 1 else 0)"
    by (rule compares [where n = 10]) (use order_tests(1) in \<open>fastforce+\<close>)
  show "computes 0x0BCB 24 (\<lambda>u v. if sint u > sint v then - 1 else 0)"
    by (rule compares [where n = 10]) (use order_tests(4) in \<open>fastforce+\<close>)
  show "computes 0x0BAD 24 (\<lambda>u v. if sint u \<le> sint v then - 1 else 0)"
    by (rule compares [where n = 10]) (use order_tests(2) in \<open>fastforce+\<close>)
  show "computes 0x0B8F 24 (\<lambda>u v. if sint u \<ge> sint v then - 1 else 0)"
    by (rule compares [where n = 10]) (use order_tests(3) in \<open>fastforce+\<close>)
qed

end
