(* ===== verification/Basic_Division.thy ===== *)
theory Basic_Division
  imports Basic_Operators "HOL-Library.Signed_Division"
begin

text \<open>
  The division of the BASIC interpreter: the signs are taken off, the restoring division of
  \<open>divide.asm\<close> shifts the dividend bit by bit into the remainder, and the quotient gets its sign.
  The routine is called by the expression evaluator and by the modulus; its error for a divisor
  of zero is a call of the error handler.
\<close>

section \<open>The algorithm on numbers\<close>

text \<open>With \<open>k\<close> bits of the dividend \<open>n\<close> to go: the bits that have been shifted out, divided by \<open>m\<close>,
  leave the remainder \<open>r\<close>, and \<open>q\<close> has the other bits above the quotient.\<close>

definition dividing :: "nat \<Rightarrow> nat \<Rightarrow> nat \<Rightarrow> nat \<Rightarrow> nat \<Rightarrow> bool" where
  "dividing n m k q r \<longleftrightarrow> r < m \<and>
     (\<exists>c. n div 2 ^ k = c * m + r \<and> c < 2 ^ (32 - k) \<and> q = (n mod 2 ^ k) * 2 ^ (32 - k) + c)"

lemma dividing_start: "n < 2 ^ 32 \<Longrightarrow> 0 < m \<Longrightarrow> dividing n m 32 n 0"
  by (simp add: dividing_def)

lemma dividing_end: "dividing n m 0 q r \<Longrightarrow> q = n div m \<and> r = n mod m"
  by (auto simp: dividing_def div_mult_self3 mod_mult_self3)

lemma dividing_pass:
  assumes "dividing n m (Suc k) q r" and "k < 32" and "m \<le> 2 ^ 31"
  defines "s \<equiv> 2 * r + q div 2 ^ 31"
  shows "s < 2 ^ 32" "q < 2 ^ 32" "m \<le> s \<Longrightarrow> dividing n m k ((2 * q) mod 2 ^ 32 + 1) (s - m)"
    "s < m \<Longrightarrow> dividing n m k ((2 * q) mod 2 ^ 32) s"
proof -
  obtain c where r: "r < m" and c: "n div 2 ^ Suc k = c * m + r" "c < 2 ^ (32 - Suc k)"
    and q: "q = (n mod 2 ^ Suc k) * 2 ^ (32 - Suc k) + c"
    using assms(1) by (auto simp: dividing_def)
  define b l where "b = n div 2 ^ k mod 2" and "l = (n mod 2 ^ k) * 2 ^ (31 - k) + c"
  have p: "2 ^ k * 2 ^ (31 - k) = (2 ^ 31 :: nat)" "2 ^ (32 - k) = 2 * (2 ^ (31 - k) :: nat)"
    using assms(2) by (simp_all flip: power_add power_Suc add: Suc_diff_le)
  have "n mod 2 ^ k + 1 \<le> 2 ^ k" by (simp add: Suc_leI)
  then have "(n mod 2 ^ k + 1) * 2 ^ (31 - k) \<le> 2 ^ k * 2 ^ (31 - k)" by (rule mult_le_mono1)
  then have l: "l < 2 ^ 31" using c(2) p(1) unfolding l_def by simp
  have n: "n div 2 ^ k = 2 * (c * m + r) + b"
  proof -
    have "n div 2 ^ Suc k = n div 2 ^ k div 2" by (simp add: power_Suc2 div_mult2_eq del: power_Suc)
    then show ?thesis using c(1) mult_div_mod_eq [of 2 "n div 2 ^ k"] unfolding b_def by simp
  qed
  have "n mod 2 ^ Suc k = b * 2 ^ k + n mod 2 ^ k"
    unfolding b_def using mod_mult2_eq [of n "2 ^ k" 2] by (simp add: mult.commute)
  then have q': "q = b * 2 ^ 31 + l" unfolding q l_def p(1) [symmetric] by (simp add: algebra_simps)
  have b: "b < 2" by (simp add: b_def)
  from q' b l show "q < 2 ^ 32" by (auto simp: less_2_cases_iff)
  have d: "q div 2 ^ 31 = b" "(2 * q) mod 2 ^ 32 = 2 * l"
  proof -
    show "q div 2 ^ 31 = b" unfolding q' using l by simp
    have "2 * q = b * 2 ^ 32 + 2 * l" unfolding q' by simp
    then show "(2 * q) mod 2 ^ 32 = 2 * l" using l by simp
  qed
  have s: "s = 2 * r + b" unfolding s_def d ..
  with r b assms(3) show "s < 2 ^ 32" by simp
  have l2: "2 * l = (n mod 2 ^ k) * 2 ^ (32 - k) + 2 * c" unfolding l_def p(2) by (simp add: algebra_simps)
  show "dividing n m k ((2 * q) mod 2 ^ 32 + 1) (s - m)" if "m \<le> s"
    unfolding dividing_def d using that r b c(2) n s l2 p(2)
    by (intro conjI exI [of _ "2 * c + 1"]) (auto simp: algebra_simps)
  show "dividing n m k ((2 * q) mod 2 ^ 32) s" if "s < m"
    unfolding dividing_def d using that c(2) n s l2 p(2)
    by (intro conjI exI [of _ "2 * c"]) (auto simp: algebra_simps)
qed

section \<open>The blocks of the routine\<close>

text \<open>What the loop keeps.\<close>

definition framed :: "w16 \<Rightarrow> w16 \<Rightarrow> bool" where
  "framed w w' \<longleftrightarrow> wX w' = wX w \<and> wS w' = wS w \<and> (\<forall>a. wM w' (Slot a) = wM w (Slot a)) \<and> wM w' (Var 0x16) = wM w (Var 0x16)
     \<and> wM w' (Val 6) = wM w (Val 6) \<and> wM w' (Val 8) = wM w (Val 8)"

lemma framed_trans: "framed w1 w2 \<Longrightarrow> framed w2 w3 \<Longrightarrow> framed w1 w3"
  by (simp add: framed_def)

lemma long_inc: "even lo \<Longrightarrow> long (lo + 1) hi = long lo hi + 1"
proof -
  assume "even lo"
  then have "even (unat lo)" using bit_unat16 [of lo 0] by (simp add: bit_0)
  then have "unat lo + 1 < 65536" using u16_bound [of lo] by (cases "unat lo = 65535") auto
  then have "unat (lo + 1) = unat lo + 1" by (simp add: unat_plus_if')
  then show ?thesis by (simp add: long_nats)
qed

lemma long_shift_in:
  "bit lo 15 \<Longrightarrow> long (lo * 2 + 1) (hi * 2 + 1) = long lo hi * 2 + 1"
  "\<not> bit lo 15 \<Longrightarrow> long (lo * 2 + 1) (hi * 2) = long lo hi * 2 + 1"
  by (simp_all add: long_inc long_shifts)

lemma shift_in:
  fixes w :: w16
  assumes "wPC w = 0x0C91" and "wX w = x"
  shows "\<exists>w'. runs x s operators 4 w w' \<and> framed w w' \<and> wY w' = wY w \<and> wPC w' = 0x0C99 \<and> value_at w' 0 = value_at w 0 * 2
    \<and> even (wM w' (Val 0)) \<and> DTemp1 w' = DTemp1 w * 2 + of_bool (bit (wM w (Val 2)) 15)"
  using assms by (cases w) (simp add: steps framed_def long_shifts long_shift_in)

lemma try_subtract:
  fixes w :: w16
  assumes "wPC w = 0x0C99" and "wX w = x"
  shows "\<exists>w'. runs x s operators 7 w w' \<and> framed w w' \<and> wY w' = wY w \<and> value_at w' 0 = value_at w 0
    \<and> wM w' (Val 0) = wM w (Val 0) \<and> DTemp1 w' = DTemp1 w \<and> long (wM w' (Var 0x44)) (wA w') = DTemp1 w - value_at w 6
    \<and> wPC w' = (if value_at w 6 \<le> DTemp1 w then 0x0CA6 else 0x0CAE)"
  using assms by (cases w) (simp add: steps framed_def long_sub long_le)

lemma take_difference:
  fixes w :: w16
  assumes "wPC w = 0x0CA6" and "wX w = x" and "even (wM w (Val 0))"
  shows "\<exists>w'. runs x s operators 4 w w' \<and> framed w w' \<and> wY w' = wY w \<and> wPC w' = 0x0CAE
    \<and> value_at w' 0 = value_at w 0 + 1 \<and> DTemp1 w' = long (wM w (Var 0x44)) (wA w)"
  using assms by (cases w) (simp add: steps framed_def long_inc)

lemma count_down:
  fixes w :: w16
  assumes "wPC w = 0x0CAE"
  shows "\<exists>w'. runs x s operators 2 w w' \<and> framed w w' \<and> wY w' = wY w - 1 \<and> value_at w' 0 = value_at w 0 \<and> DTemp1 w' = DTemp1 w
    \<and> wPC w' = (if wY w = 1 then 0x0CB1 else 0x0C91)"
  using assms by (cases w) (simp add: steps framed_def)

section \<open>The loop\<close>

lemma unat_double:
  fixes u v :: u32
  shows "unat (u * 2) = (2 * unat u) mod 2 ^ 32" "unat (u * 2 + 1) = (2 * unat u) mod 2 ^ 32 + 1"
    and "2 * unat v + unat u div 2 ^ 31 < 2 ^ 32 \<Longrightarrow> unat (v * 2 + of_bool (bit u 31)) = 2 * unat v + unat u div 2 ^ 31"
proof -
  show d: "unat (u * 2) = (2 * unat u) mod 2 ^ 32" by (simp add: unat_word_ariths mult.commute)
  have "even ((2 * unat u) mod 2 ^ 32)" by (rule dvd_mod) simp_all
  moreover have "(2 * unat u) mod 2 ^ 32 < 2 ^ 32" by simp
  ultimately have "(2 * unat u) mod 2 ^ 32 + 1 < 2 ^ 32" by (cases "(2 * unat u) mod 2 ^ 32 = 2 ^ 32 - 1") auto
  then show "unat (u * 2 + 1) = (2 * unat u) mod 2 ^ 32 + 1" using d by (simp add: unat_plus_if')
  have "unat u < 2 ^ 32" using unsigned_less [of u, where ?'a = nat] by simp
  then have "unat u div 2 ^ 31 < 2" by (simp add: less_mult_imp_div_less)
  then have "unat u div 2 ^ 31 = 0 \<or> unat u div 2 ^ 31 = 1" by linarith
  then have b: "unat u div 2 ^ 31 = of_bool (bit u 31)" unfolding bit_unat by auto
  assume "2 * unat v + unat u div 2 ^ 31 < 2 ^ 32"
  then show "unat (v * 2 + of_bool (bit u 31)) = 2 * unat v + unat u div 2 ^ 31"
    unfolding b by (cases "bit u 31") (simp_all add: unat_word_ariths mult.commute)
qed

lemma divide_pass:
  fixes w :: w16
  assumes "wPC w = 0x0C91" and "wX w = x" and "wY w = of_nat (Suc k)" and "k < 32" and "unat (value_at w 6) \<le> 2 ^ 31"
    and "dividing n (unat (value_at w 6)) (Suc k) (unat (value_at w 0)) (unat (DTemp1 w))"
  shows "\<exists>j w'. j \<le> 17 \<and> runs x s operators j w w' \<and> framed w w' \<and> wY w' = of_nat k \<and> wPC w' = (if k = 0 then 0x0CB1 else 0x0C91)
    \<and> dividing n (unat (value_at w' 6)) k (unat (value_at w' 0)) (unat (DTemp1 w'))"
proof -
  let ?q = "value_at w 0" and ?r = "DTemp1 w" and ?m = "value_at w 6"
  let ?s = "?r * 2 + of_bool (bit ?q 31)"
  obtain w1 where w1: "runs x s operators 4 w w1" "framed w w1" "wY w1 = wY w" "wPC w1 = 0x0C99" "value_at w1 0 = ?q * 2"
    "even (wM w1 (Val 0))" "DTemp1 w1 = ?s"
    using shift_in [OF assms(1,2), of s] by (auto simp: bit_long simp del: runs_numeral)
  obtain w2 where w2: "runs x s operators 7 w1 w2" "framed w1 w2" "wY w2 = wY w1" "value_at w2 0 = value_at w1 0"
    "wM w2 (Val 0) = wM w1 (Val 0)" "DTemp1 w2 = DTemp1 w1" "long (wM w2 (Var 0x44)) (wA w2) = DTemp1 w1 - value_at w1 6"
    "wPC w2 = (if value_at w1 6 \<le> DTemp1 w1 then 0x0CA6 else 0x0CAE)"
    using try_subtract [OF w1(4), of x s] w1(2) assms(2) by (auto simp: framed_def simp del: runs_numeral)
  have m: "value_at w1 6 = ?m" "value_at w2 6 = ?m" using w1(2) w2(2) by (simp_all add: framed_def)
  note p = dividing_pass [OF assms(6,4,5)]
  have us: "unat ?s = 2 * unat ?r + unat ?q div 2 ^ 31" by (rule unat_double(3) [OF p(1)])
  obtain i w3 where w3: "i \<le> 4" "runs x s operators i w2 w3" "framed w2 w3" "wY w3 = wY w2" "wPC w3 = 0x0CAE"
    "dividing n (unat ?m) k (unat (value_at w3 0)) (unat (DTemp1 w3))"
  proof (cases "?m \<le> ?s")
    case True
    obtain w3 where t: "runs x s operators 4 w2 w3" "framed w2 w3" "wY w3 = wY w2" "wPC w3 = 0x0CAE"
      "value_at w3 0 = value_at w2 0 + 1" "DTemp1 w3 = long (wM w2 (Var 0x44)) (wA w2)"
      using take_difference [of w2 x s] w1(2,6,7) w2(2,5,8) m True assms(2) by (auto simp: framed_def simp del: runs_numeral)
    have "unat (DTemp1 w3) = unat ?s - unat ?m" unfolding t(6) w2(7) w1(7) m using True by (simp add: unat_sub_if_size word_le_nat_alt)
    moreover have "unat (value_at w3 0) = (2 * unat ?q) mod 2 ^ 32 + 1" unfolding t(5) w2(4) w1(5) by (rule unat_double(2))
    moreover have "unat ?m \<le> 2 * unat ?r + unat ?q div 2 ^ 31" using True unfolding word_le_nat_alt us .
    ultimately show thesis using that [of 4 w3] t(1-4) p(3) us by simp
  next
    case False
    have "unat (value_at w2 0) = (2 * unat ?q) mod 2 ^ 32" unfolding w2(4) w1(5) by (rule unat_double(1))
    moreover have "2 * unat ?r + unat ?q div 2 ^ 31 < unat ?m" using False unfolding word_le_nat_alt us by simp
    ultimately show thesis using that [of 0 w2] p(4) us w2(6,8) w1(7) m False by (simp add: framed_def)
  qed
  obtain w4 where w4: "runs x s operators 2 w3 w4" "framed w3 w4" "wY w4 = wY w3 - 1" "value_at w4 0 = value_at w3 0"
    "DTemp1 w4 = DTemp1 w3" "wPC w4 = (if wY w3 = 1 then 0x0CB1 else 0x0C91)"
    using count_down [OF w3(5), of x s] by blast
  have "runs x s operators (4 + (7 + (i + 2))) w w4" using w1(1) w2(1) w3(2) w4(1) by (blast intro: runs_trans)
  moreover have f: "framed w w4" using w1(2) w2(2) w3(3) w4(2) by (blast intro: framed_trans)
  moreover have "wY w4 = of_nat k" unfolding w4(3) w3(4) w2(3) w1(3) assms(3) by simp
  moreover have "wPC w4 = (if k = 0 then 0x0CB1 else 0x0C91)"
  proof -
    have "(of_nat (Suc k) :: u16) = 1 \<longleftrightarrow> k = 0"
      using assms(4) by (simp add: word_unat_eq_iff [of "of_nat (Suc k)"] unsigned_of_nat take_bit_eq_mod del: of_nat_Suc)
    then show ?thesis unfolding w4(6) w3(4) w2(3) w1(3) assms(3) by simp
  qed
  moreover have "dividing n (unat (value_at w4 6)) k (unat (value_at w4 0)) (unat (DTemp1 w4))"
    using w3(6) f unfolding w4(4,5) by (simp add: framed_def)
  moreover have "4 + (7 + (i + 2)) \<le> 17" using w3(1) by simp
  ultimately show ?thesis by blast
qed

lemma divide_loop:
  fixes w :: w16
  assumes "wPC w = 0x0C91" and "wX w = x" and "wY w = of_nat (Suc k)" and "k < 32" and "unat (value_at w 6) \<le> 2 ^ 31"
    and "dividing n (unat (value_at w 6)) (Suc k) (unat (value_at w 0)) (unat (DTemp1 w))"
  shows "\<exists>j w'. j \<le> 17 * Suc k \<and> runs x s operators j w w' \<and> framed w w' \<and> wPC w' = 0x0CB1
    \<and> unat (value_at w' 0) = n div unat (value_at w 6) \<and> unat (DTemp1 w') = n mod unat (value_at w 6)"
  using assms
proof (induction k arbitrary: w)
  case 0
  obtain j w' where "j \<le> 17" "runs x s operators j w w'" "framed w w'" "wPC w' = 0x0CB1"
    "dividing n (unat (value_at w' 6)) 0 (unat (value_at w' 0)) (unat (DTemp1 w'))"
    using divide_pass [OF 0, of s] by auto
  then show ?case using dividing_end by (intro exI [of _ j] exI [of _ w']) (auto simp: framed_def)
next
  case (Suc k)
  obtain j w1 where w1: "j \<le> 17" "runs x s operators j w w1" "framed w w1" "wY w1 = of_nat (Suc k)" "wPC w1 = 0x0C91"
    "dividing n (unat (value_at w1 6)) (Suc k) (unat (value_at w1 0)) (unat (DTemp1 w1))"
    using divide_pass [OF Suc.prems, of s] by auto
  have m: "wX w1 = x" "value_at w1 6 = value_at w 6" using w1(3) Suc.prems(2) by (simp_all add: framed_def)
  obtain i w2 where w2: "i \<le> 17 * Suc k" "runs x s operators i w1 w2" "framed w1 w2" "wPC w2 = 0x0CB1"
    "unat (value_at w2 0) = n div unat (value_at w 6)" "unat (DTemp1 w2) = n mod unat (value_at w 6)"
    using Suc.IH [OF w1(5) m(1) w1(4) _ _ w1(6)] Suc.prems(4,5) unfolding m(2) by auto
  have "runs x s operators (j + i) w w2" using w1(2) w2(2) by (rule runs_trans)
  moreover have "framed w w2" using w1(3) w2(3) by (rule framed_trans)
  ultimately show ?case using w1(1) w2 by (intro exI [of _ "j + i"] exI [of _ w2]) simp
qed

section \<open>Signs\<close>

definition magnitude :: "u32 \<Rightarrow> u32" where
  "magnitude v = (if bit v 31 then - v else v)"

lemma long_minus: "unat a = 0 \<Longrightarrow> long (- a) (- b) = - long a b" "0 < unat a \<Longrightarrow> long (- a) (- b - 1) = - long a b"
proof -
  have z: "long 0 0 = 0" by (simp add: long_def)
  show "unat a = 0 \<Longrightarrow> long (- a) (- b) = - long a b" "0 < unat a \<Longrightarrow> long (- a) (- b - 1) = - long a b"
    using long_sub [of 0 a 0 b] by (simp_all add: z)
qed

text \<open>The negation of an operand, as a call of \<open>Binary_DivNegate\<close> that uses the slot \<open>e\<close>.\<close>

lemma negate_left:
  fixes w :: w16
  assumes "map_of operators (wPC w) = Some (Jsr, 0x0CBD)" and "wX w = x" and "wS w = s + 1 - e" and "e \<in> {5, 7}"
  shows "\<exists>w'. runs x s operators 10 w w' \<and> wPC w' = wPC w + 3 \<and> wX w' = x \<and> wY w' = wY w \<and> wS w' = wS w
    \<and> value_at w' 0 = - value_at w 0 \<and> value_at w' 6 = value_at w 6 \<and> DTemp1 w' = DTemp1 w
    \<and> wM w' (Var 0x16) = wM w (Var 0x16) + 1 \<and> (\<forall>a. a \<noteq> e \<longrightarrow> wM w' (Slot a) = wM w (Slot a))"
  using assms by (cases w) (auto simp: steps long_minus)

lemma negate_right:
  fixes w :: w16
  assumes "map_of operators (wPC w) = Some (Jsr, 0x0CBD)" and "wX w = x + 6" and "wS w = s + 1 - e" and "e \<in> {7, 9}"
  shows "\<exists>w'. runs x s operators 10 w w' \<and> wPC w' = wPC w + 3 \<and> wX w' = x + 6 \<and> wY w' = wY w \<and> wS w' = wS w
    \<and> value_at w' 6 = - value_at w 6 \<and> value_at w' 0 = value_at w 0 \<and> DTemp1 w' = DTemp1 w
    \<and> wM w' (Var 0x16) = wM w (Var 0x16) + 1 \<and> (\<forall>a. a \<noteq> e \<longrightarrow> wM w' (Slot a) = wM w (Slot a))"
  using assms by (cases w) (auto simp: steps long_minus)

text \<open>From the first store to the loop.\<close>

lemma clear_and_save:
  fixes w :: w16
  assumes "wPC w = 0x0C71" and "wX w = x" and "wS w = s + 1 - d" and "d \<in> {3, 5}"
  shows "\<exists>w'. runs x s operators 6 w w' \<and> wPC w' = (if bit (value_at w 6) 31 then 0x0C7C else 0x0C87) \<and> wX w' = x \<and> wS w' = s - 1 - d
    \<and> value_at w' 0 = value_at w 0 \<and> value_at w' 6 = value_at w 6 \<and> DTemp1 w' = 0 \<and> wM w' (Var 0x16) = 0
    \<and> wM w' (Slot d) = wY w \<and> (\<forall>a. a \<noteq> d \<longrightarrow> wM w' (Slot a) = wM w (Slot a))"
  using assms by (cases w) (auto simp: steps bit_long long_zero)

lemma right_sign:
  fixes w :: w16
  assumes "wPC w = (if bit (value_at w 6) 31 then 0x0C7C else 0x0C87)" and "wX w = x" and "wS w = s - 1 - d" and "d \<in> {3, 5}"
    and "wM w (Var 0x16) = 0"
  shows "\<exists>n w'. n \<le> 18 \<and> runs x s operators n w w' \<and> wPC w' = 0x0C87 \<and> wX w' = x \<and> wS w' = wS w
    \<and> value_at w' 0 = value_at w 0 \<and> value_at w' 6 = magnitude (value_at w 6) \<and> DTemp1 w' = DTemp1 w
    \<and> wM w' (Var 0x16) = of_bool (bit (value_at w 6) 31) \<and> (\<forall>a. a \<noteq> d + 2 \<and> a \<noteq> d + 4 \<longrightarrow> wM w' (Slot a) = wM w (Slot a))"
proof (cases "bit (value_at w 6) 31")
  case True
  have "\<exists>w1. runs x s operators 7 w w1 \<and> wPC w1 = 0x0C83 \<and> wX w1 = x + 6 \<and> wS w1 = s + 1 - (d + 4)
    \<and> wM w1 = (wM w)(Slot (d + 2) := x)"
    using True assms by (cases w) (auto simp: steps)
  then obtain w1 where w1: "runs x s operators 7 w w1" "wPC w1 = 0x0C83" "wX w1 = x + 6" "wS w1 = s + 1 - (d + 4)"
    "wM w1 = (wM w)(Slot (d + 2) := x)" by blast
  obtain w2 where w2: "runs x s operators 10 w1 w2" "wPC w2 = 0x0C86" "wX w2 = x + 6" "wS w2 = wS w1"
    "value_at w2 6 = - value_at w1 6" "value_at w2 0 = value_at w1 0" "DTemp1 w2 = DTemp1 w1"
    "wM w2 (Var 0x16) = wM w1 (Var 0x16) + 1" "\<forall>a. a \<noteq> d + 4 \<longrightarrow> wM w2 (Slot a) = wM w1 (Slot a)"
    using negate_right [of w1 x s "d + 4"] w1(2-4) assms(4) by (auto simp del: runs_numeral)
  have "wM w2 (Slot (d + 2)) = x" using w2(9) w1(5) assms(4) by auto
  then have "\<exists>w3. runs x s operators 1 w2 w3 \<and> wPC w3 = 0x0C87 \<and> wX w3 = x \<and> wS w3 = s - 1 - d \<and> wM w3 = wM w2"
    using w1(4) w2(2-4) assms(4) by (cases w2) (auto simp: steps)
  then obtain w3 where w3: "runs x s operators 1 w2 w3" "wPC w3 = 0x0C87" "wX w3 = x" "wS w3 = s - 1 - d" "wM w3 = wM w2" by blast
  have "runs x s operators (7 + (10 + 1)) w w3" using w1(1) w2(1) w3(1) by (blast intro: runs_trans)
  moreover have "value_at w3 0 = value_at w 0" "value_at w3 6 = magnitude (value_at w 6)" "DTemp1 w3 = DTemp1 w"
    "wM w3 (Var 0x16) = of_bool (bit (value_at w 6) 31)"
    "\<forall>a. a \<noteq> d + 2 \<and> a \<noteq> d + 4 \<longrightarrow> wM w3 (Slot a) = wM w (Slot a)"
    using True w2(5-9) assms(5) unfolding w3(5) w1(5) by (simp_all add: magnitude_def)
  ultimately show ?thesis using w3(2-4) assms(3) by (intro exI [of _ "7 + (10 + 1)"] exI [of _ w3]) simp
next
  case False
  with assms show ?thesis by (intro exI [of _ 0] exI [of _ w]) (simp add: magnitude_def)
qed

lemma left_sign:
  fixes w :: w16
  assumes "wPC w = 0x0C87" and "wX w = x" and "wS w = s - 1 - d" and "d \<in> {3, 5}"
  shows "\<exists>n w'. n \<le> 13 \<and> runs x s operators n w w' \<and> wPC w' = 0x0C91 \<and> wX w' = x \<and> wY w' = 32 \<and> wS w' = wS w
    \<and> value_at w' 0 = magnitude (value_at w 0) \<and> value_at w' 6 = value_at w 6 \<and> DTemp1 w' = DTemp1 w
    \<and> wM w' (Var 0x16) = wM w (Var 0x16) + of_bool (bit (value_at w 0) 31) \<and> (\<forall>a. a \<noteq> d + 2 \<longrightarrow> wM w' (Slot a) = wM w (Slot a))"
proof -
  have "\<exists>w1. runs x s operators 2 w w1 \<and> wPC w1 = (if bit (value_at w 0) 31 then 0x0C8B else 0x0C8E) \<and> wX w1 = x \<and> wS w1 = wS w \<and> wM w1 = wM w"
    using assms by (cases w) (auto simp: steps bit_long)
  then obtain w1 where w1: "runs x s operators 2 w w1" "wPC w1 = (if bit (value_at w 0) 31 then 0x0C8B else 0x0C8E)" "wX w1 = x"
    "wS w1 = wS w" "wM w1 = wM w" by blast
  have "\<exists>n w2. n \<le> 10 \<and> runs x s operators n w1 w2 \<and> wPC w2 = 0x0C8E \<and> wX w2 = x \<and> wS w2 = wS w
    \<and> value_at w2 0 = magnitude (value_at w 0) \<and> value_at w2 6 = value_at w 6 \<and> DTemp1 w2 = DTemp1 w
    \<and> wM w2 (Var 0x16) = wM w (Var 0x16) + of_bool (bit (value_at w 0) 31) \<and> (\<forall>a. a \<noteq> d + 2 \<longrightarrow> wM w2 (Slot a) = wM w (Slot a))"
  proof (cases "bit (value_at w 0) 31")
    case True
    have "\<exists>w2. runs x s operators 10 w1 w2 \<and> wPC w2 = wPC w1 + 3 \<and> wX w2 = x \<and> wY w2 = wY w1 \<and> wS w2 = wS w1
      \<and> value_at w2 0 = - value_at w1 0 \<and> value_at w2 6 = value_at w1 6 \<and> DTemp1 w2 = DTemp1 w1
      \<and> wM w2 (Var 0x16) = wM w1 (Var 0x16) + 1 \<and> (\<forall>a. a \<noteq> d + 2 \<longrightarrow> wM w2 (Slot a) = wM w1 (Slot a))"
      using True w1(2-4) assms(3,4) by (intro negate_left) auto
    then show ?thesis using True w1(2,4) unfolding w1(5) by (intro exI [of _ 10]) (simp add: magnitude_def del: runs_numeral, blast)
  next
    case False
    with w1 show ?thesis by (intro exI [of _ 0] exI [of _ w1]) (simp add: magnitude_def)
  qed
  then obtain n w2 where w2: "n \<le> 10" "runs x s operators n w1 w2" "wPC w2 = 0x0C8E" "wX w2 = x" "wS w2 = wS w"
    "value_at w2 0 = magnitude (value_at w 0)" "value_at w2 6 = value_at w 6" "DTemp1 w2 = DTemp1 w"
    "wM w2 (Var 0x16) = wM w (Var 0x16) + of_bool (bit (value_at w 0) 31)" "\<forall>a. a \<noteq> d + 2 \<longrightarrow> wM w2 (Slot a) = wM w (Slot a)"
    by blast
  have "\<exists>w3. runs x s operators 1 w2 w3 \<and> wPC w3 = 0x0C91 \<and> wX w3 = x \<and> wY w3 = 32 \<and> wS w3 = wS w2 \<and> wM w3 = wM w2"
    using w2(3,4) by (cases w2) (simp add: steps)
  then obtain w3 where w3: "runs x s operators 1 w2 w3" "wPC w3 = 0x0C91" "wX w3 = x" "wY w3 = 32" "wS w3 = wS w2" "wM w3 = wM w2"
    by blast
  have "runs x s operators (2 + (n + 1)) w w3" using w1(1) w2(2) w3(1) by (blast intro: runs_trans)
  then show ?thesis using w2 w3 by (intro exI [of _ "2 + (n + 1)"] exI [of _ w3]) simp
qed

text \<open>From the loop to the return.\<close>

lemma give_sign:
  fixes w :: w16
  assumes "wPC w = 0x0CB1" and "wX w = x" and "wS w = s - 1 - d" and "d \<in> {3, 5}"
  shows "\<exists>n w'. n \<le> 15 \<and> runs x s operators n w w' \<and> wPC w' = wM w (Slot (d - 2)) + 1 \<and> wX w' = x \<and> wY w' = wM w (Slot d)
    \<and> wS w' = s + 3 - d \<and> value_at w' 0 = (if odd (wM w (Var 0x16)) then - value_at w 0 else value_at w 0) \<and> DTemp1 w' = DTemp1 w
    \<and> (\<forall>a. a \<noteq> d + 2 \<longrightarrow> wM w' (Slot a) = wM w (Slot a))"
proof -
  have "\<exists>w1. runs x s operators 3 w w1 \<and> wPC w1 = (if odd (wM w (Var 0x16)) then 0x0CB8 else 0x0CBB) \<and> wX w1 = x \<and> wS w1 = wS w \<and> wM w1 = wM w"
    using assms by (cases w) (simp add: steps even_iff_mod_2_eq_zero and_one_eq)
  then obtain w1 where w1: "runs x s operators 3 w w1" "wPC w1 = (if odd (wM w (Var 0x16)) then 0x0CB8 else 0x0CBB)" "wX w1 = x"
    "wS w1 = wS w" "wM w1 = wM w" by blast
  have "\<exists>n w2. n \<le> 10 \<and> runs x s operators n w1 w2 \<and> wPC w2 = 0x0CBB \<and> wX w2 = x \<and> wS w2 = wS w
    \<and> value_at w2 0 = (if odd (wM w (Var 0x16)) then - value_at w 0 else value_at w 0) \<and> DTemp1 w2 = DTemp1 w
    \<and> (\<forall>a. a \<noteq> d + 2 \<longrightarrow> wM w2 (Slot a) = wM w (Slot a))"
  proof (cases "odd (wM w (Var 0x16))")
    case True
    have "\<exists>w2. runs x s operators 10 w1 w2 \<and> wPC w2 = wPC w1 + 3 \<and> wX w2 = x \<and> wY w2 = wY w1 \<and> wS w2 = wS w1
      \<and> value_at w2 0 = - value_at w1 0 \<and> value_at w2 6 = value_at w1 6 \<and> DTemp1 w2 = DTemp1 w1
      \<and> wM w2 (Var 0x16) = wM w1 (Var 0x16) + 1 \<and> (\<forall>a. a \<noteq> d + 2 \<longrightarrow> wM w2 (Slot a) = wM w1 (Slot a))"
      using True w1(2-4) assms(3,4) by (intro negate_left) auto
    then show ?thesis using True w1(2,4) unfolding w1(5) by (intro exI [of _ 10]) (simp del: runs_numeral, blast)
  next
    case False
    with w1 show ?thesis by (intro exI [of _ 0] exI [of _ w1]) simp
  qed
  then obtain n w2 where w2: "n \<le> 10" "runs x s operators n w1 w2" "wPC w2 = 0x0CBB" "wX w2 = x" "wS w2 = wS w"
    "value_at w2 0 = (if odd (wM w (Var 0x16)) then - value_at w 0 else value_at w 0)" "DTemp1 w2 = DTemp1 w"
    "\<forall>a. a \<noteq> d + 2 \<longrightarrow> wM w2 (Slot a) = wM w (Slot a)" by blast
  have sl: "wM w2 (Slot d) = wM w (Slot d)" "wM w2 (Slot (d - 2)) = wM w (Slot (d - 2))" using w2(8) assms(4) by auto
  have "\<exists>w3. runs x s operators 2 w2 w3 \<and> wPC w3 = wM w2 (Slot (d - 2)) + 1 \<and> wX w3 = x \<and> wY w3 = wM w2 (Slot d) \<and> wS w3 = s + 3 - d
      \<and> wM w3 = wM w2"
    using w2(3-5) assms(3,4) by (cases w2) (auto simp: steps)
  then obtain w3 where w3: "runs x s operators 2 w2 w3" "wPC w3 = wM w2 (Slot (d - 2)) + 1" "wX w3 = x" "wY w3 = wM w2 (Slot d)"
    "wS w3 = s + 3 - d" "wM w3 = wM w2" by blast
  have "runs x s operators (3 + (n + 2)) w w3" using w1(1) w2(2) w3(1) by (blast intro: runs_trans)
  then show ?thesis using w2(1,6-8) w3 sl by (intro exI [of _ "3 + (n + 2)"] exI [of _ w3]) simp
qed

section \<open>The quotient\<close>

lemma unat_magnitude: "int (unat (magnitude v)) = \<bar>sint v\<bar>" "unat (magnitude v) \<le> 2 ^ 31" "bit v 31 \<longleftrightarrow> sint v < 0"
proof -
  have u: "unat v < 4294967296" using unsigned_less [of v, where ?'a = nat] by simp
  then have "unat v div 2147483648 = 0 \<or> unat v div 2147483648 = 1" by linarith
  then have b: "bit v 31 \<longleftrightarrow> \<not> unat v < 2147483648" unfolding bit_unat by (auto simp: div_eq_0_iff)
  have m: "unat (- v) = 4294967296 - unat v" if "\<not> unat v < 2147483648"
    using that unat_sub_if_size [of 0 v] by (auto simp: word_size word_le_nat_alt)
  show "bit v 31 \<longleftrightarrow> sint v < 0" using u unfolding b sint_unat(2) by (cases "unat v < 2147483648"; simp only: if_True if_False simp_thms; linarith)
  have "int (unat (magnitude v)) = \<bar>sint v\<bar> \<and> unat (magnitude v) \<le> 2 ^ 31"
  proof (cases "unat v < 2147483648")
    case True
    then show ?thesis by (simp add: magnitude_def b sint_unat(2))
  next
    case False
    then have e: "magnitude v = - v" "sint v = int (unat v) - 4294967296" by (simp_all add: magnitude_def b sint_unat(2))
    have "int (4294967296 - unat v) = \<bar>int (unat v) - 4294967296\<bar>" using u by arith
    then show ?thesis unfolding e m [OF False] using False by simp
  qed
  then show "int (unat (magnitude v)) = \<bar>sint v\<bar>" "unat (magnitude v) \<le> 2 ^ 31" by blast+
qed

definition quotient :: "u32 \<Rightarrow> u32 \<Rightarrow> u32" where
  "quotient u v = of_int (sint u sdiv sint v)"

definition remainder :: "u32 \<Rightarrow> u32 \<Rightarrow> u32" where
  "remainder u v = of_int (\<bar>sint u\<bar> mod \<bar>sint v\<bar>)"

lemma quotient_magnitudes:
  "(if bit u 31 \<noteq> bit v 31 then - 1 else 1) * of_nat (unat (magnitude u) div unat (magnitude v)) = quotient u v"
  and remainder_magnitudes: "of_nat (unat (magnitude u) mod unat (magnitude v)) = remainder u v"
proof -
  note m = unat_magnitude(1) [of u] unat_magnitude(1) [of v]
  have q: "(of_nat (unat (magnitude u) div unat (magnitude v)) :: u32) = of_int (\<bar>sint u\<bar> div \<bar>sint v\<bar>)"
    unfolding m [symmetric] of_nat_div [symmetric] by simp
  show "of_nat (unat (magnitude u) mod unat (magnitude v)) = remainder u v"
    unfolding remainder_def m [symmetric] of_nat_mod [symmetric] by simp
  show "(if bit u 31 \<noteq> bit v 31 then - 1 else 1) * of_nat (unat (magnitude u) div unat (magnitude v)) = quotient u v"
    unfolding q quotient_def unat_magnitude(3) signed_divide_int_def
    by (auto simp: sgn_if)
qed

section \<open>The routines\<close>

text \<open>The division, called with the return address in the slot \<open>d - 2\<close>.\<close>

lemma divide_prologue:
  fixes w :: w16
  assumes "wPC w = 0x0C54" and "numbers w" and "wX w = x" and "wS w = s + 1 - d" and "d \<in> {3, 5}" and "value_at w 6 \<noteq> 0"
  shows "\<exists>n w'. n \<le> 45 \<and> runs x s operators n w w' \<and> wPC w' = 0x0C91 \<and> wX w' = x \<and> wY w' = 32 \<and> wS w' = s - 1 - d
    \<and> value_at w' 0 = magnitude (value_at w 0) \<and> value_at w' 6 = magnitude (value_at w 6) \<and> DTemp1 w' = 0
    \<and> (odd (wM w' (Var 0x16)) \<longleftrightarrow> bit (value_at w 0) 31 \<noteq> bit (value_at w 6) 31)
    \<and> wM w' (Slot d) = wY w \<and> wM w' (Slot (d - 2)) = wM w (Slot (d - 2)) \<and> wM w' (Slot 1) = wM w (Slot 1)"
proof -
  obtain w1 where w1: "runs x s operators 5 w w1" "wPC w1 = 0x0C57" "wX w1 = x" "wY w1 = wY w" "wS w1 = wS w"
    "wM w1 = (wM w)(Slot d := wPC w + 2)"
    using check_numeric [OF _ assms(2-5)] assms(1) by (auto simp del: runs_numeral)
  have "\<exists>w2. runs x s operators 3 w1 w2 \<and> wPC w2 = 0x0C71 \<and> wX w2 = x \<and> wY w2 = wY w1 \<and> wS w2 = wS w1 \<and> wM w2 = wM w1"
    using assms(6) w1(2,3,6) unfolding long_zero by (cases w1) (simp add: steps)
  then obtain w2 where w2: "runs x s operators 3 w1 w2" "wPC w2 = 0x0C71" "wX w2 = x" "wY w2 = wY w1" "wS w2 = wS w1" "wM w2 = wM w1"
    by blast
  have v2: "value_at w2 0 = value_at w 0" "value_at w2 6 = value_at w 6" "wS w2 = s + 1 - d" "wY w2 = wY w"
    "\<forall>a. a \<noteq> d \<longrightarrow> wM w2 (Slot a) = wM w (Slot a)"
    using w1(4-6) w2(4-6) assms(4) by simp_all
  obtain w3 where w3: "runs x s operators 6 w2 w3" "wPC w3 = (if bit (value_at w2 6) 31 then 0x0C7C else 0x0C87)" "wX w3 = x"
    "wS w3 = s - 1 - d" "value_at w3 0 = value_at w2 0" "value_at w3 6 = value_at w2 6" "DTemp1 w3 = 0" "wM w3 (Var 0x16) = 0"
    "wM w3 (Slot d) = wY w2" "\<forall>a. a \<noteq> d \<longrightarrow> wM w3 (Slot a) = wM w2 (Slot a)"
    using clear_and_save [OF w2(2,3) v2(3) assms(5)] by blast
  have pc3: "wPC w3 = (if bit (value_at w3 6) 31 then 0x0C7C else 0x0C87)" unfolding w3(6) by (rule w3(2))
  obtain i w4 where w4: "i \<le> 18" "runs x s operators i w3 w4" "wPC w4 = 0x0C87" "wX w4 = x" "wS w4 = s - 1 - d"
    "value_at w4 0 = value_at w3 0" "value_at w4 6 = magnitude (value_at w3 6)" "DTemp1 w4 = DTemp1 w3"
    "wM w4 (Var 0x16) = of_bool (bit (value_at w3 6) 31)" "\<forall>a. a \<noteq> d + 2 \<and> a \<noteq> d + 4 \<longrightarrow> wM w4 (Slot a) = wM w3 (Slot a)"
    using right_sign [OF pc3 w3(3,4) assms(5) w3(8)] unfolding w3(4) by blast
  obtain j w5 where w5: "j \<le> 13" "runs x s operators j w4 w5" "wPC w5 = 0x0C91" "wX w5 = x" "wY w5 = 32" "wS w5 = wS w4"
    "value_at w5 0 = magnitude (value_at w4 0)" "value_at w5 6 = value_at w4 6" "DTemp1 w5 = DTemp1 w4"
    "wM w5 (Var 0x16) = wM w4 (Var 0x16) + of_bool (bit (value_at w4 0) 31)" "\<forall>a. a \<noteq> d + 2 \<longrightarrow> wM w5 (Slot a) = wM w4 (Slot a)"
    using left_sign [OF w4(3-5) assms(5)] by blast
  have "odd (wM w5 (Var 0x16)) \<longleftrightarrow> bit (value_at w 0) 31 \<noteq> bit (value_at w 6) 31"
    unfolding w5(7-10) w4(6-9) w3(5-8) v2(1,2) by auto
  moreover have "wM w5 (Slot d) = wY w" "wM w5 (Slot (d - 2)) = wM w (Slot (d - 2))" "wM w5 (Slot 1) = wM w (Slot 1)"
    using assms(5) w3(9,10) w4(10) w5(11) v2(4,5) by auto
  moreover have "runs x s operators (5 + (3 + (6 + (i + j)))) w w5"
    using w1(1) w2(1) w3(1) w4(2) w5(2) by (blast intro: runs_trans)
  moreover have "value_at w5 0 = magnitude (value_at w 0)" "value_at w5 6 = magnitude (value_at w 6)" "DTemp1 w5 = 0"
    unfolding w5(7-9) w4(6-8) w3(5-7) v2(1,2) by simp_all
  ultimately show ?thesis using w4(1,5) w5(1,3-6) by (intro exI [of _ "5 + (3 + (6 + (i + j)))"] exI [of _ w5]) simp
qed

lemma divide_routine:
  fixes w :: w16
  assumes "wPC w = 0x0C54" and "numbers w" and "wX w = x" and "wS w = s + 1 - d" and "d \<in> {3, 5}" and "value_at w 6 \<noteq> 0"
  shows "\<exists>n w'. n \<le> 604 \<and> runs x s operators n w w' \<and> wPC w' = wM w (Slot (d - 2)) + 1 \<and> wX w' = x \<and> wY w' = wY w \<and> wS w' = s + 3 - d
    \<and> value_at w' 0 = quotient (value_at w 0) (value_at w 6) \<and> DTemp1 w' = remainder (value_at w 0) (value_at w 6)
    \<and> wM w' (Slot 1) = wM w (Slot 1)"
proof -
  let ?u = "value_at w 0" and ?v = "value_at w 6"
  obtain j w5 where w5: "j \<le> 45" "runs x s operators j w w5" "wPC w5 = 0x0C91" "wX w5 = x" "wY w5 = 32" "wS w5 = s - 1 - d"
    and v5: "value_at w5 0 = magnitude ?u" "value_at w5 6 = magnitude ?v" "DTemp1 w5 = 0"
      "odd (wM w5 (Var 0x16)) \<longleftrightarrow> bit ?u 31 \<noteq> bit ?v 31"
    and sl: "wM w5 (Slot d) = wY w" "wM w5 (Slot (d - 2)) = wM w (Slot (d - 2))" "wM w5 (Slot 1) = wM w (Slot 1)"
    using divide_prologue [OF assms] by blast
  have m0: "0 < unat (magnitude ?v)"
  proof -
    have "magnitude ?v \<noteq> 0" using assms(6) by (simp add: magnitude_def)
    then show ?thesis by (simp add: unat_gt_0)
  qed
  have mu: "unat (magnitude ?u) < 2 ^ 32" using unsigned_less [of "magnitude ?u", where ?'a = nat] by simp
  have "\<exists>k w6. k \<le> 17 * Suc 31 \<and> runs x s operators k w5 w6 \<and> framed w5 w6 \<and> wPC w6 = 0x0CB1
    \<and> unat (value_at w6 0) = unat (magnitude ?u) div unat (value_at w5 6) \<and> unat (DTemp1 w6) = unat (magnitude ?u) mod unat (value_at w5 6)"
    using w5(3-5) v5 m0 mu unat_magnitude(2) [of ?v] dividing_start [OF mu m0] by (intro divide_loop) simp_all
  then obtain k w6 where w6: "k \<le> 17 * 32" "runs x s operators k w5 w6" "framed w5 w6" "wPC w6 = 0x0CB1"
    "unat (value_at w6 0) = unat (magnitude ?u) div unat (magnitude ?v)" "unat (DTemp1 w6) = unat (magnitude ?u) mod unat (magnitude ?v)"
    unfolding v5(2) by auto
  have s6: "wX w6 = x" "wS w6 = s - 1 - d" "\<And>a. wM w6 (Slot a) = wM w5 (Slot a)" "wM w6 (Var 0x16) = wM w5 (Var 0x16)"
    using w6(3) w5(4,6) by (simp_all add: framed_def)
  obtain l w7 where w7: "l \<le> 15" "runs x s operators l w6 w7" "wPC w7 = wM w6 (Slot (d - 2)) + 1" "wX w7 = x" "wY w7 = wM w6 (Slot d)"
    "wS w7 = s + 3 - d" "value_at w7 0 = (if odd (wM w6 (Var 0x16)) then - value_at w6 0 else value_at w6 0)" "DTemp1 w7 = DTemp1 w6"
    "\<forall>a. a \<noteq> d + 2 \<longrightarrow> wM w7 (Slot a) = wM w6 (Slot a)"
    using give_sign [OF w6(4) s6(1,2) assms(5)] by blast
  have slots: "wM w6 (Slot d) = wY w" "wM w6 (Slot (d - 2)) = wM w (Slot (d - 2))" "wM w7 (Slot 1) = wM w (Slot 1)"
    using assms(5) w7(9) sl s6(3) by auto
  have q: "value_at w6 0 = of_nat (unat (magnitude ?u) div unat (magnitude ?v))" "DTemp1 w6 = of_nat (unat (magnitude ?u) mod unat (magnitude ?v))"
    unfolding w6(5,6) [symmetric] by simp_all
  have "value_at w7 0 = quotient ?u ?v"
    unfolding w7(7) s6(4) v5(4) quotient_magnitudes [symmetric] q by simp
  moreover have "DTemp1 w7 = remainder ?u ?v" unfolding w7(8) q by (rule remainder_magnitudes)
  moreover have "runs x s operators (j + (k + l)) w w7"
    using w5(2) w6(2) w7(2) by (blast intro: runs_trans)
  moreover have "j + (k + l) \<le> 604" using w5(1) w6(1) w7(1) by simp
  ultimately show ?thesis using w7(3-6) slots by (intro exI [of _ "j + (k + l)"] exI [of _ w7]) simp
qed

lemma divide_computes: "computes_if 0x0C54 604 (\<lambda>u v. v \<noteq> 0) quotient"
  unfolding computes_if_def
proof (intro allI impI)
  fix x s w assume e: "entered x s 0x0C54 w" "numbers w" "value_at w 6 \<noteq> 0"
  with divide_routine [of w x s 3] show "\<exists>n w'. n \<le> 604 \<and> runs x s operators n w w' \<and> finished x s w w'
      \<and> value_at w' 0 = quotient (value_at w 0) (value_at w 6)"
    by (auto simp: entered_def finished_def)
qed

lemma modulus_computes: "computes_if 0x0CCF 610 (\<lambda>u v. v \<noteq> 0) remainder"
  unfolding computes_if_def
proof (intro allI impI)
  fix x s w assume e: "entered x s 0x0CCF w" "numbers w" "value_at w 6 \<noteq> 0"
  have "\<exists>w1. runs x s operators 1 w w1 \<and> wPC w1 = 0x0C54 \<and> wX w1 = x \<and> wY w1 = wY w \<and> wS w1 = s + 1 - 5 \<and> wM w1 = (wM w)(Slot 3 := 0x0CD1)"
    using e(1) by (cases w) (simp add: steps entered_def)
  then obtain w1 where w1: "runs x s operators 1 w w1" "wPC w1 = 0x0C54" "wX w1 = x" "wY w1 = wY w" "wS w1 = s + 1 - 5"
    "wM w1 = (wM w)(Slot 3 := 0x0CD1)" by blast
  obtain n w2 where w2: "n \<le> 604" "runs x s operators n w1 w2" "wPC w2 = 0x0CD2" "wX w2 = x" "wY w2 = wY w1" "wS w2 = s - 2"
    "DTemp1 w2 = remainder (value_at w1 0) (value_at w1 6)" "wM w2 (Slot 1) = wM w1 (Slot 1)"
    using divide_routine [OF w1(2) _ w1(3,5)] e(2,3) w1(6) by (auto simp: numbers_def)
  have "\<exists>w3. runs x s operators 5 w2 w3 \<and> finished x s w2 w3 \<and> value_at w3 0 = DTemp1 w2"
    using w2(3,4,6) by (cases w2) (simp add: steps finished_def)
  then obtain w3 where w3: "runs x s operators 5 w2 w3" "finished x s w2 w3" "value_at w3 0 = DTemp1 w2" by blast
  have "runs x s operators (1 + (n + 5)) w w3" using w1(1) w2(2) w3(1) by (blast intro: runs_trans)
  then show "\<exists>n w'. n \<le> 610 \<and> runs x s operators n w w' \<and> finished x s w w'
      \<and> value_at w' 0 = remainder (value_at w 0) (value_at w 6)"
    using w1 w2 w3 by (intro exI [of _ "1 + (n + 5)"] exI [of _ w3]) (simp add: finished_def)
qed

end
