(* ===== verification/Basic.thy ===== *)
theory Basic
  imports Basic_Comparison Basic_Division
begin

text \<open>
  The binary operators of the BASIC interpreter on the emulator: each computes its result and
  returns, or calls the error handler.
\<close>

section \<open>A memory with the code\<close>

definition code_bytes :: "(u16 \<times> line) list \<Rightarrow> (u20 \<times> u8) list" where
  "code_bytes ps = concat (map (\<lambda>p. map (\<lambda>k. (ucast (bank 1 (fst p + of_nat k)), encode (snd p) ! k))
     [0 ..< length (encode (snd p))]) ps)"

definition rom :: "(u16 \<times> line) list \<Rightarrow> u20 \<Rightarrow> u8" where
  "rom ps a = (case map_of (code_bytes ps) a of Some b \<Rightarrow> b | None \<Rightarrow> 0)"

lemma loaded_rom:
  assumes "distinct (map fst (code_bytes ps))" and "list_all (\<lambda>p. fst (snd p) \<in> set opcode_table) ps"
  shows "loaded 1 ps (rom ps)"
proof -
  have "line_at 1 p (rom ps)" if "p \<in> set ps" for p
    unfolding line_at_def list_all_iff
  proof
    fix k assume "k \<in> set [0 ..< length (encode (snd p))]"
    with that have "(ucast (bank 1 (fst p + of_nat k)), encode (snd p) ! k) \<in> set (code_bytes ps)"
      by (auto simp: code_bytes_def intro!: bexI [of _ p])
    with assms(1) show "rom ps (ucast (bank 1 (fst p + of_nat k))) = encode (snd p) ! k" by (simp add: rom_def)
  qed
  with assms(2) show ?thesis by (simp add: loaded_def list_all_iff)
qed

lemma operators_known: "list_all (\<lambda>p. fst (snd p) \<in> set opcode_table) operators"
  by (simp add: operator_lines opcode_table_def)

lemma addresses:
  "map fst (code_bytes ps) = concat (map (\<lambda>p. map (\<lambda>k. ucast (bank 1 (fst p + of_nat k))) [0 ..< min 3 (isize (fst (snd p)))]) ps)"
  by (simp add: code_bytes_def map_concat encode_def comp_def numeral_3_eq_3 min.commute)

lemma operators_distinct: "distinct (map fst (code_bytes operators))"
proof -
  have "sorted_wrt (<) (map fst (code_bytes operators))"
    unfolding addresses
    by (simp add: operator_lines bank_def sorted_wrt1 sorted_wrt2 [OF transp_on_less] upt_rec del: sorted_wrt.simps(2))
  then show ?thesis by (simp add: strict_sorted_iff)
qed

lemmas operators_loaded = loaded_rom [OF operators_distinct operators_known]

section \<open>The operators\<close>

text \<open>The operators of the language, with their entries in the jump table, and what they compute:
  words of 32 bits, the comparisons and the division on their signed readings. The reference is
  \<open>calculate\<close> of \<open>src/scripts/test_maths.py\<close>: the quotient is truncated and the remainder floored. For
  operands that are not negative the two fit together; there is more on the others below.\<close>

datatype operator = And_op | Or_op | Xor_op | Less_op | Greater_op | Equal_op | LessEqual_op | GreaterEqual_op | NotEqual_op
  | Plus_op | Minus_op | Times_op | Divide_op | Modulus_op | ShiftRight_op | ShiftLeft_op

fun entry :: "operator \<Rightarrow> u16" where
  "entry And_op = 0x0B00" | "entry Or_op = 0x0B10" | "entry Xor_op = 0x0B20"
| "entry Less_op = 0x0B64" | "entry Greater_op = 0x0BCB" | "entry Equal_op = 0x0B30"
| "entry LessEqual_op = 0x0BAD" | "entry GreaterEqual_op = 0x0B8F" | "entry NotEqual_op = 0x0B4A"
| "entry Plus_op = 0x0A4A" | "entry Minus_op = 0x0ACB" | "entry Times_op = 0x0CDB"
| "entry Divide_op = 0x0C54" | "entry Modulus_op = 0x0CCF"
| "entry ShiftRight_op = 0x0ADC" | "entry ShiftLeft_op = 0x0AEE"

definition truth :: "bool \<Rightarrow> u32" where
  "truth b = (if b then - 1 else 0)"

fun result :: "operator \<Rightarrow> u32 \<Rightarrow> u32 \<Rightarrow> u32" where
  "result And_op u v = u AND v"
| "result Or_op u v = u OR v"
| "result Xor_op u v = u XOR v"
| "result Less_op u v = truth (sint u < sint v)"
| "result Greater_op u v = truth (sint u > sint v)"
| "result Equal_op u v = truth (u = v)"
| "result LessEqual_op u v = truth (sint u \<le> sint v)"
| "result GreaterEqual_op u v = truth (sint u \<ge> sint v)"
| "result NotEqual_op u v = truth (u \<noteq> v)"
| "result Plus_op u v = u + v"
| "result Minus_op u v = u - v"
| "result Times_op u v = u * v"
| "result Divide_op u v = of_int (sint u sdiv sint v)"
| "result Modulus_op u v = of_int (sint u mod sint v)"
| "result ShiftRight_op u v = drop_bit (unat (v AND 63)) u"
| "result ShiftLeft_op u v = push_bit (unat (v AND 63)) u"

definition divides :: "operator \<Rightarrow> bool" where
  "divides i \<longleftrightarrow> i \<in> {Divide_op, Modulus_op}"

definition admissible :: "operator \<Rightarrow> u32 \<Rightarrow> u32 \<Rightarrow> bool" where
  "admissible i u v \<longleftrightarrow> (divides i \<longrightarrow> v \<noteq> 0) \<and> (i = Modulus_op \<longrightarrow> 0 \<le> sint u \<and> 0 < sint v)"

lemma computes_weaken:
  assumes "computes_if a k p f" and "a = a'" and "k \<le> k'" and "\<And>u v. p' u v \<Longrightarrow> p u v" and "\<And>u v. p' u v \<Longrightarrow> f' u v = f u v"
  shows "computes_if a' k' p' f'"
  unfolding computes_if_def
proof (intro allI impI)
  fix x s w assume e: "entered x s a' w" "numbers w" "p' (value_at w 0) (value_at w 6)"
  then obtain n w' where "n \<le> k" "runs x s operators n w w'" "finished x s w w'" "value_at w' 0 = f (value_at w 0) (value_at w 6)"
    using assms(1,2,4) unfolding computes_if_def by blast
  with assms(3) assms(5) [OF e(3)] show "\<exists>n w'. n \<le> k' \<and> runs x s operators n w w' \<and> finished x s w w' \<and> value_at w' 0 = f' (value_at w 0) (value_at w 6)"
    by (intro exI [of _ n] exI [of _ w']) simp
qed

lemma operator_computes: "computes_if (entry i) 610 (admissible i) (result i)"
proof -
  note r = truth_def quotient_def remainder_def divides_def admissible_def
  show ?thesis
  proof (cases i)
    case And_op
    show ?thesis by (rule computes_weaken [OF logic_computes(1)]) (simp_all add: And_op r)
  next
    case Or_op
    show ?thesis by (rule computes_weaken [OF logic_computes(2)]) (simp_all add: Or_op r)
  next
    case Xor_op
    show ?thesis by (rule computes_weaken [OF logic_computes(3)]) (simp_all add: Xor_op r)
  next
    case Less_op
    show ?thesis by (rule computes_weaken [OF comparisons_compute(3)]) (simp_all add: Less_op r)
  next
    case Greater_op
    show ?thesis by (rule computes_weaken [OF comparisons_compute(4)]) (simp_all add: Greater_op r)
  next
    case Equal_op
    show ?thesis by (rule computes_weaken [OF comparisons_compute(1)]) (simp_all add: Equal_op r)
  next
    case LessEqual_op
    show ?thesis by (rule computes_weaken [OF comparisons_compute(5)]) (simp_all add: LessEqual_op r)
  next
    case GreaterEqual_op
    show ?thesis by (rule computes_weaken [OF comparisons_compute(6)]) (simp_all add: GreaterEqual_op r)
  next
    case NotEqual_op
    show ?thesis by (rule computes_weaken [OF comparisons_compute(2)]) (simp_all add: NotEqual_op r)
  next
    case Plus_op
    show ?thesis by (rule computes_weaken [OF add_computes]) (simp_all add: Plus_op r)
  next
    case Minus_op
    show ?thesis by (rule computes_weaken [OF subtract_computes]) (simp_all add: Minus_op r)
  next
    case Times_op
    show ?thesis by (rule computes_weaken [OF multiply_computes]) (simp_all add: Times_op r)
  next
    case Divide_op
    show ?thesis by (rule computes_weaken [OF divide_computes]) (simp_all add: Divide_op r)
  next
    case Modulus_op
    show ?thesis by (rule computes_weaken [OF modulus_computes]) (simp_all add: Modulus_op r)
  next
    case ShiftRight_op
    show ?thesis by (rule computes_weaken [OF shifts_compute(1)]) (simp_all add: ShiftRight_op r)
  next
    case ShiftLeft_op
    show ?thesis by (rule computes_weaken [OF shifts_compute(2)]) (simp_all add: ShiftLeft_op r)
  qed
qed

section \<open>The errors\<close>

text \<open>The message of the error that an operator raises on operands of the types \<open>l\<close> and \<open>r\<close> (true for a
  string) and the right operand \<open>v\<close>: the text lies behind the call of the handler.\<close>

definition comparison :: "operator \<Rightarrow> bool" where
  "comparison i \<longleftrightarrow> i \<in> {Less_op, Greater_op, Equal_op, LessEqual_op, GreaterEqual_op, NotEqual_op}"

definition fault :: "operator \<Rightarrow> bool \<Rightarrow> bool \<Rightarrow> u32 \<Rightarrow> u16 option" where
  "fault i l r v =
     (if i = Plus_op then if l \<noteq> r then Some 0x0A65 else None
      else if comparison i then if l \<noteq> r then Some 0x0BF8 else None
      else if l \<or> r then Some 0x0616
      else if divides i \<and> v = 0 then Some 0x0C60
      else None)"

text \<open>The call of the handler, for the machine of words: the slot \<open>d\<close> holds the address of the message.\<close>

definition raised :: "u16 \<Rightarrow> u16 \<Rightarrow> u16 \<Rightarrow> w16 \<Rightarrow> w16 \<Rightarrow> bool" where
  "raised x s m w w' \<longleftrightarrow> wPC w' = 0x0583 \<and> wX w' = x \<and> wY w' = wY w \<and> (\<forall>a. wM w' (Val a) = wM w (Val a))
     \<and> (\<exists>d \<in> {3, 5, 7}. wS w' = s - (d + 1) \<and> wM w' (Slot d) + 1 = m)"

lemma numeric_raises:
  assumes "wPC w = a" and "wX w = x" and "wS w = s + 1 - d" and "d \<in> {3, 5}" and "map_of operators a = Some (Jsr, 0x060C)"
    and "bit (wM w (Val 4)) 15 \<or> bit (wM w (Val 10)) 15"
  shows "\<exists>w'. runs x s operators 5 w w' \<and> raised x s 0x0616 w w'"
  using assms by (cases w) (auto simp: steps bit_or_iff raised_def)

lemma add_raises:
  assumes "entered x s 0x0A4A w" and "bit (wM w (Val 4)) 15 \<noteq> bit (wM w (Val 10)) 15"
  shows "\<exists>w'. runs x s operators 4 w w' \<and> raised x s 0x0A65 w w'"
  using assms by (cases w) (simp add: steps bit_xor_iff raised_def entered_def)

lemma comparison_raises:
  assumes "entered x s a w" and "map_of operators a = Some (Jsr, 0x0BE9)" and "bit (wM w (Val 4)) 15 \<noteq> bit (wM w (Val 10)) 15"
  shows "\<exists>w'. runs x s operators 5 w w' \<and> raised x s 0x0BF8 w w'"
  using assms by (cases w) (simp add: steps bit_xor_iff raised_def entered_def)

lemma zero_raises:
  fixes w :: w16
  assumes "wPC w = 0x0C54" and "wX w = x" and "wS w = s + 1 - d" and "d \<in> {3, 5}" and "numbers w" and "value_at w 6 = 0"
  shows "\<exists>w'. runs x s operators 9 w w' \<and> raised x s 0x0C60 w w'"
  using assms unfolding long_zero by (cases w) (auto simp: steps bit_or_iff raised_def numbers_def)

lemma raises_first:
  assumes "runs x s operators 1 w w1" and "wY w1 = wY w" and "\<forall>a. wM w1 (Val a) = wM w (Val a)"
    and "runs x s operators n w1 w'" and "raised x s m w1 w'"
  shows "runs x s operators (1 + n) w w' \<and> raised x s m w w'"
  using runs_trans [OF assms(1,4)] assms(2,3,5) by (simp add: raised_def)

lemma modulus_calls:
  assumes "entered x s 0x0CCF w"
  shows "\<exists>w'. runs x s operators 1 w w' \<and> wPC w' = 0x0C54 \<and> wX w' = x \<and> wY w' = wY w \<and> wS w' = s + 1 - 5
    \<and> (\<forall>a. wM w' (Val a) = wM w (Val a))"
  using assms by (cases w) (simp add: steps entered_def)

lemma operator_raises:
  assumes "entered x s (entry i) w"
    and "fault i (bit (wM w (Val 4)) 15) (bit (wM w (Val 10)) 15) (value_at w 6) = Some m"
  shows "\<exists>n w'. n \<le> 10 \<and> runs x s operators n w w' \<and> raised x s m w w'"
proof -
  have e: "wX w = x" "wPC w = entry i" "wS w = s + 1 - 3" using assms(1) by (simp_all add: entered_def)
  consider "i = Plus_op" | "comparison i" | "i = Modulus_op" | "i \<noteq> Plus_op" "i \<noteq> Modulus_op" "\<not> comparison i" by blast
  then show ?thesis
  proof cases
    case 1
    with assms add_raises [of x s w] show ?thesis
      by (intro exI [of _ 4]) (simp add: fault_def split: if_splits del: runs_numeral)
  next
    case 2
    then have "map_of operators (entry i) = Some (Jsr, 0x0BE9)" "i \<noteq> Plus_op" by (auto simp: comparison_def)
    with assms 2 comparison_raises [of x s "entry i" w] show ?thesis
      by (intro exI [of _ 5]) (simp add: fault_def split: if_splits del: runs_numeral)
  next
    case 3
    obtain w1 where w1: "runs x s operators 1 w w1" "wPC w1 = 0x0C54" "wX w1 = x" "wY w1 = wY w" "wS w1 = s + 1 - 5"
      "\<forall>a. wM w1 (Val a) = wM w (Val a)"
      using modulus_calls [of x s w] assms(1) 3 by (auto simp del: runs_numeral)
    note first = raises_first [OF w1(1,4,6)]
    show ?thesis
    proof (cases "numbers w")
      case True
      with assms(2) 3 have z: "value_at w 6 = 0" "m = 0x0C60"
        by (simp_all add: fault_def numbers_def comparison_def divides_def split: if_splits)
      have "\<exists>w'. runs x s operators 9 w1 w' \<and> raised x s 0x0C60 w1 w'"
        using True z w1 by (intro zero_raises [where d = 5]) (simp_all add: numbers_def)
      with first [of 9] z show ?thesis by (intro exI [of _ "1 + 9"]) (simp del: runs_numeral, blast)
    next
      case False
      then have n: "bit (wM w1 (Val 4)) 15 \<or> bit (wM w1 (Val 10)) 15" using w1(6) by (simp add: numbers_def)
      have m: "m = 0x0616" using assms(2) 3 False by (simp add: fault_def numbers_def comparison_def split: if_splits)
      have "\<exists>w'. runs x s operators 5 w1 w' \<and> raised x s 0x0616 w1 w'"
        using n w1 by (intro numeric_raises [where a = "0x0C54" and d = 5]) simp_all
      with first [of 5] m show ?thesis by (intro exI [of _ "1 + 5"]) (simp del: runs_numeral, blast)
    qed
  next
    case 4
    then have a: "map_of operators (entry i) = Some (Jsr, 0x060C)" by (cases i) (simp_all add: comparison_def)
    show ?thesis
    proof (cases "numbers w")
      case True
      with assms(2) 4 have z: "value_at w 6 = 0" "m = 0x0C60" "i = Divide_op"
        by (simp_all add: fault_def numbers_def divides_def split: if_splits)
      have "\<exists>w'. runs x s operators 9 w w' \<and> raised x s 0x0C60 w w'"
        using True z e by (intro zero_raises [where d = 3]) simp_all
      with z show ?thesis by (intro exI [of _ 9]) (simp del: runs_numeral)
    next
      case False
      have m: "m = 0x0616" using assms(2) 4 False by (simp add: fault_def numbers_def split: if_splits)
      have "\<exists>w'. runs x s operators 5 w w' \<and> raised x s 0x0616 w w'"
        using a e False by (intro numeric_raises [where a = "entry i" and d = 3]) (simp_all add: numbers_def)
      with m show ?thesis by (intro exI [of _ 5]) (simp del: runs_numeral)
    qed
  qed
qed

text \<open>The same of the core: it is at the handler, and the word on the stack is the address of the message.\<close>

definition failed :: "u16 \<Rightarrow> cpu \<Rightarrow> cpu \<Rightarrow> bool" where
  "failed m c c' \<longleftrightarrow> (let t = abs_cpu c; u = abs_cpu c' in rPC u = 0x0583 \<and> rPB u = rPB t \<and> rX u = rX t \<and> rY u = rY t
     \<and> word0 (rS u + 1) u + 1 = m \<and> (\<forall>a \<in> {0, 2, 4, 6, 8, 10}. exs a c' = exs a c)
     \<and> (\<forall>a. a \<notin> set (cell_bytes (rX t) (rS t + 2)) \<longrightarrow> mem u a = mem t a))"

lemma exs_view:
  assumes "x = rX (abs_cpu c)" and "a \<in> {0, 2, 4, 6, 8, 10}"
  shows "wM (view x s (abs_cpu c)) (Val a) = exs a c"
  using assms by (auto simp: view_def cells_def exs_def)

lemma raised_failed:
  assumes "called a c" and "x = rX (abs_cpu c)" and "s = rS (abs_cpu c) + 2" and "w = view x s (abs_cpu c)"
    and "runs x s operators n w w'" and "raised x s m w w'"
  shows "failed m c (run n c)"
proof -
  note v = called_view [OF assms(1-4)]
  note r = core_runs [OF v(1), of n w', folded assms(4), OF assms(5)]
  obtain d where d: "d \<in> {3, 5, 7}" "wS w' = s - (d + 1)" "wM w' (Slot d) + 1 = m" using assms(6) by (auto simp: raised_def)
  have u: "wX w' = rX (abs_cpu (run n c))" "wY w' = rY (abs_cpu (run n c))" "wS w' = rS (abs_cpu (run n c))"
    "wPC w' = rPC (abs_cpu (run n c))"
    using r(1) by auto
  have f: "fits x s (rDB (abs_cpu c)) (mem (abs_cpu c)) (abs_cpu (run n c))" using r(2) by (simp add: hosts_def)
  have "rS (abs_cpu (run n c)) + 1 = s - d" unfolding u(3) [symmetric] d(2) by simp
  then have "word0 (rS (abs_cpu (run n c)) + 1) (abs_cpu (run n c)) + 1 = m"
    using d(1,3) unfolding r(1) [symmetric] by (auto simp: view_def cells_def)
  moreover have "\<forall>a \<in> {0, 2, 4, 6, 8, 10}. exs a (run n c) = exs a c"
  proof -
    have x: "x = rX (abs_cpu (run n c))" using assms(6) u(1) by (simp add: raised_def)
    show ?thesis
    proof
      fix a :: u16 assume a: "a \<in> {0, 2, 4, 6, 8, 10}"
      have "wM w' (Val a) = wM w (Val a)" using assms(6) by (simp add: raised_def)
      then show "exs a (run n c) = exs a c"
        unfolding r(1) [symmetric] assms(4) exs_view [OF x a] exs_view [OF assms(2) a] .
    qed
  qed
  ultimately show ?thesis
    using assms(1,2,3,6) v(3) u f by (simp add: failed_def raised_def Let_def fits_def called_def)
qed

section \<open>A state\<close>

text \<open>A state in which the interpreter has called an operator: the left operand has the type word \<open>t\<close>
  in its high byte and the value \<open>u\<close>, the right operand is the integer \<open>v\<close>.\<close>

definition operand_page :: "u8 \<Rightarrow> u32 \<Rightarrow> u32 \<Rightarrow> u20 \<Rightarrow> u8" where
  "operand_page t u v = (rom operators)(0xF200 := ucast u, 0xF201 := ucast (drop_bit 8 u), 0xF202 := ucast (drop_bit 16 u),
     0xF203 := ucast (drop_bit 24 u), 0xF205 := t, 0xF206 := ucast v, 0xF207 := ucast (drop_bit 8 v),
     0xF208 := ucast (drop_bit 16 v), 0xF209 := ucast (drop_bit 24 v))"

definition calling :: "operator \<Rightarrow> u8 \<Rightarrow> u32 \<Rightarrow> u32 \<Rightarrow> cpu" where
  "calling i t u v = (native_cpu (\<lambda>a. operand_page t u v (ucast a)))
     \<lparr>reg_dpr := DirectPage, reg_x := 0x200, reg_sp := 0xF3F0, reg_pbr := 1, reg_pc := ucast (entry i)\<rparr>"

lemma unat_bank1: "unat (ucast (bank 1 p) :: u20) = 65536 + unat p"
  using u16_bound [of p] by (simp add: bank_def unat_ucast_wide unat_plus_if' push_bit_eq_mult unat_word_ariths)

lemma loaded_update:
  assumes "loaded 1 ps M" and "unat a < 65536"
  shows "loaded 1 ps (M(a := v))"
proof -
  have "ucast (bank 1 p) \<noteq> a" for p using unat_bank1 [of p] assms(2) by auto
  with assms(1) show ?thesis by (simp add: loaded_def line_at_def list_all_iff)
qed

lemma data_page: "unat a < 65536 \<Longrightarrow> rom operators a = 0"
proof -
  assume "unat a < 65536"
  then have "\<forall>p. ucast (bank 1 p) \<noteq> a" using unat_bank1 by (metis not_add_less1)
  then have "a \<notin> fst ` set (code_bytes operators)" by (auto simp: code_bytes_def)
  then show ?thesis by (simp add: rom_def map_of_eq_None_iff [THEN iffD2])
qed

lemma calling_mem: "mem (abs_cpu (calling i t u v)) = operand_page t u v"
proof -
  have "ucast (ucast a :: u32) = a" for a :: u20 by (rule bit_eqI) (simp add: bit_simps)
  then show ?thesis by (simp add: calling_def abs_cpu_def native_cpu_def initial_cpu_def)
qed

lemma calling_called: "called (entry i) (calling i t u v)"
proof -
  have "loaded 1 operators (mem (abs_cpu (calling i t u v)))"
    unfolding calling_mem operand_page_def by (intro loaded_update operators_loaded) simp_all
  moreover have "reg_pc (calling i t u v) \<le> 0xFFFF"
    using u16_bound [of "entry i"] by (simp add: calling_def word_le_nat_alt unat_ucast_wide)
  ultimately show ?thesis unfolding called_def Let_def
    by (simp add: abs_cpu_def calling_def native_cpu_def initial_cpu_def wf_cpu_def mode_ok_def
        layout_ok_def LOCAL_65816_STATUS_def)
qed

lemma bit_pair: "bit (pair v w) n \<longleftrightarrow> (if n < 8 then bit v n else bit w (n - 8))"
proof -
  have "ucast v + push_bit 8 (ucast w) = (ucast v OR push_bit 8 (ucast w) :: u16)"
    by (rule disjunctive_add) (auto simp: bit_simps dest: bit_imp_le_length)
  then show ?thesis by (auto simp: pair_def bit_simps dest: bit_imp_le_length)
qed

lemma long_bytes:
  "long (pair (ucast u) (ucast (drop_bit 8 u))) (pair (ucast (drop_bit 16 u)) (ucast (drop_bit 24 u))) = u"
  by (rule bit_eqI) (auto simp: bit_long bit_pair bit_simps)

lemma calling_exs:
  "exs a (calling i t u v) = pair (operand_page t u v (ucast (0xF200 + a))) (operand_page t u v (ucast (0xF201 + a)))"
proof -
  have "rX (abs_cpu (calling i t u v)) = 0x200" by (simp add: calling_def abs_cpu_def)
  moreover have "ucast (ucast p :: u24) = (ucast p :: u20)" for p :: u16 by (rule bit_eqI) (simp add: bit_simps)
  ultimately show ?thesis by (simp add: exs_def word0_def rd0_def rd_def calling_mem add.commute)
qed

lemma calling_values:
  "left_value (calling i t u v) = u" "right_value (calling i t u v) = v"
  "integers (calling i t u v) \<longleftrightarrow> \<not> bit t 7"
  "bit (exs 4 (calling i t u v)) 15 \<longleftrightarrow> bit t 7" "bit (exs 10 (calling i t u v)) 15 \<longleftrightarrow> False"
  by (simp_all add: left_value_def right_value_def integers_def calling_exs operand_page_def data_page bit_pair long_bytes)

section \<open>The remainder of signed numbers\<close>

lemma sint_nonzero: "(v :: u32) \<noteq> 0 \<Longrightarrow> sint v \<noteq> 0"
proof
  assume "v \<noteq> 0" and "sint v = 0"
  moreover have "word_of_int (sint v) = v" by simp
  ultimately show False by simp
qed

lemma sint_remainder:
  fixes v :: u32
  assumes "v \<noteq> 0"
  shows "sint (of_int (\<bar>k\<bar> mod \<bar>sint v\<bar>) :: u32) = \<bar>k\<bar> mod \<bar>sint v\<bar>"
proof -
  have "\<bar>sint v\<bar> \<le> 2 ^ 31" using sint_greater_eq [of v] sint_less [of v] by simp
  moreover have "sint v \<noteq> 0" using assms by (rule sint_nonzero)
  then have "0 \<le> \<bar>k\<bar> mod \<bar>sint v\<bar>" "\<bar>k\<bar> mod \<bar>sint v\<bar> < \<bar>sint v\<bar>" by simp_all
  moreover have "sint (of_int m :: u32) = signed_take_bit 31 m" for m by (simp add: signed_of_int)
  ultimately show ?thesis by (simp only:) (rule signed_take_bit_int_eq_self; linarith)
qed

lemma remainder_signs:
  fixes u v :: int
  assumes "\<not> v dvd u" and "v \<noteq> 0"
  shows "u < 0 \<Longrightarrow> \<bar>u\<bar> mod \<bar>v\<bar> \<noteq> u - (u sdiv v) * v" and "v < 0 \<Longrightarrow> \<bar>u\<bar> mod \<bar>v\<bar> \<noteq> u mod v"
proof -
  have p: "0 < \<bar>u\<bar> mod \<bar>v\<bar>"
    using assms by (metis abs_dvd_iff dvd_abs_iff dvd_eq_mod_eq_0 order_le_less pos_mod_sign zero_less_abs_iff)
  show "\<bar>u\<bar> mod \<bar>v\<bar> \<noteq> u - (u sdiv v) * v" if "u < 0"
  proof -
    have "(u sdiv v) * v = - (\<bar>u\<bar> div \<bar>v\<bar> * \<bar>v\<bar>)"
      using that assms(2) by (simp add: signed_divide_int_def sgn_if)
    then have "u - (u sdiv v) * v = - (\<bar>u\<bar> mod \<bar>v\<bar>)"
      using that div_mult_mod_eq [of "\<bar>u\<bar>" "\<bar>v\<bar>"] by linarith
    with p show ?thesis by linarith
  qed
  show "\<bar>u\<bar> mod \<bar>v\<bar> \<noteq> u mod v" if "v < 0"
    using p neg_mod_sign [OF that, of u] by linarith
qed

section \<open>The operators on the core\<close>

text \<open>C6: The integer operators of the BASIC interpreter, run by the emulator's core, compute what the
  reference of the repository's test computes. From
  a state in which the interpreter has called the routine of an operator with two integers on the expression
  stack, the core is back behind the call within 610 instructions, with the result in place of the
  left operand, the stack and the index registers as before the call, and nothing written but the two
  operands, the work variables of the interpreter and the stack below the caller. The results are those of
  32 bit arithmetic over its whole range, the quotient of -2147483648 and -1 included; a divisor is not
  zero, and the operands of the remainder are not negative.\<close>

theorem operator_correct:
  assumes "called (entry i) c" and "integers c" and "admissible i (left_value c) (right_value c)"
  shows "\<exists>n \<le> 610. returned c (run n c) \<and> left_value (run n c) = result i (left_value c) (right_value c)"
  using operator_computes assms by (rule computes_on_core)

theorem operator_correct_witness:
  "(\<exists>n \<le> 610. returned (calling Times_op 0 6 7) (run n (calling Times_op 0 6 7)) \<and> left_value (run n (calling Times_op 0 6 7)) = 42)
   \<and> (\<exists>n \<le> 610. left_value (run n (calling Divide_op 0 (- 7) 3)) = - 2)"
  using operator_correct [OF calling_called [of Times_op 0 6 7]] operator_correct [OF calling_called [of Divide_op 0 "- 7" 3]]
  by (auto simp: calling_values divides_def admissible_def signed_divide_int_def)

text \<open>C7: The remainder of negative operands is wrong. Whatever the signs, \<open>%\<close> leaves the remainder of
  the absolute values. So it is not the remainder that belongs to the quotient of \<open>/\<close> if the left operand is
  negative, and not the floored remainder of the reference if the right operand is negative, unless
  the division is exact.\<close>

theorem modulus_drops_signs:
  assumes "called (entry Modulus_op) c" and "integers c" and "right_value c \<noteq> 0"
  defines "u \<equiv> sint (left_value c)" and "v \<equiv> sint (right_value c)"
  shows "\<exists>n \<le> 610. returned c (run n c) \<and> sint (left_value (run n c)) = \<bar>u\<bar> mod \<bar>v\<bar>
    \<and> (u < 0 \<and> \<not> v dvd u \<longrightarrow> sint (left_value (run n c)) \<noteq> u - (u sdiv v) * v)
    \<and> (v < 0 \<and> \<not> v dvd u \<longrightarrow> sint (left_value (run n c)) \<noteq> u mod v)"
proof -
  obtain n where n: "n \<le> 610" "returned c (run n c)" "left_value (run n c) = of_int (\<bar>u\<bar> mod \<bar>v\<bar>)"
    using computes_on_core [OF modulus_computes, of c] assms(1-3) by (auto simp: remainder_def u_def v_def)
  have "sint (left_value (run n c)) = \<bar>u\<bar> mod \<bar>v\<bar>"
    unfolding n(3) v_def by (rule sint_remainder [OF assms(3)])
  moreover have "v \<noteq> 0" unfolding v_def by (rule sint_nonzero [OF assms(3)])
  ultimately show ?thesis using n(1,2) remainder_signs [of v u] by (intro exI [of _ n]) auto
qed

theorem modulus_drops_signs_witness:
  "\<exists>n \<le> 610. sint (left_value (run n (calling Modulus_op 0 (- 7) 3))) = 1"
  using modulus_drops_signs [OF calling_called [of Modulus_op 0 "- 7" 3]] by (auto simp: calling_values)

text \<open>C8: On operands that an operator does not take, the core is in the error handler within 10 instructions, with
  the address of the right message on the stack and both operands as they were: a string where both must be
  integers, two types where both must be the same, or a divisor that is zero.\<close>

theorem operator_fails:
  assumes "called (entry i) c" and "fault i (bit (exs 4 c) 15) (bit (exs 10 c) 15) (right_value c) = Some m"
  shows "\<exists>n \<le> 10. failed m c (run n c)"
proof -
  define x s w where d: "x = rX (abs_cpu c)" "s = rS (abs_cpu c) + 2" "w = view x s (abs_cpu c)"
  note v = called_view [OF assms(1) d]
  have "wM w (Val 4) = exs 4 c" "wM w (Val 10) = exs 10 c" unfolding d by (simp_all add: exs_view)
  with operator_raises [OF v(2)] assms(2) v(6) obtain n w' where "n \<le> 10" "runs x s operators n w w'" "raised x s m w w'"
    by metis
  with raised_failed [OF assms(1) d] show ?thesis by blast
qed

theorem operator_fails_witness:
  "(\<exists>n \<le> 10. failed 0x0C60 (calling Divide_op 0 6 0) (run n (calling Divide_op 0 6 0)))
   \<and> (\<exists>n \<le> 10. failed 0x0BF8 (calling Less_op 0x80 6 0) (run n (calling Less_op 0x80 6 0)))"
  using operator_fails [OF calling_called [of Divide_op 0 6 0], where m = "0x0C60"]
    operator_fails [OF calling_called [of Less_op "0x80" 6 0], where m = "0x0BF8"]
  by (simp add: calling_values fault_def comparison_def divides_def bit_simps)

end
