(* ===== verification/Spec2Isabelle.thy ===== *)
theory Spec2Isabelle
  imports Debugger_Keys Block_Move Display Isa_Machine Interrupts Sound Basic
begin

text \<open>
  A verification library for the 65816 emulator of this repository (\<open>src/emulator\<close>), the
  machine on which its BASIC for the 65816 processor runs.

  THE PROGRAM. The emulator is a C program of one process. The processor core
  (\<open>65816core.c\<close>, macros and one \<open>switch\<close> over the opcode, included by \<open>65816.c\<close>) keeps
  the registers in file-scope variables and reads and writes the array \<open>ramMemory\<close> through
  macros of its host. The host (\<open>sys_processor.cpp\<close>) counts instructions into frames, runs
  the core up to a breakpoint or the end of a frame, loads programs, copies the keyboard to
  memory and takes register snapshots. The framework drives the host: \<open>framework/gfx.cpp\<close>
  has the SDL event loop, the keyboard and the drawing routines, \<open>framework/debugger.cpp\<close> one
  turn of the debugger (single step, step over, run, breakpoints, address entry), and
  \<open>sys_debug_65816.cpp\<close> what is on the screen, disassembly included. \<open>framework/main.cpp\<close> puts
  them together. The C code has no dynamic memory and no threads but the audio callback, so
  the model is sequential: every function is a function on explicit states. The program the
  emulator runs is the BASIC interpreter of \<open>src/source\<close>, 65816 assembly in bank 1; its binary
  operators are modelled as the machine code that the assembler makes of them.

  THE THEORIES, in the order of their dependencies:

    Prelude: machine integers (\<open>u8\<close>, \<open>u16\<close>, \<open>u32\<close>) and facts on masks, shifts and
      conversions; the collections \<open>cpu_frame\<close>, \<open>mode_spec\<close>, \<open>op_defs\<close>, \<open>dispatch_defs\<close>.
    Cpu_State: the record \<open>cpu\<close> of all registers with the memory, and the macros under the
      instructions: bus accesses, status flags, \<open>PUSH\<close>, \<open>PULL\<close>, \<open>EXPORT_REGISTERS\<close>.
    Frames: which registers each of them leaves alone.
    Addressing: the addressing mode macros \<open>LOAD_*\<close>, \<open>STORE_*\<close>, \<open>*_FUNC\<close>.
    Alu, Control: the instruction macros, from \<open>ADC\<close> to \<open>XCE\<close>.
    Decode: the opcode switch, the fetch, and the functions of \<open>65816.c\<close>.
    Modes: closed forms of the addressing modes as accesses to effective addresses.
    Invariants, Instr_Invariants: the locale \<open>cpu_invariant\<close>, an invariant that the writes of
      single registers keep is kept by every instruction; the well-formed states \<open>wf_cpu\<close> and
      the weaker \<open>sane_cpu\<close>, which also holds after a reset out of native mode.
    Safety: its three interpretations, and runs of any length.
    Stack, Calls: the locales \<open>byte_memory\<close> and \<open>byte_stack\<close>, interpreted on the bus and the
      stack macros; calls, returns, BRK and RTI, push and pull instructions as round trips.
    Arithmetic, Decimal, Logic_Shifts: what ADC and SBC compute in binary and in decimal mode,
      shifts, rotates, logic operations, comparisons and index arithmetic.
    Status: the status byte as an abstraction of the four variables that hold it.
    Isa: an independent specification of the 65816, the record \<open>isa\<close> of what a program sees,
      addressing modes as places, each operation once for all modes and widths, and the table
      of the 256 opcodes.
    Isa_Abs, Isa_Operands, Isa_Alu, Isa_Reg, Isa_Control: the abstraction \<open>abs_cpu\<close> and, per group
      of instructions, that the code does what the specification says.
    Isa_Hidden: in the cases that the specification leaves open, the code depends on nothing but what
      a program sees.
    Isa_Refinement, Isa_Machine: the locales \<open>guarded_simulation\<close>, \<open>simulation\<close>, \<open>opaque_simulation\<close> and the
      interpretation on the core, the refinement of steps and runs, and of the frames of \<open>CPUExecute\<close>.
    Assembly: listings of machine code and where they are in memory, and a machine of words, the
      record \<open>w16\<close>, on the cells of a program (variables of the direct page, words of the expression
      stack, words of the processor stack); the interpretation \<open>basic\<close> shows that the core simulates it
      wherever \<open>ok16\<close> holds.
    Basic_Code: the listings of the binary operators (\<open>src/source/binary\<close>), at their addresses in
      the assembled program.
    Basic_Operators, Basic_Comparison, Basic_Division, Basic: what the routines compute, by symbolic
      execution on the machine of words, with loop invariants for \<open>*\<close>, \<open>/\<close> and the shifts, and the
      results for the core.
    Interrupts: the macros IRQ, NMI and RES.
    Sound: the sound generator of \<open>gfx.cpp\<close>.
    Block_Move: MVN and MVP over their whole run against a byte by byte copy.
    Advance: how far every instruction moves the program counter.
    Keyboard: \<open>keyState\<close>, \<open>GFXIsKeyPressed\<close>, \<open>GFXToASCII\<close> and the key table of \<open>gfx.cpp\<close>.
    Machine: \<open>sys_processor.cpp\<close>; its record \<open>machine\<close> has the processor, the frame counters
      and the keyboard.
    Debugger: \<open>debugger.cpp\<close> and the main loop; its record \<open>debugger\<close> has the static variables
      of \<open>debugger.cpp\<close>, and \<open>reachable\<close> the states of the main loop with the key events so far.
    Session, Debugger_Keys: the locale \<open>turn_invariant\<close> for one turn of the main loop and its
      two interpretations; what single keys do.
    Disassembler: \<open>dasm65816.h\<close> and the disassembly loop of \<open>DBGXRender\<close>.
    Drawing, Fonts, Display: the drawing routines of \<open>gfx.cpp\<close>, the two character tables, and
      everything \<open>DBGXRender\<close> draws, as a list of filled rectangles.

  WHAT THE THEOREMS SHOW. The claims are numbered in the text blocks in front of the theorems.
  Refinement: executing an instruction is a step of the specification in \<open>Isa\<close>, for every opcode,
  mode and memory that it settles (\<open>core_refines_isa\<close>), and so are runs (\<open>run_refines_isa\<close>) and the frames of the
  machine with their breakpoints (\<open>frame_refines_isa\<close>) as long as they meet no open case. Two states of the core
  that differ only in how they hold the flags cannot be told apart by any program, open cases
  included (\<open>hidden_state_unobservable\<close>). The predicate
  \<open>specified\<close> leaves open ADC and SBC in decimal mode, where the core has errors at 16 bits and whose
  correct part is in \<open>Decimal\<close>, and block moves whose operands run over the end of the bank, which
  the core reads from the wrong place. Safety: every instruction keeps the registers well formed and no program writes outside the
  memory array (\<open>execute_preserves_wf\<close>, \<open>run_within_ram\<close>), and the same for every state the
  main loop reaches (\<open>session_invariant\<close>). Function: the arithmetic, logic, shift and compare
  instructions for every addressing mode that is a loader in the sense of \<open>is_load\<close>. Round
  trips: JSR with RTS, JSL with RTL, BRK with RTI, pushes with pulls. Equivalence: block moves
  with a copy loop; the listing of the disassembler with the lengths of the executed
  instructions. Interrupts: an IRQ or NMI whose handler returns is transparent
  (\<open>interrupt_transparent\<close>), and the reset macro makes every state well formed (\<open>RES_wf\<close>). Sound: a
  tone is a square wave up to the overflow of its phase (\<open>tone_until_overflow\<close>). Run loop: \<open>CPUExecute\<close> returns within one frame with the exact state
  (\<open>CPUExecute_frame\<close>). Debugger: step, step over, run, break and escape. Display: all drawing
  is inside the window and the panels do not overlap.
  BASIC: each of the sixteen binary operators of the interpreter, called with two integers (not negative
  ones for the remainder), is back
  behind its call within 610 instructions of the core, with the 32 bit result, the
  registers that callers rely on, and nothing written but its operands, its variables and the free stack (\<open>operator_correct\<close>), and operands that it does not take lead to the error handler with the
  right message (\<open>operator_fails\<close>).
  Where the code deviates from what it means to do, a theorem says so: decimal SBC on 16 bits
  (\<open>SBC_decimal_loses_high_byte\<close>), reset (\<open>CPU65816Reset_stack\<close>), the last byte of a loaded file
  (\<open>CPULoadBinary_image\<close>), the N bit of the snapshot (\<open>CPUGetStatus_reads\<close>), shift and space
  (\<open>shift_space_types_zero\<close>), the disassembly in emulation mode (\<open>emulation_listing_wrong\<close>), the
  phase of a tone (\<open>tone_until_overflow\<close>), and the sign of the remainder in BASIC (\<open>modulus_drops_signs\<close>).

  CONVENTIONS. An assignment is a record update, a sequence of statements a chain of \<open>let\<close>s over
  the state, and a macro that sets a variable returns it. C expressions over registers are
  computed at 32 bits and cut to the width of their target. The memory is a function on all
  32 bit addresses, so that leaving the array of \<open>RAMSIZE\<close> bytes is visible. The addresses of the debugger are C ints in
  the code and unsigned words here; in every state that the main loop reaches they have 24 bits
  (\<open>session_invariant\<close>), so the two readings agree. Values from outside
  are arguments: the contents of files, \<open>rand\<close>, \<open>SDL_GetTicks\<close>, the SDL key codes and the key
  events. \<open>ROM_TRAP_ALLOWED\<close> is 0 and \<open>COP_65816\<close>, \<open>STP_65816\<close> and \<open>WAI_65816\<close> are empty in
  this build (\<open>65816.c\<close>), so COP, STP and WAI leave the program counter where it is.

  TERMINATION. There is no fuel. \<open>CPUExecute\<close>, \<open>while(1)\<close> in C, is a total function: each
  turn increments \<open>Cycles\<close>, and the measure \<open>cycles_left\<close> is what is missing to a frame.
  \<open>GFXNumber\<close> recurses on its width. All other loops run over a fixed range or a finite text. The
  main loop, which only the user ends, is the inductive set \<open>reachable\<close>. The machine code of the
  operators is executed by the relation \<open>runs\<close>, indexed by the number of instructions, and the theorems
  bound it: a turn of the division loop takes at most 17 instructions and one of the multiplication 18,
  each for at most 32 turns, and a shift takes 4 for each of at most 63.

  NOT MODELLED. No opcode expands the macros IRQ, NMI and RES of \<open>65816core.c\<close>: the interrupt kinds
  are 0 and no code raises an interrupt; they are modelled apart from the run loop, without the
  acknowledgement and monitor calls, which the repository does not define. The copy of the core
  under \<open>src/core\<close> is the same file. Opening and closing the window and the audio device and the
  timer are I/O, and the audio callback is a function here, not a thread. Of the BASIC interpreter, which
  is 65816 assembly, only the binary operators are modelled, without their string branches (8 bit and
  indirect instructions) and without what the error handler does. The state in which the interpreter
  calls them (native mode, 16 bit registers, direct page F000, expression stack below the processor
  stack) is the assumption \<open>called\<close>, not derived from the rest of the interpreter. The VICE sources under \<open>src/core\<close> are a third-party program that is
  no part of the build. The mnemonic strings of the disassembler are data here; that they are the
  right mnemonics is not stated. The specification \<open>Isa\<close> counts no cycles, as the core counts none.
\<close>

end
